(* ===== verification/Go_Strings.thy ===== *)
theory Go_Strings
  imports Main "HOL-Library.Multiset" "HOL-Library.Sublist" "HOL-Library.Char_ord"
    "HOL-Library.List_Lexorder" "HOL-Library.Product_Lexorder"
begin

text \<open>
  Shared prelude: Go strings and the package \<open>strings\<close>.

  A Go string is a sequence of bytes; it is a \<^typ>\<open>string\<close> here (a \<^typ>\<open>char\<close> is one byte),
  and the order of \<open>List_Lexorder\<close> over \<open>Char_ord\<close> is Go's bytewise \<open><\<close> on strings.
  \<open>trim_space\<close> removes exactly the UTF-8 encodings of the Unicode white space that
  \<open>strings.TrimSpace\<close> removes. Case mapping (\<open>to_lower\<close>, \<open>to_upper\<close>, \<open>equal_fold\<close>) is the
  ASCII part of Go's; bytes outside \<open>A-Z\<close> and \<open>a-z\<close> are left as they are.
  The theory also holds the generic lemmas on sorting and association lists that the
  components share, and the collections of simplification rules they use.
\<close>

named_theorems go_simps \<open>computation rules for the modelled Go library\<close>
named_theorems trim_simps \<open>facts on trimmed strings\<close>

subsection \<open>Trimming\<close>

definition space_runes :: "string list" where
  "space_runes =
     [[CHR 0x20], [CHR 0x09], [CHR 0x0A], [CHR 0x0B], [CHR 0x0C], [CHR 0x0D],
      [CHR 0xC2, CHR 0x85], [CHR 0xC2, CHR 0xA0], [CHR 0xE1, CHR 0x9A, CHR 0x80],
      [CHR 0xE2, CHR 0x80, CHR 0x80], [CHR 0xE2, CHR 0x80, CHR 0x81],
      [CHR 0xE2, CHR 0x80, CHR 0x82], [CHR 0xE2, CHR 0x80, CHR 0x83],
      [CHR 0xE2, CHR 0x80, CHR 0x84], [CHR 0xE2, CHR 0x80, CHR 0x85],
      [CHR 0xE2, CHR 0x80, CHR 0x86], [CHR 0xE2, CHR 0x80, CHR 0x87],
      [CHR 0xE2, CHR 0x80, CHR 0x88], [CHR 0xE2, CHR 0x80, CHR 0x89],
      [CHR 0xE2, CHR 0x80, CHR 0x8A], [CHR 0xE2, CHR 0x80, CHR 0xA8],
      [CHR 0xE2, CHR 0x80, CHR 0xA9], [CHR 0xE2, CHR 0x80, CHR 0xAF],
      [CHR 0xE2, CHR 0x81, CHR 0x9F], [CHR 0xE3, CHR 0x80, CHR 0x80]]"

text \<open>Removes leading runes of the list, as long as there are any.\<close>

function strip :: "string list \<Rightarrow> string \<Rightarrow> string" where
  "strip rs s =
     (case find (\<lambda>r. r \<noteq> [] \<and> prefix r s) rs of
        None \<Rightarrow> s
      | Some r \<Rightarrow> strip rs (drop (length r) s))"
  by pat_completeness auto
termination
proof (relation "measure (\<lambda>(rs, s). length s)", simp)
  fix rs s r
  assume "find (\<lambda>r. r \<noteq> [] \<and> prefix r s) rs = Some r"
  then have "r \<noteq> []" "prefix r s" by (auto simp: find_Some_iff)
  then have "0 < length r" "length r \<le> length s" by (auto dest: prefix_length_le)
  then show "((rs, drop (length r) s), rs, s) \<in> measure (\<lambda>(rs, s). length s)" by (cases r; cases s) auto
qed

declare strip.simps [simp del]

definition trim_left :: "string \<Rightarrow> string" where
  "trim_left s = strip space_runes s"

definition trim_right :: "string \<Rightarrow> string" where
  "trim_right s = rev (strip (map rev space_runes) (rev s))"

definition trim_space :: "string \<Rightarrow> string" where
  "trim_space s = trim_right (trim_left s)"

lemma strip_stuck: "find (\<lambda>r. r \<noteq> [] \<and> prefix r (strip rs s)) rs = None"
proof (induction rs s rule: strip.induct)
  case (1 rs s)
  then show ?case
    by (cases "find (\<lambda>r. r \<noteq> [] \<and> prefix r s) rs") (simp_all add: strip.simps [of rs s])
qed

lemma strip_idem [simp]: "strip rs (strip rs s) = strip rs s"
  by (subst strip.simps) (simp add: strip_stuck)

lemma strip_suffix: "suffix (strip rs s) s"
proof (induction rs s rule: strip.induct)
  case (1 rs s)
  show ?case
  proof (cases "find (\<lambda>r. r \<noteq> [] \<and> prefix r s) rs")
    case None
    then show ?thesis by (simp add: strip.simps [of rs s])
  next
    case (Some r)
    with "1.IH" have "suffix (strip rs (drop (length r) s)) (drop (length r) s)" by simp
    then have "suffix (strip rs (drop (length r) s)) s"
      by (meson suffix_drop suffix_order.trans)
    with Some show ?thesis by (simp add: strip.simps [of rs s])
  qed
qed

lemma strip_id_iff: "strip rs s = s \<longleftrightarrow> (\<forall>r\<in>set rs. r \<noteq> [] \<longrightarrow> \<not> prefix r s)"
proof
  assume "strip rs s = s"
  then show "\<forall>r\<in>set rs. r \<noteq> [] \<longrightarrow> \<not> prefix r s"
    using strip_stuck [of rs s] by (auto simp: find_None_iff)
next
  assume "\<forall>r\<in>set rs. r \<noteq> [] \<longrightarrow> \<not> prefix r s"
  then have "find (\<lambda>r. r \<noteq> [] \<and> prefix r s) rs = None"
    by (auto simp: find_None_iff)
  then show "strip rs s = s" by (subst strip.simps) simp
qed

lemma strip_Nil [simp]: "strip rs [] = []"
  by (simp add: strip_id_iff)

lemma trim_right_prefix: "prefix (trim_right s) s"
  using strip_suffix [of "map rev space_runes" "rev s"]
  by (simp add: trim_right_def suffix_to_prefix)

lemma trim_right_idem: "trim_right (trim_right s) = trim_right s"
  by (simp add: trim_right_def)

lemma trim_left_of_prefix: "trim_left s = s \<Longrightarrow> prefix t s \<Longrightarrow> trim_left t = t"
  unfolding trim_left_def strip_id_iff by (meson prefix_order.trans)

lemma trim_space_fix: "trim_left (trim_space s) = trim_space s"
    "trim_right (trim_space s) = trim_space s"
proof -
  have "trim_left (trim_left s) = trim_left s" by (simp add: trim_left_def)
  then show "trim_left (trim_space s) = trim_space s"
    unfolding trim_space_def using trim_right_prefix by (rule trim_left_of_prefix)
  show "trim_right (trim_space s) = trim_space s"
    by (simp add: trim_space_def trim_right_idem)
qed

lemma trim_space_idem [simp, trim_simps]: "trim_space (trim_space s) = trim_space s"
  by (simp only: trim_space_def [of "trim_space s"] trim_space_fix)

lemma trim_space_Nil [simp, trim_simps]: "trim_space [] = []"
  by (simp add: trim_space_def trim_left_def trim_right_def)

lemma trim_space_nonempty: "trim_space s \<noteq> [] \<Longrightarrow> s \<noteq> []"
  by auto

text \<open>A string of printable ASCII with no white space at either end is its own trimming.\<close>

definition plain_char :: "char \<Rightarrow> bool" where
  "plain_char c \<longleftrightarrow> 0x20 < (of_char c :: nat) \<and> (of_char c :: nat) < 0x80"

lemma plain_hd_not_space:
  "plain_char c \<Longrightarrow> r \<in> set space_runes \<Longrightarrow> \<not> prefix r (c # s)"
  by (auto simp: space_runes_def plain_char_def)

lemma plain_hd_not_rev_space:
  "plain_char c \<Longrightarrow> r \<in> set space_runes \<Longrightarrow> \<not> prefix (rev r) (c # s)"
  by (auto simp: space_runes_def plain_char_def)

lemma trim_space_plain [trim_simps]:
  assumes "s \<noteq> []" and "plain_char (hd s)" and "plain_char (last s)"
  shows "trim_space s = s"
proof -
  obtain c t where s: "s = c # t" using assms(1) by (cases s) auto
  have l: "trim_left s = s"
    using assms(2) s by (auto simp: trim_left_def strip_id_iff dest: plain_hd_not_space)
  obtain d u where r: "rev s = d # u" and "d = last s"
    using assms(1) by (metis hd_rev list.collapse rev_is_Nil_conv)
  then have "strip (map rev space_runes) (rev s) = rev s"
    using assms(3) by (auto simp: strip_id_iff r simp del: rev_eq_Cons_iff
        dest: plain_hd_not_rev_space)
  then show ?thesis by (simp add: trim_space_def l trim_right_def)
qed

text \<open>Trimming never removes a printable ASCII character.\<close>

lemma strip_keeps: "c \<in> set s \<Longrightarrow> \<forall>r\<in>set rs. c \<notin> set r \<Longrightarrow> c \<in> set (strip rs s)"
proof (induction rs s rule: strip.induct)
  case (1 rs s)
  show ?case
  proof (cases "find (\<lambda>r. r \<noteq> [] \<and> prefix r s) rs")
    case None
    then show ?thesis using 1 by (simp add: strip.simps [of rs s])
  next
    case (Some r)
    then have "r \<in> set rs" "prefix r s" by (auto simp: find_Some_iff)
    then have "c \<in> set (drop (length r) s)" using 1(2,3) by (auto simp: prefix_def)
    then show ?thesis using 1(1) [OF Some] 1(3) Some by (simp add: strip.simps [of rs s])
  qed
qed

lemma plain_not_space: "plain_char c \<Longrightarrow> r \<in> set space_runes \<Longrightarrow> c \<notin> set r"
  by (auto simp: space_runes_def plain_char_def)

lemma trim_space_keeps: "c \<in> set s \<Longrightarrow> plain_char c \<Longrightarrow> c \<in> set (trim_space s)"
  using plain_not_space [of c]
  by (auto simp: trim_space_def trim_left_def trim_right_def intro!: strip_keeps)

subsection \<open>Case, substrings, splitting\<close>

definition lower_char :: "char \<Rightarrow> char" where
  "lower_char c =
     (let n = of_char c :: int in if 65 \<le> n \<and> n \<le> 90 then char_of (n + 32) else c)"

definition upper_char :: "char \<Rightarrow> char" where
  "upper_char c =
     (let n = of_char c :: int in if 97 \<le> n \<and> n \<le> 122 then char_of (n - 32) else c)"

definition to_lower :: "string \<Rightarrow> string" where
  "to_lower s = map lower_char s"

definition to_upper :: "string \<Rightarrow> string" where
  "to_upper s = map upper_char s"

definition equal_fold :: "string \<Rightarrow> string \<Rightarrow> bool" where
  "equal_fold a b \<longleftrightarrow> to_lower a = to_lower b"

lemma lower_char_idem [simp]: "lower_char (lower_char c) = lower_char c"
  by (simp add: lower_char_def Let_def of_char_of take_bit_int_eq_self)

lemma to_lower_idem [simp]: "to_lower (to_lower s) = to_lower s"
  by (simp add: to_lower_def)

lemma to_lower_Nil [simp]: "to_lower [] = []"
  by (simp add: to_lower_def)

lemma to_lower_eq_Nil [simp]: "to_lower s = [] \<longleftrightarrow> s = []"
  by (simp add: to_lower_def)

lemma to_lower_append: "to_lower (s @ t) = to_lower s @ to_lower t"
  by (simp add: to_lower_def)

lemma equal_fold_refl [simp]: "equal_fold s s"
  by (simp add: equal_fold_def)

fun contains :: "string \<Rightarrow> string \<Rightarrow> bool" where
  "contains [] sub = (sub = [])"
| "contains (c # s) sub = (prefix sub (c # s) \<or> contains s sub)"

lemma contains_iff_sublist: "contains s sub \<longleftrightarrow> sublist sub s"
  by (induction s) (auto simp: sublist_Cons_right)

definition trim_prefix :: "string \<Rightarrow> string \<Rightarrow> string" where
  "trim_prefix s p = (if prefix p s then drop (length p) s else s)"

definition trim_suffix :: "string \<Rightarrow> string \<Rightarrow> string" where
  "trim_suffix s p = (if suffix p s then take (length s - length p) s else s)"

lemma trim_prefix_append [simp]: "trim_prefix (p @ s) p = s"
  by (simp add: trim_prefix_def)

lemma trim_suffix_append [simp]: "trim_suffix (s @ p) p = s"
  by (simp add: trim_suffix_def suffix_def)

text \<open>\<open>strings.Split\<close> and \<open>strings.SplitN(s, c, 2)\<close> on a one-byte separator.\<close>

fun split_on :: "char \<Rightarrow> string \<Rightarrow> string list" where
  "split_on c [] = [[]]"
| "split_on c (x # xs) =
     (if x = c then [] # split_on c xs
      else (case split_on c xs of [] \<Rightarrow> [[x]] | w # ws \<Rightarrow> (x # w) # ws))"

definition split_n2 :: "char \<Rightarrow> string \<Rightarrow> string list" where
  "split_n2 c s =
     (if c \<in> set s
      then [takeWhile (\<lambda>x. x \<noteq> c) s, tl (dropWhile (\<lambda>x. x \<noteq> c) s)] else [s])"

lemma split_on_nonempty: "split_on c s \<noteq> []"
  by (induction s) (auto split: list.splits)

lemma split_on_no_sep: "c \<notin> set s \<Longrightarrow> split_on c s = [s]"
  by (induction s) auto

lemma split_n2_append [simp]: "c \<notin> set a \<Longrightarrow> split_n2 c (a @ c # b) = [a, b]"
proof -
  assume c: "c \<notin> set a"
  then have "takeWhile (\<lambda>x. x \<noteq> c) (a @ c # b) = a" "dropWhile (\<lambda>x. x \<noteq> c) (a @ c # b) = c # b"
    by (induction a) auto
  then show ?thesis by (simp add: split_n2_def)
qed

lemma append_sep_inject:
  "c \<notin> set a \<Longrightarrow> c \<notin> set b \<Longrightarrow> a @ c # x = b @ c # y \<longleftrightarrow> a = b \<and> x = y"
proof (induction a arbitrary: b)
  case Nil
  then show ?case by (cases b) auto
next
  case (Cons d a)
  then show ?case by (cases b) auto
qed

definition join_with :: "string \<Rightarrow> string list \<Rightarrow> string" where
  "join_with sep ws = (case ws of [] \<Rightarrow> [] | w # r \<Rightarrow> w @ concat (map (\<lambda>x. sep @ x) r))"

subsection \<open>Decimal numbers\<close>

definition digit_char :: "int \<Rightarrow> char" where
  "digit_char n = char_of (48 + n)"

definition is_digit :: "char \<Rightarrow> bool" where
  "is_digit c \<longleftrightarrow> 48 \<le> (of_char c :: int) \<and> (of_char c :: int) \<le> 57"

definition digit_val :: "char \<Rightarrow> int" where
  "digit_val c = of_char c - 48"

lemma of_char_digit: "0 \<le> n \<Longrightarrow> n < 10 \<Longrightarrow> (of_char (digit_char n) :: int) = 48 + n"
  by (simp add: digit_char_def of_char_of take_bit_int_eq_self)

lemma digit_char_props [simp]:
  "0 \<le> n \<Longrightarrow> n < 10 \<Longrightarrow> is_digit (digit_char n)"
  "0 \<le> n \<Longrightarrow> n < 10 \<Longrightarrow> digit_val (digit_char n) = n"
  by (simp_all add: is_digit_def digit_val_def of_char_digit)

text \<open>The decimal digits of a natural number, given as an integer.\<close>

function show_dec :: "int \<Rightarrow> string" where
  "show_dec n = (if n < 10 then [digit_char n] else show_dec (n div 10) @ [digit_char (n mod 10)])"
  by pat_completeness auto
termination
  by (relation "measure nat") auto

declare show_dec.simps [simp del]

definition show_int :: "int \<Rightarrow> string" where
  "show_int i = (if i < 0 then CHR ''-'' # show_dec (- i) else show_dec i)"

definition int_of_digits :: "string \<Rightarrow> int" where
  "int_of_digits s = foldl (\<lambda>n c. 10 * n + digit_val c) 0 s"

lemma int_of_digits_snoc: "int_of_digits (s @ [c]) = 10 * int_of_digits s + digit_val c"
  by (simp add: int_of_digits_def)

lemma show_dec_nonempty [simp]: "show_dec n \<noteq> []"
  by (subst show_dec.simps) simp

lemma show_dec_digits: "0 \<le> n \<Longrightarrow> list_all is_digit (show_dec n)"
proof (induction n rule: show_dec.induct)
  case (1 n)
  then show ?case by (subst show_dec.simps) (simp add: pos_imp_zdiv_nonneg_iff)
qed

lemma int_of_digits_show [simp]: "0 \<le> n \<Longrightarrow> int_of_digits (show_dec n) = n"
proof (induction n rule: show_dec.induct)
  case (1 n)
  then show ?case
  proof (cases "n < 10")
    case True
    with "1.prems" show ?thesis by (subst show_dec.simps) (simp add: int_of_digits_def)
  next
    case False
    with 1 show ?thesis
      by (subst show_dec.simps) (simp add: int_of_digits_snoc pos_imp_zdiv_nonneg_iff)
  qed
qed

lemma show_dec_inject: "0 \<le> m \<Longrightarrow> 0 \<le> n \<Longrightarrow> show_dec m = show_dec n \<longleftrightarrow> m = n"
  by (metis int_of_digits_show)

subsection \<open>Sorting and association lists\<close>

text \<open>
  \<open>sort.Slice\<close> is not stable; the code always sorts by a key that no two elements of the
  slice share, and then the sorted slice does not depend on the order of the input.
\<close>

lemma sort_key_unique:
  assumes "mset xs = mset ys" and "distinct (map f xs)"
  shows "sort_key f xs = sort_key f ys"
proof (rule properties_for_sort_key)
  show "mset (sort_key f ys) = mset xs" using assms(1) by simp
  show "sorted (map f (sort_key f ys))" by simp
next
  fix k assume "k \<in> set (sort_key f ys)"
  have inj: "inj_on f (set xs)" "distinct xs" "set xs = set ys" "distinct ys"
    using assms by (auto simp: distinct_map dest: mset_eq_setD mset_eq_imp_distinct_iff)
  with \<open>k \<in> set (sort_key f ys)\<close> have k: "k \<in> set xs" by simp
  have *: "filter (\<lambda>x. f k = f x) zs = [k]" if "distinct zs" "set zs = set xs" for zs
  proof -
    have "set (filter (\<lambda>x. f k = f x) zs) = {k}"
      using inj(1) k that(2) by (auto dest: inj_onD)
    moreover have "distinct (filter (\<lambda>x. f k = f x) zs)" using that(1) by simp
    ultimately show ?thesis
      by (metis distinct_card card_1_singleton_iff length_Suc_conv length_0_conv
          list.set(1) list.set(2) singleton_iff One_nat_def)
  qed
  show "filter (\<lambda>x. f k = f x) (sort_key f ys) = filter (\<lambda>x. f k = f x) xs"
    using * [of "sort_key f ys"] * [of xs] inj by simp
qed

lemma sort_key_sorted_id: "sorted (map f xs) \<Longrightarrow> sort_key f xs = xs"
  by (rule properties_for_sort_key) auto

lemma sorted_wrt_strict_sort_key:
  assumes "distinct (map f xs)"
  shows "sorted_wrt (<) (map f (sort_key f xs))"
proof -
  have "distinct (map f (sort_key f xs))"
    using assms by (simp add: distinct_map)
  then show ?thesis by (simp add: strict_sorted_iff)
qed

end
