(* ===== verification/Go_Time.thy ===== *)
theory Go_Time
  imports Go_Strings "HOL-Library.Monad_Syntax"
begin

text \<open>
  The package \<open>time\<close>, as far as the program uses it.

  A \<open>time.Time\<close> is the instant it denotes: the number of nanoseconds since
  0001-01-01T00:00:00Z, so that the zero time (\<open>IsZero\<close>) is 0, \<open>Before\<close>, \<open>After\<close> and
  \<open>Equal\<close> are \<open><\<close>, \<open>>\<close> and \<open>=\<close>, and \<open>UTC()\<close> is the identity; every time the program
  formats has been converted to UTC. \<open>time.Now()\<close> is an argument of the operations that call it.
  \<open>format_rfc3339\<close> and \<open>format_rfc3339nano\<close> print an instant in UTC; \<open>parse_rfc3339\<close> is the
  strict RFC 3339 parser of the package, with any fraction and any numeric zone (the lenient
  fallback of \<open>time.Parse\<close>, such as a comma before the fraction, is left out).
  The main result is that parsing inverts printing for the years 1 to 9999.
\<close>

type_synonym time = int

abbreviation is_zero :: "time \<Rightarrow> bool" where
  "is_zero t \<equiv> t = 0"

definition second :: int where "second = 1000000000"
definition minute :: int where "minute = 60 * second"
definition day_secs :: int where "day_secs = 86400"
definition unix_epoch :: int where "unix_epoch = 62135596800"

lemma second_pos [simp]: "0 < second"
  by (simp add: second_def)

definition unix_sec :: "time \<Rightarrow> int" where
  "unix_sec t = t div second - unix_epoch"

text \<open>\<open>UnixNano\<close> is an \<open>int64\<close> and wraps around outside the years 1678 to 2262.\<close>

definition unix_nano :: "time \<Rightarrow> int" where
  "unix_nano t = signed_take_bit 63 (t - unix_epoch * second)"

subsection \<open>The calendar\<close>

definition is_leap :: "int \<Rightarrow> bool" where
  "is_leap y \<longleftrightarrow> y mod 4 = 0 \<and> (y mod 100 \<noteq> 0 \<or> y mod 400 = 0)"

definition year_len :: "int \<Rightarrow> int" where
  "year_len y = (if is_leap y then 366 else 365)"

text \<open>Days from 0001-01-01 to January 1 of the year.\<close>

definition days_before :: "int \<Rightarrow> int" where
  "days_before y = 365 * (y - 1) + (y - 1) div 4 - (y - 1) div 100 + (y - 1) div 400"

definition month_start :: "int \<Rightarrow> int \<Rightarrow> int" where
  "month_start y m =
     [0, 31, 59, 90, 120, 151, 181, 212, 243, 273, 304, 334] ! nat (m - 1) +
     (if 2 < m \<and> is_leap y then 1 else 0)"

definition month_len :: "int \<Rightarrow> int \<Rightarrow> int" where
  "month_len y m =
     (if m = 2 then (if is_leap y then 29 else 28)
      else if m \<in> {4, 6, 9, 11} then 30 else 31)"

text \<open>The year of a day number, by cycles of 400, 100, 4 and 1 years.\<close>

definition year_of_days :: "int \<Rightarrow> int" where
  "year_of_days d =
     (let a = d div 146097; r = d mod 146097;
          b = min 3 (r div 36524); r = r - 36524 * b;
          c = r div 1461; r = r mod 1461;
          e = min 3 (r div 365)
      in 400 * a + 100 * b + 4 * c + e + 1)"

definition month_of_yday :: "int \<Rightarrow> int \<Rightarrow> int" where
  "month_of_yday y n =
     (let k = (if is_leap y then 1 else 0) in
      if n < 31 then 1 else if n < 59 + k then 2 else if n < 90 + k then 3
      else if n < 120 + k then 4 else if n < 151 + k then 5 else if n < 181 + k then 6
      else if n < 212 + k then 7 else if n < 243 + k then 8 else if n < 273 + k then 9
      else if n < 304 + k then 10 else if n < 334 + k then 11 else 12)"

definition date_of_days :: "int \<Rightarrow> int \<times> int \<times> int" where
  "date_of_days d =
     (let y = year_of_days d; n = d - days_before y; m = month_of_yday y n
      in (y, m, n - month_start y m + 1))"

definition days_of_date :: "int \<Rightarrow> int \<Rightarrow> int \<Rightarrow> int" where
  "days_of_date y m d = days_before y + month_start y m + (d - 1)"

text \<open>The year found contains the day.\<close>

lemma days_before_cycles:
  assumes "0 \<le> b" "b \<le> 3" "0 \<le> c" "c \<le> 24" "0 \<le> e" "e \<le> 3"
  shows "days_before (400 * a + 100 * b + 4 * c + e + 1) =
           146097 * a + 36524 * b + 1461 * c + 365 * e"
proof -
  have "(400 * a + 100 * b + 4 * c + e) div 4 = 100 * a + 25 * b + c"
    "(400 * a + 100 * b + 4 * c + e) div 100 = 4 * a + b"
    "(400 * a + 100 * b + 4 * c + e) div 400 = a"
    using assms by linarith+
  then show ?thesis by (simp add: days_before_def)
qed

lemma mod_eq_0_upper: "1 \<le> k \<Longrightarrow> k \<le> n \<Longrightarrow> (n * q + k) mod n = 0 \<longleftrightarrow> k = (n::int)"
  by (cases "k = n") (auto simp: mod_pos_pos_trivial)

lemma year_len_cycles:
  assumes "0 \<le> b" "b \<le> 3" "0 \<le> c" "c \<le> 24" "0 \<le> e" "e \<le> 3"
  shows "year_len (400 * a + 100 * b + 4 * c + e + 1) =
           (if e = 3 \<and> (c < 24 \<or> b = 3) then 366 else 365)"
proof -
  let ?y = "400 * a + 100 * b + 4 * c + e + 1"
  have y: "?y = 4 * (100 * a + 25 * b + c) + (e + 1)"
    "?y = 100 * (4 * a + b) + (4 * c + e + 1)"
    "?y = 400 * a + (100 * b + 4 * c + e + 1)" by simp_all
  have 1: "?y mod 4 = 0 \<longleftrightarrow> e + 1 = 4"
    unfolding y(1) by (rule mod_eq_0_upper) (use assms in linarith)+
  have 2: "?y mod 100 = 0 \<longleftrightarrow> 4 * c + e + 1 = 100"
    unfolding y(2) by (rule mod_eq_0_upper) (use assms in linarith)+
  have 3: "?y mod 400 = 0 \<longleftrightarrow> 100 * b + 4 * c + e + 1 = 400"
    unfolding y(3) by (rule mod_eq_0_upper) (use assms in linarith)+
  have 4: "4 * c + e + 1 = 100 \<longleftrightarrow> c = 24 \<and> e = 3"
    "100 * b + 4 * c + e + 1 = 400 \<longleftrightarrow> b = 3 \<and> c = 24 \<and> e = 3"
    using assms by linarith+
  show ?thesis unfolding year_len_def is_leap_def 1 2 3 4 using assms by auto
qed

lemma year_of_days_bounds:
  "days_before (year_of_days d) \<le> d \<and> d < days_before (year_of_days d) + year_len (year_of_days d)"
proof -
  define a where "a = d div 146097"
  define r where "r = d mod 146097"
  define b where "b = min 3 (r div 36524)"
  define r1 where "r1 = r - 36524 * b"
  define c where "c = r1 div 1461"
  define r2 where "r2 = r1 mod 1461"
  define e where "e = min 3 (r2 div 365)"
  have r: "0 \<le> r" "r < 146097" by (simp_all add: r_def)
  have b: "0 \<le> b" "b \<le> 3" using r by (simp_all add: b_def pos_imp_zdiv_nonneg_iff)
  have r1: "0 \<le> r1" "r1 \<le> 36524" "b = 3 \<or> r1 < 36524"
    using r unfolding r1_def b_def by (auto simp: min_def split: if_splits)
  have c: "0 \<le> c" "c \<le> 24" using r1 unfolding c_def by linarith+
  have r2: "0 \<le> r2" "r2 < 1461" by (simp_all add: r2_def)
  have e: "0 \<le> e" "e \<le> 3" using r2 by (simp_all add: e_def pos_imp_zdiv_nonneg_iff)
  have r12: "r1 = 1461 * c + r2" by (simp add: c_def r2_def)
  have d: "d = 146097 * a + 36524 * b + 1461 * c + r2"
  proof -
    have "d = 146097 * a + r" by (simp add: a_def r_def)
    moreover have "r = 36524 * b + r1" by (simp add: r1_def)
    ultimately show ?thesis using r12 by linarith
  qed
  have y: "year_of_days d = 400 * a + 100 * b + 4 * c + e + 1"
    by (simp add: year_of_days_def Let_def a_def r_def b_def r1_def c_def r2_def e_def)
  have f: "365 * e \<le> r2" "e = 3 \<or> r2 < 365 * e + 365"
    using r2 unfolding e_def by (auto simp: min_def split: if_splits)
  have l: "r2 < 365 * e + (if e = 3 \<and> (c < 24 \<or> b = 3) then 366 else 365)"
  proof (cases "e = 3 \<and> (c < 24 \<or> b = 3)")
    case True
    then show ?thesis using r2 by simp
  next
    case False
    then consider "e \<noteq> 3" | "e = 3" "c = 24" "b \<noteq> 3" using c by linarith
    then show ?thesis
    proof cases
      case 1
      then show ?thesis using f False by auto
    next
      case 2
      then show ?thesis using r12 r1 by auto
    qed
  qed
  have "days_before (year_of_days d) = 146097 * a + 36524 * b + 1461 * c + 365 * e"
    unfolding y by (rule days_before_cycles [OF b c e])
  moreover have "year_len (year_of_days d) = (if e = 3 \<and> (c < 24 \<or> b = 3) then 366 else 365)"
    unfolding y by (rule year_len_cycles [OF b c e])
  ultimately show ?thesis using d f l by linarith
qed

lemma month_start_values [simp]:
  "month_start y 1 = 0" "month_start y 2 = 31"
  "month_start y 3 = 59 + (if is_leap y then 1 else 0)"
  "month_start y 4 = 90 + (if is_leap y then 1 else 0)"
  "month_start y 5 = 120 + (if is_leap y then 1 else 0)"
  "month_start y 6 = 151 + (if is_leap y then 1 else 0)"
  "month_start y 7 = 181 + (if is_leap y then 1 else 0)"
  "month_start y 8 = 212 + (if is_leap y then 1 else 0)"
  "month_start y 9 = 243 + (if is_leap y then 1 else 0)"
  "month_start y 10 = 273 + (if is_leap y then 1 else 0)"
  "month_start y 11 = 304 + (if is_leap y then 1 else 0)"
  "month_start y 12 = 334 + (if is_leap y then 1 else 0)"
  by (simp_all add: month_start_def)

lemma month_of_yday_cases:
  assumes "0 \<le> n" "n < year_len y"
  shows "\<exists>m\<in>{1..12}. month_of_yday y n = m \<and> month_start y m \<le> n \<and>
           n - month_start y m + 1 \<le> month_len y m"
proof (cases "is_leap y")
  case True
  with assms show ?thesis
    by (simp add: month_of_yday_def year_len_def month_len_def)
next
  case False
  with assms show ?thesis
    by (simp add: month_of_yday_def year_len_def month_len_def)
qed

lemma month_of_yday_bounds:
  assumes "0 \<le> n" "n < year_len y" and m: "m = month_of_yday y n"
  shows "1 \<le> m" "m \<le> 12" "month_start y m \<le> n" "n - month_start y m + 1 \<le> month_len y m"
  using month_of_yday_cases [OF assms(1,2)] unfolding m by auto

lemma date_of_days_correct:
  assumes "date_of_days d = (y, m, dd)"
  shows "days_of_date y m dd = d" "1 \<le> m" "m \<le> 12" "1 \<le> dd" "dd \<le> month_len y m"
    "y = year_of_days d"
proof -
  let ?n = "d - days_before y"
  from assms have y: "y = year_of_days d" and m: "m = month_of_yday y ?n"
    and dd: "dd = ?n - month_start y m + 1"
    by (auto simp: date_of_days_def Let_def)
  have n: "0 \<le> ?n" "?n < year_len y" using year_of_days_bounds [of d] y by auto
  show "days_of_date y m dd = d" by (simp add: days_of_date_def dd)
  show "1 \<le> m" "m \<le> 12" "1 \<le> dd" "dd \<le> month_len y m"
    using month_of_yday_bounds [OF n m] dd by auto
  show "y = year_of_days d" by (rule y)
qed

lemma days_before_mono:
  assumes "x \<le> y"
  shows "days_before x \<le> days_before y"
proof -
  have "365 * u + u div 4 - u div 100 + u div 400 \<le> 365 * v + v div 4 - v div 100 + v div 400"
    if "u \<le> v" for u v :: int
  proof -
    have "u div 4 \<le> v div 4" "u div 400 \<le> v div 400"
      using that by (simp_all add: zdiv_mono1)
    moreover have "v div 100 - u div 100 \<le> v - u" using that by linarith
    ultimately show ?thesis using that by linarith
  qed
  from this [of "x - 1" "y - 1"] assms show ?thesis by (simp add: days_before_def)
qed

text \<open>Instants of the years 1 to 9999, the range RFC 3339 can express.\<close>

definition max_time :: time where
  "max_time = days_before 10000 * day_secs * second"

definition time_ok :: "time \<Rightarrow> bool" where
  "time_ok t \<longleftrightarrow> 0 \<le> t \<and> t < max_time"

lemma year_of_days_range:
  assumes "0 \<le> d" "d < days_before 10000"
  shows "1 \<le> year_of_days d" "year_of_days d \<le> 9999"
proof -
  have b: "days_before (year_of_days d) \<le> d"
    "d < days_before (year_of_days d) + year_len (year_of_days d)"
    using year_of_days_bounds by blast+
  show "1 \<le> year_of_days d"
  proof (rule ccontr)
    assume "\<not> ?thesis"
    then have "days_before (year_of_days d) \<le> days_before 0" by (intro days_before_mono) simp
    moreover have "days_before 0 = -366" by (simp add: days_before_def)
    ultimately show False using assms b by (auto simp: year_len_def split: if_splits)
  qed
  show "year_of_days d \<le> 9999"
  proof (rule ccontr)
    assume "\<not> ?thesis"
    then have "days_before 10000 \<le> days_before (year_of_days d)" by (intro days_before_mono) simp
    with assms b show False by simp
  qed
qed

subsection \<open>Printing\<close>

definition zero_pad :: "nat \<Rightarrow> int \<Rightarrow> string" where
  "zero_pad w n = replicate (w - length (show_dec n)) (CHR ''0'') @ show_dec n"

text \<open>The fraction of \<open>.999999999\<close>: nine digits without their trailing zeros.\<close>

definition drop_trailing_zeros :: "string \<Rightarrow> string" where
  "drop_trailing_zeros s = rev (dropWhile (\<lambda>c. c = CHR ''0'') (rev s))"

definition nano_frac :: "int \<Rightarrow> string" where
  "nano_frac n = (if n = 0 then [] else CHR ''.'' # drop_trailing_zeros (zero_pad 9 n))"

definition format_date_time :: "time \<Rightarrow> string" where
  "format_date_time t =
     (let s = t div second; (y, m, d) = date_of_days (s div day_secs); r = s mod day_secs
      in zero_pad 4 y @ CHR ''-'' # zero_pad 2 m @ CHR ''-'' # zero_pad 2 d @
         CHR ''T'' # zero_pad 2 (r div 3600) @ CHR '':'' # zero_pad 2 (r mod 3600 div 60) @
         CHR '':'' # zero_pad 2 (r mod 60))"

definition format_rfc3339 :: "time \<Rightarrow> string" where
  "format_rfc3339 t = format_date_time t @ ''Z''"

definition format_rfc3339nano :: "time \<Rightarrow> string" where
  "format_rfc3339nano t = format_date_time t @ nano_frac (t mod second) @ ''Z''"

subsection \<open>Parsing\<close>

definition take_uint :: "nat \<Rightarrow> int \<Rightarrow> int \<Rightarrow> string \<Rightarrow> (int \<times> string) option" where
  "take_uint w lo hi s =
     (if length s < w \<or> \<not> list_all is_digit (take w s) then None
      else let n = (int_of_digits (take w s))
           in if lo \<le> n \<and> n \<le> hi then Some (n, drop w s) else None)"

fun take_char :: "char \<Rightarrow> string \<Rightarrow> string option" where
  "take_char c (x # xs) = (if x = c then Some xs else None)"
| "take_char c [] = None"

text \<open>
  \<open>time.Parse\<close> is more lenient than RFC 3339: the hour may have one digit, the fraction may follow a
  comma, and the offset may be 24 hours or 60 minutes. \<open>UnmarshalJSON\<close> is strict. The flag \<open>len\<close> says
  which; the fraction gives its first nine digits, the rest of the digits is skipped.
\<close>

definition take_hour :: "bool \<Rightarrow> string \<Rightarrow> (int \<times> string) option" where
  "take_hour len s =
     (if len \<and> length (takeWhile is_digit s) = 1 then take_uint 1 0 23 s else take_uint 2 0 23 s)"

definition take_frac :: "bool \<Rightarrow> string \<Rightarrow> int \<times> string" where
  "take_frac len s =
     (case s of
        [] \<Rightarrow> (0, s)
      | c # r \<Rightarrow>
          (let ds = takeWhile is_digit r; n = take 9 ds
           in if \<not> (c = CHR ''.'' \<or> len \<and> c = CHR '','') \<or> ds = [] then (0, s)
              else (int_of_digits (n @ replicate (9 - length n) (CHR ''0'')), dropWhile is_digit r)))"

text \<open>A numeric offset up to the end of the text, in seconds.\<close>

definition take_offset :: "bool \<Rightarrow> string \<Rightarrow> int option" where
  "take_offset len s =
     (case s of
        c # r \<Rightarrow>
          do { sg \<leftarrow> (if c = CHR ''+'' then Some 1 else if c = CHR ''-'' then Some (-1) else None);
               (h, r) \<leftarrow> take_uint 2 0 (if len then 24 else 23) r; r \<leftarrow> take_char (CHR '':'') r;
               (m, r) \<leftarrow> take_uint 2 0 (if len then 60 else 59) r;
               if r = [] then Some (sg * (h * 60 + m) * 60) else None }
      | [] \<Rightarrow> None)"

definition take_zone :: "bool \<Rightarrow> string \<Rightarrow> int option" where
  "take_zone len s = (if s = ''Z'' then Some 0 else take_offset len s)"

text \<open>A date and a time with \<open>sep\<close> between them, the fraction, and what \<open>zone\<close> reads of the rest.\<close>

definition parse_date_time_with :: "bool \<Rightarrow> char \<Rightarrow> (string \<Rightarrow> int option) \<Rightarrow> string \<Rightarrow> time option" where
  "parse_date_time_with len sep zone s =
     do { (y, s) \<leftarrow> take_uint 4 0 9999 s; s \<leftarrow> take_char (CHR ''-'') s;
          (m, s) \<leftarrow> take_uint 2 1 12 s; s \<leftarrow> take_char (CHR ''-'') s;
          (d, s) \<leftarrow> take_uint 2 1 (month_len y m) s; s \<leftarrow> take_char sep s;
          (hh, s) \<leftarrow> take_hour len s; s \<leftarrow> take_char (CHR '':'') s;
          (mm, s) \<leftarrow> take_uint 2 0 59 s; s \<leftarrow> take_char (CHR '':'') s;
          (ss, s) \<leftarrow> take_uint 2 0 59 s;
          (let (ns, s) = take_frac len s in
           do { z \<leftarrow> zone s;
                Some ((days_of_date y m d * day_secs + hh * 3600 + mm * 60 + ss - z) * second + ns) }) }"

text \<open>\<open>time.Parse\<close> with the layouts \<open>RFC3339\<close> and \<open>RFC3339Nano\<close>, and the JSON decoder of \<open>time.Time\<close>.\<close>

definition parse_rfc3339 :: "string \<Rightarrow> time option" where
  "parse_rfc3339 s = parse_date_time_with True (CHR ''T'') (take_zone True) s"

definition parse_json_time :: "string \<Rightarrow> time option" where
  "parse_json_time s = parse_date_time_with False (CHR ''T'') (take_zone False) s"

subsection \<open>Parsing inverts printing\<close>

lemma length_show_dec: "0 \<le> n \<Longrightarrow> n < 10 ^ w \<Longrightarrow> 0 < w \<Longrightarrow> length (show_dec n) \<le> w"
proof (induction n arbitrary: w rule: show_dec.induct)
  case (1 n)
  show ?case
  proof (cases "n < 10")
    case True
    then show ?thesis using "1.prems" by (subst show_dec.simps) simp
  next
    case False
    then obtain v where w: "w = Suc v" "0 < v"
      using "1.prems" by (cases w; cases "w - 1") auto
    then have "n div 10 < 10 ^ v" using "1.prems" by (simp add: div_less_iff_less_mult mult.commute)
    then have "length (show_dec (n div 10)) \<le> v"
      using "1.IH" "1.prems" False w by (simp add: pos_imp_zdiv_nonneg_iff)
    then show ?thesis using False w by (subst show_dec.simps) simp
  qed
qed

lemma int_of_digits_replicate: "int_of_digits (replicate k (CHR ''0'') @ s) = int_of_digits s"
  by (induction k) (simp_all add: int_of_digits_def digit_val_def)

lemma zero_pad_props:
  assumes "0 \<le> n" "n < 10 ^ w" "0 < w"
  shows "length (zero_pad w n) = w" "list_all is_digit (zero_pad w n)"
    "int_of_digits (zero_pad w n) = n"
  using length_show_dec [OF assms] show_dec_digits [OF assms(1)] assms(1)
  by (auto simp add: zero_pad_def int_of_digits_replicate list_all_iff is_digit_def
      simp del: set_replicate_conv_if)

lemma take_uint_zero_pad:
  assumes "0 \<le> n" "n < 10 ^ w" "0 < w" "lo \<le> n" "n \<le> hi"
  shows "take_uint w lo hi (zero_pad w n @ r) = Some (n, r)"
  using zero_pad_props [OF assms(1,2,3)] assms(4,5) by (simp add: take_uint_def)

lemma take_hour_zero_pad:
  assumes "0 \<le> n" "n \<le> 23"
  shows "take_hour len (zero_pad 2 n @ r) = Some (n, r)"
proof -
  have z: "length (zero_pad 2 n) = 2" "list_all is_digit (zero_pad 2 n)"
    using zero_pad_props [of n 2] assms by simp_all
  then have "takeWhile is_digit (zero_pad 2 n @ r) = zero_pad 2 n @ takeWhile is_digit r"
    by (simp add: list_all_iff takeWhile_append)
  then show ?thesis using z(1) take_uint_zero_pad [of n 2 0 23 r] assms by (simp add: take_hour_def)
qed

lemma drop_trailing_zeros_pad:
  "drop_trailing_zeros s @ replicate (length s - length (drop_trailing_zeros s)) (CHR ''0'') = s"
proof -
  let ?P = "\<lambda>c. c = CHR ''0''"
  have "length s - length (drop_trailing_zeros s) = length (takeWhile ?P (rev s))"
    unfolding drop_trailing_zeros_def
    by (metis add_diff_cancel_right' length_append length_rev takeWhile_dropWhile_id)
  moreover have "replicate (length (takeWhile ?P (rev s))) (CHR ''0'') = rev (takeWhile ?P (rev s))"
    by (rule sym, rule replicate_eqI) (auto dest: set_takeWhileD)
  ultimately show ?thesis
    unfolding drop_trailing_zeros_def
    by (metis rev_append rev_rev_ident takeWhile_dropWhile_id)
qed

lemma drop_trailing_zeros_Nil: "drop_trailing_zeros s = [] \<Longrightarrow> list_all (\<lambda>c. c = CHR ''0'') s"
  by (simp add: drop_trailing_zeros_def list_all_iff)

lemma take_frac_nano:
  assumes "0 \<le> n" "n < 10 ^ 9"
  shows "take_frac len (nano_frac n @ ''Z'') = (n, ''Z'')"
proof (cases "n = 0")
  case True
  then show ?thesis by (simp add: nano_frac_def take_frac_def)
next
  case False
  note z = zero_pad_props [OF assms, simplified]
  let ?d = "drop_trailing_zeros (zero_pad 9 n)"
  have "set ?d \<subseteq> set (zero_pad 9 n)"
    unfolding drop_trailing_zeros_def using set_dropWhileD by fastforce
  then have dig: "\<forall>c\<in>set ?d. is_digit c" using z(2) by (auto simp: list_all_iff)
  have ne: "?d \<noteq> []"
  proof
    assume "?d = []"
    then have "zero_pad 9 n = replicate 9 (CHR ''0'')"
      using z(1) by (intro replicate_eqI) (auto dest!: drop_trailing_zeros_Nil simp: list_all_iff)
    then have "int_of_digits (zero_pad 9 n) = 0"
      using int_of_digits_replicate [of 9 "[]"] by (simp add: int_of_digits_def)
    with z(3) False show False by simp
  qed
  have "length ?d \<le> 9"
    using z(1) unfolding drop_trailing_zeros_def by (metis length_dropWhile_le length_rev)
  moreover have "\<not> is_digit (CHR ''Z'')" by (simp add: is_digit_def)
  ultimately have "take_frac len (nano_frac n @ ''Z'') =
      (int_of_digits (?d @ replicate (9 - length ?d) (CHR ''0'')), ''Z'')"
    using False dig ne
    by (simp add: nano_frac_def take_frac_def Let_def)
  then show ?thesis using drop_trailing_zeros_pad [of "zero_pad 9 n"] z by simp
qed

lemma take_frac_Z: "take_frac len ''Z'' = (0, ''Z'')"
  by (simp add: take_frac_def)

text \<open>The date and time fields, read back from an arbitrary continuation \<open>r\<close>.\<close>

lemma parse_fields:
  assumes "0 \<le> y" "y \<le> 9999" "1 \<le> m" "m \<le> 12" "1 \<le> d" "d \<le> month_len y m"
    and "0 \<le> hh" "hh \<le> 23" "0 \<le> mm" "mm \<le> 59" "0 \<le> ss" "ss \<le> 59"
    and "take_frac len r = (ns, ''Z'')" and "zone ''Z'' = Some 0"
  shows "parse_date_time_with len (CHR ''T'') zone
      (zero_pad 4 y @ CHR ''-'' # zero_pad 2 m @ CHR ''-'' # zero_pad 2 d @ CHR ''T'' #
       zero_pad 2 hh @ CHR '':'' # zero_pad 2 mm @ CHR '':'' # zero_pad 2 ss @ r) =
     Some ((days_of_date y m d * day_secs + hh * 3600 + mm * 60 + ss) * second + ns)"
proof -
  have "month_len y m \<le> 31" by (simp add: month_len_def)
  with assms have "d < 10 ^ 2" by simp
  moreover have "m < 10 ^ 2" "hh < 10 ^ 2" "mm < 10 ^ 2" "ss < 10 ^ 2" "y < 10 ^ 4" "0 \<le> m" "0 \<le> d"
    using assms by simp_all
  ultimately show ?thesis
    unfolding parse_date_time_with_def
    using assms
    by (simp only: take_uint_zero_pad take_hour_zero_pad bind.bind_lunit take_char.simps split_conv refl if_True
        diff_0_right Let_def zero_less_numeral order.refl)
qed

lemma parse_date_time:
  assumes "time_ok t"
    and "take_frac len r = (ns, ''Z'')" and "zone ''Z'' = Some 0"
  shows "parse_date_time_with len (CHR ''T'') zone (format_date_time t @ r) = Some (t div second * second + ns)"
proof -
  define s where "s = t div second"
  obtain y m d where dt: "date_of_days (s div day_secs) = (y, m, d)"
    by (cases "date_of_days (s div day_secs)") auto
  note c = date_of_days_correct [OF dt]
  define q where "q = s mod day_secs"
  have q: "0 \<le> q" "q < 86400" by (simp_all add: q_def day_secs_def)
  have "0 \<le> t" "t < 315537897600000000000"
    using assms(1) by (simp_all add: time_ok_def max_time_def second_def day_secs_def days_before_def)
  then have "0 \<le> t div 1000000000 div 86400" "t div 1000000000 div 86400 < 3652059"
    by linarith+
  then have s: "0 \<le> s div day_secs" "s div day_secs < days_before 10000"
    by (simp_all add: s_def second_def day_secs_def days_before_def)
  have y: "1 \<le> y" "y \<le> 9999" using year_of_days_range [OF s] c(6) by auto
  have hms: "0 \<le> q div 3600" "q div 3600 \<le> 23" "0 \<le> q mod 3600 div 60" "q mod 3600 div 60 \<le> 59"
    "0 \<le> q mod 60" "q mod 60 \<le> 59"
    using q by simp_all
  have "q mod 60 = q mod 3600 mod 60" by (simp add: mod_mod_cancel)
  then have time: "q div 3600 * 3600 + q mod 3600 div 60 * 60 + q mod 60 = q"
    by (simp add: div_mult_mod_eq)
  have "format_date_time t =
      zero_pad 4 y @ CHR ''-'' # zero_pad 2 m @ CHR ''-'' # zero_pad 2 d @
      CHR ''T'' # zero_pad 2 (q div 3600) @ CHR '':'' # zero_pad 2 (q mod 3600 div 60) @
      CHR '':'' # zero_pad 2 (q mod 60)"
    by (simp add: format_date_time_def dt Let_def flip: s_def q_def)
  then have "parse_date_time_with len (CHR ''T'') zone (format_date_time t @ r) =
      Some ((days_of_date y m d * day_secs + (q div 3600 * 3600 + q mod 3600 div 60 * 60 + q mod 60))
        * second + ns)"
    using parse_fields [of y m d "q div 3600" "q mod 3600 div 60" "q mod 60" len r ns zone, OF _ y(2) c(2-5) hms assms(2,3)] y
    by (simp only: append_assoc append_Cons add.assoc)
  also have "days_of_date y m d * day_secs + (q div 3600 * 3600 + q mod 3600 div 60 * 60 + q mod 60) = s"
    unfolding c(1) time by (simp add: q_def)
  finally show ?thesis by (simp add: s_def)
qed

lemma take_zone_Z [simp]: "take_zone len ''Z'' = Some 0"
  by (simp add: take_zone_def)

theorem parse_format_rfc3339nano:
  assumes "time_ok t"
  shows "parse_rfc3339 (format_rfc3339nano t) = Some t" "parse_json_time (format_rfc3339nano t) = Some t"
proof -
  have "0 \<le> t mod second" "t mod second < 10 ^ 9" by (simp_all add: second_def)
  note p = parse_date_time [where zone = "take_zone l" for l, OF assms take_frac_nano [OF this] take_zone_Z]
  show "parse_rfc3339 (format_rfc3339nano t) = Some t" "parse_json_time (format_rfc3339nano t) = Some t"
    unfolding parse_rfc3339_def parse_json_time_def by (simp_all add: format_rfc3339nano_def p)
qed

theorem parse_format_rfc3339:
  assumes "time_ok t"
  shows "parse_rfc3339 (format_rfc3339 t) = Some (t div second * second)"
  using parse_date_time [where zone = "take_zone l" for l, OF assms take_frac_Z take_zone_Z] by (simp add: format_rfc3339_def parse_rfc3339_def)

subsection \<open>The characters of a printed time\<close>

definition time_char :: "char \<Rightarrow> bool" where
  "time_char c \<longleftrightarrow> is_digit c \<or> c \<in> {CHR ''-'', CHR '':'', CHR ''.'', CHR ''T'', CHR ''Z''}"

lemma zero_pad_chars: "0 \<le> n \<Longrightarrow> list_all time_char (zero_pad w n)"
  using show_dec_digits [of n] by (auto simp: zero_pad_def list_all_iff time_char_def is_digit_def)

lemma format_rfc3339nano_chars:
  assumes "time_ok t"
  shows "list_all time_char (format_rfc3339nano t)"
proof -
  define s where "s = t div second"
  obtain y m d where dt: "date_of_days (s div day_secs) = (y, m, d)"
    by (cases "date_of_days (s div day_secs)") auto
  have "0 \<le> t" "t < 315537897600000000000"
    using assms by (simp_all add: time_ok_def max_time_def second_def day_secs_def days_before_def)
  then have "0 \<le> t div 1000000000 div 86400" "t div 1000000000 div 86400 < 3652059" by linarith+
  then have "0 \<le> s div day_secs" "s div day_secs < days_before 10000"
    by (simp_all add: s_def second_def day_secs_def days_before_def)
  then have "0 \<le> y" using year_of_days_range date_of_days_correct(6) [OF dt] by fastforce
  moreover have "0 \<le> s mod day_secs" by (simp add: day_secs_def)
  ultimately have "list_all time_char (format_date_time t)"
    using date_of_days_correct(2,4) [OF dt] dt
    by (simp add: format_date_time_def Let_def zero_pad_chars flip: s_def) (simp add: time_char_def)
  moreover have "set (drop_trailing_zeros (zero_pad 9 (t mod second))) \<subseteq> set (zero_pad 9 (t mod second))"
    unfolding drop_trailing_zeros_def using set_dropWhileD by fastforce
  then have "list_all time_char (nano_frac (t mod second))"
    using zero_pad_chars [of "t mod second" 9] by (auto simp: nano_frac_def list_all_iff time_char_def)
  ultimately show ?thesis by (simp add: format_rfc3339nano_def) (simp add: time_char_def)
qed

end
