(* ===== verification/Go_Codec.thy ===== *)
theory Go_Codec
  imports Go_Strings "HOL-Library.Word"
begin

unbundle bit_operations_syntax

text \<open>
  The codecs of the standard library that the program uses: \<open>encoding/hex\<close>,
  \<open>encoding/base64\<close> (\<open>StdEncoding\<close> with padding, \<open>RawStdEncoding\<close> without),
  \<open>crypto/sha256\<close> and \<open>crypto/hmac\<close>. A byte slice is a \<^typ>\<open>string\<close>.
\<close>

subsection \<open>Hexadecimal\<close>

definition hex_digit :: "int \<Rightarrow> char" where
  "hex_digit n = (if n < 10 then char_of (48 + n) else char_of (87 + n))"

definition hex_digit_val :: "char \<Rightarrow> int option" where
  "hex_digit_val c =
     (let n = of_char c :: int in
      if 48 \<le> n \<and> n \<le> 57 then Some (n - 48)
      else if 97 \<le> n \<and> n \<le> 102 then Some (n - 87)
      else if 65 \<le> n \<and> n \<le> 70 then Some (n - 55) else None)"

definition hex_encode :: "string \<Rightarrow> string" where
  "hex_encode s = concat (map (\<lambda>c. [hex_digit (of_char c div 16), hex_digit (of_char c mod 16)]) s)"

fun hex_decode :: "string \<Rightarrow> string option" where
  "hex_decode [] = Some []"
| "hex_decode [_] = None"
| "hex_decode (a # b # s) =
     (case (hex_digit_val a, hex_digit_val b) of
        (Some x, Some y) \<Rightarrow> map_option ((#) (char_of (16 * x + y))) (hex_decode s)
      | _ \<Rightarrow> None)"

lemma byte_bounds: "0 \<le> (of_char c :: int)" "(of_char c :: int) < 256"
proof -
  have "(of_char c :: int) mod 256 = of_char c" by simp
  then show "0 \<le> (of_char c :: int)" "(of_char c :: int) < 256"
    by (metis pos_mod_sign pos_mod_bound zero_less_numeral)+
qed

lemma hex_digit_inverse: "0 \<le> n \<Longrightarrow> n < 16 \<Longrightarrow> hex_digit_val (hex_digit n) = Some n"
  by (simp add: hex_digit_val_def hex_digit_def of_char_of take_bit_int_eq_self)

lemma hex_decode_encode: "hex_decode (hex_encode s) = Some s"
proof (induction s)
  case Nil
  then show ?case by (simp add: hex_encode_def)
next
  case (Cons c s)
  have b: "0 \<le> (of_char c :: int)" "(of_char c :: int) < 256" by (rule byte_bounds)+
  have "0 \<le> (of_char c :: int) div 16" "(of_char c :: int) div 16 < 16" using b by linarith+
  then show ?case using Cons by (simp add: hex_encode_def hex_digit_inverse)
qed

lemma hex_encode_append: "hex_encode (s @ t) = hex_encode s @ hex_encode t"
  by (simp add: hex_encode_def)

lemma length_hex_encode: "length (hex_encode s) = 2 * length s"
  by (induction s) (simp_all add: hex_encode_def)

subsection \<open>Base64\<close>

definition b64_char :: "int \<Rightarrow> char" where
  "b64_char n =
     (if n < 26 then char_of (65 + n) else if n < 52 then char_of (71 + n)
      else if n < 62 then char_of (n - 4) else if n = 62 then CHR ''+'' else CHR ''/'')"

definition b64_val :: "char \<Rightarrow> int option" where
  "b64_val c =
     (let n = of_char c :: int in
      if 65 \<le> n \<and> n \<le> 90 then Some (n - 65) else if 97 \<le> n \<and> n \<le> 122 then Some (n - 71)
      else if 48 \<le> n \<and> n \<le> 57 then Some (n + 4)
      else if c = CHR ''+'' then Some 62 else if c = CHR ''/'' then Some 63 else None)"

fun b64_encode :: "bool \<Rightarrow> string \<Rightarrow> string" where
  "b64_encode p [] = []"
| "b64_encode p [a] =
     (let x = of_char a in [b64_char (x div 4), b64_char (x mod 4 * 16)] @ (if p then ''=='' else []))"
| "b64_encode p [a, b] =
     (let x = of_char a; y = of_char b in
      [b64_char (x div 4), b64_char (x mod 4 * 16 + y div 16), b64_char (y mod 16 * 4)] @
      (if p then ''='' else []))"
| "b64_encode p (a # b # c # s) =
     (let x = of_char a; y = of_char b; z = of_char c in
      [b64_char (x div 4), b64_char (x mod 4 * 16 + y div 16), b64_char (y mod 16 * 4 + z div 64),
       b64_char (z mod 64)] @ b64_encode p s)"

text \<open>The bytes of a last group of two or three characters; excess bits are ignored.\<close>

definition b64_group2 :: "char \<Rightarrow> char \<Rightarrow> string option" where
  "b64_group2 a b =
     (case (b64_val a, b64_val b) of
        (Some x, Some y) \<Rightarrow> Some [char_of (x * 4 + y div 16)] | _ \<Rightarrow> None)"

definition b64_group3 :: "char \<Rightarrow> char \<Rightarrow> char \<Rightarrow> string option" where
  "b64_group3 a b c =
     (case (b64_val a, b64_val b, b64_val c) of
        (Some x, Some y, Some z) \<Rightarrow>
          Some [char_of (x * 4 + y div 16), char_of (y mod 16 * 16 + z div 4)]
      | _ \<Rightarrow> None)"

fun b64_decode_groups :: "bool \<Rightarrow> string \<Rightarrow> string option" where
  "b64_decode_groups p [] = Some []"
| "b64_decode_groups p [a] = None"
| "b64_decode_groups p [a, b] = (if p then None else b64_group2 a b)"
| "b64_decode_groups p [a, b, c] = (if p then None else b64_group3 a b c)"
| "b64_decode_groups p (a # b # c # d # s) =
     (if p \<and> s = [] \<and> d = CHR ''='' then
        (if c = CHR ''='' then b64_group2 a b else b64_group3 a b c)
      else
        (case (b64_val a, b64_val b, b64_val c, b64_val d) of
           (Some x, Some y, Some z, Some w) \<Rightarrow>
             map_option ((@) [char_of (x * 4 + y div 16), char_of (y mod 16 * 16 + z div 4),
                              char_of (z mod 4 * 64 + w)]) (b64_decode_groups p s)
         | _ \<Rightarrow> None))"

text \<open>Line breaks are ignored anywhere in the input.\<close>

definition b64_decode :: "bool \<Rightarrow> string \<Rightarrow> string option" where
  "b64_decode p s = b64_decode_groups p (filter (\<lambda>c. c \<noteq> CHR 0x0A \<and> c \<noteq> CHR 0x0D) s)"

lemma b64_val_char: "0 \<le> n \<Longrightarrow> n < 64 \<Longrightarrow> b64_val (b64_char n) = Some n"
proof -
  assume n: "0 \<le> n" "n < 64"
  then consider "n < 26" | "26 \<le> n" "n < 52" | "52 \<le> n" "n < 62" | "n = 62" | "n = 63" by linarith
  then show ?thesis
    by cases (use n in \<open>simp_all add: b64_val_def b64_char_def of_char_of take_bit_int_eq_self\<close>)
qed

lemma b64_char_not_special:
  assumes "0 \<le> n" "n < 64"
  shows "b64_char n \<noteq> CHR ''=''" "b64_char n \<noteq> CHR 0x0A" "b64_char n \<noteq> CHR 0x0D"
proof -
  have "b64_val c = None" if "c \<in> {CHR ''='', CHR 0x0A, CHR 0x0D}" for c
    using that by (auto simp: b64_val_def)
  with b64_val_char [OF assms] show "b64_char n \<noteq> CHR ''=''" "b64_char n \<noteq> CHR 0x0A" "b64_char n \<noteq> CHR 0x0D"
    by force+
qed

lemma b64_parts:
  fixes x y :: int
  assumes "0 \<le> x" "x < 256" "0 \<le> y" "y < 256"
  shows "0 \<le> x div 4" "x div 4 < 64" "0 \<le> x mod 4 * 16 + y div 16" "x mod 4 * 16 + y div 16 < 64"
    "0 \<le> x mod 16 * 4 + y div 64" "x mod 16 * 4 + y div 64 < 64" "0 \<le> x mod 64" "x mod 64 < 64"
    "0 \<le> x mod 4 * 16" "x mod 4 * 16 < 64" "0 \<le> x mod 16 * 4" "x mod 16 * 4 < 64"
  using assms by linarith+

lemma div_mod_shift:
  fixes m r k :: int
  assumes "0 \<le> r" "r < k"
  shows "(m * k + r) div k = m" "(m * k + r) mod k = r"
  using assms by (simp_all add: mult.commute)

lemma b64_join:
  fixes x y :: int
  assumes "0 \<le> x" "x < 256" "0 \<le> y" "y < 256"
  shows "x div 4 * 4 + (x mod 4 * 16 + y div 16) div 16 = x"
    "(x mod 4 * 16 + y div 16) mod 16 * 16 + (y mod 16 * 4) div 4 = y"
    "x div 4 * 4 + (x mod 4 * 16) div 16 = x"
proof -
  have y: "0 \<le> y div 16" "y div 16 < 16" using assms by linarith+
  show "x div 4 * 4 + (x mod 4 * 16 + y div 16) div 16 = x"
    "(x mod 4 * 16 + y div 16) mod 16 * 16 + (y mod 16 * 4) div 4 = y"
    unfolding div_mod_shift [OF y] by (simp_all add: div_mult_mod_eq)
  show "x div 4 * 4 + (x mod 4 * 16) div 16 = x" by (simp add: div_mult_mod_eq)
qed

lemma b64_join3:
  fixes x y z :: int
  assumes "0 \<le> y" "y < 256" "0 \<le> z" "z < 256" "0 \<le> x" "x < 256"
  shows "(x mod 4 * 16 + y div 16) mod 16 * 16 + (y mod 16 * 4 + z div 64) div 4 = y"
    "(y mod 16 * 4 + z div 64) mod 4 * 64 + z mod 64 = z"
proof -
  have y: "0 \<le> y div 16" "y div 16 < 16" and z: "0 \<le> z div 64" "z div 64 < 4"
    using assms by linarith+
  show "(x mod 4 * 16 + y div 16) mod 16 * 16 + (y mod 16 * 4 + z div 64) div 4 = y"
    "(y mod 16 * 4 + z div 64) mod 4 * 64 + z mod 64 = z"
    unfolding div_mod_shift [OF y] div_mod_shift [OF z] by (simp_all only: div_mult_mod_eq)
qed

definition b64_no_break :: "string \<Rightarrow> bool" where
  "b64_no_break s \<longleftrightarrow> CHR 0x0A \<notin> set s \<and> CHR 0x0D \<notin> set s"

lemma b64_group_chars:
  assumes "0 \<le> u" "u < 64" "0 \<le> v" "v < 64" "0 \<le> w" "w < 64"
  shows "b64_group2 (b64_char u) (b64_char v) = Some [char_of (u * 4 + v div 16)]"
    "b64_group3 (b64_char u) (b64_char v) (b64_char w) =
       Some [char_of (u * 4 + v div 16), char_of (v mod 16 * 16 + w div 4)]"
  using assms by (simp_all add: b64_group2_def b64_group3_def b64_val_char)

lemma b64_decode_group4:
  assumes "0 \<le> u" "u < 64" "0 \<le> v" "v < 64" "0 \<le> w" "w < 64" "0 \<le> q" "q < 64"
  shows "b64_decode_groups p (b64_char u # b64_char v # b64_char w # b64_char q # s) =
    map_option ((@) [char_of (u * 4 + v div 16), char_of (v mod 16 * 16 + w div 4),
      char_of (w mod 4 * 64 + q)]) (b64_decode_groups p s)"
  using assms by (simp add: b64_val_char b64_char_not_special)

lemma b64_encode_groups:
  "b64_decode_groups p (b64_encode p s) = Some s \<and> b64_no_break (b64_encode p s)"
proof (induction p s rule: b64_encode.induct)
  case (1 p)
  then show ?case by (simp add: b64_no_break_def)
next
  case (2 p a)
  define x where "x = (of_char a :: int)"
  have b: "0 \<le> x" "x < 256" unfolding x_def by (rule byte_bounds)+
  note r = b64_parts [OF b b]
  have "b64_group2 (b64_char (x div 4)) (b64_char (x mod 4 * 16)) = Some [a]"
    unfolding b64_group_chars(1) [OF r(1,2,9,10) r(1,2)] b64_join(3) [OF b b] by (simp add: x_def)
  moreover have "b64_no_break [b64_char (x div 4), b64_char (x mod 4 * 16)]"
    using b64_char_not_special [OF r(1,2)] b64_char_not_special [OF r(9,10)]
    by (auto simp: b64_no_break_def)
  ultimately show ?case by (cases p) (simp_all add: Let_def b64_no_break_def flip: x_def)
next
  case (3 p a c)
  define x y where "x = (of_char a :: int)" and "y = (of_char c :: int)"
  have b: "0 \<le> x" "x < 256" "0 \<le> y" "y < 256" unfolding x_def y_def by (rule byte_bounds)+
  note r = b64_parts [OF b] and r' = b64_parts [OF b(3,4,1,2)]
  have "b64_group3 (b64_char (x div 4)) (b64_char (x mod 4 * 16 + y div 16)) (b64_char (y mod 16 * 4)) = Some [a, c]"
    unfolding b64_group_chars(2) [OF r(1-4) r'(11,12)] b64_join(1,2) [OF b] by (simp add: x_def y_def)
  moreover have "b64_no_break [b64_char (x div 4), b64_char (x mod 4 * 16 + y div 16), b64_char (y mod 16 * 4)]"
    using b64_char_not_special [OF r(1,2)] b64_char_not_special [OF r(3,4)] b64_char_not_special [OF r'(11,12)]
    by (auto simp: b64_no_break_def)
  ultimately show ?case
    using b64_char_not_special(1) [OF r'(11,12)]
    by (cases p) (simp_all add: Let_def b64_no_break_def flip: x_def y_def)
next
  case (4 p a c d s)
  define x y z where "x = (of_char a :: int)" and "y = (of_char c :: int)" and "z = (of_char d :: int)"
  have b: "0 \<le> x" "x < 256" "0 \<le> y" "y < 256" "0 \<le> z" "z < 256"
    unfolding x_def y_def z_def by (rule byte_bounds)+
  note r = b64_parts [OF b(1-4)] and r' = b64_parts [OF b(3-6)] and r'' = b64_parts [OF b(5,6,1,2)]
  note g = b64_decode_group4 [OF r(1-4) r'(5,6) r''(7,8)]
  have e: "b64_encode p (a # c # d # s) =
      b64_char (x div 4) # b64_char (x mod 4 * 16 + y div 16) # b64_char (y mod 16 * 4 + z div 64) #
      b64_char (z mod 64) # b64_encode p s"
    by (simp only: b64_encode.simps Let_def x_def y_def z_def append_Cons append_Nil)
  have ih: "b64_decode_groups p (b64_encode p s) = Some s" "b64_no_break (b64_encode p s)"
    using 4 by blast+
  have "b64_decode_groups p (b64_encode p (a # c # d # s)) = Some (a # c # d # s)"
    unfolding e g b64_join(1) [OF b(1-4)] b64_join3 [OF b(3-6,1,2)] using ih(1)
    by (simp add: x_def y_def z_def)
  moreover have "b64_no_break (b64_encode p (a # c # d # s))"
    unfolding e using ih(2) b64_char_not_special [OF r(1,2)] b64_char_not_special [OF r(3,4)]
      b64_char_not_special [OF r'(5,6)] b64_char_not_special [OF r''(7,8)]
    by (auto simp: b64_no_break_def)
  ultimately show ?case by blast
qed

lemma b64_decode_encode: "b64_decode p (b64_encode p s) = Some s"
proof -
  have "filter (\<lambda>c. c \<noteq> CHR 0x0A \<and> c \<noteq> CHR 0x0D) (b64_encode p s) = b64_encode p s"
    using b64_encode_groups [of p s] by (intro filter_True) (auto simp: b64_no_break_def)
  then show ?thesis using b64_encode_groups [of p s] by (simp add: b64_decode_def)
qed

lemma b64_encode_nonempty: "s \<noteq> [] \<Longrightarrow> b64_encode p s \<noteq> []"
  by (cases "(p, s)" rule: b64_encode.cases) (auto simp: Let_def)

text \<open>An encoded text has no white space in it.\<close>

lemma b64_char_plain: "0 \<le> n \<Longrightarrow> n < 64 \<Longrightarrow> plain_char (b64_char n)"
proof -
  have "plain_char c" if "b64_val c = Some k" for c k
  proof -
    have "int (of_char c) = (of_char c :: int)" by (rule of_nat_of_char)
    with that show ?thesis
      by (auto simp: b64_val_def Let_def plain_char_def split: if_splits)
  qed
  then show "0 \<le> n \<Longrightarrow> n < 64 \<Longrightarrow> plain_char (b64_char n)" using b64_val_char by blast
qed

lemma b64_encode_plain: "list_all plain_char (b64_encode p s)"
proof (induction p s rule: b64_encode.induct)
  case (2 p a)
  note r = b64_parts [OF byte_bounds [of a] byte_bounds [of a]]
  show ?case using b64_char_plain [OF r(1,2)] b64_char_plain [OF r(9,10)]
    by (simp add: Let_def plain_char_def)
next
  case (3 p a c)
  note r = b64_parts [OF byte_bounds [of a] byte_bounds [of c]] and r' = b64_parts [OF byte_bounds [of c] byte_bounds [of a]]
  show ?case
    using b64_char_plain [OF r(1,2)] b64_char_plain [OF r(3,4)] b64_char_plain [OF r'(11,12)]
    by (simp add: Let_def plain_char_def)
next
  case (4 p a c d s)
  note r = b64_parts [OF byte_bounds [of a] byte_bounds [of c]] and r' = b64_parts [OF byte_bounds [of c] byte_bounds [of d]]
    and r'' = b64_parts [OF byte_bounds [of d] byte_bounds [of a]]
  show ?case
    using 4 b64_char_plain [OF r(1,2)] b64_char_plain [OF r(3,4)] b64_char_plain [OF r'(5,6)]
      b64_char_plain [OF r''(7,8)]
    by (simp add: Let_def)
qed simp

lemma trim_space_b64: "trim_space (b64_encode p s) = b64_encode p s"
proof (cases "b64_encode p s = []")
  case False
  then show ?thesis using b64_encode_plain [of p s]
    by (intro trim_space_plain) (auto simp: list_all_iff)
qed simp

subsection \<open>SHA-256\<close>

definition sha_k :: "32 word list" where
  "sha_k =
     [1116352408, 1899447441, 3049323471, 3921009573, 961987163, 1508970993, 2453635748, 2870763221,
      3624381080, 310598401, 607225278, 1426881987, 1925078388, 2162078206, 2614888103, 3248222580,
      3835390401, 4022224774, 264347078, 604807628, 770255983, 1249150122, 1555081692, 1996064986,
      2554220882, 2821834349, 2952996808, 3210313671, 3336571891, 3584528711, 113926993, 338241895,
      666307205, 773529912, 1294757372, 1396182291, 1695183700, 1986661051, 2177026350, 2456956037,
      2730485921, 2820302411, 3259730800, 3345764771, 3516065817, 3600352804, 4094571909, 275423344,
      430227734, 506948616, 659060556, 883997877, 958139571, 1322822218, 1537002063, 1747873779,
      1955562222, 2024104815, 2227730452, 2361852424, 2428436474, 2756734187, 3204031479,
      3329325298]"

definition sha_init :: "32 word list" where
  "sha_init =
     [1779033703, 3144134277, 1013904242, 2773480762, 1359893119, 2600822924, 528734635,
      1541459225]"

definition be_bytes :: "nat \<Rightarrow> int \<Rightarrow> string" where
  "be_bytes k n = map (\<lambda>i. char_of (n div 2 ^ (8 * (k - 1 - i)))) [0..<k]"

fun be_words :: "string \<Rightarrow> 32 word list" where
  "be_words (a # b # c # d # s) =
     word_of_int (((of_char a * 256 + of_char b) * 256 + of_char c) * 256 + of_char d) # be_words s"
| "be_words _ = []"

definition sha_pad :: "string \<Rightarrow> string" where
  "sha_pad s =
     s @ CHR 0x80 # replicate (nat ((55 - int (length s)) mod 64)) (CHR 0x00) @
     be_bytes 8 (8 * int (length s))"

text \<open>The message schedule, newest word first.\<close>

fun sha_extend :: "nat \<Rightarrow> 32 word list \<Rightarrow> 32 word list" where
  "sha_extend 0 ws = ws"
| "sha_extend (Suc n) ws =
     (let x = ws ! 14; y = ws ! 1;
          s0 = word_rotr 7 x XOR word_rotr 18 x XOR drop_bit 3 x;
          s1 = word_rotr 17 y XOR word_rotr 19 y XOR drop_bit 10 y
      in sha_extend n ((ws ! 15 + s0 + ws ! 6 + s1) # ws))"

fun sha_round :: "32 word list \<Rightarrow> 32 word \<times> 32 word \<Rightarrow> 32 word list" where
  "sha_round [a, b, c, d, e, f, g, h] (k, w) =
     (let s1 = word_rotr 6 e XOR word_rotr 11 e XOR word_rotr 25 e;
          ch = (e AND f) XOR (NOT e AND g);
          t1 = h + s1 + ch + k + w;
          s0 = word_rotr 2 a XOR word_rotr 13 a XOR word_rotr 22 a;
          mj = (a AND b) XOR (a AND c) XOR (b AND c)
      in [t1 + (s0 + mj), a, b, c, d + t1, e, f, g])"
| "sha_round st _ = st"

definition sha_block :: "32 word list \<Rightarrow> 32 word list \<Rightarrow> 32 word list" where
  "sha_block st ws =
     map2 (+) st (foldl sha_round st (zip sha_k (rev (sha_extend 48 (rev ws)))))"

fun sha_blocks :: "nat \<Rightarrow> 32 word list \<Rightarrow> 32 word list \<Rightarrow> 32 word list" where
  "sha_blocks 0 st ws = st"
| "sha_blocks (Suc n) st ws = sha_blocks n (sha_block st (take 16 ws)) (drop 16 ws)"

definition sha256 :: "string \<Rightarrow> string" where
  "sha256 s =
     (let ws = be_words (sha_pad s)
      in concat (map (\<lambda>w. be_bytes 4 (uint w)) (sha_blocks (length ws div 16) sha_init ws)))"

definition hmac_sha256 :: "string \<Rightarrow> string \<Rightarrow> string" where
  "hmac_sha256 key msg =
     (let k = (if 64 < length key then sha256 key else key);
          k = k @ replicate (64 - length k) (CHR 0x00);
          pad = (\<lambda>x :: int. map (\<lambda>c. char_of (of_char c XOR x)) k)
      in sha256 (pad 0x5c @ sha256 (pad 0x36 @ msg)))"

text \<open>\<open>hex.EncodeToString\<close> of the digest: the program's \<open>stableHash\<close> and integrity hashes.\<close>

definition sha256_hex :: "string \<Rightarrow> string" where
  "sha256_hex s = hex_encode (sha256 s)"

lemma length_sha_round: "length (sha_round st kw) = length st"
  by (cases "(st, kw)" rule: sha_round.cases) (simp_all add: Let_def)

lemma length_foldl_sha_round: "length (foldl sha_round st kws) = length st"
  by (induction kws arbitrary: st) (simp_all add: length_sha_round)

lemma length_sha_blocks: "length (sha_blocks n st ws) = length st"
  by (induction n st ws rule: sha_blocks.induct) (simp_all add: sha_block_def length_foldl_sha_round)

lemma length_sha256: "length (sha256 s) = 32"
proof -
  have "length (concat (map (\<lambda>w. be_bytes 4 (uint w)) ws)) = 4 * length ws" for ws :: "32 word list"
    by (induction ws) (simp_all add: be_bytes_def)
  then show ?thesis by (simp add: sha256_def Let_def length_sha_blocks sha_init_def)
qed

lemma length_sha256_hex: "length (sha256_hex s) = 64"
  by (simp add: sha256_hex_def length_hex_encode length_sha256)

lemma set_hex_encode: "set (hex_encode s) \<subseteq> hex_digit ` {0..15}"
proof (induction s)
  case Nil
  then show ?case by (simp add: hex_encode_def)
next
  case (Cons c s)
  have "0 \<le> (of_char c :: int) div 16" "(of_char c :: int) div 16 \<le> 15"
    using byte_bounds [of c] by linarith+
  with Cons show ?case by (auto simp: hex_encode_def)
qed

lemma hex_encode_plain: "list_all plain_char (hex_encode s)"
proof -
  have "plain_char (hex_digit n)" if "0 \<le> n" "n \<le> 15" for n
  proof -
    have d: "hex_digit_val (hex_digit n) = Some n" using that by (simp add: hex_digit_inverse)
    have "int (of_char (hex_digit n)) = (of_char (hex_digit n) :: int)" by (rule of_nat_of_char)
    with d show ?thesis
      by (auto simp: hex_digit_val_def Let_def plain_char_def split: if_splits)
  qed
  then show ?thesis using set_hex_encode [of s] by (auto simp: list_all_iff)
qed

end
