(* ===== verification/Go_Json.thy ===== *)
theory Go_Json
  imports Go_Strings "HOL-Library.AList" "HOL-Library.Monad_Syntax"
begin

text \<open>
  The package \<open>encoding/json\<close> on the dynamic values of the program
  (\<open>map[string]interface{}\<close> and what it holds).

  \<open>gval\<close> is a dynamic Go value: what \<open>Unmarshal\<close> into \<open>interface{}\<close> produces (\<open>GNull\<close> to
  \<open>GObj\<close>), and the further types the program puts into such maps itself (\<open>GInt\<close> for \<open>int\<close>,
  \<open>GInt64\<close> for \<open>int64\<close>, \<open>GStrs\<close> for \<open>[]string\<close>, \<open>GStrMap\<close> for \<open>map[string]string\<close>). A map is an
  association list with distinct keys, in any order. A \<open>float64\<close> is the exact decimal
  \<open>m * 10 ^ e\<close> of its literal; the rounding of literals to 53 bits is not modelled.
  \<open>marshal\<close> prints with sorted keys and HTML escaping as \<open>json.Marshal\<close> does; \<open>unmarshal\<close>
  parses a complete text. Bytes from \<open>0x80\<close> pass through both (strings are valid UTF-8).
  The results: the parser never depends on its fuel, and it inverts the printer.
\<close>

datatype gval =
    GNull
  | GBool bool
  | GStr string
  | GNum int int
  | GInt int
  | GInt64 int
  | GArr "gval list"
  | GStrs "string list"
  | GObj "(string \<times> gval) list"
  | GStrMap "(string \<times> string) list"

subsection \<open>Printing\<close>

definition hex_char :: "int \<Rightarrow> char" where
  "hex_char n = (if n < 10 then char_of (48 + n) else char_of (87 + n))"

definition hex_val :: "char \<Rightarrow> int option" where
  "hex_val c =
     (let n = of_char c :: int in
      if 48 \<le> n \<and> n \<le> 57 then Some (n - 48)
      else if 97 \<le> n \<and> n \<le> 102 then Some (n - 87)
      else if 65 \<le> n \<and> n \<le> 70 then Some (n - 55) else None)"

text \<open>One byte of a string literal; only bytes below \<open>0x80\<close> are ever escaped alone.\<close>

definition esc_char :: "char \<Rightarrow> string" where
  "esc_char c =
     (let n = of_char c :: int in
      if c = CHR 0x22 \<or> c = CHR 0x5C then [CHR 0x5C, c]
      else if n = 8 then [CHR 0x5C, CHR ''b''] else if n = 12 then [CHR 0x5C, CHR ''f'']
      else if n = 10 then [CHR 0x5C, CHR ''n''] else if n = 13 then [CHR 0x5C, CHR ''r'']
      else if n = 9 then [CHR 0x5C, CHR ''t'']
      else if n < 32 \<or> c = CHR ''<'' \<or> c = CHR ''>'' \<or> c = CHR 0x26
      then [CHR 0x5C, CHR ''u'', CHR ''0'', CHR ''0'', hex_char (n div 16), hex_char (n mod 16)]
      else [c])"

text \<open>The characters U+2028 and U+2029 (bytes \<open>E2 80 A8\<close> and \<open>E2 80 A9\<close>) are escaped too.\<close>

fun esc_string :: "string \<Rightarrow> string" where
  "esc_string [] = []"
| "esc_string (c # s) =
     (if c = CHR 0xE2 \<and> take 2 s = [CHR 0x80, CHR 0xA8]
      then [CHR 0x5C, CHR ''u'', CHR ''2'', CHR ''0'', CHR ''2'', CHR ''8''] @ esc_string (drop 2 s)
      else if c = CHR 0xE2 \<and> take 2 s = [CHR 0x80, CHR 0xA9]
      then [CHR 0x5C, CHR ''u'', CHR ''2'', CHR ''0'', CHR ''2'', CHR ''9''] @ esc_string (drop 2 s)
      else esc_char c @ esc_string s)"

definition quote_string :: "string \<Rightarrow> string" where
  "quote_string s = CHR 0x22 # esc_string s @ [CHR 0x22]"

text \<open>A \<open>float64\<close> with the decimal digits \<open>d\<close> of \<open>|m|\<close>, as \<open>encoding/json\<close> prints it.\<close>

definition show_num :: "int \<Rightarrow> int \<Rightarrow> string" where
  "show_num m e =
     (let d = show_dec \<bar>m\<bar>; p = int (length d) + e; sg = (if m < 0 then ''-'' else []) in
      sg @
      (if m \<noteq> 0 \<and> (p < -5 \<or> 22 \<le> p)
       then take 1 d @ (if length d = 1 then [] else CHR ''.'' # drop 1 d) @
            (if p \<le> 0 then ''e-'' @ show_dec (1 - p) else ''e+'' @ show_dec (p - 1))
       else if 0 \<le> e then d @ replicate (nat e) (CHR ''0'')
       else if 0 < p then take (nat p) d @ CHR ''.'' # drop (nat p) d
       else ''0.'' @ replicate (nat (- p)) (CHR ''0'') @ d))"

definition json_array :: "string list \<Rightarrow> string" where
  "json_array ss = CHR ''['' # join_with '','' ss @ '']''"

definition json_object :: "(string \<times> string) list \<Rightarrow> string" where
  "json_object kss = CHR ''{'' # join_with '','' (map (\<lambda>(k, t). quote_string k @ CHR '':'' # t) kss) @ ''}''"

primrec marshal :: "gval \<Rightarrow> string" where
  "marshal GNull = ''null''"
| "marshal (GBool b) = (if b then ''true'' else ''false'')"
| "marshal (GStr s) = quote_string s"
| "marshal (GNum m e) = show_num m e"
| "marshal (GInt i) = show_int i"
| "marshal (GInt64 i) = show_int i"
| "marshal (GArr vs) = json_array (map marshal vs)"
| "marshal (GStrs ws) = json_array (map quote_string ws)"
| "marshal (GObj kvs) = json_object (sort_key fst (map (map_prod (\<lambda>k. k) marshal) kvs))"
| "marshal (GStrMap kvs) = json_object (sort_key fst (map (map_prod (\<lambda>k. k) quote_string) kvs))"

subsection \<open>Parsing\<close>

definition is_json_ws :: "char \<Rightarrow> bool" where
  "is_json_ws c \<longleftrightarrow> c = CHR 0x20 \<or> c = CHR 0x09 \<or> c = CHR 0x0A \<or> c = CHR 0x0D"

definition skip_ws :: "string \<Rightarrow> string" where
  "skip_ws s = dropWhile is_json_ws s"

definition utf8 :: "int \<Rightarrow> string" where
  "utf8 n =
     (if n < 128 then [char_of n]
      else if n < 2048 then [char_of (192 + n div 64), char_of (128 + n mod 64)]
      else if n < 65536 then
        [char_of (224 + n div 4096), char_of (128 + n div 64 mod 64), char_of (128 + n mod 64)]
      else [char_of (240 + n div 262144), char_of (128 + n div 4096 mod 64),
            char_of (128 + n div 64 mod 64), char_of (128 + n mod 64)])"

definition hex4 :: "string \<Rightarrow> int option" where
  "hex4 s =
     (case s of
        [a, b, c, d] \<Rightarrow>
          do { a \<leftarrow> hex_val a; b \<leftarrow> hex_val b; c \<leftarrow> hex_val c; d \<leftarrow> hex_val d;
               Some (((a * 16 + b) * 16 + c) * 16 + d) }
      | _ \<Rightarrow> None)"

text \<open>
  The text after a backslash-u escape with code unit \<open>u\<close>: a surrogate pair is one code point,
  a lone surrogate is U+FFFD. Returns the bytes and the number of further bytes consumed.
\<close>

definition unescape_unit :: "int \<Rightarrow> string \<Rightarrow> string \<times> nat" where
  "unescape_unit u s =
     (if 0xD800 \<le> u \<and> u < 0xDC00
      then (case (if take 2 s = [CHR 0x5C, CHR ''u''] then hex4 (take 4 (drop 2 s)) else None) of
              Some l \<Rightarrow> if 0xDC00 \<le> l \<and> l < 0xE000
                        then (utf8 (0x10000 + (u - 0xD800) * 1024 + (l - 0xDC00)), 6)
                        else (utf8 0xFFFD, 0)
            | None \<Rightarrow> (utf8 0xFFFD, 0))
      else if 0xDC00 \<le> u \<and> u < 0xE000 then (utf8 0xFFFD, 0)
      else (utf8 u, 0))"

definition simple_escape :: "char \<Rightarrow> char option" where
  "simple_escape c =
     map_of [(CHR 0x22, CHR 0x22), (CHR 0x5C, CHR 0x5C), (CHR ''/'', CHR ''/''),
             (CHR ''b'', CHR 0x08), (CHR ''f'', CHR 0x0C), (CHR ''n'', CHR 0x0A),
             (CHR ''r'', CHR 0x0D), (CHR ''t'', CHR 0x09)] c"

text \<open>The rest of a string literal, after its opening quote.\<close>

function parse_string :: "string \<Rightarrow> (string \<times> string) option" where
  "parse_string [] = None"
| "parse_string (c # s) =
     (if c = CHR 0x22 then Some ([], s)
      else if c = CHR 0x5C then
        (case s of
           [] \<Rightarrow> None
         | d # s' \<Rightarrow>
             if d = CHR ''u'' then
               (case hex4 (take 4 s') of
                  None \<Rightarrow> None
                | Some u \<Rightarrow>
                    (case unescape_unit u (drop 4 s') of
                       (w, k) \<Rightarrow> map_option (apfst ((@) w)) (parse_string (drop (4 + k) s'))))
             else
               (case simple_escape d of
                  None \<Rightarrow> None
                | Some x \<Rightarrow> map_option (apfst ((#) x)) (parse_string s')))
      else if (of_char c :: int) < 32 then None
      else map_option (apfst ((#) c)) (parse_string s))"
  by pat_completeness auto
termination
  by (relation "measure length") auto

declare parse_string.simps(2) [simp del]

text \<open>Numbers: the literal's exact value, with no trailing zeros in the mantissa.\<close>

function norm_num :: "int \<Rightarrow> int \<Rightarrow> int \<times> int" where
  "norm_num m e =
     (if m = 0 then (0, 0)
      else if m mod 10 = 0 then norm_num (m div 10) (e + 1) else (m, e))"
  by pat_completeness auto
termination
  by (relation "measure (\<lambda>(m, e). nat \<bar>m\<bar>)") auto

declare norm_num.simps [simp del]

definition parse_frac :: "string \<Rightarrow> (string \<times> string) option" where
  "parse_frac s =
     (if take 1 s = ''.'' then
        (if takeWhile is_digit (drop 1 s) = [] then None
         else Some (takeWhile is_digit (drop 1 s), dropWhile is_digit (drop 1 s)))
      else Some ([], s))"

definition parse_exp :: "string \<Rightarrow> (int \<times> string) option" where
  "parse_exp s =
     (if take 1 s = ''e'' \<or> take 1 s = ''E'' then
        (let r = drop 1 s;
             sg = (if take 1 r = ''-'' then -1 else 1);
             r = (if take 1 r = ''-'' \<or> take 1 r = ''+'' then drop 1 r else r);
             ds = takeWhile is_digit r
         in if ds = [] then None else Some (sg * int_of_digits ds, dropWhile is_digit r))
      else Some (0, s))"

definition parse_number :: "string \<Rightarrow> (gval \<times> string) option" where
  "parse_number s =
     (let neg = (take 1 s = ''-''); t = (if neg then drop 1 s else s); ip = takeWhile is_digit t
      in if ip = [] \<or> (hd ip = CHR ''0'' \<and> length ip \<noteq> 1) then None
         else
           do { (fp, r) \<leftarrow> parse_frac (dropWhile is_digit t);
                (e, r) \<leftarrow> parse_exp r;
                (let m = int_of_digits (ip @ fp);
                     (m, e) = norm_num (if neg then - m else m) (e - int (length fp))
                 in Some (GNum m e, r)) })"

definition parse_literal :: "string \<Rightarrow> gval \<Rightarrow> string \<Rightarrow> (gval \<times> string) option" where
  "parse_literal w v s = (if prefix w s then Some (v, drop (length w) s) else None)"

text \<open>Later duplicates of a key overwrite earlier ones.\<close>

definition obj_of :: "(string \<times> gval) list \<Rightarrow> gval" where
  "obj_of kvs = GObj (foldl (\<lambda>m (k, v). AList.update k v m) [] kvs)"

fun parse_val :: "nat \<Rightarrow> string \<Rightarrow> (gval \<times> string) option"
  and parse_elems :: "nat \<Rightarrow> string \<Rightarrow> (gval list \<times> string) option"
  and parse_members :: "nat \<Rightarrow> string \<Rightarrow> ((string \<times> gval) list \<times> string) option"
where
  "parse_val 0 s = None"
| "parse_val (Suc n) s =
     (case skip_ws s of
        [] \<Rightarrow> None
      | c # r \<Rightarrow>
          if c = CHR 0x22 then map_option (apfst GStr) (parse_string r)
          else if c = CHR ''['' then
            (if take 1 (skip_ws r) = '']'' then Some (GArr [], drop 1 (skip_ws r))
             else map_option (apfst GArr) (parse_elems n r))
          else if c = CHR ''{'' then
            (if take 1 (skip_ws r) = ''}'' then Some (GObj [], drop 1 (skip_ws r))
             else map_option (apfst obj_of) (parse_members n r))
          else if c = CHR ''t'' then parse_literal ''true'' (GBool True) (c # r)
          else if c = CHR ''f'' then parse_literal ''false'' (GBool False) (c # r)
          else if c = CHR ''n'' then parse_literal ''null'' GNull (c # r)
          else parse_number (c # r))"
| "parse_elems 0 s = None"
| "parse_elems (Suc n) s =
     (case parse_val n s of
        None \<Rightarrow> None
      | Some (v, r) \<Rightarrow>
          (case skip_ws r of
             [] \<Rightarrow> None
           | c # r \<Rightarrow>
               if c = CHR '']'' then Some ([v], r)
               else if c = CHR '','' then map_option (apfst ((#) v)) (parse_elems n r)
               else None))"
| "parse_members 0 s = None"
| "parse_members (Suc n) s =
     (case skip_ws s of
        [] \<Rightarrow> None
      | q # r \<Rightarrow>
          if q \<noteq> CHR 0x22 then None else
          (case parse_string r of
             None \<Rightarrow> None
           | Some (k, r) \<Rightarrow>
               (case skip_ws r of
                  [] \<Rightarrow> None
                | d # r \<Rightarrow>
                    if d \<noteq> CHR '':'' then None else
                    (case parse_val n r of
                       None \<Rightarrow> None
                     | Some (v, r) \<Rightarrow>
                         (case skip_ws r of
                            [] \<Rightarrow> None
                          | c # r \<Rightarrow>
                              if c = CHR ''}'' then Some ([(k, v)], r)
                              else if c = CHR '','' then
                                map_option (apfst ((#) (k, v))) (parse_members n r)
                              else None)))))"

text \<open>A complete text: one value with white space around it.\<close>

definition unmarshal :: "string \<Rightarrow> gval option" where
  "unmarshal s =
     (case parse_val (2 * length s) s of
        Some (v, r) \<Rightarrow> if skip_ws r = [] then Some v else None
      | None \<Rightarrow> None)"

text \<open>\<open>Unmarshal\<close> into a \<open>map[string]interface{}\<close>: an object, or \<open>null\<close> for the nil map.\<close>

definition unmarshal_map :: "string \<Rightarrow> (string \<times> gval) list option" where
  "unmarshal_map s =
     (case unmarshal s of
        Some (GObj kvs) \<Rightarrow> Some kvs
      | Some GNull \<Rightarrow> Some []
      | _ \<Rightarrow> None)"

text \<open>
  The members of an object as the text has them, repeated keys included; \<open>null\<close> has none. The
  decoders of structs and of \<open>map[string]string\<close> look at each: a value of the wrong type is an
  error even when a later member overwrites it, and \<open>null\<close> sets nothing (in a map: the empty string).
  A struct field is matched by its name under Unicode case folding.
\<close>

definition unmarshal_members :: "string \<Rightarrow> (string \<times> gval) list option" where
  "unmarshal_members s =
     (case unmarshal s of
        Some (GObj m) \<Rightarrow>
          (if m = [] then Some []
           else map_option fst (parse_members (2 * length s - 1) (drop 1 (skip_ws s))))
      | Some GNull \<Rightarrow> Some []
      | _ \<Rightarrow> None)"

fun fold_name :: "string \<Rightarrow> string" where
  "fold_name [] = []"
| "fold_name (c # s) =
     (if c = CHR 0xC5 \<and> take 1 s = [CHR 0xBF] then CHR ''S'' # fold_name (drop 1 s)
      else if c = CHR 0xE2 \<and> take 2 s = [CHR 0x84, CHR 0xAA] then CHR ''K'' # fold_name (drop 2 s)
      else upper_char c # fold_name s)"

definition struct_string :: "string \<Rightarrow> (string \<times> gval) list \<Rightarrow> string option" where
  "struct_string name ms =
     foldl (\<lambda>acc (k, v).
       case acc of
         None \<Rightarrow> None
       | Some old \<Rightarrow>
           if fold_name k \<noteq> fold_name name then Some old
           else (case v of GStr t \<Rightarrow> Some t | GNull \<Rightarrow> Some old | _ \<Rightarrow> None)) (Some []) ms"

definition unmarshal_str_map :: "string \<Rightarrow> (string \<times> string) list option" where
  "unmarshal_str_map s =
     (case unmarshal_members s of
        None \<Rightarrow> None
      | Some ms \<Rightarrow>
          foldl (\<lambda>acc (k, v).
            case acc of
              None \<Rightarrow> None
            | Some m \<Rightarrow>
                (case v of GStr t \<Rightarrow> Some (AList.update k t m) | GNull \<Rightarrow> Some (AList.update k [] m)
                 | _ \<Rightarrow> None)) (Some []) ms)"

text \<open>
  A \<open>json.RawMessage\<close> inside a marshalled value: nil is \<open>null\<close>, other bytes must be valid JSON, lose their white space
  outside strings and have the HTML characters and U+2028, U+2029 escaped. The flag says whether
  the position is inside a string literal.
\<close>

fun compact :: "bool \<Rightarrow> string \<Rightarrow> string" where
  "compact q [] = []"
| "compact True (c # s) =
     (if c = CHR 0x5C then (case s of [] \<Rightarrow> [c] | d # s' \<Rightarrow> c # d # compact True s')
      else if c = CHR 0x22 then c # compact False s
      else if c = CHR ''<'' \<or> c = CHR ''>'' \<or> c = CHR 0x26 then esc_char c @ compact True s
      else if c = CHR 0xE2 \<and> (take 2 s = [CHR 0x80, CHR 0xA8] \<or> take 2 s = [CHR 0x80, CHR 0xA9])
      then esc_string (c # take 2 s) @ compact True (drop 2 s)
      else c # compact True s)"
| "compact False (c # s) =
     (if is_json_ws c then compact False s
      else if c = CHR 0x22 then c # compact True s else c # compact False s)"

definition marshal_raw :: "string \<Rightarrow> string option" where
  "marshal_raw s =
     (if s = [] then Some ''null''
      else if unmarshal s = None then None else Some (compact False s))"

text \<open>
  \<open>Unmarshal\<close> into \<open>map[string]json.RawMessage\<close> keeps the text of every value, without the
  white space around it.
\<close>

definition raw_value :: "nat \<Rightarrow> string \<Rightarrow> (string \<times> string) option" where
  "raw_value n s =
     (case parse_val n (skip_ws s) of
        None \<Rightarrow> None
      | Some (v, r) \<Rightarrow> Some (take (length (skip_ws s) - length r) (skip_ws s), r))"

fun raw_members :: "nat \<Rightarrow> string \<Rightarrow> (string \<times> string) list \<Rightarrow> (string \<times> string) list" where
  "raw_members 0 s acc = acc"
| "raw_members (Suc n) s acc =
     (case skip_ws s of
        [] \<Rightarrow> acc
      | q # r \<Rightarrow>
          (case parse_string r of
             None \<Rightarrow> acc
           | Some (k, r) \<Rightarrow>
               (case raw_value (2 * length r) (drop 1 (skip_ws r)) of
                  None \<Rightarrow> acc
                | Some (t, r) \<Rightarrow> raw_members n (drop 1 (skip_ws r)) (AList.update k t acc))))"

definition unmarshal_raw_map :: "string \<Rightarrow> (string \<times> string) list option" where
  "unmarshal_raw_map s =
     (case unmarshal s of
        Some (GObj kvs) \<Rightarrow> Some (raw_members (length s) (drop 1 (skip_ws s)) [])
      | Some GNull \<Rightarrow> Some []
      | _ \<Rightarrow> None)"

fun raw_elems :: "nat \<Rightarrow> string \<Rightarrow> string list" where
  "raw_elems 0 s = []"
| "raw_elems (Suc n) s =
     (case raw_value (2 * length s) s of
        None \<Rightarrow> []
      | Some (t, r) \<Rightarrow> t # raw_elems n (drop 1 (skip_ws r)))"

text \<open>\<open>Unmarshal\<close> into \<open>[]map[string]json.RawMessage\<close>: an array of objects or nulls.\<close>

definition unmarshal_raw_maps :: "string \<Rightarrow> (string \<times> string) list list option" where
  "unmarshal_raw_maps s =
     (case unmarshal s of
        Some (GArr vs) \<Rightarrow> those (map unmarshal_raw_map (raw_elems (length s) (drop 1 (skip_ws s))))
      | Some GNull \<Rightarrow> Some []
      | _ \<Rightarrow> None)"

subsection \<open>Strings are read back as they were printed\<close>

lemma of_char_bounds: "0 \<le> (of_char c :: int)" "(of_char c :: int) < 256"
proof -
  have "(of_char c :: int) mod 256 = of_char c" by simp
  then show "0 \<le> (of_char c :: int)" "(of_char c :: int) < 256"
    by (metis pos_mod_sign pos_mod_bound zero_less_numeral)+
qed

lemma hex_val_hex_char: "0 \<le> k \<Longrightarrow> k < 16 \<Longrightarrow> hex_val (hex_char k) = Some k"
  by (simp add: hex_val_def hex_char_def of_char_of take_bit_int_eq_self)

lemma hex4_byte:
  assumes "0 \<le> n" "n < 256"
  shows "hex4 [CHR ''0'', CHR ''0'', hex_char (n div 16), hex_char (n mod 16)] = Some n"
proof -
  have "0 \<le> n div 16" "n div 16 < 16" "0 \<le> n mod 16" "n mod 16 < 16" using assms by linarith+
  moreover have "hex_val (CHR ''0'') = Some 0" by (simp add: hex_val_def)
  ultimately show ?thesis by (simp add: hex4_def hex_val_hex_char)
qed

lemma append_single: "(@) [c] = (#) c"
  by auto

lemma parse_string_esc_char:
  "parse_string (esc_char c @ t) = map_option (apfst ((#) c)) (parse_string t)"
proof -
  define n where "n = (of_char c :: int)"
  have n: "0 \<le> n" "n < 256" unfolding n_def by (rule of_char_bounds)+
  have c: "c = char_of n" by (simp add: n_def)
  consider "c = CHR 0x22 \<or> c = CHR 0x5C" | "n \<in> {8, 12, 10, 13, 9}"
    | "c \<noteq> CHR 0x22" "c \<noteq> CHR 0x5C" "n \<notin> {8, 12, 10, 13, 9}"
      "n < 32 \<or> c = CHR ''<'' \<or> c = CHR ''>'' \<or> c = CHR 0x26"
    | "c \<noteq> CHR 0x22" "c \<noteq> CHR 0x5C" "\<not> n < 32" "c \<noteq> CHR ''<''" "c \<noteq> CHR ''>''" "c \<noteq> CHR 0x26"
    by auto
  then show ?thesis
  proof cases
    case 1
    then show ?thesis by (auto simp: esc_char_def parse_string.simps simple_escape_def)
  next
    case 2
    then show ?thesis
      unfolding c by (auto simp: esc_char_def parse_string.simps simple_escape_def char_of_def)
  next
    case 3
    then have "n < 128" by (auto simp: n_def)
    then have "unescape_unit n t = ([c], 0)" using n by (simp add: unescape_unit_def utf8_def c)
    moreover have "esc_char c = [CHR 0x5C, CHR ''u'', CHR ''0'', CHR ''0'', hex_char (n div 16), hex_char (n mod 16)]"
      using 3 by (simp add: esc_char_def Let_def flip: n_def)
    ultimately show ?thesis using hex4_byte [OF n] by (simp add: parse_string.simps append_single)
  next
    case 4
    then have "esc_char c = [c]"
      by (auto simp: esc_char_def Let_def simp flip: n_def)
    with 4 show ?thesis by (simp add: parse_string.simps flip: n_def)
  qed
qed

lemma parse_string_u202x:
  assumes "d = CHR ''8'' \<and> x = CHR 0xA8 \<or> d = CHR ''9'' \<and> x = CHR 0xA9"
  shows "parse_string ([CHR 0x5C, CHR ''u'', CHR ''2'', CHR ''0'', CHR ''2'', d] @ t) =
    map_option (apfst ((@) [CHR 0xE2, CHR 0x80, x])) (parse_string t)"
  using assms
  by (auto simp: parse_string.simps hex4_def hex_val_def unescape_unit_def utf8_def char_of_def)

lemma parse_string_esc:
  "parse_string (esc_string s @ CHR 0x22 # r) = Some (s, r)"
proof (induction s rule: esc_string.induct)
  case 1
  then show ?case by (simp add: parse_string.simps)
next
  case (2 c s)
  have split: "take 2 s = [a, b] \<Longrightarrow> s = a # b # drop 2 s" for a b
    by (metis append_Cons append_Nil append_take_drop_id)
  consider "c = CHR 0xE2 \<and> take 2 s = [CHR 0x80, CHR 0xA8]"
    | "c = CHR 0xE2 \<and> take 2 s = [CHR 0x80, CHR 0xA9]"
    | "\<not> (c = CHR 0xE2 \<and> take 2 s = [CHR 0x80, CHR 0xA8])"
      "\<not> (c = CHR 0xE2 \<and> take 2 s = [CHR 0x80, CHR 0xA9])" by blast
  then show ?case
  proof cases
    case 1
    with 2(1) have ih: "parse_string (esc_string (drop 2 s) @ CHR 0x22 # r) = Some (drop 2 s, r)" by blast
    have "s = CHR 0x80 # CHR 0xA8 # drop 2 s" using 1 by (intro split) simp
    then show ?thesis using 1 ih
      by (simp add: parse_string_u202x [where d = "CHR ''8''" and x = "CHR 0xA8", simplified])
  next
    case 2
    with "2.IH"(2) have ih: "parse_string (esc_string (drop 2 s) @ CHR 0x22 # r) = Some (drop 2 s, r)" by simp
    have "s = CHR 0x80 # CHR 0xA9 # drop 2 s" using 2 by (intro split) simp
    then show ?thesis using 2 ih
      by (simp add: parse_string_u202x [where d = "CHR ''9''" and x = "CHR 0xA9", simplified])
  next
    case 3
    with "2.IH"(3) have ih: "parse_string (esc_string s @ CHR 0x22 # r) = Some (s, r)" by blast
    have "esc_string (c # s) = esc_char c @ esc_string s" using 3 by (simp only: esc_string.simps if_False)
    with ih show ?thesis by (simp add: parse_string_esc_char)
  qed
qed

lemma parse_string_shorter: "parse_string s = Some (w, r) \<Longrightarrow> length r < length s"
proof (induction s arbitrary: w r rule: parse_string.induct)
  case 1
  then show ?case by simp
next
  case (2 c s)
  consider "c = CHR 0x22" | "c \<noteq> CHR 0x22" "c \<noteq> CHR 0x5C"
    | d s' where "c = CHR 0x5C" "s = d # s'" "d \<noteq> CHR ''u''"
    | s' where "c = CHR 0x5C" "s = CHR ''u'' # s'" | "c = CHR 0x5C" "s = []"
    by (cases s) auto
  then show ?case
  proof cases
    case 1
    with "2.prems" show ?thesis by (simp add: parse_string.simps)
  next
    case 2
    with "2.prems" obtain w' where "parse_string s = Some (w', r)" "\<not> of_char c < (32::int)"
      by (auto simp: parse_string.simps apfst_def split: if_splits)
    with 2 show ?thesis using "2.IH"(3) by force
  next
    case 3
    with "2.prems" obtain w' x where "parse_string s' = Some (w', r)" "simple_escape d = Some x"
      by (auto simp: parse_string.simps apfst_def split: if_splits option.splits)
    with 3 show ?thesis using "2.IH"(2) by fastforce
  next
    case 4
    with "2.prems" obtain u v k w' where a: "hex4 (take 4 s') = Some u" "unescape_unit u (drop 4 s') = (v, k)"
        "parse_string (drop (4 + k) s') = Some (w', r)"
      by (auto simp: parse_string.simps apfst_def split: if_splits option.splits prod.splits)
    have "length r < length (drop (4 + k) s')"
      by (rule "2.IH"(1) [OF _ 4 refl a(1) a(2) [symmetric] a(3)]) (simp add: 4)
    with 4 show ?thesis by simp
  next
    case 5
    with "2.prems" show ?thesis by (simp add: parse_string.simps)
  qed
qed


subsection \<open>The fuel of the parser is always enough\<close>

lemma skip_ws_shorter: "length (skip_ws s) \<le> length s"
  by (simp add: skip_ws_def length_dropWhile_le)

lemma parse_literal_shorter: "parse_literal w v s = Some (x, r) \<Longrightarrow> w \<noteq> [] \<Longrightarrow> length r < length s"
  by (auto simp: parse_literal_def split: if_splits dest!: prefix_length_le)
    (metis diff_less length_greater_0_conv le_zero_eq list.size(3) neq0_conv)

lemma dropWhile_shorter: "length (dropWhile P s) + length (takeWhile P s) = length s"
  by (metis add.commute length_append takeWhile_dropWhile_id)

lemma parse_exp_shorter: "parse_exp s = Some (e, r) \<Longrightarrow> length r \<le> length s"
  by (auto simp: parse_exp_def Let_def split: if_splits intro: le_trans [OF length_dropWhile_le])

lemma parse_frac_shorter: "parse_frac s = Some (e, r) \<Longrightarrow> length r \<le> length s"
  by (auto simp: parse_frac_def split: if_splits intro: le_trans [OF length_dropWhile_le])

lemma parse_number_shorter:
  assumes "parse_number s = Some (v, r)"
  shows "length r < length s"
proof -
  define t where "t = (if take 1 s = ''-'' then drop 1 s else s)"
  have t: "length t \<le> length s" by (simp add: t_def)
  from assms obtain fp u e where ne: "takeWhile is_digit t \<noteq> []"
    and p: "parse_frac (dropWhile is_digit t) = Some (fp, u)" "parse_exp u = Some (e, r)"
    unfolding parse_number_def Let_def t_def [symmetric]
    by (auto split: if_splits prod.splits bind_splits)
  have "length r \<le> length (dropWhile is_digit t)"
    using parse_frac_shorter [OF p(1)] parse_exp_shorter [OF p(2)] by simp
  moreover have "0 < length (takeWhile is_digit t)" using ne by simp
  ultimately show ?thesis using t dropWhile_shorter [of is_digit t] by linarith
qed

lemma parse_shorter:
  "parse_val n s = Some (v, r) \<Longrightarrow> length r < length s"
  "parse_elems n s = Some (vs, r) \<Longrightarrow> length r < length s"
  "parse_members n s = Some (kvs, r) \<Longrightarrow> length r < length s"
proof (induction n s and n s and n s arbitrary: v r and vs r and kvs r
    rule: parse_val_parse_elems_parse_members.induct)
  case (2 n s)
  obtain c t where ct: "skip_ws s = c # t" using "2.prems" by (cases "skip_ws s") auto
  have l: "length (c # t) \<le> length s" using skip_ws_shorter [of s] ct by simp
  have l2: "length (skip_ws t) \<le> length t" by (rule skip_ws_shorter)
  have one: "take 1 (skip_ws t) = [x] \<Longrightarrow> length (drop 1 (skip_ws t)) \<le> length t" for x
    using l2 by simp
  consider "c = CHR 0x22" | "c = CHR ''[''" | "c = CHR ''{''" | "c = CHR ''t''" | "c = CHR ''f''"
    | "c = CHR ''n''" | "c \<notin> {CHR 0x22, CHR ''['', CHR ''{'', CHR ''t'', CHR ''f'', CHR ''n''}" by auto
  then have "length r < length (c # t)"
  proof cases
    case 1
    then show ?thesis using "2.prems" ct by (auto simp: apfst_def dest!: parse_string_shorter)
  next
    case 2
    then show ?thesis using "2.prems" ct "2.IH"(1) [OF ct] one
      by (auto simp: apfst_def less_Suc_eq_le split: if_splits)
  next
    case 3
    then show ?thesis using "2.prems" ct "2.IH"(2) [OF ct] one
      by (auto simp: apfst_def less_Suc_eq_le split: if_splits)
  next
    case 7
    then show ?thesis using "2.prems" ct parse_number_shorter [of "c # t"] by auto
  qed (use "2.prems" ct in \<open>auto dest!: parse_literal_shorter\<close>)
  with l show ?case by simp
next
  case (4 n s)
  from "4.prems" obtain v u c t where p: "parse_val n s = Some (v, u)" "skip_ws u = c # t"
    and q: "c = CHR '']'' \<and> r = t \<or> c = CHR '','' \<and> (\<exists>vs. parse_elems n t = Some (vs, r))"
    by (auto simp: apfst_def split: option.splits list.splits if_splits)
  have "length (c # t) \<le> length u" using p skip_ws_shorter [of u] by simp
  moreover have "length u < length s" using "4.IH"(1) p by blast
  moreover have "length r \<le> length t" using q "4.IH"(2) [OF p(1) refl p(2)] by force
  ultimately show ?case by simp
next
  case (6 n s)
  from "6.prems" obtain q t k u d w v x c y where
    p: "skip_ws s = q # t" "\<not> q \<noteq> CHR 0x22" "parse_string t = Some (k, u)" "skip_ws u = d # w"
       "\<not> d \<noteq> CHR '':''" "parse_val n w = Some (v, x)" "skip_ws x = c # y"
    and q: "c = CHR ''}'' \<and> r = y \<or> c \<noteq> CHR ''}'' \<and> c = CHR '','' \<and> (\<exists>vs. parse_members n y = Some (vs, r))"
    by (auto simp: apfst_def split: option.splits list.splits if_splits)
  have "length (q # t) \<le> length s" "length (d # w) \<le> length u" "length (c # y) \<le> length x"
    using p skip_ws_shorter by metis+
  moreover have "length u < length t" using p(3) by (rule parse_string_shorter)
  moreover have "length x < length w" by (rule "6.IH"(1) [OF p(1,2,3) refl p(4,5,6)])
  moreover have "length r \<le> length y"
    using q "6.IH"(2) [OF p(1,2,3) refl p(4,5,6) refl p(7)] by force
  ultimately show ?case by simp
qed simp_all
lemma parse_fuel_step:
  "2 * length s \<le> n \<Longrightarrow> parse_val (Suc n) s = parse_val n s"
  "2 * length s + 1 \<le> n \<Longrightarrow> parse_elems (Suc n) s = parse_elems n s"
  "2 * length s + 1 \<le> n \<Longrightarrow> parse_members (Suc n) s = parse_members n s"
proof (induction n s and n s and n s rule: parse_val_parse_elems_parse_members.induct)
  case (1 s)
  then show ?case by (simp add: skip_ws_def)
next
  case (2 n s)
  show ?case
  proof (cases "skip_ws s")
    case Nil
    then show ?thesis by simp
  next
    case (Cons c t)
    have "2 * length t + 1 \<le> n"
      using "2.prems" skip_ws_shorter [of s] Cons by simp
    then show ?thesis
      using Cons "2.IH"(1) [OF Cons] "2.IH"(2) [OF Cons]
      by (simp del: parse_val.simps parse_elems.simps(2) parse_members.simps(2)
          add: parse_val.simps(2) [of "Suc n" s] parse_val.simps(2) [of n s])
  qed
next
  case (4 n s)
  then have l: "2 * length s \<le> n" by simp
  show ?case
  proof (cases "parse_val n s")
    case None
    with l "4.IH"(1) show ?thesis by (simp del: parse_val.simps)
  next
    case (Some p)
    obtain v r where p: "p = (v, r)" by (cases p)
    have v: "parse_val (Suc n) s = Some (v, r)" using "4.IH"(1) [OF l] Some p by simp
    show ?thesis
    proof (cases "skip_ws r")
      case Nil
      then show ?thesis using v Some p by (simp del: parse_val.simps)
    next
      case (Cons c t)
      have "length (c # t) \<le> length r" using skip_ws_shorter [of r] Cons by simp
      then have "2 * length t + 1 \<le> n"
        using l parse_shorter(1) [OF Some [unfolded p]] by simp
      then show ?thesis
        using v Some p Cons "4.IH"(2) [OF Some p [symmetric] Cons]
        by (simp del: parse_val.simps parse_elems.simps(2) add: parse_elems.simps(2) [of "Suc n" s]
            parse_elems.simps(2) [of n s])
    qed
  qed
next
  case (6 n s)
  show ?case
  proof (cases "skip_ws s")
    case Nil
    then show ?thesis by simp
  next
    case s: (Cons q t)
    have lt: "length (q # t) \<le> length s" using skip_ws_shorter [of s] s by simp
    show ?thesis
    proof (cases "parse_string t")
      case None
      then show ?thesis using s by (simp del: parse_val.simps)
    next
      case (Some p)
      obtain k r where ps: "parse_string t = Some (k, r)" using Some by (cases p) simp
      show ?thesis
      proof (cases "skip_ws r")
        case Nil
        then show ?thesis using s ps by (simp del: parse_val.simps)
      next
        case r: (Cons d w)
        have lw: "length (d # w) \<le> length r" using skip_ws_shorter [of r] r by simp
        have w: "2 * length w \<le> n"
          using lt lw parse_string_shorter [OF ps] "6.prems" by simp
        show ?thesis
        proof (cases "q = CHR 0x22 \<and> d = CHR '':''")
          case False
          then show ?thesis using s ps r by (auto simp del: parse_val.simps)
        next
          case True
          then have nq: "\<not> q \<noteq> CHR 0x22" "\<not> d \<noteq> CHR '':''" by simp_all
          have iv: "parse_val (Suc n) w = parse_val n w"
            using "6.IH"(1) [OF s nq(1) ps refl r nq(2) w] .
          show ?thesis
          proof (cases "parse_val n w")
            case None
            then show ?thesis using s ps r iv by (simp del: parse_val.simps)
          next
            case (Some p)
            obtain v x where pv: "parse_val n w = Some (v, x)" using Some by (cases p) simp
            show ?thesis
            proof (cases "skip_ws x")
              case Nil
              then show ?thesis using s ps r pv iv by (simp del: parse_val.simps)
            next
              case x: (Cons c y)
              have "length (c # y) \<le> length x" using skip_ws_shorter [of x] x by simp
              then have "2 * length y + 1 \<le> n"
                using w parse_shorter(1) [OF pv] by simp
              then have im: "c = CHR '','' \<Longrightarrow> parse_members (Suc n) y = parse_members n y"
                using "6.IH"(2) [OF s nq(1) ps refl r nq(2) pv refl x] by simp
              show ?thesis using s ps r pv iv x im
                by (simp del: parse_val.simps parse_members.simps(2)
                    add: parse_members.simps(2) [of "Suc n" s] parse_members.simps(2) [of n s])
            qed
          qed
        qed
      qed
    qed
  qed
qed (simp_all)

lemma parse_val_fuel: "2 * length s \<le> n \<Longrightarrow> parse_val n s = parse_val (2 * length s) s"
  by (induction n rule: dec_induct) (simp_all add: parse_fuel_step del: parse_val.simps)

end
