(* ===== verification/Go_Json_Roundtrip.thy ===== *)
theory Go_Json_Roundtrip
  imports Go_Json
begin

text \<open>
  Parsing inverts printing: \<open>unmarshal (marshal v)\<close> is \<open>v\<close> with its maps in key order and
  its integers as the \<open>float64\<close> values \<open>Unmarshal\<close> makes of them, for every value without a
  literal \<open>GNum\<close>. The proof goes through \<open>reads\<close>: a text is read as a value in front of any
  delimiter or white space, with any sufficient fuel.
\<close>

primrec norm_json :: "gval \<Rightarrow> gval" where
  "norm_json GNull = GNull"
| "norm_json (GBool b) = GBool b"
| "norm_json (GStr s) = GStr s"
| "norm_json (GNum m e) = GNum m e"
| "norm_json (GInt i) = (case norm_num i 0 of (m, e) \<Rightarrow> GNum m e)"
| "norm_json (GInt64 i) = (case norm_num i 0 of (m, e) \<Rightarrow> GNum m e)"
| "norm_json (GArr vs) = GArr (map norm_json vs)"
| "norm_json (GStrs ws) = GArr (map GStr ws)"
| "norm_json (GObj kvs) = GObj (sort_key fst (map (map_prod (\<lambda>k. k) norm_json) kvs))"
| "norm_json (GStrMap kvs) = GObj (sort_key fst (map (map_prod (\<lambda>k. k) GStr) kvs))"

primrec json_plain :: "gval \<Rightarrow> bool" where
  "json_plain GNull = True"
| "json_plain (GBool b) = True"
| "json_plain (GStr s) = True"
| "json_plain (GNum m e) = False"
| "json_plain (GInt i) = True"
| "json_plain (GInt64 i) = True"
| "json_plain (GArr vs) = list_all (\<lambda>b. b) (map json_plain vs)"
| "json_plain (GStrs ws) = True"
| "json_plain (GObj kvs) =
     (distinct (map fst kvs) \<and> list_all snd (map (map_prod (\<lambda>k. k) json_plain) kvs))"
| "json_plain (GStrMap kvs) = distinct (map fst kvs)"

definition delim :: "string \<Rightarrow> bool" where
  "delim r \<longleftrightarrow> r = [] \<or> hd r \<in> {CHR '','', CHR '']'', CHR ''}''} \<or> is_json_ws (hd r)"

definition reads :: "string \<Rightarrow> gval \<Rightarrow> bool" where
  "reads t v \<longleftrightarrow>
     t \<noteq> [] \<and> \<not> is_json_ws (hd t) \<and> hd t \<noteq> CHR '']'' \<and> hd t \<noteq> CHR ''}'' \<and>
     (\<forall>n r. delim r \<longrightarrow> 2 * length (t @ r) \<le> n \<longrightarrow> parse_val n (t @ r) = Some (v, r))"

lemma skip_ws_hd: "t \<noteq> [] \<Longrightarrow> \<not> is_json_ws (hd t) \<Longrightarrow> skip_ws (t @ r) = t @ r"
  by (cases t) (auto simp: skip_ws_def)

lemma skip_ws_Cons: "\<not> is_json_ws c \<Longrightarrow> skip_ws (c # r) = c # r"
  by (simp add: skip_ws_def)

lemma readsI:
  assumes "t = c # u" "\<not> is_json_ws c" "c \<noteq> CHR '']''" "c \<noteq> CHR ''}''"
    and "\<And>n r. delim r \<Longrightarrow> 2 * length (t @ r) \<le> Suc n \<Longrightarrow> parse_val (Suc n) (t @ r) = Some (v, r)"
  shows "reads t v"
  unfolding reads_def
proof (intro conjI allI impI)
  fix n r assume "delim r" "2 * length (t @ r) \<le> n"
  then show "parse_val n (t @ r) = Some (v, r)"
    using assms(1,5) by (cases n) auto
qed (use assms in auto)

lemma json_punct [simp]:
  "\<not> is_json_ws (CHR 0x22)" "\<not> is_json_ws (CHR '','')" "\<not> is_json_ws (CHR '']'')"
  "\<not> is_json_ws (CHR ''}'')" "\<not> is_json_ws (CHR '':'')" "\<not> is_json_ws (CHR ''['')" "\<not> is_json_ws (CHR ''{'')"
  "\<not> is_json_ws (CHR ''n'')" "\<not> is_json_ws (CHR ''t'')" "\<not> is_json_ws (CHR ''f'')" "\<not> is_json_ws (CHR ''-'')"
  by (simp_all add: is_json_ws_def)

lemma digit_not_ws: "is_digit c \<Longrightarrow> \<not> is_json_ws c"
  by (auto simp: is_json_ws_def is_digit_def)

lemma reads_quote: "reads (quote_string s) (GStr s)"
  by (rule readsI [of _ "CHR 0x22" "esc_string s @ [CHR 0x22]"])
    (simp_all add: quote_string_def skip_ws_Cons parse_string_esc)

lemma reads_literal:
  "reads ''null'' GNull" "reads ''true'' (GBool True)" "reads ''false'' (GBool False)"
  by (rule readsI [OF refl]; simp add: skip_ws_Cons parse_literal_def)+

lemma show_dec_hd: "0 < n \<Longrightarrow> hd (show_dec n) \<noteq> CHR ''0''"
proof (induction n rule: show_dec.induct)
  case (1 n)
  show ?case
  proof (cases "n < 10")
    case True
    have "digit_char n \<noteq> CHR ''0''"
    proof
      assume "digit_char n = CHR ''0''"
      then have "of_char (digit_char n) = (48 :: int)" by simp
      with of_char_digit [of n] "1.prems" True show False by simp
    qed
    with True show ?thesis by (subst show_dec.simps) simp
  next
    case False
    then have "0 < n div 10" by (simp add: pos_imp_zdiv_pos_iff)
    with False "1.IH" show ?thesis by (subst show_dec.simps) simp
  qed
qed

lemma parse_number_show_dec:
  assumes "0 \<le> n" "delim r"
  shows "parse_number (show_dec n @ r) = Some (case norm_num n 0 of (m, e) \<Rightarrow> GNum m e, r)"
    and "parse_number (CHR ''-'' # show_dec n @ r) = Some (case norm_num (- n) 0 of (m, e) \<Rightarrow> GNum m e, r)"
proof -
  have dig: "\<forall>c\<in>set (show_dec n). is_digit c" using show_dec_digits [OF assms(1)] by (simp add: list_all_iff)
  have nd: "r = [] \<or> \<not> is_digit (hd r)" using assms(2) by (auto simp: delim_def is_digit_def is_json_ws_def)
  have tw: "takeWhile is_digit (show_dec n @ r) = show_dec n" "dropWhile is_digit (show_dec n @ r) = r"
    using dig nd by (cases r; simp)+
  have z: "\<not> (hd (show_dec n) = CHR ''0'' \<and> length (show_dec n) \<noteq> 1)"
  proof (cases "n = 0")
    case True
    then show ?thesis by (simp add: show_dec.simps)
  next
    case False
    with assms(1) show_dec_hd [of n] show ?thesis by simp
  qed
  have fe: "parse_frac r = Some ([], r)" "parse_exp r = Some (0, r)"
    using assms(2) by (cases r; auto simp: delim_def is_json_ws_def parse_frac_def parse_exp_def)+
  have nm: "take 1 (show_dec n @ r) \<noteq> ''-''"
    using dig show_dec_nonempty [of n] by (cases "show_dec n") (auto simp: is_digit_def)
  show "parse_number (show_dec n @ r) = Some (case norm_num n 0 of (m, e) \<Rightarrow> GNum m e, r)"
    using nm tw z fe assms(1)
    by (auto simp: parse_number_def Let_def split: prod.split)
  show "parse_number (CHR ''-'' # show_dec n @ r) = Some (case norm_num (- n) 0 of (m, e) \<Rightarrow> GNum m e, r)"
    using tw z fe assms(1)
    by (auto simp: parse_number_def Let_def split: prod.split)
qed

lemma reads_int: "reads (show_int i) (norm_json (GInt i))"
proof (cases "i < 0")
  case True
  then show ?thesis
    by (intro readsI [of _ "CHR ''-''" "show_dec (- i)"])
      (simp_all add: show_int_def skip_ws_Cons parse_number_show_dec)
next
  case False
  then obtain c u where cu: "show_dec i = c # u" "is_digit c"
    using show_dec_nonempty [of i] show_dec_digits [of i] by (cases "show_dec i") auto
  have "c \<notin> {CHR 0x22, CHR ''['', CHR ''{'', CHR ''t'', CHR ''f'', CHR ''n'', CHR '']'', CHR ''}''}"
    using cu(2) by (auto simp: is_digit_def)
  then show ?thesis
    using False cu parse_number_show_dec(1) [of i]
    by (intro readsI [of _ c u])
      (simp_all add: show_int_def skip_ws_Cons digit_not_ws)
qed

lemma join_with_simps [simp]:
  "join_with sep [] = []" "join_with sep [w] = w"
  "join_with sep (w # x # r) = w @ sep @ join_with sep (x # r)"
  by (simp_all add: join_with_def)

lemma parse_elems_join:
  assumes "list_all2 reads ts vs" "ts \<noteq> []"
    and "2 * length (join_with '','' ts @ CHR '']'' # r) + 1 \<le> n"
  shows "parse_elems n (join_with '','' ts @ CHR '']'' # r) = Some (vs, r)"
  using assms
proof (induction ts arbitrary: vs n)
  case Nil
  then show ?case by simp
next
  case (Cons t ts)
  then obtain v ws where vs: "vs = v # ws" "reads t v" "list_all2 reads ts ws"
    by (auto simp: list_all2_Cons1)
  obtain m where n: "n = Suc m" using Cons.prems(3) by (cases n) auto
  show ?case
  proof (cases ts)
    case Nil
    then have "parse_val m (t @ CHR '']'' # r) = Some (v, CHR '']'' # r)"
      using vs(2) Cons.prems(3) n by (simp add: reads_def delim_def)
    with Nil vs(1,3) n show ?thesis by (simp add: skip_ws_Cons)
  next
    case (Cons t' ts')
    let ?u = "join_with '','' ts @ CHR '']'' # r"
    have "parse_val m (t @ CHR '','' # ?u) = Some (v, CHR '','' # ?u)"
      using vs(2) Cons.prems(3) n Cons by (simp add: reads_def delim_def)
    moreover have "parse_elems m ?u = Some (ws, r)"
      using Cons.prems(3) n Cons by (intro Cons.IH vs) simp_all
    ultimately show ?thesis using Cons vs(1) n by (simp add: skip_ws_Cons)
  qed
qed


definition members_text :: "(string \<times> string) list \<Rightarrow> string" where
  "members_text kts = join_with '','' (map (\<lambda>(k, t). quote_string k @ CHR '':'' # t) kts)"

lemma members_text_simps [simp]:
  "members_text [(k, t)] = quote_string k @ CHR '':'' # t"
  "members_text ((k, t) # p # kts) = quote_string k @ CHR '':'' # t @ CHR '','' # members_text (p # kts)"
  by (simp_all add: members_text_def)

lemma parse_member_head:
  assumes "reads t v" "delim (c # u)" "\<not> is_json_ws c" "2 * length (t @ c # u) \<le> m"
  shows "parse_members (Suc m) (quote_string k @ CHR '':'' # t @ c # u) =
    (if c = CHR ''}'' then Some ([(k, v)], u)
     else if c = CHR '','' then map_option (apfst ((#) (k, v))) (parse_members m u) else None)"
proof -
  have "parse_val m (t @ c # u) = Some (v, c # u)" using assms by (auto simp: reads_def)
  then show ?thesis
    using assms(3) by (simp add: quote_string_def skip_ws_Cons parse_string_esc)
qed

lemma parse_members_join:
  assumes "list_all2 (rel_prod (=) reads) kts kvs" "kts \<noteq> []"
    and "2 * length (members_text kts @ CHR ''}'' # r) + 1 \<le> n"
  shows "parse_members n (members_text kts @ CHR ''}'' # r) = Some (kvs, r)"
  using assms
proof (induction kts arbitrary: kvs n)
  case Nil
  then show ?case by simp
next
  case (Cons kt kts)
  then obtain k t v ws where vs: "kt = (k, t)" "kvs = (k, v) # ws" "reads t v"
      "list_all2 (rel_prod (=) reads) kts ws"
    by (cases kt) (auto simp: list_all2_Cons1)
  obtain m where n: "n = Suc m" using Cons.prems(3) by (cases n) auto
  show ?case
  proof (cases kts)
    case Nil
    then show ?thesis
      using vs n Cons.prems(3) parse_member_head [OF vs(3), of "CHR ''}''" r m k]
      by (simp add: delim_def)
  next
    case (Cons kt' kts')
    have "parse_members m (members_text kts @ CHR ''}'' # r) = Some (ws, r)"
      using Cons.prems(3) n Cons vs(1) by (intro Cons.IH vs) simp_all
    then show ?thesis
      using vs n Cons.prems(3) Cons
        parse_member_head [OF vs(3), of "CHR '',''" "members_text kts @ CHR ''}'' # r" m k]
      by (simp add: delim_def)
  qed
qed

lemma reads_array:
  assumes "list_all2 reads ts vs"
  shows "reads (json_array ts) (GArr vs)"
proof (cases "ts = []")
  case True
  with assms show ?thesis
    by (intro readsI [of _ "CHR ''[''" "'']''"]) (simp_all add: json_array_def skip_ws_Cons)
next
  case False
  then obtain t ts' where ts: "ts = t # ts'" by (cases ts) auto
  then have "reads t (hd vs)" using assms by (auto simp: list_all2_Cons1)
  then obtain c u where t: "t = c # u" "\<not> is_json_ws c" "c \<noteq> CHR '']''" by (cases t) (auto simp: reads_def)
  have hd: "\<exists>w. join_with '','' ts = c # w" using ts t by (cases ts') auto
  then obtain w where w: "join_with '','' ts = c # w" ..
  show ?thesis
  proof (intro readsI [of _ "CHR ''[''" "join_with '','' ts @ '']''"])
    fix n r assume "2 * length (json_array ts @ r) \<le> Suc n"
    then have "parse_elems n (join_with '','' ts @ CHR '']'' # r) = Some (vs, r)"
      using assms False by (intro parse_elems_join) (auto simp: json_array_def)
    then show "parse_val (Suc n) (json_array ts @ r) = Some (GArr vs, r)"
      using t w by (simp add: json_array_def skip_ws_Cons)
  qed (simp_all add: json_array_def)
qed

lemma foldl_update_distinct:
  "distinct (map fst (acc @ kvs)) \<Longrightarrow> foldl (\<lambda>m (k, v). AList.update k v m) acc kvs = acc @ kvs"
proof (induction kvs arbitrary: acc)
  case Nil
  then show ?case by simp
next
  case (Cons kv kvs)
  obtain k v where kv: "kv = (k, v)" by (cases kv)
  then have "k \<notin> fst ` set acc" using Cons.prems by auto
  then have "AList.update k v acc = acc @ [(k, v)]" by (induction acc) auto
  with Cons kv show ?case by simp
qed

lemma obj_of_distinct: "distinct (map fst kvs) \<Longrightarrow> obj_of kvs = GObj kvs"
  using foldl_update_distinct [of "[]" kvs] by (simp add: obj_of_def)

lemma reads_object:
  assumes "list_all2 (rel_prod (=) reads) kts kvs" "distinct (map fst kvs)"
  shows "reads (json_object kts) (GObj kvs)"
proof (cases "kts = []")
  case True
  with assms show ?thesis
    by (intro readsI [of _ "CHR ''{''" "''}''"]) (simp_all add: json_object_def skip_ws_Cons)
next
  case False
  then obtain w where w: "members_text kts = CHR 0x22 # w"
    by (cases kts; cases "hd kts"; cases "tl kts") (auto simp: quote_string_def)
  show ?thesis
  proof (intro readsI [of _ "CHR ''{''" "members_text kts @ ''}''"])
    fix n r assume "2 * length (json_object kts @ r) \<le> Suc n"
    then have "parse_members n (members_text kts @ CHR ''}'' # r) = Some (kvs, r)"
      using assms False by (intro parse_members_join) (auto simp: json_object_def members_text_def)
    then show "parse_val (Suc n) (json_object kts @ r) = Some (GObj kvs, r)"
      using w assms(2)
      by (simp add: json_object_def skip_ws_Cons obj_of_distinct flip: members_text_def)
  qed (simp_all add: json_object_def members_text_def)
qed

lemma list_all2_insort_key:
  "rel_prod (=) R x y \<Longrightarrow> list_all2 (rel_prod (=) R) xs ys \<Longrightarrow>
   list_all2 (rel_prod (=) R) (insort_key fst x xs) (insort_key fst y ys)"
  by (rotate_tac, induction xs ys rule: list_all2_induct) (auto elim!: rel_prod.cases)

lemma list_all2_sort_key:
  "list_all2 (rel_prod (=) R) xs ys \<Longrightarrow>
   list_all2 (rel_prod (=) R) (sort_key fst xs) (sort_key fst ys)"
  by (induction xs ys rule: list_all2_induct) (simp_all add: list_all2_insort_key)

lemma reads_object_sorted:
  assumes "\<And>k x. (k, x) \<in> set kxs \<Longrightarrow> reads (f x) (g x)" and "distinct (map fst kxs)"
  shows "reads (json_object (sort_key fst (map (map_prod (\<lambda>k. k) f) kxs)))
               (GObj (sort_key fst (map (map_prod (\<lambda>k. k) g) kxs)))"
proof (rule reads_object)
  have "list_all2 (rel_prod (=) reads) (map (map_prod (\<lambda>k. k) f) kxs) (map (map_prod (\<lambda>k. k) g) kxs)"
    unfolding list.rel_map using assms(1) by (intro list.rel_refl_strong) auto
  then show "list_all2 (rel_prod (=) reads) (sort_key fst (map (map_prod (\<lambda>k. k) f) kxs))
      (sort_key fst (map (map_prod (\<lambda>k. k) g) kxs))"
    by (rule list_all2_sort_key)
  have "map fst (map (map_prod (\<lambda>k. k) g) kxs) = map fst kxs" by simp
  then show "distinct (map fst (sort_key fst (map (map_prod (\<lambda>k. k) g) kxs)))"
    using assms(2) by (metis distinct_map distinct_sort set_sort)
qed

lemma reads_marshal: "json_plain v \<Longrightarrow> reads (marshal v) (norm_json v)"
proof (induction v)
  case (GArr vs)
  then have "list_all2 reads (map marshal vs) (map norm_json vs)"
    by (auto simp: list_all2_conv_all_nth list_all_iff)
  then show ?case by (simp add: reads_array)
next
  case (GStrs ws)
  have "list_all2 reads (map quote_string ws) (map GStr ws)"
    by (auto simp: list_all2_conv_all_nth reads_quote)
  then show ?case by (simp add: reads_array)
next
  case (GObj kvs)
  then have "reads (marshal x) (norm_json x)" if "(k, x) \<in> set kvs" for k x
    using that by (force simp: list_all_iff)
  with GObj.prems show ?case by (simp add: reads_object_sorted)
next
  case (GStrMap kvs)
  then show ?case by (simp add: reads_object_sorted reads_quote)
qed (simp_all add: reads_literal reads_quote reads_int [simplified])

lemma unmarshal_marshal: "json_plain v \<Longrightarrow> unmarshal (marshal v) = Some (norm_json v)"
  using reads_marshal [of v]
  by (auto simp: reads_def unmarshal_def delim_def skip_ws_def dest!: spec [of _ "2 * length (marshal v)"] spec [of _ "[]"])

lemma unmarshal_map_marshal:
  assumes "json_plain (GObj kvs)"
  shows "unmarshal_map (marshal (GObj kvs)) = Some (sort_key fst (map (map_prod (\<lambda>k. k) norm_json) kvs))"
  using unmarshal_marshal [OF assms] by (simp add: unmarshal_map_def)

lemma unmarshal_reads: "reads t v \<Longrightarrow> unmarshal t = Some v"
  by (auto simp: reads_def unmarshal_def delim_def skip_ws_def dest!: spec [of _ "2 * length t"] spec [of _ "[]"])

lemma unmarshal_members_object:
  assumes "list_all2 (rel_prod (=) reads) kts kvs" "distinct (map fst kvs)"
  shows "unmarshal_members (json_object kts) = Some kvs"
proof (cases "kts = []")
  case True
  then show ?thesis
    using assms unmarshal_reads [OF reads_object [OF assms]] by (simp add: unmarshal_members_def)
next
  case False
  then have "kvs \<noteq> []" using assms(1) by auto
  moreover have "unmarshal (json_object kts) = Some (GObj kvs)"
    using assms by (intro unmarshal_reads reads_object)
  moreover have "parse_members (2 * length (json_object kts) - 1) (members_text kts @ CHR ''}'' # []) = Some (kvs, [])"
    using assms False by (intro parse_members_join) (simp_all add: json_object_def members_text_def)
  moreover have "drop 1 (skip_ws (json_object kts)) = members_text kts @ [CHR ''}'']"
    by (simp add: json_object_def members_text_def skip_ws_Cons)
  ultimately show ?thesis by (simp add: unmarshal_members_def)
qed

end
