(* ===== verification/CloudEvents.thy ===== *)
theory CloudEvents
  imports Go_Time Go_Codec Go_Json_Roundtrip
begin

text \<open>
  The package \<open>internal/cloudevents\<close>: the stored event, its integrity hash
  (\<open>canonical.go\<close>), the parser of HTTP bodies with its extension accessors (\<open>ingest.go\<close>) and
  the check of required fields (\<open>validate.go\<close>).

  \<open>Extensions\<close> is an association list with distinct keys; the nil map is the empty list, which
  every user of the field treats alike. \<open>Data\<close> is the raw JSON text, nil being the empty string.
  Errors are values of \<open>ce_error\<close>; the messages of the source name the same cases.
\<close>

record stored_event =
  ev_id :: string
  ev_type :: string
  ev_source :: string
  ev_subject :: string
  ev_time :: time
  ev_extensions :: "(string \<times> gval) list"
  ev_data :: string
  ev_hash :: string
  ev_ingested :: time

datatype ce_error = InvalidJSON | InvalidBatchJSON | IdRequired | SourceRequired | TypeRequired
  | DataRequired | MarshalFailed

subsection \<open>Integrity hash\<close>

text \<open>The canonical JSON text: struct fields in declaration order, empty ones left out.\<close>

definition canonical_text :: "stored_event \<Rightarrow> string option" where
  "canonical_text e =
     map_option (\<lambda>d. json_object
       ([(''specversion'', quote_string ''1.0''), (''id'', quote_string (ev_id e)),
         (''source'', quote_string (ev_source e)), (''type'', quote_string (ev_type e))] @
        (if ev_subject e = [] then [] else [(''subject'', quote_string (ev_subject e))]) @
        [(''time'', quote_string (format_rfc3339nano (ev_time e)))] @
        (if ev_extensions e = [] then []
         else [(''extensions'', marshal (GObj (ev_extensions e)))]) @
        [(''data'', d)]))
       (marshal_raw (ev_data e))"

definition compute_integrity_hash :: "stored_event \<Rightarrow> ce_error + string" where
  "compute_integrity_hash e =
     (case canonical_text e of None \<Rightarrow> Inl MarshalFailed | Some t \<Rightarrow> Inr (sha256_hex t))"

subsection \<open>Required fields\<close>

definition validate :: "time \<Rightarrow> stored_event \<Rightarrow> ce_error + stored_event" where
  "validate now e =
     (if ev_id e = [] then Inl IdRequired
      else if ev_source e = [] then Inl SourceRequired
      else if ev_type e = [] then Inl TypeRequired
      else if ev_data e = [] \<or> ev_data e = ''null'' then Inl DataRequired
      else Inr (if is_zero (ev_time e) then e\<lparr>ev_time := now\<rparr> else e))"

subsection \<open>Parsing request bodies\<close>

definition known_fields :: "string list" where
  "known_fields =
     [''specversion'', ''id'', ''source'', ''type'', ''subject'', ''time'', ''datacontenttype'',
      ''dataschema'', ''data'', ''data_base64'']"

text \<open>\<open>json.Unmarshal\<close> into a string field: anything but a string leaves it empty.\<close>

definition string_field :: "(string \<times> string) list \<Rightarrow> string \<Rightarrow> string" where
  "string_field raw k =
     (case map_of raw k of
        Some v \<Rightarrow> (case unmarshal v of Some (GStr s) \<Rightarrow> s | _ \<Rightarrow> [])
      | None \<Rightarrow> [])"

text \<open>\<open>time.Time\<close> parses the quoted text as it stands; a failure leaves the zero time.\<close>

definition time_field :: "(string \<times> string) list \<Rightarrow> time" where
  "time_field raw =
     (case map_of raw ''time'' of
        Some v \<Rightarrow>
          (case (if take 1 v = [CHR 0x22] then parse_json_time (butlast (tl v)) else None) of
             Some t \<Rightarrow> t | None \<Rightarrow> 0)
      | None \<Rightarrow> 0)"

definition extension_fields :: "(string \<times> string) list \<Rightarrow> (string \<times> gval) list" where
  "extension_fields raw =
     List.map_filter (\<lambda>(k, v). if k \<in> set known_fields then None else map_option (Pair k) (unmarshal v)) raw"

definition raw_to_stored_event :: "time \<Rightarrow> (string \<times> string) list \<Rightarrow> ce_error + stored_event" where
  "raw_to_stored_event now raw =
     (let e = \<lparr>ev_id = string_field raw ''id'', ev_type = string_field raw ''type'',
               ev_source = string_field raw ''source'', ev_subject = string_field raw ''subject'',
               ev_time = time_field raw, ev_extensions = extension_fields raw,
               ev_data = (case map_of raw ''data'' of Some v \<Rightarrow> v | None \<Rightarrow> []),
               ev_hash = [], ev_ingested = 0\<rparr>
      in case validate now e of
           Inl err \<Rightarrow> Inl err
         | Inr e \<Rightarrow>
             (case compute_integrity_hash e of
                Inl err \<Rightarrow> Inl err
              | Inr h \<Rightarrow> Inr (e\<lparr>ev_hash := h\<rparr>)))"

definition parse_single :: "time \<Rightarrow> string \<Rightarrow> ce_error + stored_event" where
  "parse_single now body =
     (case unmarshal_raw_map body of
        None \<Rightarrow> Inl InvalidJSON
      | Some raw \<Rightarrow> raw_to_stored_event now raw)"

text \<open>The batch stops at its first bad event and then returns none of them.\<close>

fun raws_to_stored_events :: "time \<Rightarrow> (string \<times> string) list list \<Rightarrow> ce_error + stored_event list" where
  "raws_to_stored_events now [] = Inr []"
| "raws_to_stored_events now (raw # raws) =
     (case raw_to_stored_event now raw of
        Inl err \<Rightarrow> Inl err
      | Inr e \<Rightarrow>
          (case raws_to_stored_events now raws of Inl err \<Rightarrow> Inl err | Inr es \<Rightarrow> Inr (e # es)))"

definition parse_batch :: "time \<Rightarrow> string \<Rightarrow> ce_error + stored_event list" where
  "parse_batch now body =
     (case unmarshal_raw_maps body of
        None \<Rightarrow> Inl InvalidBatchJSON
      | Some raws \<Rightarrow> raws_to_stored_events now raws)"

definition media_type :: "string \<Rightarrow> string" where
  "media_type header =
     (let ct = to_lower (trim_space header)
      in if CHR 0x3B \<in> set ct then trim_space (takeWhile (\<lambda>c. c \<noteq> CHR 0x3B) ct) else ct)"

definition parse_request :: "time \<Rightarrow> string \<Rightarrow> string \<Rightarrow> ce_error + stored_event list" where
  "parse_request now content_type body =
     (if media_type content_type = ''application/cloudevents-batch+json'' then parse_batch now body
      else (case parse_single now body of Inl err \<Rightarrow> Inl err | Inr e \<Rightarrow> Inr [e]))"

subsection \<open>Extension accessors\<close>

definition extension_string :: "(string \<times> gval) list \<Rightarrow> string \<Rightarrow> string" where
  "extension_string ext k = (case map_of ext k of Some (GStr s) \<Rightarrow> trim_space s | _ \<Rightarrow> [])"

definition extension_bool :: "(string \<times> gval) list \<Rightarrow> string \<Rightarrow> bool" where
  "extension_bool ext k =
     (case map_of ext k of
        Some (GBool b) \<Rightarrow> b
      | Some (GStr s) \<Rightarrow>
          (let lv = to_lower (trim_space s) in lv = ''true'' \<or> lv = ''1'' \<or> lv = ''yes'')
      | Some (GNum m e) \<Rightarrow> m \<noteq> 0
      | Some (GInt i) \<Rightarrow> i \<noteq> 0
      | _ \<Rightarrow> False)"

lemma extension_string_trimmed [simp]: "trim_space (extension_string ext k) = extension_string ext k"
  by (simp add: extension_string_def split: option.split gval.split)

text \<open>The parts of an event that its integrity hash covers.\<close>

definition same_content :: "stored_event \<Rightarrow> stored_event \<Rightarrow> bool" where
  "same_content e f \<longleftrightarrow>
     ev_id e = ev_id f \<and> ev_type e = ev_type f \<and> ev_source e = ev_source f \<and>
     ev_subject e = ev_subject f \<and> ev_time e = ev_time f \<and> ev_data e = ev_data f \<and>
     mset (ev_extensions e) = mset (ev_extensions f)"

lemma marshal_obj_perm:
  assumes "mset kvs = mset kvs'" "distinct (map fst kvs)"
  shows "marshal (GObj kvs) = marshal (GObj kvs')"
proof -
  have "map fst (map (map_prod (\<lambda>k. k) marshal) kvs) = map fst kvs" by simp
  then have "sort_key fst (map (map_prod (\<lambda>k. k) marshal) kvs) = sort_key fst (map (map_prod (\<lambda>k. k) marshal) kvs')"
    using assms by (intro sort_key_unique) (simp_all only: mset_map)
  then show ?thesis by simp
qed

lemma compute_integrity_hash_cong:
  assumes "same_content e f" "distinct (map fst (ev_extensions e))"
  shows "compute_integrity_hash e = compute_integrity_hash f"
proof -
  from assms(1) have m: "mset (ev_extensions e) = mset (ev_extensions f)"
    and eqs: "ev_id e = ev_id f" "ev_type e = ev_type f" "ev_source e = ev_source f"
      "ev_subject e = ev_subject f" "ev_time e = ev_time f" "ev_data e = ev_data f"
    by (simp_all add: same_content_def)
  from m have n: "ev_extensions e = [] \<longleftrightarrow> ev_extensions f = []" by auto
  show ?thesis
    unfolding compute_integrity_hash_def canonical_text_def eqs n marshal_obj_perm [OF m assms(2)] ..
qed

text \<open>What the parser hands on: complete events whose hash is the hash of their content.\<close>

definition well_formed_event :: "stored_event \<Rightarrow> bool" where
  "well_formed_event e \<longleftrightarrow>
     ev_id e \<noteq> [] \<and> ev_source e \<noteq> [] \<and> ev_type e \<noteq> [] \<and>
     ev_data e \<noteq> [] \<and> ev_data e \<noteq> ''null'' \<and> ev_time e \<noteq> 0 \<and>
     compute_integrity_hash e = Inr (ev_hash e)"

lemma compute_integrity_hash_update [simp]:
  "compute_integrity_hash (e\<lparr>ev_hash := h\<rparr>) = compute_integrity_hash e"
  "compute_integrity_hash (e\<lparr>ev_ingested := t\<rparr>) = compute_integrity_hash e"
  by (cases e; simp only: compute_integrity_hash_def canonical_text_def stored_event.simps
      stored_event.update_convs)+

lemma validate_Inr:
  "validate now e = Inr e' \<Longrightarrow> now \<noteq> 0 \<Longrightarrow>
   ev_id e' \<noteq> [] \<and> ev_source e' \<noteq> [] \<and> ev_type e' \<noteq> [] \<and> ev_data e' \<noteq> [] \<and>
   ev_data e' \<noteq> ''null'' \<and> ev_time e' \<noteq> 0"
  by (auto simp: validate_def split: if_splits)

lemma raw_to_stored_event_wf:
  "raw_to_stored_event now raw = Inr e \<Longrightarrow> now \<noteq> 0 \<Longrightarrow> well_formed_event e"
  by (auto simp: raw_to_stored_event_def well_formed_event_def Let_def split: sum.splits
      dest: validate_Inr)

lemma raws_to_stored_events_wf:
  "raws_to_stored_events now raws = Inr es \<Longrightarrow> now \<noteq> 0 \<Longrightarrow> e \<in> set es \<Longrightarrow> well_formed_event e"
  by (induction raws arbitrary: es)
    (auto split: sum.splits dest: raw_to_stored_event_wf)

lemma parse_request_wf:
  "parse_request now ct body = Inr es \<Longrightarrow> now \<noteq> 0 \<Longrightarrow> e \<in> set es \<Longrightarrow> well_formed_event e"
  by (auto simp: parse_request_def parse_batch_def parse_single_def
      split: if_splits sum.splits option.splits
      dest: raws_to_stored_events_wf raw_to_stored_event_wf)

end
