(* ===== verification/Pagination.thy ===== *)
theory Pagination
  imports Go_Strings
begin

text \<open>
  Keyset pagination, the interface between a listing operation and a client that follows its
  cursors. A listing answers a cursor with one page and the next cursor; the empty cursor starts
  the listing, and an empty next cursor ends it. The locale \<open>keyset_listing\<close> states what the
  listing promises about its pages; inside it the client is shown to collect the whole listing,
  every item once and in order. The timeline of the repository and the list of changes both
  provide it. \<open>desc\<close> reverses an order, for listings that start with the newest item.
\<close>

subsection \<open>Descending keys\<close>

datatype 'a desc = Desc (undesc: 'a)

instantiation desc :: (linorder) linorder
begin

definition less_eq_desc :: "'a desc \<Rightarrow> 'a desc \<Rightarrow> bool" where
  "less_eq_desc a b \<longleftrightarrow> undesc b \<le> undesc a"

definition less_desc :: "'a desc \<Rightarrow> 'a desc \<Rightarrow> bool" where
  "less_desc a b \<longleftrightarrow> undesc b < undesc a"

instance
  by standard (auto simp: less_eq_desc_def less_desc_def desc.expand)

end

lemma less_desc_simps [simp]:
  "Desc a < Desc b \<longleftrightarrow> b < a" "Desc a \<le> Desc b \<longleftrightarrow> b \<le> a"
  by (simp_all add: less_desc_def less_eq_desc_def)

subsection \<open>Following cursors\<close>

text \<open>One page of what is left: at most \<open>n\<close> items, and the key of the last one if there are more.\<close>

definition page_of :: "('a \<Rightarrow> 'c) \<Rightarrow> 'c \<Rightarrow> nat \<Rightarrow> 'a list \<Rightarrow> 'a list \<times> 'c" where
  "page_of cur stop n xs =
     (if n < length xs then (take n xs, cur (last (take n xs))) else (xs, stop))"

text \<open>A client that collects pages until the next cursor is empty; \<open>None\<close> is a refused cursor.\<close>

fun follow :: "(string \<Rightarrow> ('a list \<times> string) option) \<Rightarrow> nat \<Rightarrow> string \<Rightarrow> 'a list option" where
  "follow fetch 0 c = None"
| "follow fetch (Suc n) c =
     (case fetch c of
        None \<Rightarrow> None
      | Some (xs, c') \<Rightarrow>
          if c' = [] then Some xs else map_option ((@) xs) (follow fetch n c'))"

text \<open>The same client while the listing changes: the \<open>i\<close>-th page is read in the \<open>i\<close>-th state.\<close>

fun follow_live :: "('s \<Rightarrow> string \<Rightarrow> ('a list \<times> string) option) \<Rightarrow> 's list \<Rightarrow> string \<Rightarrow> 'a list option" where
  "follow_live fetch [] c = None"
| "follow_live fetch (s # ss) c =
     (case fetch s c of
        None \<Rightarrow> None
      | Some (xs, c') \<Rightarrow>
          if c' = [] then Some xs else map_option ((@) xs) (follow_live fetch ss c'))"

text \<open>What is left of a listing after a key.\<close>

definition rest_after :: "('a \<Rightarrow> 'k :: linorder) \<Rightarrow> 'k option \<Rightarrow> 'a list \<Rightarrow> 'a list" where
  "rest_after key k xs = (case k of None \<Rightarrow> xs | Some k \<Rightarrow> filter (\<lambda>y. k < key y) xs)"

locale keyset_listing =
  fixes valid :: "'s \<Rightarrow> bool"
    and listing :: "'s \<Rightarrow> 'a list"
    and key :: "'a \<Rightarrow> 'k :: linorder"
    and cursor :: "'a \<Rightarrow> string"
    and page_size :: "'s \<Rightarrow> nat"
    and fetch :: "'s \<Rightarrow> string \<Rightarrow> ('a list \<times> string) option"
  assumes listing_sorted: "valid s \<Longrightarrow> sorted_wrt (<) (map key (listing s))"
    and page_size_pos: "valid s \<Longrightarrow> 0 < page_size s"
    and cursor_nonempty: "cursor x \<noteq> []"
    and fetch_start: "valid s \<Longrightarrow> fetch s [] = Some (page_of cursor [] (page_size s) (listing s))"
    and fetch_after: "valid s \<Longrightarrow> x \<in> set (listing s) \<Longrightarrow>
      fetch s (cursor x) =
        Some (page_of cursor [] (page_size s) (filter (\<lambda>y. key x < key y) (listing s)))"
begin

lemma filter_after_split:
  assumes "sorted_wrt (<) (map key (ys @ x # zs))"
  shows "filter (\<lambda>y. key x < key y) (ys @ x # zs) = zs"
proof -
  have "filter (\<lambda>y. key x < key y) ys = []"
    using assms by (auto simp: sorted_wrt_append filter_empty_conv dest: less_asym)
  moreover have "filter (\<lambda>y. key x < key y) zs = zs"
    using assms by (auto simp: sorted_wrt_append filter_id_conv)
  ultimately show ?thesis by simp
qed

lemma follow_page:
  assumes s: "valid s"
    and split: "listing s = ys @ zs"
    and c: "fetch s c = Some (page_of cursor [] (page_size s) zs)"
    and fuel: "length zs < fuel"
  shows "follow (fetch s) fuel c = Some zs"
  using split c fuel
proof (induction fuel arbitrary: ys zs c)
  case 0
  then show ?case by simp
next
  case (Suc fuel)
  let ?n = "page_size s"
  show ?case
  proof (cases "?n < length zs")
    case False
    with Suc.prems show ?thesis by (simp add: page_of_def)
  next
    case True
    define us x ws where "us = butlast (take ?n zs)" and "x = last (take ?n zs)" and "ws = drop ?n zs"
    have "take ?n zs \<noteq> []" using True page_size_pos [OF s] by auto
    then have t: "take ?n zs = us @ [x]" by (simp add: us_def x_def)
    then have zs: "zs = us @ x # ws"
      using append_take_drop_id [of ?n zs] by (simp add: ws_def)
    have l: "listing s = (ys @ us) @ x # ws" using Suc.prems(1) zs by simp
    then have "filter (\<lambda>y. key x < key y) (listing s) = ws"
      using listing_sorted [OF s] by (metis filter_after_split)
    then have "fetch s (cursor x) = Some (page_of cursor [] ?n ws)"
      using fetch_after [OF s, of x] l by simp
    then have "follow (fetch s) fuel (cursor x) = Some ws"
      using Suc.IH [of "ys @ us @ [x]" ws "cursor x"] l Suc.prems(3) zs by simp
    then show ?thesis
      using True Suc.prems(2) t zs cursor_nonempty [of x] by (simp add: page_of_def flip: x_def)
  qed
qed

lemma follow_all: "valid s \<Longrightarrow> length (listing s) < fuel \<Longrightarrow> follow (fetch s) fuel [] = Some (listing s)"
  using follow_page [of s "[]" "listing s" "[]" fuel] fetch_start by simp

text \<open>
  While the listing only grows, the client still sees its items in strictly increasing order, and
  misses none of those that were there when it started.
\<close>

lemma follow_live_rest:
  assumes "follow_live fetch (s # ss) c = Some xs"
    and "\<forall>t\<in>set (s # ss). valid t \<and> fetch t c = Some (page_of cursor [] (page_size t) (rest_after key k (listing t)))"
    and "sorted_wrt (\<lambda>t u. set (listing t) \<subseteq> set (listing u)) (s # ss)"
  shows "sorted_wrt (<) (map key xs) \<and> set (rest_after key k (listing s)) \<subseteq> set xs \<and>
    set xs \<subseteq> set (rest_after key k (listing (last (s # ss))))"
  using assms
proof (induction ss arbitrary: s c k xs)
  case Nil
  define zs where "zs = rest_after key k (listing s)"
  have zs: "sorted_wrt (<) (map key zs)"
    using Nil.prems(2) listing_sorted [of s]
    by (auto simp: zs_def rest_after_def sorted_wrt_map sorted_wrt_filter split: option.splits)
  have "page_of cursor [] (page_size s) zs = (xs, [])"
    using Nil.prems by (auto simp: zs_def split: prod.splits if_splits)
  then have "xs = zs" using cursor_nonempty by (auto simp: page_of_def split: if_splits)
  with zs show ?case by (simp add: zs_def)
next
  case (Cons u ss)
  define zs where "zs = rest_after key k (listing s)"
  have s: "valid s" "0 < page_size s" using Cons.prems(2) page_size_pos by auto
  have zs: "sorted_wrt (<) (map key zs)"
    using s listing_sorted [of s]
    by (auto simp: zs_def rest_after_def sorted_wrt_map sorted_wrt_filter split: option.splits)
  have f: "fetch s c = Some (page_of cursor [] (page_size s) zs)"
    using Cons.prems(2) by (simp add: zs_def)
  have grow: "set (rest_after key k' (listing s)) \<subseteq> set (rest_after key k' (listing t))"
    if "t \<in> set (u # ss)" for t k'
  proof -
    have "set (listing s) \<subseteq> set (listing t)" using Cons.prems(3) that by auto
    then show ?thesis by (auto simp: rest_after_def split: option.splits)
  qed
  have last: "last (s # u # ss) \<in> set (u # ss)" by simp
  show ?case
  proof (cases "page_size s < length zs")
    case False
    then have "xs = zs" using f Cons.prems(1) by (simp add: page_of_def)
    with zs grow [OF last, of k] show ?thesis by (simp add: zs_def)
  next
    case True
    define x where "x = last (take (page_size s) zs)"
    obtain ys where xs: "xs = take (page_size s) zs @ ys"
      and ys: "follow_live fetch (u # ss) (cursor x) = Some ys"
      using f Cons.prems(1) True cursor_nonempty [of x]
      by (auto simp: page_of_def simp flip: x_def simp del: follow_live.simps(2)
          simp: follow_live.simps(2) [of fetch s])
    have t: "take (page_size s) zs \<noteq> []" using True s by auto
    then have z: "zs = butlast (take (page_size s) zs) @ x # drop (page_size s) zs"
      unfolding x_def by (metis append.assoc append_Cons append_Nil append_butlast_last_id append_take_drop_id)
    have x: "x \<in> set zs" "x \<in> set (listing s)"
      using z by (metis in_set_conv_decomp, metis (no_types, lifting) zs_def rest_after_def
          filter_is_subset in_set_conv_decomp option.case_eq_if subset_iff)
    have after: "set (rest_after key (Some (key x)) (listing s)) = set (drop (page_size s) zs)"
    proof -
      have "filter (\<lambda>y. key x < key y) zs = drop (page_size s) zs"
        using zs z by (metis filter_after_split)
      moreover have "filter (\<lambda>y. key x < key y) zs = filter (\<lambda>y. key x < key y) (listing s)"
        using x(1) by (auto simp: zs_def rest_after_def split: option.splits intro!: filter_cong)
      ultimately show ?thesis by (simp add: rest_after_def)
    qed
    have "\<forall>t\<in>set (u # ss). x \<in> set (listing t)"
      using Cons.prems(3) x(2) by auto
    then have p: "\<forall>t\<in>set (u # ss). valid t \<and> fetch t (cursor x) =
        Some (page_of cursor [] (page_size t) (rest_after key (Some (key x)) (listing t)))"
      using Cons.prems(2) fetch_after by (simp add: rest_after_def)
    have ih: "sorted_wrt (<) (map key ys)"
        "set (rest_after key (Some (key x)) (listing u)) \<subseteq> set ys"
        "set ys \<subseteq> set (rest_after key (Some (key x)) (listing (last (u # ss))))"
      using Cons.IH [OF ys p] Cons.prems(3) by auto
    have lt: "key x < key y" if "y \<in> set ys" for y
      using ih(3) that by (auto simp: rest_after_def)
    have le: "key w \<le> key x" if "w \<in> set (take (page_size s) zs)" for w
    proof -
      have "sorted_wrt (<) (map key (butlast (take (page_size s) zs) @ x # drop (page_size s) zs))"
        using zs z by metis
      moreover have "w \<in> set (butlast (take (page_size s) zs)) \<or> w = x"
        using that t by (metis append_butlast_last_id in_set_conv_decomp_last x_def
            UnE empty_iff empty_set set_ConsD set_append)
      ultimately show ?thesis by (auto simp: sorted_wrt_append)
    qed
    have "sorted_wrt (<) (map key (take (page_size s) zs))"
      using zs by (simp add: sorted_wrt_take flip: take_map)
    then have "sorted_wrt (<) (map key xs)"
      using ih(1) lt le by (auto simp: xs sorted_wrt_append intro: le_less_trans)
    moreover have "set zs \<subseteq> set xs"
    proof -
      have "set zs = set (take (page_size s) zs) \<union> set (drop (page_size s) zs)"
        by (metis append_take_drop_id set_append)
      moreover have "set (drop (page_size s) zs) \<subseteq> set ys"
        using after grow [of u "Some (key x)"] ih(2) by auto
      ultimately show ?thesis by (auto simp: xs)
    qed
    moreover have "set xs \<subseteq> set (rest_after key k (listing (last (s # u # ss))))"
    proof -
      have "set (take (page_size s) zs) \<subseteq> set (rest_after key k (listing (last (u # ss))))"
        using grow [OF last, of k] by (auto simp: zs_def dest: in_set_takeD)
      moreover have "set ys \<subseteq> set (rest_after key k (listing (last (u # ss))))"
        using ih(3) x(1) by (auto simp: rest_after_def zs_def split: option.splits intro: less_trans)
      ultimately show ?thesis by (auto simp: xs)
    qed
    ultimately show ?thesis by (simp add: zs_def)
  qed
qed

lemma listing_distinct: "valid s \<Longrightarrow> distinct (listing s)"
  using listing_sorted [of s] by (simp add: strict_sorted_iff distinct_map)

end

end
