(* ===== verification/Store.thy ===== *)
theory Store
  imports CloudEvents Pagination
begin

text \<open>
  The in-memory repository of \<open>internal/store/store.go\<close> and the interface \<open>Repository\<close> that it
  shares with the SQL repository. The two maps of the repository are association lists with
  distinct keys (\<open>mem_ok\<close>); their order stands for the iteration order of a Go map, on which no
  result depends. Every operation holds the mutex while it reads or writes the maps, so an
  operation is one atomic step; \<open>time.Now()\<close> is the argument \<open>now\<close>.
\<close>

subsection \<open>Types\<close>

datatype store_error = ErrNotFound | ErrConflict | ErrInvalidInput | ErrAppendOnly
  | ErrInvalidCursor | ErrMarshal | ErrBackend string

datatype ingest_status = IngestAccepted | IngestDuplicate

record subject_info =
  si_subject :: string
  si_cluster :: string
  si_namespace :: string

record timeline_query =
  tq_subject :: string
  tq_cluster :: string
  tq_namespace :: string
  tq_from :: time
  tq_to :: time
  tq_source :: string
  tq_type :: string
  tq_corr_key :: string
  tq_corr_value :: string
  tq_supporting :: bool
  tq_limit :: int
  tq_cursor :: string

record timeline_result =
  tr_items :: "stored_event list"
  tr_next :: string

record export_job =
  ej_id :: string
  ej_status :: string
  ej_format :: string
  ej_filter :: "(string \<times> gval) list"
  ej_artifact :: string
  ej_error :: string
  ej_created :: time
  ej_completed :: "time option"

record mem_repo =
  mr_events :: "(string \<times> stored_event) list"
  mr_exports :: "(string \<times> export_job) list"

definition new_memory_repository :: mem_repo where
  "new_memory_repository = \<lparr>mr_events = [], mr_exports = []\<rparr>"

subsection \<open>Cursors\<close>

definition encode_cursor :: "time \<Rightarrow> string \<Rightarrow> string" where
  "encode_cursor ts i =
     b64_encode True (json_object
       [(''ts'', quote_string (format_rfc3339nano ts)), (''id'', quote_string i)])"

text \<open>The zero time stands for \<open>no cursor\<close>.\<close>

definition decode_cursor :: "string \<Rightarrow> store_error + time \<times> string" where
  "decode_cursor c =
     (if trim_space c = [] then Inr (0, [])
      else (case b64_decode True c of
              None \<Rightarrow> Inl ErrInvalidCursor
            | Some raw \<Rightarrow>
                (case unmarshal_members raw of
                   None \<Rightarrow> Inl ErrInvalidCursor
                 | Some ms \<Rightarrow>
                     (case (struct_string ''ts'' ms, struct_string ''id'' ms) of
                        (Some ts, Some i) \<Rightarrow>
                          (case parse_rfc3339 ts of None \<Rightarrow> Inl ErrInvalidCursor | Some t \<Rightarrow> Inr (t, i))
                      | _ \<Rightarrow> Inl ErrInvalidCursor))))"

subsection \<open>Operations\<close>

definition validate_stored_event :: "stored_event \<Rightarrow> bool" where
  "validate_stored_event e \<longleftrightarrow>
     \<not> (ev_id e = [] \<or> ev_source e = [] \<or> ev_type e = []) \<and>
     \<not> (ev_data e = [] \<or> ev_data e = ''null'') \<and> \<not> is_zero (ev_time e)"

definition event_key :: "stored_event \<Rightarrow> time \<times> string" where
  "event_key e = (ev_time e, ev_id e)"

definition sort_stored_events :: "stored_event list \<Rightarrow> stored_event list" where
  "sort_stored_events es = sort_key event_key es"

text \<open>The first part of both \<open>IngestEvent\<close>s: validation, then the hash if it is missing.\<close>

definition with_hash :: "stored_event \<Rightarrow> store_error + stored_event" where
  "with_hash e =
     (if ev_hash e = [] then
        (case compute_integrity_hash e of Inl _ \<Rightarrow> Inl ErrMarshal | Inr h \<Rightarrow> Inr (e\<lparr>ev_hash := h\<rparr>))
      else Inr e)"

definition ingest_event ::
    "time \<Rightarrow> stored_event \<Rightarrow> mem_repo \<Rightarrow> (store_error + ingest_status \<times> time) \<times> mem_repo" where
  "ingest_event now e m =
     (if \<not> validate_stored_event e then (Inl ErrInvalidInput, m)
      else (case with_hash e of
              Inl err \<Rightarrow> (Inl err, m)
            | Inr e \<Rightarrow>
                (case map_of (mr_events m) (ev_id e) of
                   Some existing \<Rightarrow>
                     if ev_hash existing = ev_hash e
                     then (Inr (IngestDuplicate, ev_ingested existing), m)
                     else (Inl ErrConflict, m)
                 | None \<Rightarrow>
                     let e = (if is_zero (ev_ingested e) then e\<lparr>ev_ingested := now\<rparr> else e)
                     in (Inr (IngestAccepted, now),
                         m\<lparr>mr_events := AList.update (ev_id e) e (mr_events m)\<rparr>))))"

definition get_event :: "string \<Rightarrow> mem_repo \<Rightarrow> store_error + stored_event" where
  "get_event i m = (case map_of (mr_events m) i of None \<Rightarrow> Inl ErrNotFound | Some e \<Rightarrow> Inr e)"

definition clamp_limit :: "int \<Rightarrow> int" where
  "clamp_limit n = (let n = (if n \<le> 0 then 50 else n) in if n > 500 then 500 else n)"

text \<open>The loop body of \<open>QueryTimeline\<close>, without the comparison against the cursor.\<close>

definition timeline_matches :: "timeline_query \<Rightarrow> stored_event \<Rightarrow> bool" where
  "timeline_matches q e \<longleftrightarrow>
     \<not> (\<not> is_zero (tq_from q) \<and> ev_time e < tq_from q) \<and>
     \<not> (\<not> is_zero (tq_to q) \<and> tq_to q < ev_time e) \<and>
     \<not> (tq_subject q \<noteq> [] \<and> ev_subject e \<noteq> tq_subject q) \<and>
     \<not> (tq_subject q \<noteq> [] \<and> tq_cluster q \<noteq> [] \<and>
        extension_string (ev_extensions e) ''cluster'' \<noteq> tq_cluster q) \<and>
     \<not> (tq_subject q \<noteq> [] \<and> tq_namespace q \<noteq> [] \<and>
        extension_string (ev_extensions e) ''namespace'' \<noteq> tq_namespace q) \<and>
     \<not> (tq_source q \<noteq> [] \<and> ev_source e \<noteq> tq_source q) \<and>
     \<not> (tq_type q \<noteq> [] \<and> ev_type e \<noteq> tq_type q) \<and>
     \<not> (tq_corr_key q \<noteq> [] \<and> tq_corr_value q \<noteq> [] \<and>
        extension_string (ev_extensions e) (tq_corr_key q) \<noteq> tq_corr_value q) \<and>
     \<not> (\<not> tq_supporting q \<and> extension_bool (ev_extensions e) ''supporting_observation'')"

definition after_cursor :: "time \<Rightarrow> string \<Rightarrow> stored_event \<Rightarrow> bool" where
  "after_cursor ts i e \<longleftrightarrow>
     \<not> (\<not> is_zero ts \<and> (ev_time e < ts \<or> (ev_time e = ts \<and> ev_id e \<le> i)))"

definition timeline_page :: "int \<Rightarrow> stored_event list \<Rightarrow> timeline_result" where
  "timeline_page limit items =
     (if int (length items) > limit
      then (let page = take (nat limit) items; e = last page
            in \<lparr>tr_items = page, tr_next = encode_cursor (ev_time e) (ev_id e)\<rparr>)
      else \<lparr>tr_items = items, tr_next = []\<rparr>)"

definition query_timeline :: "timeline_query \<Rightarrow> mem_repo \<Rightarrow> store_error + timeline_result" where
  "query_timeline q m =
     (let limit = clamp_limit (tq_limit q)
      in case decode_cursor (tq_cursor q) of
           Inl err \<Rightarrow> Inl err
         | Inr (ts, i) \<Rightarrow>
             Inr (timeline_page limit (sort_stored_events
               (filter (\<lambda>e. timeline_matches q e \<and> after_cursor ts i e) (map snd (mr_events m))))))"

definition subject_of :: "stored_event \<Rightarrow> subject_info" where
  "subject_of e =
     \<lparr>si_subject = ev_subject e, si_cluster = extension_string (ev_extensions e) ''cluster'',
      si_namespace = extension_string (ev_extensions e) ''namespace''\<rparr>"

definition subject_key :: "subject_info \<Rightarrow> string" where
  "subject_key s = si_subject s @ '':'' @ si_cluster s @ '':'' @ si_namespace s"

text \<open>The loop over the map with the set \<open>seen\<close> of keys.\<close>

fun first_subjects :: "string list \<Rightarrow> subject_info list \<Rightarrow> subject_info list" where
  "first_subjects seen [] = []"
| "first_subjects seen (s # ss) =
     (if subject_key s \<in> set seen then first_subjects seen ss
      else s # first_subjects (subject_key s # seen) ss)"

definition list_subjects :: "mem_repo \<Rightarrow> subject_info list" where
  "list_subjects m = sort_key subject_key (first_subjects [] (map (subject_of \<circ> snd) (mr_events m)))"

definition events_by_extension ::
    "string \<Rightarrow> string \<Rightarrow> int \<Rightarrow> mem_repo \<Rightarrow> store_error + stored_event list" where
  "events_by_extension k v limit m =
     (if k = [] \<or> v = [] then Inl ErrInvalidInput
      else (let limit = (if limit \<le> 0 then 100 else limit);
                out = sort_stored_events
                  (filter (\<lambda>e. extension_string (ev_extensions e) k = v) (map snd (mr_events m)))
            in Inr (if int (length out) > limit then take (nat limit) out else out)))"

definition create_export ::
    "time \<Rightarrow> string \<Rightarrow> (string \<times> gval) list \<Rightarrow> mem_repo \<Rightarrow> (store_error + export_job) \<times> mem_repo" where
  "create_export now format flt m =
     (let format = (if format = [] then ''json'' else format);
          i = ''exp_'' @ show_int (unix_nano now);
          job = \<lparr>ej_id = i, ej_status = ''pending'', ej_format = format, ej_filter = flt,
                 ej_artifact = [], ej_error = [], ej_created = now, ej_completed = None\<rparr>
      in (Inr job, m\<lparr>mr_exports := AList.update i job (mr_exports m)\<rparr>))"

definition set_export_completed ::
    "time \<Rightarrow> string \<Rightarrow> string \<Rightarrow> mem_repo \<Rightarrow> store_error option \<times> mem_repo" where
  "set_export_completed now i uri m =
     (case map_of (mr_exports m) i of
        None \<Rightarrow> (Some ErrNotFound, m)
      | Some job \<Rightarrow>
          (None, m\<lparr>mr_exports := AList.update i
             (job\<lparr>ej_status := ''completed'', ej_artifact := uri, ej_completed := Some now\<rparr>)
             (mr_exports m)\<rparr>))"

definition set_export_failed ::
    "time \<Rightarrow> string \<Rightarrow> string \<Rightarrow> mem_repo \<Rightarrow> store_error option \<times> mem_repo" where
  "set_export_failed now i msg m =
     (case map_of (mr_exports m) i of
        None \<Rightarrow> (Some ErrNotFound, m)
      | Some job \<Rightarrow>
          (None, m\<lparr>mr_exports := AList.update i
             (job\<lparr>ej_status := ''failed'', ej_error := msg, ej_completed := Some now\<rparr>)
             (mr_exports m)\<rparr>))"

definition get_export :: "string \<Rightarrow> mem_repo \<Rightarrow> store_error + export_job" where
  "get_export i m = (case map_of (mr_exports m) i of None \<Rightarrow> Inl ErrNotFound | Some j \<Rightarrow> Inr j)"

definition delete_event :: "string \<Rightarrow> mem_repo \<Rightarrow> store_error option \<times> mem_repo" where
  "delete_event i m = (Some ErrAppendOnly, m)"

subsection \<open>Cursors are read back\<close>

lemma decode_encode_cursor:
  "time_ok ts \<Longrightarrow> decode_cursor (encode_cursor ts i) = Inr (ts, i)"
proof -
  assume ts: "time_ok ts"
  define kts where "kts = [(''ts'', quote_string (format_rfc3339nano ts)), (''id'', quote_string i)]"
  define kvs where "kvs = [(''ts'', GStr (format_rfc3339nano ts)), (''id'', GStr i)]"
  have "unmarshal_members (json_object kts) = Some kvs"
    by (rule unmarshal_members_object) (simp_all add: kts_def kvs_def reads_quote)
  moreover have "struct_string ''ts'' kvs = Some (format_rfc3339nano ts)" "struct_string ''id'' kvs = Some i"
    by (simp_all add: kvs_def struct_string_def upper_char_def char_of_def)
  moreover have "json_object kts \<noteq> []" by (simp add: json_object_def)
  ultimately show ?thesis
    using parse_format_rfc3339nano [OF ts] b64_encode_nonempty [of "json_object kts" True]
    by (auto simp: encode_cursor_def decode_cursor_def b64_decode_encode trim_space_b64 simp flip: kts_def)
qed

subsection \<open>The invariant of the repository\<close>

definition export_ok :: "export_job \<Rightarrow> bool" where
  "export_ok j \<longleftrightarrow>
     ej_format j \<noteq> [] \<and>
     (ej_status j = ''pending'' \<and> ej_completed j = None \<and> ej_artifact j = [] \<and> ej_error j = [] \<or>
      ej_status j \<in> {''completed'', ''failed''} \<and> ej_completed j \<noteq> None)"

definition mem_ok :: "mem_repo \<Rightarrow> bool" where
  "mem_ok m \<longleftrightarrow>
     distinct (map fst (mr_events m)) \<and>
     (\<forall>(k, e) \<in> set (mr_events m). ev_id e = k \<and> validate_stored_event e \<and> ev_hash e \<noteq> []) \<and>
     distinct (map fst (mr_exports m)) \<and>
     (\<forall>(k, j) \<in> set (mr_exports m). ej_id j = k \<and> export_ok j)"

lemma compute_integrity_hash_nonempty: "compute_integrity_hash e = Inr h \<Longrightarrow> h \<noteq> []"
proof -
  have "sha256_hex t \<noteq> []" for t using length_sha256_hex [of t] by force
  then show "compute_integrity_hash e = Inr h \<Longrightarrow> h \<noteq> []"
    by (auto simp: compute_integrity_hash_def split: option.splits)
qed

lemma with_hash_Inr:
  "with_hash e = Inr e' \<Longrightarrow>
   ev_hash e' \<noteq> [] \<and> ev_id e' = ev_id e \<and> same_content e' e \<and>
   validate_stored_event e' = validate_stored_event e"
  by (auto simp: with_hash_def same_content_def validate_stored_event_def
      dest: compute_integrity_hash_nonempty split: if_splits sum.splits)

lemma map_of_update: "map_of (AList.update k v al) = (map_of al)(k \<mapsto> v)"
  by (rule update_conv')

lemma set_update_distinct:
  "distinct (map fst al) \<Longrightarrow> set (AList.update k v al) = {(k', v') \<in> set al. k' \<noteq> k} \<union> {(k, v)}"
  by (induction al) (auto dest: image_eqI [of _ fst] intro: rev_image_eqI)

lemma AList_update_fresh: "map_of al k = None \<Longrightarrow> AList.update k v al = al @ [(k, v)]"
  by (induction al) (auto split: if_splits)

lemma mem_ok_new [simp]: "mem_ok new_memory_repository"
  by (simp add: mem_ok_def new_memory_repository_def)

lemma ingest_event_cases:
  obtains (invalid) "\<not> validate_stored_event e" "ingest_event now e m = (Inl ErrInvalidInput, m)"
  | (unhashed) err where "validate_stored_event e" "with_hash e = Inl err" "ingest_event now e m = (Inl err, m)"
  | (duplicate) e' old where "validate_stored_event e" "with_hash e = Inr e'"
      "map_of (mr_events m) (ev_id e) = Some old" "ev_hash old = ev_hash e'"
      "ingest_event now e m = (Inr (IngestDuplicate, ev_ingested old), m)"
  | (conflict) e' old where "validate_stored_event e" "with_hash e = Inr e'"
      "map_of (mr_events m) (ev_id e) = Some old" "ev_hash old \<noteq> ev_hash e'"
      "ingest_event now e m = (Inl ErrConflict, m)"
  | (accepted) e' where "validate_stored_event e" "with_hash e = Inr e'"
      "map_of (mr_events m) (ev_id e) = None"
      "ingest_event now e m = (Inr (IngestAccepted, now),
         m\<lparr>mr_events := mr_events m @
           [(ev_id e, if is_zero (ev_ingested e') then e'\<lparr>ev_ingested := now\<rparr> else e')]\<rparr>)"
proof (cases "validate_stored_event e")
  case False
  then show thesis by (intro invalid) (simp_all add: ingest_event_def)
next
  case v: True
  show thesis
  proof (cases "with_hash e")
    case (Inl err)
    with v show thesis by (intro unhashed) (simp_all add: ingest_event_def)
  next
    case (Inr e')
    then have i: "ev_id e' = ev_id e" by (simp add: with_hash_Inr)
    show thesis
    proof (cases "map_of (mr_events m) (ev_id e)")
      case None
      with v Inr i show thesis
        by (intro accepted) (auto simp: ingest_event_def Let_def AList_update_fresh)
    next
      case (Some old)
      with v Inr i show thesis
        by (cases "ev_hash old = ev_hash e'") (auto intro: duplicate conflict simp: ingest_event_def)
    qed
  qed
qed

lemma mem_ok_ingest:
  assumes "mem_ok m"
  shows "mem_ok (snd (ingest_event now e m))"
proof (cases rule: ingest_event_cases [where e = e and now = now and m = m])
  case (accepted e')
  then show ?thesis
    using assms with_hash_Inr [OF accepted(2)]
    by (auto simp: mem_ok_def map_of_eq_None_iff validate_stored_event_def)
qed (use assms in simp_all)

lemma mem_ok_exports:
  assumes "mem_ok m" "ej_id j = i" "export_ok j"
  shows "mem_ok (m\<lparr>mr_exports := AList.update i j (mr_exports m)\<rparr>)"
  using assms by (auto simp: mem_ok_def set_update_distinct distinct_update)

lemma mem_ok_create_export: "mem_ok m \<Longrightarrow> mem_ok (snd (create_export now f flt m))"
  by (auto simp: create_export_def Let_def export_ok_def intro!: mem_ok_exports)

lemma mem_ok_lookup_export: "mem_ok m \<Longrightarrow> map_of (mr_exports m) i = Some j \<Longrightarrow> ej_id j = i \<and> export_ok j"
  by (auto simp: mem_ok_def dest!: map_of_SomeD)

lemma mem_ok_set_export:
  "mem_ok m \<Longrightarrow> mem_ok (snd (set_export_completed now i uri m))"
  "mem_ok m \<Longrightarrow> mem_ok (snd (set_export_failed now i msg m))"
  by (auto simp: set_export_completed_def set_export_failed_def export_ok_def
      intro!: mem_ok_exports split: option.split dest: mem_ok_lookup_export)

lemma exports_keep_events [simp]:
  "mr_events (snd (create_export now f flt m)) = mr_events m"
  "mr_events (snd (set_export_completed now i uri m)) = mr_events m"
  "mr_events (snd (set_export_failed now i msg m)) = mr_events m"
  "snd (delete_event i m) = m"
  by (simp_all add: create_export_def set_export_completed_def set_export_failed_def delete_event_def
      Let_def split: option.split)

subsection \<open>The timeline as a paginated listing\<close>

text \<open>All events that match the query, and the page that the code returns for a cursor.\<close>

definition timeline_listing :: "mem_repo \<times> timeline_query \<Rightarrow> stored_event list" where
  "timeline_listing s =
     sort_stored_events (filter (timeline_matches (snd s)) (map snd (mr_events (fst s))))"

definition timeline_fetch :: "mem_repo \<times> timeline_query \<Rightarrow> string \<Rightarrow> (stored_event list \<times> string) option" where
  "timeline_fetch s c =
     (case query_timeline ((snd s)\<lparr>tq_cursor := c\<rparr>) (fst s) of
        Inl _ \<Rightarrow> None | Inr r \<Rightarrow> Some (tr_items r, tr_next r))"

text \<open>The cursor prints the time with a four-digit year, so the events must have such times.\<close>

definition times_ok :: "mem_repo \<Rightarrow> bool" where
  "times_ok m \<longleftrightarrow> (\<forall>(k, e) \<in> set (mr_events m). time_ok (ev_time e))"

lemma timeline_matches_cursor [simp]: "timeline_matches (q\<lparr>tq_cursor := c\<rparr>) = timeline_matches q"
  by (simp add: timeline_matches_def fun_eq_iff)

lemma clamp_limit_bounds: "1 \<le> clamp_limit n" "clamp_limit n \<le> 500"
  by (simp_all add: clamp_limit_def Let_def)

lemma timeline_page_of:
  "0 \<le> n \<Longrightarrow> (tr_items (timeline_page n es), tr_next (timeline_page n es)) =
     page_of (\<lambda>e. encode_cursor (ev_time e) (ev_id e)) [] (nat n) es"
  by (auto simp: timeline_page_def page_of_def Let_def)

lemma event_keys_distinct:
  assumes "mem_ok m"
  shows "distinct (map event_key (map snd (mr_events m)))"
proof -
  have "map fst (mr_events m) = map ev_id (map snd (mr_events m))"
    using assms by (auto simp: mem_ok_def)
  also have "\<dots> = map snd (map event_key (map snd (mr_events m)))"
    by (simp add: event_key_def)
  finally have "distinct (map snd (map event_key (map snd (mr_events m))))"
    using assms by (simp only: mem_ok_def)
  then show ?thesis unfolding distinct_map [of snd] by blast
qed

lemma timeline_listing_sorted:
  "mem_ok (fst s) \<Longrightarrow> sorted_wrt (<) (map event_key (timeline_listing s))"
  unfolding timeline_listing_def sort_stored_events_def
  by (intro sorted_wrt_strict_sort_key distinct_map_filter event_keys_distinct)

lemma timeline_listing_mem:
  assumes "mem_ok (fst s)" "e \<in> set (timeline_listing s)"
  shows "(ev_id e, e) \<in> set (mr_events (fst s))" "timeline_matches (snd s) e" "ev_time e \<noteq> 0"
  using assms
  by (auto simp: timeline_listing_def sort_stored_events_def mem_ok_def validate_stored_event_def)

lemma after_cursor_key: "ts \<noteq> 0 \<Longrightarrow> after_cursor ts i e \<longleftrightarrow> (ts, i) < event_key e"
  by (auto simp: after_cursor_def event_key_def)

lemma timeline_fetch_decoded:
  assumes "decode_cursor c = Inr (ts, i)"
  shows "timeline_fetch s c =
    Some (page_of (\<lambda>e. encode_cursor (ev_time e) (ev_id e)) [] (nat (clamp_limit (tq_limit (snd s))))
      (filter (after_cursor ts i) (timeline_listing s)))"
proof -
  define n where "n = clamp_limit (tq_limit (snd s))"
  have n: "0 \<le> n" using clamp_limit_bounds [of "tq_limit (snd s)"] by (simp add: n_def)
  have f: "sort_stored_events (filter (\<lambda>e. timeline_matches (snd s) e \<and> after_cursor ts i e)
      (map snd (mr_events (fst s)))) = filter (after_cursor ts i) (timeline_listing s)"
    by (simp add: timeline_listing_def sort_stored_events_def filter_sort conj_commute)
  show ?thesis
    by (simp add: timeline_fetch_def query_timeline_def Let_def assms f timeline_page_of [OF n]
        flip: n_def)
qed

interpretation timeline: keyset_listing
  "\<lambda>s. mem_ok (fst s) \<and> times_ok (fst s)" timeline_listing event_key
  "\<lambda>e. encode_cursor (ev_time e) (ev_id e)" "\<lambda>s. nat (clamp_limit (tq_limit (snd s)))" timeline_fetch
proof
  fix s :: "mem_repo \<times> timeline_query"
  assume s: "mem_ok (fst s) \<and> times_ok (fst s)"
  then show "sorted_wrt (<) (map event_key (timeline_listing s))" by (simp add: timeline_listing_sorted)
  show "0 < nat (clamp_limit (tq_limit (snd s)))"
    using clamp_limit_bounds [of "tq_limit (snd s)"] by simp
  have "filter (after_cursor 0 []) (timeline_listing s) = timeline_listing s"
    by (simp add: after_cursor_def)
  then show "timeline_fetch s [] = Some (page_of (\<lambda>e. encode_cursor (ev_time e) (ev_id e)) []
      (nat (clamp_limit (tq_limit (snd s)))) (timeline_listing s))"
    by (subst timeline_fetch_decoded [of _ 0 "[]"]) (simp_all add: decode_cursor_def)
  fix e
  assume "e \<in> set (timeline_listing s)"
  then have "ev_time e \<noteq> 0" "time_ok (ev_time e)"
    using timeline_listing_mem [of s e] s by (auto simp: times_ok_def)
  then show "timeline_fetch s (encode_cursor (ev_time e) (ev_id e)) =
      Some (page_of (\<lambda>e. encode_cursor (ev_time e) (ev_id e)) [] (nat (clamp_limit (tq_limit (snd s))))
        (filter (\<lambda>y. event_key e < event_key y) (timeline_listing s)))"
    by (subst timeline_fetch_decoded [OF decode_encode_cursor])
      (simp_all add: after_cursor_key event_key_def cong: filter_cong)
next
  fix e
  show "encode_cursor (ev_time e) (ev_id e) \<noteq> []"
    by (simp add: encode_cursor_def b64_encode_nonempty json_object_def)
qed

text \<open>What comes after a key is a suffix of a sorted list.\<close>

lemma filter_sorted_suffix:
  "sorted_wrt (<) (map f xs) \<Longrightarrow> filter (\<lambda>x. k < f x) xs = dropWhile (\<lambda>x. \<not> k < f x) xs"
  for k :: "'k :: linorder"
proof (induction xs)
  case (Cons x xs)
  have "filter (\<lambda>x. k < f x) xs = xs" if "k < f x"
    using Cons.prems that by (auto simp: filter_id_conv dest: less_trans)
  with Cons show ?case by (cases "k < f x") simp_all
qed simp

lemma after_cursor_suffix:
  assumes "mem_ok (fst s)"
  shows "\<exists>ys. timeline_listing s = ys @ filter (after_cursor ts i) (timeline_listing s)"
proof (cases "ts = 0")
  case True
  then show ?thesis by (simp add: after_cursor_def)
next
  case False
  have "filter (after_cursor ts i) (timeline_listing s) =
      dropWhile (\<lambda>e. \<not> (ts, i) < event_key e) (timeline_listing s)"
    using filter_sorted_suffix [OF timeline_listing_sorted [OF assms], of "(ts, i)"] after_cursor_key [OF False]
    by (simp cong: filter_cong)
  then show ?thesis by (metis takeWhile_dropWhile_id)
qed

lemma timeline_listing_length: "length (timeline_listing s) \<le> length (mr_events (fst s))"
  using length_filter_le [of "timeline_matches (snd s)" "map snd (mr_events (fst s))"]
  by (simp add: timeline_listing_def sort_stored_events_def)

subsection \<open>Listing subjects\<close>

lemma first_subjects_keys:
  "distinct (map subject_key (first_subjects seen ss)) \<and>
   set (map subject_key (first_subjects seen ss)) = subject_key ` set ss - set seen \<and>
   set (first_subjects seen ss) \<subseteq> set ss"
proof (induction seen ss rule: first_subjects.induct)
  case (1 seen)
  then show ?case by simp
next
  case (2 seen s ss)
  then show ?case by (cases "subject_key s \<in> set seen") auto
qed

lemma list_subjects_keys:
  "sorted_wrt (<) (map subject_key (list_subjects m))"
  "subject_key ` set (list_subjects m) = subject_key ` subject_of ` snd ` set (mr_events m)"
  "set (list_subjects m) \<subseteq> subject_of ` snd ` set (mr_events m)"
  using first_subjects_keys [of "[]" "map (subject_of \<circ> snd) (mr_events m)"]
  by (simp_all add: list_subjects_def sorted_wrt_strict_sort_key image_image comp_def)

definition plain_subject :: "subject_info \<Rightarrow> bool" where
  "plain_subject s \<longleftrightarrow> CHR '':'' \<notin> set (si_subject s) \<and> CHR '':'' \<notin> set (si_cluster s)"

lemma subject_key_inject:
  "plain_subject s \<Longrightarrow> plain_subject t \<Longrightarrow> subject_key s = subject_key t \<longleftrightarrow> s = t"
  by (auto simp: plain_subject_def subject_key_def append_sep_inject subject_info.equality)

subsection \<open>Lookups by extension\<close>

lemma events_by_extension_Inr:
  assumes "events_by_extension k v n m = Inr es" "mem_ok m"
  shows "sorted_wrt (<) (map event_key es)"
    and "\<forall>e\<in>set es. (ev_id e, e) \<in> set (mr_events m) \<and> extension_string (ev_extensions e) k = v"
    and "length es \<le> nat (if n \<le> 0 then 100 else n)"
proof -
  define out where "out = sort_stored_events
      (filter (\<lambda>e. extension_string (ev_extensions e) k = v) (map snd (mr_events m)))"
  define l where "l = nat (if n \<le> 0 then 100 else n)"
  have es: "es = take l out"
    using assms(1) by (auto simp: events_by_extension_def Let_def l_def simp flip: out_def split: if_splits)
  have "sorted_wrt (<) (map event_key out)"
    unfolding out_def sort_stored_events_def
    by (intro sorted_wrt_strict_sort_key distinct_map_filter event_keys_distinct assms)
  then show "sorted_wrt (<) (map event_key es)" by (simp add: es sorted_wrt_take flip: take_map)
  have "\<forall>e\<in>set out. (ev_id e, e) \<in> set (mr_events m) \<and> extension_string (ev_extensions e) k = v"
    using assms(2) by (auto simp: out_def sort_stored_events_def mem_ok_def)
  then show "\<forall>e\<in>set es. (ev_id e, e) \<in> set (mr_events m) \<and> extension_string (ev_extensions e) k = v"
    by (auto simp: es dest: in_set_takeD)
  show "length es \<le> nat (if n \<le> 0 then 100 else n)" by (simp add: es flip: l_def)
qed

subsection \<open>Properties\<close>

text \<open>
  C1: following the timeline's cursors from the first page returns every event that matches the
  query, exactly once and in order of time and id, whatever the limit of the query is.
\<close>

theorem timeline_pages_complete:
  assumes "mem_ok m" "times_ok m" "length (timeline_listing (m, q)) < n"
  shows "follow (timeline_fetch (m, q)) n [] = Some (timeline_listing (m, q))"
  using assms by (intro timeline.follow_all) simp_all

definition sample_event :: "string \<Rightarrow> time \<Rightarrow> stored_event" where
  "sample_event i t =
     \<lparr>ev_id = i, ev_type = ''sync'', ev_source = ''argo'', ev_subject = ''app'', ev_time = t,
      ev_extensions = [], ev_data = ''{}'', ev_hash = ''h'', ev_ingested = 1\<rparr>"

definition sample_repo :: mem_repo where
  "sample_repo =
     \<lparr>mr_events = [(''b'', sample_event ''b'' 7), (''a'', sample_event ''a'' 7),
        (''c'', sample_event ''c'' 5)], mr_exports = []\<rparr>"

definition sample_query :: timeline_query where
  "sample_query =
     \<lparr>tq_subject = ''app'', tq_cluster = [], tq_namespace = [], tq_from = 0, tq_to = 0, tq_source = [],
      tq_type = [], tq_corr_key = [], tq_corr_value = [], tq_supporting = False, tq_limit = 1,
      tq_cursor = []\<rparr>"

lemma sample_listing:
  "timeline_listing (sample_repo, sample_query) =
     [sample_event ''c'' 5, sample_event ''a'' 7, sample_event ''b'' 7]"
  by code_simp

lemma sample_ok: "mem_ok sample_repo" "times_ok sample_repo"
  by (simp_all add: mem_ok_def times_ok_def sample_repo_def sample_event_def validate_stored_event_def
      time_ok_def max_time_def day_secs_def second_def days_before_def)

theorem timeline_pages_complete_witness:
  "follow (timeline_fetch (sample_repo, sample_query)) 4 [] =
     Some [sample_event ''c'' 5, sample_event ''a'' 7, sample_event ''b'' 7]"
  using timeline_pages_complete [of sample_repo sample_query 4] sample_ok
  by (simp add: sample_listing)

text \<open>
  C2: paging ends. From any cursor that decodes, wherever a client has it from, following the
  cursors of the timeline reaches the last page within as many requests as there are events, and
  yields what matches the query after that cursor.
\<close>

theorem timeline_paging_ends:
  assumes "mem_ok m" "times_ok m" "decode_cursor c = Inr (ts, i)" "length (mr_events m) < n"
  shows "follow (timeline_fetch (m, q)) n c = Some (filter (after_cursor ts i) (timeline_listing (m, q)))"
proof -
  let ?zs = "filter (after_cursor ts i) (timeline_listing (m, q))"
  obtain ys where "timeline_listing (m, q) = ys @ ?zs"
    using after_cursor_suffix [of "(m, q)"] assms(1) by auto
  moreover have "length ?zs < n"
    using timeline_listing_length [of "(m, q)"] assms(4) by (intro le_less_trans [OF length_filter_le]) simp
  ultimately show ?thesis
    using timeline.follow_page [of "(m, q)" ys ?zs c n] timeline_fetch_decoded [OF assms(3)] assms(1,2) by simp
qed

theorem timeline_paging_ends_witness:
  "follow (timeline_fetch (sample_repo, sample_query)) 4 (encode_cursor 6 ''z'') =
     Some [sample_event ''a'' 7, sample_event ''b'' 7]"
proof -
  have "decode_cursor (encode_cursor 6 ''z'') = Inr (6, ''z'')"
    by (rule decode_encode_cursor) (simp add: time_ok_def max_time_def day_secs_def second_def days_before_def)
  moreover have "length (mr_events sample_repo) < 4" by (simp add: sample_repo_def)
  ultimately show ?thesis
    using timeline_paging_ends [of sample_repo "encode_cursor 6 ''z''" 6 "''z''" 4 sample_query] sample_ok
    by (simp add: sample_listing after_cursor_def sample_event_def)
qed

end
