(* ===== verification/Repository.thy ===== *)
theory Repository
  imports Store
begin

text \<open>
  The Go interface \<open>store.Repository\<close> as a record of operations over an abstract state, the
  contract its clients rely on as the locale \<open>repository_contract\<close>, and the in-memory repository
  as an instance. \<open>repo_step\<close> is the step relation of a repository: in one step some client calls
  one of its writing operations. Inside the locale the event log is shown to be append-only along
  any sequence of steps, and ingestion to be safe to retry.
\<close>

record 's repository =
  repo_ingest :: "time \<Rightarrow> stored_event \<Rightarrow> 's \<Rightarrow> (store_error + ingest_status \<times> time) \<times> 's"
  repo_get_event :: "string \<Rightarrow> 's \<Rightarrow> store_error + stored_event"
  repo_timeline :: "timeline_query \<Rightarrow> 's \<Rightarrow> store_error + timeline_result"
  repo_subjects :: "'s \<Rightarrow> store_error + subject_info list"
  repo_by_extension :: "string \<Rightarrow> string \<Rightarrow> int \<Rightarrow> 's \<Rightarrow> store_error + stored_event list"
  repo_create_export :: "time \<Rightarrow> string \<Rightarrow> (string \<times> gval) list \<Rightarrow> 's \<Rightarrow> (store_error + export_job) \<times> 's"
  repo_set_completed :: "time \<Rightarrow> string \<Rightarrow> string \<Rightarrow> 's \<Rightarrow> store_error option \<times> 's"
  repo_set_failed :: "time \<Rightarrow> string \<Rightarrow> string \<Rightarrow> 's \<Rightarrow> store_error option \<times> 's"
  repo_get_export :: "string \<Rightarrow> 's \<Rightarrow> store_error + export_job"
  repo_delete :: "string \<Rightarrow> 's \<Rightarrow> store_error option \<times> 's"

definition memory_repository :: "mem_repo repository" where
  "memory_repository =
     \<lparr>repo_ingest = ingest_event, repo_get_event = get_event, repo_timeline = query_timeline,
      repo_subjects = (\<lambda>m. Inr (list_subjects m)), repo_by_extension = events_by_extension,
      repo_create_export = create_export, repo_set_completed = set_export_completed,
      repo_set_failed = set_export_failed, repo_get_export = get_export, repo_delete = delete_event\<rparr>"

lemma memory_repository_simps [simp]:
  "repo_ingest memory_repository = ingest_event" "repo_get_event memory_repository = get_event"
  "repo_timeline memory_repository = query_timeline"
  "repo_subjects memory_repository = (\<lambda>m. Inr (list_subjects m))"
  "repo_by_extension memory_repository = events_by_extension"
  "repo_create_export memory_repository = create_export"
  "repo_set_completed memory_repository = set_export_completed"
  "repo_set_failed memory_repository = set_export_failed"
  "repo_get_export memory_repository = get_export" "repo_delete memory_repository = delete_event"
  by (simp_all add: memory_repository_def)

subsection \<open>Steps\<close>

inductive repo_step :: "'s repository \<Rightarrow> 's \<Rightarrow> 's \<Rightarrow> bool" for R where
  ingest: "repo_step R s (snd (repo_ingest R now e s))"
| create_export: "repo_step R s (snd (repo_create_export R now f flt s))"
| set_completed: "repo_step R s (snd (repo_set_completed R now i uri s))"
| set_failed: "repo_step R s (snd (repo_set_failed R now i msg s))"
| delete: "repo_step R s (snd (repo_delete R i s))"

inductive_cases repo_stepE: "repo_step R s t"

abbreviation repo_steps :: "'s repository \<Rightarrow> 's \<Rightarrow> 's \<Rightarrow> bool" where
  "repo_steps R \<equiv> (repo_step R)\<^sup>*\<^sup>*"

subsection \<open>The contract\<close>

locale repository_contract =
  fixes R :: "'s repository"
    and ok :: "'s \<Rightarrow> bool"
  assumes ok_ingest: "ok s \<Longrightarrow> ok (snd (repo_ingest R now e s))"
    and ok_create: "ok s \<Longrightarrow> ok (snd (repo_create_export R now f flt s))"
    and ok_completed: "ok s \<Longrightarrow> ok (snd (repo_set_completed R now i uri s))"
    and ok_failed: "ok s \<Longrightarrow> ok (snd (repo_set_failed R now i msg s))"
    and delete_refused: "repo_delete R i s = (Some ErrAppendOnly, s)"
    and get_total: "ok s \<Longrightarrow> repo_get_event R i s = Inl err \<Longrightarrow> err = ErrNotFound"
    and get_own_id: "ok s \<Longrightarrow> repo_get_event R i s = Inr e \<Longrightarrow> ev_id e = i"
    and ingest_refused: "fst (repo_ingest R now e s) = Inl err \<Longrightarrow> snd (repo_ingest R now e s) = s"
    and ingest_known: "ok s \<Longrightarrow> validate_stored_event e \<Longrightarrow> with_hash e = Inr e' \<Longrightarrow>
      repo_get_event R (ev_id e) s = Inr old \<Longrightarrow>
      repo_ingest R now e s =
        (if ev_hash old = ev_hash e' then Inr (IngestDuplicate, ev_ingested old) else Inl ErrConflict, s)"
    and ingest_new: "ok s \<Longrightarrow> validate_stored_event e \<Longrightarrow> with_hash e = Inr e' \<Longrightarrow>
      repo_get_event R (ev_id e) s = Inl ErrNotFound \<Longrightarrow>
      fst (repo_ingest R now e s) = Inr (IngestAccepted, now) \<and>
      (\<exists>t. repo_get_event R (ev_id e) (snd (repo_ingest R now e s)) = Inr (e'\<lparr>ev_ingested := t\<rparr>))"
    and ingest_others: "ok s \<Longrightarrow> i \<noteq> ev_id e \<Longrightarrow>
      repo_get_event R i (snd (repo_ingest R now e s)) = repo_get_event R i s"
    and ingest_invalid: "\<not> validate_stored_event e \<Longrightarrow> repo_ingest R now e s = (Inl ErrInvalidInput, s)"
    and ingest_unhashed: "validate_stored_event e \<Longrightarrow> with_hash e = Inl err \<Longrightarrow>
      repo_ingest R now e s = (Inl err, s)"
    and create_events: "repo_get_event R i (snd (repo_create_export R now f flt s)) = repo_get_event R i s"
    and completed_events: "repo_get_event R i (snd (repo_set_completed R now j uri s)) = repo_get_event R i s"
    and failed_events: "repo_get_event R i (snd (repo_set_failed R now j msg s)) = repo_get_event R i s"
    and create_timeline: "repo_timeline R q (snd (repo_create_export R now f flt s)) = repo_timeline R q s"
    and completed_timeline: "repo_timeline R q (snd (repo_set_completed R now j uri s)) = repo_timeline R q s"
    and failed_timeline: "repo_timeline R q (snd (repo_set_failed R now j msg s)) = repo_timeline R q s"
    and create_get: "repo_create_export R now f flt s = (Inr job, s') \<Longrightarrow>
      repo_get_export R (ej_id job) s' = Inr job \<and> ej_status job = ''pending'' \<and> ej_filter job = flt"
    and completed_get: "repo_set_completed R now i uri s = (None, s') \<Longrightarrow>
      \<exists>job. repo_get_export R i s' = Inr job \<and> ej_status job = ''completed'' \<and> ej_artifact job = uri"
    and failed_get: "repo_set_failed R now i msg s = (None, s') \<Longrightarrow>
      \<exists>job. repo_get_export R i s' = Inr job \<and> ej_status job = ''failed'' \<and> ej_error job = msg"
    and completed_known: "repo_get_export R i s = Inr job \<Longrightarrow> fst (repo_set_completed R now i uri s) = None"
    and failed_known: "repo_get_export R i s = Inr job \<Longrightarrow> fst (repo_set_failed R now i msg s) = None"
begin

lemma ok_step: "repo_step R s t \<Longrightarrow> ok s \<Longrightarrow> ok t"
  by (erule repo_stepE) (simp_all add: ok_ingest ok_create ok_completed ok_failed delete_refused)

lemma ok_steps: "repo_steps R s t \<Longrightarrow> ok s \<Longrightarrow> ok t"
  by (induction rule: rtranclp_induct) (auto intro: ok_step)

lemma get_after_ingest:
  assumes "ok s" "repo_get_event R i s = Inr old"
  shows "repo_get_event R i (snd (repo_ingest R now e s)) = Inr old"
proof (cases "i = ev_id e \<and> validate_stored_event e")
  case True
  then show ?thesis using assms ingest_known [of s e] ingest_unhashed [of e]
    by (cases "with_hash e") simp_all
next
  case False
  then show ?thesis using assms ingest_others ingest_invalid by (cases "i = ev_id e") simp_all
qed

lemma get_step: "repo_step R s t \<Longrightarrow> ok s \<Longrightarrow> repo_get_event R i s = Inr e \<Longrightarrow> repo_get_event R i t = Inr e"
  by (erule repo_stepE)
    (simp_all add: get_after_ingest create_events completed_events failed_events delete_refused)

lemma append_only:
  "repo_steps R s t \<Longrightarrow> ok s \<Longrightarrow> repo_get_event R i s = Inr e \<Longrightarrow> repo_get_event R i t = Inr e"
  by (induction rule: rtranclp_induct) (auto intro: get_step ok_steps)

text \<open>Whatever happens in between, ingesting an accepted event again changes nothing.\<close>

lemma retry_is_duplicate:
  assumes ok: "ok s" and acc: "repo_ingest R now e s = (Inr (IngestAccepted, t), s')"
    and steps: "repo_steps R s' u"
  shows "\<exists>t'. repo_ingest R later e u = (Inr (IngestDuplicate, t'), u)"
proof -
  have v: "validate_stored_event e" using acc ingest_invalid [of e now s] by auto
  obtain e' where e': "with_hash e = Inr e'" using acc ingest_unhashed [OF v, of _ now s] by (cases "with_hash e") auto
  have "\<exists>t. repo_get_event R (ev_id e) s' = Inr (e'\<lparr>ev_ingested := t\<rparr>)"
  proof (cases "repo_get_event R (ev_id e) s")
    case (Inr old)
    then show ?thesis using ingest_known [OF ok v e'] acc by (auto split: if_splits)
  next
    case (Inl err)
    then show ?thesis using ingest_new [OF ok v e', of now] get_total [OF ok Inl] acc by simp
  qed
  then obtain t where "repo_get_event R (ev_id e) u = Inr (e'\<lparr>ev_ingested := t\<rparr>)"
    using append_only [OF steps] ok_ingest [OF ok, of now e] acc by auto
  then show ?thesis
    using ingest_known [OF _ v e', of u _ later] ok_steps [OF steps] ok_ingest [OF ok, of now e] acc
    by simp
qed

end

subsection \<open>The in-memory repository keeps the contract\<close>

lemma get_event_Inr: "get_event i m = Inr e \<longleftrightarrow> map_of (mr_events m) i = Some e"
  by (simp add: get_event_def split: option.split)

lemma get_event_Inl: "get_event i m = Inl err \<longleftrightarrow> map_of (mr_events m) i = None \<and> err = ErrNotFound"
  by (auto simp: get_event_def split: option.split)

lemma get_event_keeps: "mr_events m = mr_events m' \<Longrightarrow> get_event i m = get_event i m'"
  by (simp add: get_event_def)

lemma ingest_event_known:
  "validate_stored_event e \<Longrightarrow> with_hash e = Inr e' \<Longrightarrow> get_event (ev_id e) m = Inr old \<Longrightarrow>
   ingest_event now e m =
     (if ev_hash old = ev_hash e' then Inr (IngestDuplicate, ev_ingested old) else Inl ErrConflict, m)"
  by (auto simp: ingest_event_def get_event_Inr with_hash_Inr)

lemma ingest_event_new:
  assumes "validate_stored_event e" "with_hash e = Inr e'" "get_event (ev_id e) m = Inl ErrNotFound"
  shows "fst (ingest_event now e m) = Inr (IngestAccepted, now) \<and>
    (\<exists>t. get_event (ev_id e) (snd (ingest_event now e m)) = Inr (e'\<lparr>ev_ingested := t\<rparr>))"
proof -
  have "\<exists>t. e' = e'\<lparr>ev_ingested := t\<rparr>" by (rule exI [of _ "ev_ingested e'"]) simp
  then show ?thesis
    using assms with_hash_Inr [OF assms(2)]
    by (auto simp: ingest_event_def Let_def get_event_Inl get_event_Inr map_of_update
        intro: exI [of _ now])
qed

lemma ingest_event_others:
  "i \<noteq> ev_id e \<Longrightarrow> get_event i (snd (ingest_event now e m)) = get_event i m"
  by (cases rule: ingest_event_cases [where e = e and now = now and m = m])
    (simp_all add: get_event_def map_add_def split: option.splits)

lemma ingest_event_refused: "fst (ingest_event now e m) = Inl err \<Longrightarrow> snd (ingest_event now e m) = m"
  by (cases rule: ingest_event_cases [where e = e and now = now and m = m]) simp_all

lemma query_timeline_keeps: "mr_events m = mr_events m' \<Longrightarrow> query_timeline q m = query_timeline q m'"
  by (simp add: query_timeline_def Let_def split: sum.split prod.split)

interpretation memory: repository_contract memory_repository mem_ok
proof
  fix s i e assume "mem_ok s" "repo_get_event memory_repository i s = Inr e"
  then show "ev_id e = i" by (auto simp: get_event_Inr mem_ok_def dest!: map_of_SomeD)
next
  fix now f flt s job s'
  assume "repo_create_export memory_repository now f flt s = (Inr job, s')"
  then show "repo_get_export memory_repository (ej_id job) s' = Inr job \<and> ej_status job = ''pending'' \<and> ej_filter job = flt"
    by (auto simp: create_export_def get_export_def Let_def map_of_update)
next
  fix now i uri s s'
  assume "repo_set_completed memory_repository now i uri s = (None, s')"
  then show "\<exists>job. repo_get_export memory_repository i s' = Inr job \<and> ej_status job = ''completed'' \<and> ej_artifact job = uri"
    by (auto simp: set_export_completed_def get_export_def map_of_update split: option.splits)
next
  fix now i msg s s'
  assume "repo_set_failed memory_repository now i msg s = (None, s')"
  then show "\<exists>job. repo_get_export memory_repository i s' = Inr job \<and> ej_status job = ''failed'' \<and> ej_error job = msg"
    by (auto simp: set_export_failed_def get_export_def map_of_update split: option.splits)
qed (auto simp: mem_ok_ingest mem_ok_create_export mem_ok_set_export ingest_event_refused
      ingest_event_known ingest_event_new ingest_event_others get_event_Inl
      intro: get_event_keeps query_timeline_keeps,
    auto simp: ingest_event_def delete_event_def get_export_def set_export_completed_def
      set_export_failed_def split: option.splits)

lemma sorted_wrt_last: "sorted_wrt P xs \<Longrightarrow> x \<in> set xs \<Longrightarrow> P x (last xs) \<or> x = last xs"
  by (cases xs rule: rev_cases) (auto simp: sorted_wrt_append)

text \<open>Steps only ever add events.\<close>

lemma events_grow_step: "repo_step memory_repository m m' \<Longrightarrow> set (mr_events m) \<subseteq> set (mr_events m')"
proof (erule repo_stepE)
  fix now e
  assume "m' = snd (repo_ingest memory_repository now e m)"
  then show ?thesis
    by (cases rule: ingest_event_cases [where e = e and now = now and m = m]) auto
qed simp_all

lemma events_grow: "repo_steps memory_repository m m' \<Longrightarrow> set (mr_events m) \<subseteq> set (mr_events m')"
  by (induction rule: rtranclp_induct) (auto dest: events_grow_step)

lemma timeline_listing_grow:
  "set (mr_events m) \<subseteq> set (mr_events m') \<Longrightarrow> set (timeline_listing (m, q)) \<subseteq> set (timeline_listing (m', q))"
  by (auto simp: timeline_listing_def sort_stored_events_def)

subsection \<open>Properties\<close>

text \<open>
  C3: every state that the in-memory repository can reach from the empty one, by any sequence of
  operations of any clients, is well formed: ids are unique and match their keys, every stored
  event is complete and hashed, every export job is pending without a result or has ended with a time.
\<close>

theorem reachable_well_formed:
  assumes "repo_steps memory_repository new_memory_repository m"
  shows "mem_ok m"
  using assms by (rule memory.ok_steps) simp

lemma sample_ingest_step:
  "repo_step memory_repository new_memory_repository
     \<lparr>mr_events = [(''a'', sample_event ''a'' 7)], mr_exports = []\<rparr>"
proof -
  have "snd (ingest_event 9 (sample_event ''a'' 7) new_memory_repository) =
      \<lparr>mr_events = [(''a'', sample_event ''a'' 7)], mr_exports = []\<rparr>"
    by code_simp
  then show ?thesis
    using repo_step.ingest [of memory_repository new_memory_repository 9 "sample_event ''a'' 7"] by simp
qed

theorem reachable_well_formed_witness:
  "mem_ok \<lparr>mr_events = [(''a'', sample_event ''a'' 7)], mr_exports = []\<rparr>"
  using reachable_well_formed [OF r_into_rtranclp [of "repo_step memory_repository", OF sample_ingest_step]] .

text \<open>
  C4: the event log is append-only. From any reachable state, no sequence of operations (exports
  and attempted deletions included) changes or removes an event that can be read.
\<close>

theorem events_append_only:
  assumes "repo_steps memory_repository new_memory_repository m"
    and "repo_steps memory_repository m m'"
    and "get_event i m = Inr e"
  shows "get_event i m' = Inr e"
  using memory.append_only [of m m' i e] memory.ok_steps [OF assms(1)] assms by simp

theorem events_append_only_witness:
  "get_event ''a'' (snd (delete_event ''a'' \<lparr>mr_events = [(''a'', sample_event ''a'' 7)], mr_exports = []\<rparr>))
     = Inr (sample_event ''a'' 7)"
proof (rule events_append_only)
  show "repo_steps memory_repository new_memory_repository
      \<lparr>mr_events = [(''a'', sample_event ''a'' 7)], mr_exports = []\<rparr>"
    using sample_ingest_step by simp
  show "repo_steps memory_repository \<lparr>mr_events = [(''a'', sample_event ''a'' 7)], mr_exports = []\<rparr>
      (snd (delete_event ''a'' \<lparr>mr_events = [(''a'', sample_event ''a'' 7)], mr_exports = []\<rparr>))"
    using repo_step.delete [of memory_repository] by (intro r_into_rtranclp) (metis memory_repository_simps(10))
qed (simp add: get_event_def)

text \<open>
  C5: ingestion is safe to retry. Once an event was accepted, ingesting the same event again is
  answered as a duplicate and leaves the repository as it is, whatever happened in between.
\<close>

theorem ingest_retry:
  assumes "mem_ok m" and "ingest_event now e m = (Inr (IngestAccepted, t), m')"
    and "repo_steps memory_repository m' u"
  shows "\<exists>t'. ingest_event later e u = (Inr (IngestDuplicate, t'), u)"
  using memory.retry_is_duplicate [of m now e t m' u later] assms by simp

theorem ingest_retry_witness:
  "\<exists>t'. ingest_event 12 (sample_event ''a'' 7) \<lparr>mr_events = [(''a'', sample_event ''a'' 7)], mr_exports = []\<rparr> =
     (Inr (IngestDuplicate, t'), \<lparr>mr_events = [(''a'', sample_event ''a'' 7)], mr_exports = []\<rparr>)"
proof (rule ingest_retry)
  show "mem_ok new_memory_repository" by simp
  show "ingest_event 9 (sample_event ''a'' 7) new_memory_repository =
      (Inr (IngestAccepted, 9), \<lparr>mr_events = [(''a'', sample_event ''a'' 7)], mr_exports = []\<rparr>)"
    by code_simp
qed simp

text \<open>
  C6: a client that pages through the timeline while other clients write sees strictly increasing
  times and ids, misses no matching event that was stored when it started, and sees only events
  that match and are stored when it ends. Each page is read in the state of its time.
\<close>

theorem timeline_pages_live:
  assumes "mem_ok m" and "sorted_wrt (repo_steps memory_repository) (m # ms)"
    and "times_ok (last (m # ms))"
    and "follow_live timeline_fetch (map (\<lambda>m. (m, q)) (m # ms)) [] = Some es"
  shows "sorted_wrt (<) (map event_key es) \<and> set (timeline_listing (m, q)) \<subseteq> set es \<and>
    set es \<subseteq> set (timeline_listing (last (m # ms), q))"
proof -
  let ?ss = "map (\<lambda>m. (m, q)) (m # ms)"
  have grow: "sorted_wrt (\<lambda>m m'. set (mr_events m) \<subseteq> set (mr_events m')) (m # ms)"
    using assms(2) by (rule sorted_wrt_mono_rel [rotated]) (simp add: events_grow)
  have valid: "mem_ok m' \<and> times_ok m'" if "m' \<in> set (m # ms)" for m'
  proof
    show "mem_ok m'" using that assms(1,2) memory.ok_steps by auto
    have "set (mr_events m') \<subseteq> set (mr_events (last (m # ms)))"
      using sorted_wrt_last [OF grow that] by blast
    with assms(3) show "times_ok m'" by (auto simp: times_ok_def)
  qed
  have "\<forall>t\<in>set ?ss. (mem_ok (fst t) \<and> times_ok (fst t)) \<and>
      timeline_fetch t [] = Some (page_of (\<lambda>e. encode_cursor (ev_time e) (ev_id e)) []
        (nat (clamp_limit (tq_limit (snd t)))) (rest_after event_key None (timeline_listing t)))"
    using valid timeline.fetch_start by (auto simp: rest_after_def)
  moreover have "sorted_wrt (\<lambda>t u. set (timeline_listing t) \<subseteq> set (timeline_listing u)) ?ss"
    unfolding sorted_wrt_map using grow by (rule sorted_wrt_mono_rel [rotated]) (simp add: timeline_listing_grow)
  ultimately have "sorted_wrt (<) (map event_key es) \<and>
      set (rest_after event_key None (timeline_listing (m, q))) \<subseteq> set es \<and>
      set es \<subseteq> set (rest_after event_key None (timeline_listing (last ?ss)))"
    using assms(4) timeline.follow_live_rest [of "(m, q)" "map (\<lambda>m. (m, q)) ms" "[]" es None] by simp
  then show ?thesis by (simp add: rest_after_def last_map del: last.simps list.map)
qed

definition sample_two :: mem_repo where
  "sample_two = \<lparr>mr_events = [(''a'', sample_event ''a'' 7), (''b'', sample_event ''b'' 7)], mr_exports = []\<rparr>"

definition sample_three :: mem_repo where
  "sample_three =
     \<lparr>mr_events = [(''a'', sample_event ''a'' 7), (''b'', sample_event ''b'' 7), (''c'', sample_event ''c'' 5)],
      mr_exports = []\<rparr>"

lemma sample_three_step: "repo_step memory_repository sample_two sample_three"
proof -
  have "snd (ingest_event 9 (sample_event ''c'' 5) sample_two) = sample_three" by code_simp
  then show ?thesis
    using repo_step.ingest [of memory_repository sample_two 9 "sample_event ''c'' 5"] by simp
qed

lemma sample_live:
  "follow_live timeline_fetch (map (\<lambda>m. (m, sample_query)) [sample_two, sample_three]) [] =
     Some [sample_event ''a'' 7, sample_event ''b'' 7]"
  by code_simp

theorem timeline_pages_live_witness:
  "set (timeline_listing (sample_two, sample_query)) \<subseteq> {sample_event ''a'' 7, sample_event ''b'' 7} \<and>
   {sample_event ''a'' 7, sample_event ''b'' 7} \<subseteq> set (timeline_listing (sample_three, sample_query))"
proof -
  have "mem_ok sample_two" "times_ok sample_three"
    by (simp_all add: mem_ok_def times_ok_def sample_two_def sample_three_def sample_event_def
        validate_stored_event_def time_ok_def max_time_def day_secs_def second_def days_before_def)
  then show ?thesis
    using timeline_pages_live [of sample_two "[sample_three]" sample_query
        "[sample_event ''a'' 7, sample_event ''b'' 7]"] sample_live
      r_into_rtranclp [of "repo_step memory_repository", OF sample_three_step]
    by simp
qed

end
