(* ===== verification/Changes.thy ===== *)
theory Changes
  imports Store
begin

text \<open>
  The projection of events to changes, the pure part of \<open>internal/app/changes.go\<close>: the identity
  of the change an event belongs to, the grouping of events (\<open>build_changes_by_id\<close>), the final
  pass over the sorted events of a change (\<open>finalize_change\<close>), and the inference of result and
  health. \<open>ChangeDetail\<close> embeds \<open>Change\<close>; it is the record extension \<open>change_detail\<close>. The Go map
  of changes is an association list in order of first insertion. \<open>time.Now()\<close> is \<open>now\<close>.
\<close>

subsection \<open>Types\<close>

record post_deploy_degradation =
  pd_observed :: bool
  pd_first :: "time option"

record change =
  ch_id :: string
  ch_change_id :: string
  ch_permalink :: string
  ch_subject :: string
  ch_application :: string
  ch_project :: string
  ch_target_cluster :: string
  ch_namespace :: string
  ch_primary_provider :: string
  ch_primary_reference :: string
  ch_revision :: string
  ch_initiator :: string
  ch_external_change_id :: string
  ch_ticket_id :: string
  ch_approval_reference :: string
  ch_result_status :: string
  ch_health_status :: string
  ch_health_at_start :: string
  ch_health_after :: string
  ch_degradation :: post_deploy_degradation
  ch_evidence_updated :: time
  ch_evidence_window :: int
  ch_may_be_incomplete :: bool
  ch_has_approvals :: bool
  ch_started :: time
  ch_completed :: time
  ch_event_count :: nat

record change_detail = change +
  ch_events :: "stored_event list"

record approval_evidence =
  ap_source :: string
  ap_identity :: string
  ap_timestamp :: string
  ap_reference :: string
  ap_summary :: string

subsection \<open>Strings in extensions and data\<close>

definition first_extension :: "(string \<times> gval) list \<Rightarrow> string list \<Rightarrow> string" where
  "first_extension ext ks =
     (case find (\<lambda>k. extension_string ext k \<noteq> []) ks of
        None \<Rightarrow> [] | Some k \<Rightarrow> extension_string ext k)"

text \<open>\<open>firstMapString\<close> is the same function on a nested map.\<close>

definition first_map_string :: "(string \<times> gval) list \<Rightarrow> string list \<Rightarrow> string" where
  "first_map_string m ks = first_extension m ks"

definition data_string :: "string \<Rightarrow> string \<Rightarrow> string" where
  "data_string data k =
     (if data = [] then []
      else (case unmarshal_map data of None \<Rightarrow> [] | Some m \<Rightarrow> extension_string m k))"

definition nested_map :: "(string \<times> gval) list \<Rightarrow> string \<Rightarrow> (string \<times> gval) list" where
  "nested_map m k =
     (case map_of m k of
        Some (GObj kvs) \<Rightarrow> kvs
      | Some (GStrMap kvs) \<Rightarrow> map (\<lambda>(k, v). (k, GStr v)) kvs
      | _ \<Rightarrow> [])"

definition string_from_any :: "gval option \<Rightarrow> string" where
  "string_from_any v = (case v of Some (GStr s) \<Rightarrow> trim_space s | _ \<Rightarrow> [])"

subsection \<open>The change an event belongs to\<close>

definition stable_hash :: "string \<Rightarrow> string" where
  "stable_hash s = sha256_hex s"

definition normalize_primary_provider :: "string \<Rightarrow> (string \<times> gval) list \<Rightarrow> string" where
  "normalize_primary_provider source ext =
     (if extension_bool ext ''supporting_observation'' \<and>
         first_extension ext [''operation_id'', ''history_id'', ''deploy_id'', ''sync_revision''] \<noteq> []
      then ''argo''
      else if extension_string ext ''primary_provider'' \<noteq> []
      then to_lower (extension_string ext ''primary_provider'')
      else
        (let s = to_lower (trim_space source) in
         if s = ''argocd'' \<or> s = ''argo'' then ''argo''
         else if s = ''github_actions'' \<or> s = ''gha'' then ''gha''
         else if s = ''gitlab_ci'' \<or> s = ''gitlabci'' then ''gitlabci''
         else if s = ''jenkins'' then ''jenkins''
         else if s = [] then ''generic'' else s))"

definition subject_identity :: "stored_event \<Rightarrow> string" where
  "subject_identity e =
     to_lower (ev_subject e @ '':'' @ extension_string (ev_extensions e) ''namespace'' @ '':'' @
               extension_string (ev_extensions e) ''cluster'')"

definition derive_change_identity :: "stored_event \<Rightarrow> string \<times> string \<times> string \<times> string" where
  "derive_change_identity e =
     (let ext = ev_extensions e;
          subject = subject_identity e;
          provider = normalize_primary_provider (ev_source e) ext;
          reference = first_extension ext [''primary_reference'', ''operation_id'', ''history_id'',
            ''deploy_id'', ''pipeline_id'', ''run_id'', ''job_id''];
          revision = first_extension ext [''revision'', ''sync_revision'', ''commit_sha'']
      in if reference \<noteq> []
         then (''chg_'' @ stable_hash (subject @ '':'' @ provider @ '':'' @ reference),
               provider, reference, revision)
         else (''chg_'' @ stable_hash (subject @ '':'' @ provider @ '':'' @ revision @ '':'' @
                 format_rfc3339 (ev_time e)),
               provider, reference, revision))"

abbreviation change_id_of :: "stored_event \<Rightarrow> string" where
  "change_id_of e \<equiv> fst (derive_change_identity e)"

subsection \<open>Correlation with external systems\<close>

definition annotations_of :: "(string \<times> gval) list \<Rightarrow> (string \<times> gval) list" where
  "annotations_of m = nested_map (nested_map m ''source_payload'') ''annotations''"

definition external_correlation :: "stored_event \<Rightarrow> string \<times> string \<times> string" where
  "external_correlation e =
     (let ext = ev_extensions e;
          c = extension_string ext ''external_change_id'';
          c = (if c = [] then extension_string ext ''change_id'' else c);
          t = extension_string ext ''ticket_id'';
          a = extension_string ext ''approval_reference''
      in if c = [] \<or> t = [] \<or> a = [] then
           (case (if ev_data e = [] then None else unmarshal_map (ev_data e)) of
              None \<Rightarrow> (c, t, a)
            | Some m \<Rightarrow>
                let ann = annotations_of m in
                (if c = [] then string_from_any (map_of ann ''evidra.rest/change-id'') else c,
                 if t = [] then string_from_any (map_of ann ''evidra.rest/ticket'') else t,
                 if a = [] then string_from_any (map_of ann ''evidra.rest/approvals-ref'') else a))
         else (c, t, a))"

definition parse_approval :: "gval \<Rightarrow> approval_evidence list" where
  "parse_approval v =
     (case v of
        GObj m \<Rightarrow>
          let a = \<lparr>ap_source = first_map_string m [''source'', ''approval.source''],
                   ap_identity = first_map_string m [''identity'', ''approval.identity''],
                   ap_timestamp = first_map_string m [''timestamp'', ''approval.timestamp''],
                   ap_reference = first_map_string m [''reference'', ''approval.reference''],
                   ap_summary = first_map_string m [''summary'', ''approval.summary'']\<rparr>
          in if trim_space (ap_source a) = [] \<and> trim_space (ap_identity a) = [] \<and>
                trim_space (ap_timestamp a) = [] \<and> trim_space (ap_reference a) = [] \<and>
                trim_space (ap_summary a) = []
             then [] else [a]
      | _ \<Rightarrow> [])"

text \<open>
  The annotation holds JSON text: a list of objects (or nulls), or one object. \<open>null\<close> decodes as
  an empty list, any other text as nothing.
\<close>

definition parse_approvals_text :: "string \<Rightarrow> approval_evidence list" where
  "parse_approvals_text raw =
     (case unmarshal raw of
        Some (GArr vs) \<Rightarrow>
          if list_all (\<lambda>v. case v of GObj _ \<Rightarrow> True | GNull \<Rightarrow> True | _ \<Rightarrow> False) vs
          then concat (map parse_approval vs) else []
      | Some (GObj m) \<Rightarrow> parse_approval (GObj m)
      | _ \<Rightarrow> [])"

definition approvals_from_map :: "(string \<times> gval) list \<Rightarrow> approval_evidence list" where
  "approvals_from_map m =
     (case map_of m ''approvals'' of
        Some (GArr vs) \<Rightarrow> concat (map parse_approval vs)
      | Some (GObj kvs) \<Rightarrow> parse_approval (GObj kvs)
      | _ \<Rightarrow> []) @
     (let raw = string_from_any (map_of (annotations_of m) ''evidra.rest/approvals-json'')
      in if raw = [] then [] else parse_approvals_text raw)"

definition approvals_from_data :: "string \<Rightarrow> approval_evidence list" where
  "approvals_from_data data =
     (if data = [] then []
      else (case unmarshal_map data of None \<Rightarrow> [] | Some m \<Rightarrow> approvals_from_map m))"

subsection \<open>Result and health\<close>

definition status_text :: "stored_event \<Rightarrow> string" where
  "status_text e =
     (let s = data_string (ev_data e) ''status'';
          s = (if s = [] then data_string (ev_data e) ''result'' else s);
          s = (if s = [] then data_string (ev_data e) ''phase'' else s)
      in if s = [] then data_string (ev_data e) ''outcome'' else s)"

definition infer_result_status :: "stored_event \<Rightarrow> string" where
  "infer_result_status e =
     (let bucket = to_lower (ev_type e @ '' '' @ status_text e)
      in if contains bucket ''fail'' \<or> contains bucket ''error'' \<or> contains bucket ''degrad'' \<or>
            contains bucket ''abort''
         then ''failed''
         else if contains bucket ''success'' \<or> contains bucket ''succeed'' \<or>
            contains bucket ''healthy'' \<or> contains bucket ''complete''
         then ''succeeded'' else ''unknown'')"

definition merge_result_status :: "string \<Rightarrow> string \<Rightarrow> string" where
  "merge_result_status cur nxt =
     (if cur = ''failed'' \<or> nxt = ''failed'' then ''failed''
      else if cur = ''succeeded'' \<or> nxt = ''succeeded'' then ''succeeded'' else ''unknown'')"

definition infer_health_status :: "stored_event \<Rightarrow> string" where
  "infer_health_status e =
     (let raw = to_lower (extension_string (ev_extensions e) ''health_status'');
          raw = (if raw = [] then to_lower (extension_string (ev_extensions e) ''health'') else raw)
      in if raw = ''healthy'' then ''healthy'' else if raw = ''degraded'' then ''degraded''
         else if raw = ''progressing'' then ''progressing''
         else if raw = ''missing'' then ''missing'' else ''unknown'')"

definition merge_health_status :: "string \<Rightarrow> string \<Rightarrow> string" where
  "merge_health_status cur nxt =
     (if nxt = ''degraded'' then ''degraded''
      else if nxt = ''progressing'' \<and> cur \<noteq> ''degraded'' then ''progressing''
      else if nxt = ''healthy'' \<and> cur = ''unknown'' then ''healthy''
      else if nxt = ''missing'' \<and> cur = ''unknown'' then ''missing''
      else cur)"

subsection \<open>Grouping\<close>

text \<open>The change that the first event of a new id starts.\<close>

definition new_change :: "stored_event \<Rightarrow> change_detail" where
  "new_change e =
     (case derive_change_identity e of (i, provider, reference, revision) \<Rightarrow>
       \<lparr>ch_id = i, ch_change_id = i, ch_permalink = ''/ui/explorer/change/'' @ i,
        ch_subject = ev_subject e, ch_application = ev_subject e, ch_project = [],
        ch_target_cluster = extension_string (ev_extensions e) ''cluster'',
        ch_namespace = extension_string (ev_extensions e) ''namespace'',
        ch_primary_provider = provider, ch_primary_reference = reference, ch_revision = revision,
        ch_initiator = [], ch_external_change_id = [], ch_ticket_id = [], ch_approval_reference = [],
        ch_result_status = ''unknown'', ch_health_status = ''unknown'',
        ch_health_at_start = ''unknown'', ch_health_after = ''unknown'',
        ch_degradation = \<lparr>pd_observed = False, pd_first = None\<rparr>,
        ch_evidence_updated = 0, ch_evidence_window = 0, ch_may_be_incomplete = False,
        ch_has_approvals = False, ch_started = ev_time e, ch_completed = ev_time e,
        ch_event_count = 0, ch_events = []\<rparr>)"

definition or_else :: "string \<Rightarrow> string \<Rightarrow> string" where
  "or_else cur new = (if cur = [] then new else cur)"

text \<open>What the loop body does with an event and the change it belongs to.\<close>

definition absorb_event :: "change_detail \<Rightarrow> stored_event \<Rightarrow> change_detail" where
  "absorb_event c e =
     (case external_correlation e of (ext_id, ticket, approval) \<Rightarrow>
       c\<lparr>ch_external_change_id := or_else (ch_external_change_id c) ext_id,
         ch_ticket_id := or_else (ch_ticket_id c) ticket,
         ch_approval_reference := or_else (ch_approval_reference c) approval,
         ch_events := ch_events c @ [e],
         ch_has_approvals := (ch_has_approvals c \<or> approvals_from_data (ev_data e) \<noteq> []),
         ch_project := or_else (ch_project c) (extension_string (ev_extensions e) ''project''),
         ch_namespace := or_else (ch_namespace c) (extension_string (ev_extensions e) ''namespace''),
         ch_target_cluster := or_else (ch_target_cluster c) (extension_string (ev_extensions e) ''cluster''),
         ch_initiator := or_else (ch_initiator c) (extension_string (ev_extensions e) ''initiator''),
         ch_started := (if ev_time e < ch_started c then ev_time e else ch_started c),
         ch_completed := (if ch_completed c < ev_time e then ev_time e else ch_completed c),
         ch_event_count := length (ch_events c) + 1,
         ch_result_status := merge_result_status (ch_result_status c) (infer_result_status e),
         ch_health_status := merge_health_status (ch_health_status c) (infer_health_status e)\<rparr>)"

definition group_event :: "(string \<times> change_detail) list \<Rightarrow> stored_event \<Rightarrow> (string \<times> change_detail) list" where
  "group_event out e =
     (let i = change_id_of e;
          cur = (case map_of out i of Some c \<Rightarrow> c | None \<Rightarrow> new_change e)
      in AList.update i (absorb_event cur e) out)"

subsection \<open>The final pass\<close>

definition evidence_window_seconds :: int where
  "evidence_window_seconds = 300"

text \<open>The loop over the sorted events: health at start, at the end, the last one, first degradation.\<close>

definition health_step :: "time \<Rightarrow> time \<Rightarrow> string \<times> string \<times> string \<times> time option \<Rightarrow> stored_event \<Rightarrow>
    string \<times> string \<times> string \<times> time option" where
  "health_step started completed acc e =
     (case acc of (start, fin, lst, degraded) \<Rightarrow>
       let h = infer_health_status e in
       if h = ''unknown'' then acc
       else (if \<not> started < ev_time e then h else start,
             if \<not> ev_time e < completed then h else fin,
             h,
             if degraded = None \<and> started < ev_time e \<and> h = ''degraded'' then Some (ev_time e)
             else degraded))"

definition finalize_change :: "time \<Rightarrow> change_detail \<Rightarrow> change_detail" where
  "finalize_change now c =
     (let es = sort_stored_events (ch_events c) in
      if es = [] then c
      else
        (let started = ev_time (hd es);
             completed = ev_time (last es)
         in case foldl (health_step started completed) (''unknown'', ''unknown'', ''unknown'', None) es of
              (start, fin, lst, degraded) \<Rightarrow>
                c\<lparr>ch_events := es,
                  ch_started := started, ch_completed := completed, ch_event_count := length es,
                  ch_evidence_updated := completed, ch_evidence_window := evidence_window_seconds,
                  ch_may_be_incomplete := (now - completed < evidence_window_seconds * second),
                  ch_health_at_start := start,
                  ch_health_after := (if fin = ''unknown'' then lst else fin),
                  ch_degradation :=
                    \<lparr>pd_observed = (equal_fold start ''healthy'' \<and> degraded \<noteq> None),
                     pd_first = degraded\<rparr>\<rparr>))"

definition build_changes_by_id :: "time \<Rightarrow> stored_event list \<Rightarrow> (string \<times> change_detail) list" where
  "build_changes_by_id now es = map (map_prod (\<lambda>i. i) (finalize_change now)) (foldl group_event [] es)"

definition change_key :: "('a) change_scheme \<Rightarrow> time desc \<times> string" where
  "change_key c = (Desc (ch_completed c), ch_id c)"

definition build_changes :: "time \<Rightarrow> stored_event list \<Rightarrow> change list" where
  "build_changes now es = sort_key change_key (map (change.truncate \<circ> snd) (build_changes_by_id now es))"

end
