(* ===== verification/Change_Facts.thy ===== *)
theory Change_Facts
  imports Changes
begin

text \<open>
  What the projection computes. The loop of \<open>buildChangesByID\<close> is related to an abstract
  specification: the change of an id is the fold over exactly the events with that id, in their
  order (\<open>build_changes_by_id_map\<close>). From it follow the partition of the events, the order and the
  bounds of a change, and the closed forms of its result and its health.
\<close>

subsection \<open>Grouping is a fold per identity\<close>

definition events_of :: "string \<Rightarrow> stored_event list \<Rightarrow> stored_event list" where
  "events_of i es = filter (\<lambda>e. change_id_of e = i) es"

definition grouped :: "stored_event list \<Rightarrow> change_detail" where
  "grouped es = foldl absorb_event (new_change (hd es)) es"

lemma map_of_group_event:
  "map_of (group_event out e) i =
     (if i = change_id_of e
      then Some (absorb_event (case map_of out i of Some c \<Rightarrow> c | None \<Rightarrow> new_change e) e)
      else map_of out i)"
  by (simp add: group_event_def Let_def map_of_update split: option.split)

lemma map_of_group:
  "map_of (foldl group_event [] es) i = (if events_of i es = [] then None else Some (grouped (events_of i es)))"
proof (induction es rule: rev_induct)
  case Nil
  then show ?case by (simp add: events_of_def)
next
  case (snoc e es)
  then show ?case by (auto simp: map_of_group_event events_of_def grouped_def)
qed

lemma keys_group: "distinct (map fst (foldl group_event [] es))"
  by (induction es rule: rev_induct) (simp_all add: group_event_def Let_def distinct_update)

lemma keys_group_set: "fst ` set (foldl group_event [] es) = change_id_of ` set es"
  by (induction es rule: rev_induct) (auto simp: group_event_def Let_def dom_update)

lemma build_changes_by_id_map:
  "map_of (build_changes_by_id now es) i =
     (if events_of i es = [] then None else Some (finalize_change now (grouped (events_of i es))))"
proof -
  have "map_of (map (map_prod (\<lambda>i. i) f) al) i = map_option f (map_of al i)" for f :: "change_detail \<Rightarrow> change_detail" and al
    by (induction al) auto
  then show ?thesis by (simp add: build_changes_by_id_def map_of_group)
qed

lemma build_changes_by_id_keys:
  "distinct (map fst (build_changes_by_id now es))"
  "fst ` set (build_changes_by_id now es) = change_id_of ` set es"
proof -
  have "map fst (build_changes_by_id now es) = map fst (foldl group_event [] es)"
    by (simp add: build_changes_by_id_def)
  then show "distinct (map fst (build_changes_by_id now es))"
    "fst ` set (build_changes_by_id now es) = change_id_of ` set es"
    using keys_group [of es] keys_group_set [of es] by (simp, metis list.set_map)
qed

lemma build_changes_by_id_mem:
  assumes "(i, c) \<in> set (build_changes_by_id now es)"
  shows "c = finalize_change now (grouped (events_of i es))" "events_of i es \<noteq> []"
  using assms build_changes_by_id_keys(1) [of now es] build_changes_by_id_map [of now es i]
  by (auto simp: map_of_eq_Some_iff split: if_splits)

subsection \<open>Fields of a group\<close>

lemma absorb_event_simps [simp]:
  "ch_events (absorb_event c e) = ch_events c @ [e]"
  "ch_id (absorb_event c e) = ch_id c"
  "ch_result_status (absorb_event c e) = merge_result_status (ch_result_status c) (infer_result_status e)"
  "ch_health_status (absorb_event c e) = merge_health_status (ch_health_status c) (infer_health_status e)"
  "ch_ticket_id (absorb_event c e) = or_else (ch_ticket_id c) (fst (snd (external_correlation e)))"
  "ch_initiator (absorb_event c e) = or_else (ch_initiator c) (extension_string (ev_extensions e) ''initiator'')"
  "ch_has_approvals (absorb_event c e) = (ch_has_approvals c \<or> approvals_from_data (ev_data e) \<noteq> [])"
  by (simp_all add: absorb_event_def split: prod.split)

lemma new_change_simps [simp]:
  "ch_events (new_change e) = []" "ch_id (new_change e) = change_id_of e"
  "ch_result_status (new_change e) = ''unknown''" "ch_health_status (new_change e) = ''unknown''"
  "ch_ticket_id (new_change e) = []" "ch_initiator (new_change e) = []" "\<not> ch_has_approvals (new_change e)"
  by (simp_all add: new_change_def split: prod.split)

lemma foldl_absorb:
  "ch_events (foldl absorb_event c es) = ch_events c @ es"
  "ch_id (foldl absorb_event c es) = ch_id c"
  "ch_result_status (foldl absorb_event c es) =
     foldl merge_result_status (ch_result_status c) (map infer_result_status es)"
  "ch_ticket_id (foldl absorb_event c es) =
     foldl or_else (ch_ticket_id c) (map (\<lambda>e. fst (snd (external_correlation e))) es)"
  "ch_initiator (foldl absorb_event c es) =
     foldl or_else (ch_initiator c) (map (\<lambda>e. extension_string (ev_extensions e) ''initiator'') es)"
  "ch_has_approvals (foldl absorb_event c es) \<longleftrightarrow>
     ch_has_approvals c \<or> (\<exists>e\<in>set es. approvals_from_data (ev_data e) \<noteq> [])"
  by (induction es arbitrary: c) simp_all

lemma grouped_simps [simp]:
  "ch_events (grouped es) = es" "ch_id (grouped es) = change_id_of (hd es)"
  by (simp_all add: grouped_def foldl_absorb)

lemma sort_stored_events_mset [simp]: "mset (sort_stored_events es) = mset es"
  by (simp add: sort_stored_events_def)

lemma sort_stored_events_set [simp]: "set (sort_stored_events es) = set es"
  by (simp add: sort_stored_events_def)

lemma sort_stored_events_Nil [simp]: "sort_stored_events es = [] \<longleftrightarrow> es = []" "sort_stored_events [] = []"
  by (metis set_empty2 sort_stored_events_set) (simp add: sort_stored_events_def)

lemma sort_stored_events_sorted: "sorted (map event_key (sort_stored_events es))"
  by (simp add: sort_stored_events_def)

lemma finalize_change_simps [simp]:
  "ch_id (finalize_change now c) = ch_id c"
  "ch_events (finalize_change now c) = sort_stored_events (ch_events c)"
  "ch_result_status (finalize_change now c) = ch_result_status c"
  "ch_ticket_id (finalize_change now c) = ch_ticket_id c"
  "ch_initiator (finalize_change now c) = ch_initiator c"
  "ch_has_approvals (finalize_change now c) = ch_has_approvals c"
  by (auto simp: finalize_change_def Let_def split: prod.split)

lemma foldl_merge_result:
  "foldl merge_result_status cur rs =
     (if rs = [] then cur
      else if ''failed'' \<in> set (cur # rs) then ''failed''
      else if ''succeeded'' \<in> set (cur # rs) then ''succeeded'' else ''unknown'')"
  by (induction rs arbitrary: cur) (auto simp: merge_result_status_def)

lemma foldl_or_else:
  "foldl or_else cur rs = (case filter (\<lambda>r. r \<noteq> []) (cur # rs) of [] \<Rightarrow> [] | r # _ \<Rightarrow> r)"
  by (induction rs arbitrary: cur) (auto simp: or_else_def)

lemma sorted_event_times:
  assumes "sorted (map event_key es)" "es \<noteq> []"
  shows "ev_time (hd es) = Min (ev_time ` set es)" "ev_time (last es) = Max (ev_time ` set es)"
proof -
  have s: "sorted (map ev_time es)"
    using assms(1) unfolding sorted_map by (rule sorted_wrt_mono_rel [rotated]) (auto simp: event_key_def)
  have "\<forall>e\<in>set es. ev_time (hd es) \<le> ev_time e"
    using s assms(2) by (cases es) auto
  then show "ev_time (hd es) = Min (ev_time ` set es)"
    using assms(2) by (intro Min_eqI [symmetric]) auto
  have "\<forall>e\<in>set es. ev_time e \<le> ev_time (last es)"
    using s assms(2) by (cases es rule: rev_cases) (auto simp: sorted_append)
  then show "ev_time (last es) = Max (ev_time ` set es)"
    using assms(2) by (intro Max_eqI [symmetric]) auto
qed

subsection \<open>Health in closed form\<close>

text \<open>The last health that is not unknown, in a list of them.\<close>

definition last_known :: "string list \<Rightarrow> string" where
  "last_known hs =
     (let ks = filter (\<lambda>h. h \<noteq> ''unknown'') hs in if ks = [] then ''unknown'' else last ks)"

lemma last_known_snoc [simp]:
  "last_known [] = ''unknown''"
  "last_known (hs @ [h]) = (if h = ''unknown'' then last_known hs else h)"
  by (simp_all add: last_known_def Let_def)

lemma last_known_in: "last_known hs = ''unknown'' \<or> last_known hs \<in> set hs"
  by (induction hs rule: rev_induct) auto

lemma foldl_health_step:
  "foldl (health_step s f) (''unknown'', ''unknown'', ''unknown'', None) es =
     (last_known (map infer_health_status (filter (\<lambda>e. \<not> s < ev_time e) es)),
      last_known (map infer_health_status (filter (\<lambda>e. \<not> ev_time e < f) es)),
      last_known (map infer_health_status es),
      map_option ev_time (find (\<lambda>e. s < ev_time e \<and> infer_health_status e = ''degraded'') es))"
proof (induction es rule: rev_induct)
  case Nil
  then show ?case by simp
next
  case (snoc e es)
  have "find P (es @ [e]) = (case find P es of None \<Rightarrow> if P e then Some e else None | Some x \<Rightarrow> Some x)" for P
    by (induction es) auto
  with snoc show ?case
    by (simp add: health_step_def Let_def split: option.splits)
qed

lemma last_known_end:
  assumes "sorted (map ev_time es)"
    and "last_known (map infer_health_status (filter (\<lambda>e. \<not> ev_time e < f) es)) \<noteq> ''unknown''"
  shows "last_known (map infer_health_status (filter (\<lambda>e. \<not> ev_time e < f) es)) =
    last_known (map infer_health_status es)"
  using assms
proof (induction es rule: rev_induct)
  case Nil
  then show ?case by simp
next
  case (snoc e es)
  show ?case
  proof (cases "ev_time e < f")
    case True
    then have "filter (\<lambda>e. \<not> ev_time e < f) (es @ [e]) = []"
      using snoc.prems(1) by (auto simp: filter_empty_conv sorted_append)
    with snoc.prems(2) show ?thesis by simp
  next
    case False
    with snoc show ?thesis by (auto simp: sorted_append)
  qed
qed

lemma if_chain_range:
  "(if a then u else if b then v else if c then w else if d then x else y) \<in> {u, v, w, x, y}"
  by simp

lemma infer_health_status_range:
  "infer_health_status e \<in> {''healthy'', ''degraded'', ''progressing'', ''missing'', ''unknown''}"
  unfolding infer_health_status_def Let_def by (rule if_chain_range)

lemma equal_fold_health:
  assumes "h \<in> {''healthy'', ''degraded'', ''progressing'', ''missing'', ''unknown''}"
  shows "equal_fold h ''healthy'' \<longleftrightarrow> h = ''healthy''"
proof -
  have "\<forall>h \<in> set [''healthy'', ''degraded'', ''progressing'', ''missing'', ''unknown''].
      equal_fold h ''healthy'' = (h = ''healthy'')"
    by code_simp
  with assms show ?thesis by (simp only: list.set)
qed

lemma equal_fold_last_known:
  "equal_fold (last_known (map infer_health_status fs)) ''healthy'' \<longleftrightarrow>
     last_known (map infer_health_status fs) = ''healthy''"
proof (rule equal_fold_health)
  show "last_known (map infer_health_status fs)
      \<in> {''healthy'', ''degraded'', ''progressing'', ''missing'', ''unknown''}"
    using last_known_in [of "map infer_health_status fs"]
  proof (elim disjE)
    assume "last_known (map infer_health_status fs) \<in> set (map infer_health_status fs)"
    then obtain e where "last_known (map infer_health_status fs) = infer_health_status e" by auto
    then show ?thesis using infer_health_status_range [of e] by (simp only:)
  qed simp
qed

lemma finalize_change_fields:
  fixes c :: change_detail and now :: time
  assumes "ch_events c \<noteq> []"
  defines "es \<equiv> sort_stored_events (ch_events c)" and "d \<equiv> finalize_change now c"
  shows "ch_started d = Min (ev_time ` set es)" "ch_completed d = Max (ev_time ` set es)"
    "ch_event_count d = length (ch_events c)" "ch_evidence_updated d = ch_completed d"
    "ch_may_be_incomplete d \<longleftrightarrow> now - ch_completed d < 300 * second"
    "ch_health_after d = last_known (map infer_health_status es)"
    "ch_health_at_start d =
       last_known (map infer_health_status (filter (\<lambda>e. ev_time e = ch_started d) es))"
    "pd_first (ch_degradation d) =
       map_option ev_time (find (\<lambda>e. ch_started d < ev_time e \<and> infer_health_status e = ''degraded'') es)"
    "pd_observed (ch_degradation d) \<longleftrightarrow>
       ch_health_at_start d = ''healthy'' \<and> pd_first (ch_degradation d) \<noteq> None"
proof -
  have ne: "es \<noteq> []" and srt: "sorted (map event_key es)" and len: "length es = length (ch_events c)"
    using assms(1) by (simp_all add: es_def sort_stored_events_sorted) (simp add: sort_stored_events_def)
  note times = sorted_event_times [OF srt ne]
  have st: "sorted (map ev_time es)"
    using srt unfolding sorted_map by (rule sorted_wrt_mono_rel [rotated]) (auto simp: event_key_def)
  define s f where "s = Min (ev_time ` set es)" and "f = Max (ev_time ` set es)"
  have d: "d = (case foldl (health_step s f) (''unknown'', ''unknown'', ''unknown'', None) es of
      (start, fin, lst, degraded) \<Rightarrow>
        c\<lparr>ch_events := es, ch_started := s, ch_completed := f, ch_event_count := length es,
          ch_evidence_updated := f, ch_evidence_window := evidence_window_seconds,
          ch_may_be_incomplete := (now - f < evidence_window_seconds * second),
          ch_health_at_start := start, ch_health_after := (if fin = ''unknown'' then lst else fin),
          ch_degradation := \<lparr>pd_observed = (equal_fold start ''healthy'' \<and> degraded \<noteq> None),
             pd_first = degraded\<rparr>\<rparr>)"
    using ne unfolding d_def finalize_change_def es_def [symmetric] Let_def times s_def f_def by simp
  have start: "filter (\<lambda>e. \<not> s < ev_time e) es = filter (\<lambda>e. ev_time e = s) es"
    by (rule filter_cong) (auto simp: s_def intro: antisym)
  show "ch_started d = Min (ev_time ` set es)" "ch_completed d = Max (ev_time ` set es)"
    "ch_event_count d = length (ch_events c)" "ch_evidence_updated d = ch_completed d"
    "ch_may_be_incomplete d \<longleftrightarrow> now - ch_completed d < 300 * second"
    by (simp_all add: d foldl_health_step len evidence_window_seconds_def s_def f_def)
  show "ch_health_after d = last_known (map infer_health_status es)"
    using last_known_end [OF st, of f] by (auto simp: d foldl_health_step)
  show "ch_health_at_start d =
       last_known (map infer_health_status (filter (\<lambda>e. ev_time e = ch_started d) es))"
    "pd_first (ch_degradation d) =
       map_option ev_time (find (\<lambda>e. ch_started d < ev_time e \<and> infer_health_status e = ''degraded'') es)"
    by (simp_all add: d foldl_health_step start)
  show "pd_observed (ch_degradation d) \<longleftrightarrow>
       ch_health_at_start d = ''healthy'' \<and> pd_first (ch_degradation d) \<noteq> None"
    by (auto simp: d foldl_health_step equal_fold_last_known)
qed

subsection \<open>The changes of a list of events\<close>

lemma build_changes_by_id_events:
  "(i, c) \<in> set (build_changes_by_id now es) \<Longrightarrow> ch_events c = sort_stored_events (events_of i es)"
  by (drule build_changes_by_id_mem) simp

lemma build_changes_by_id_id:
  assumes "(i, c) \<in> set (build_changes_by_id now es)"
  shows "ch_id c = i"
proof -
  have "hd (events_of i es) \<in> set (events_of i es)"
    using build_changes_by_id_mem [OF assms] by simp
  then show ?thesis using build_changes_by_id_mem [OF assms] by (simp add: events_of_def)
qed

lemma mset_concat_filter:
  assumes "distinct ks" "f ` set es \<subseteq> set ks"
  shows "mset (concat (map (\<lambda>k. filter (\<lambda>e. f e = k) es) ks)) = mset es"
proof (rule multiset_eqI)
  fix e
  have "count (mset (concat (map (\<lambda>k. filter (\<lambda>e. f e = k) es) ks))) e =
      (\<Sum>k\<leftarrow>ks. if f e = k then count (mset es) e else 0)"
    by (induction ks) auto
  also have "\<dots> = (if f e \<in> set ks then count (mset es) e else 0)"
    using assms(1) by (induction ks) auto
  also have "\<dots> = count (mset es) e"
    using assms(2) by (auto simp: count_eq_zero_iff)
  finally show "count (mset (concat (map (\<lambda>k. filter (\<lambda>e. f e = k) es) ks))) e = count (mset es) e" .
qed

lemma build_changes_by_id_partition:
  "mset (concat (map (ch_events \<circ> snd) (build_changes_by_id now es))) = mset es"
proof -
  let ?b = "build_changes_by_id now es"
  have "mset (concat (map (ch_events \<circ> snd) ?b)) = mset (concat (map (\<lambda>k. filter (\<lambda>e. change_id_of e = k) es) (map fst ?b)))"
  proof -
    have "mset (ch_events (snd p)) = mset (filter (\<lambda>e. change_id_of e = fst p) es)" if "p \<in> set ?b" for p
      using that build_changes_by_id_events [of "fst p" "snd p" now es] by (simp add: events_of_def)
    then have "map (\<lambda>p. mset (ch_events (snd p))) ?b = map (\<lambda>p. mset (filter (\<lambda>e. change_id_of e = fst p) es)) ?b"
      by (rule map_cong [OF refl])
    then show ?thesis unfolding mset_concat map_map comp_def by (rule arg_cong)
  qed
  also have "\<dots> = mset es"
    using build_changes_by_id_keys [of now es] by (intro mset_concat_filter) simp_all
  finally show ?thesis .
qed

lemma build_changes_keys:
  "distinct (map change_key (map (change.truncate \<circ> snd) (build_changes_by_id now es)))"
proof -
  have "map snd (map change_key (map (change.truncate \<circ> snd) (build_changes_by_id now es))) =
      map fst (build_changes_by_id now es)"
    unfolding map_map by (rule map_cong) (auto simp: change_key_def change.defs dest: build_changes_by_id_id)
  then have "distinct (map snd (map change_key (map (change.truncate \<circ> snd) (build_changes_by_id now es))))"
    using build_changes_by_id_keys(1) [of now es] by (simp only:)
  then show ?thesis unfolding distinct_map [of snd] by blast
qed

lemma build_changes_sorted: "sorted_wrt (<) (map change_key (build_changes now es))"
  unfolding build_changes_def by (intro sorted_wrt_strict_sort_key build_changes_keys)

lemma result_status_grouped:
  assumes "es \<noteq> []"
  shows "ch_result_status (grouped es) =
    (if ''failed'' \<in> infer_result_status ` set es then ''failed''
     else if ''succeeded'' \<in> infer_result_status ` set es then ''succeeded'' else ''unknown'')"
  using assms by (simp add: grouped_def foldl_absorb foldl_merge_result)

lemma health_of_events:
  fixes c d :: change_detail and now :: time
  assumes "ch_events c \<noteq> []" "ch_events d \<noteq> []"
    and "sort_stored_events (ch_events c) = sort_stored_events (ch_events d)"
  defines "c' \<equiv> finalize_change now c" and "d' \<equiv> finalize_change now d"
  shows "ch_health_at_start c' = ch_health_at_start d' \<and> ch_health_after c' = ch_health_after d' \<and>
    pd_first (ch_degradation c') = pd_first (ch_degradation d') \<and>
    pd_observed (ch_degradation c') = pd_observed (ch_degradation d') \<and>
    ch_started c' = ch_started d' \<and> ch_completed c' = ch_completed d'"
  unfolding c'_def d'_def
  by (simp only: finalize_change_fields [OF assms(1)] finalize_change_fields [OF assms(2)] assms(3))

text \<open>Two changes agree on everything that is derived from the set of their events.\<close>

definition same_evidence :: "change_detail \<Rightarrow> change_detail \<Rightarrow> bool" where
  "same_evidence c d \<longleftrightarrow>
     ch_id c = ch_id d \<and> ch_events c = ch_events d \<and> ch_event_count c = ch_event_count d \<and>
     ch_started c = ch_started d \<and> ch_completed c = ch_completed d \<and>
     ch_result_status c = ch_result_status d \<and> ch_has_approvals c = ch_has_approvals d \<and>
     ch_health_at_start c = ch_health_at_start d \<and> ch_health_after c = ch_health_after d \<and>
     pd_first (ch_degradation c) = pd_first (ch_degradation d) \<and>
     pd_observed (ch_degradation c) = pd_observed (ch_degradation d)"

lemma sort_stored_events_perm:
  "mset es = mset fs \<Longrightarrow> distinct (map event_key es) \<Longrightarrow> sort_stored_events es = sort_stored_events fs"
  unfolding sort_stored_events_def by (rule sort_key_unique)

lemma same_evidence_grouped:
  assumes "mset es = mset fs" "distinct (map event_key es)" "es \<noteq> []"
    and "\<forall>e\<in>set es. change_id_of e = i"
  shows "same_evidence (finalize_change now (grouped es)) (finalize_change now (grouped fs))"
proof -
  have fs: "fs \<noteq> []" "set fs = set es" "length fs = length es"
    using assms(3) mset_eq_setD [OF assms(1)] mset_eq_length [OF assms(1)] by auto
  have srt: "sort_stored_events (ch_events (grouped es)) = sort_stored_events (ch_events (grouped fs))"
    using sort_stored_events_perm [OF assms(1,2)] by simp
  have "hd es \<in> set es" "hd fs \<in> set es" using assms(3) fs(1) hd_in_set [of es] hd_in_set [of fs] by (simp_all add: fs(2))
  then have "change_id_of (hd es) = change_id_of (hd fs)" using assms(4) by simp
  moreover have "ch_has_approvals (grouped es) = ch_has_approvals (grouped fs)"
    by (simp add: grouped_def foldl_absorb fs)
  ultimately show ?thesis
    using health_of_events [of "grouped es" "grouped fs" now] srt assms(3) fs
      finalize_change_fields(3) [of "grouped es" now] finalize_change_fields(3) [of "grouped fs" now]
    by (simp add: same_evidence_def result_status_grouped)
qed

lemma events_of_perm: "mset es = mset fs \<Longrightarrow> mset (events_of i es) = mset (events_of i fs)"
  by (simp add: events_of_def)

subsection \<open>Properties\<close>


text \<open>
  C8: a change consists of the events that derive its id, sorted by time and id; it counts them,
  starts with the earliest, completes with the latest, and may be incomplete exactly while
  less than 300 seconds have passed since then.
\<close>

theorem change_summary:
  assumes "(i, c) \<in> set (build_changes_by_id now es)"
  shows "ch_id c = i \<and> ch_events c = sort_stored_events (filter (\<lambda>e. change_id_of e = i) es) \<and>
    ch_events c \<noteq> [] \<and> ch_event_count c = length (ch_events c) \<and>
    ch_started c = Min (ev_time ` set (ch_events c)) \<and>
    ch_completed c = Max (ev_time ` set (ch_events c)) \<and>
    (ch_may_be_incomplete c \<longleftrightarrow> now - ch_completed c < 300 * second)"
proof -
  note m = build_changes_by_id_mem [OF assms]
  have "length (sort_stored_events (events_of i es)) = length (events_of i es)"
    by (simp add: sort_stored_events_def)
  then show ?thesis
    using build_changes_by_id_id [OF assms] build_changes_by_id_events [OF assms] m(2)
      finalize_change_fields(1-5) [of "grouped (events_of i es)" now, folded m(1)]
    by (simp add: events_of_def)
qed

lemma build_single: "build_changes_by_id now [e] = [(change_id_of e, finalize_change now (grouped [e]))]"
  by (simp add: build_changes_by_id_def group_event_def Let_def grouped_def)

theorem change_summary_witness:
  "ch_completed (finalize_change 9 (grouped [sample_event ''a'' 7])) = 7"
  using change_summary [of "change_id_of (sample_event ''a'' 7)" _ 9 "[sample_event ''a'' 7]"]
  by (simp add: build_single sort_stored_events_def sample_event_def)

text \<open>
  C9: a change has failed when one of its events has failed, has succeeded when none failed and one
  succeeded, and is unknown otherwise, whatever the order of the events.
\<close>

theorem change_result_status:
  assumes "(i, c) \<in> set (build_changes_by_id now es)"
  shows "ch_result_status c =
    (if \<exists>e. e \<in> set (ch_events c) \<and> infer_result_status e = ''failed'' then ''failed''
     else if \<exists>e. e \<in> set (ch_events c) \<and> infer_result_status e = ''succeeded'' then ''succeeded''
     else ''unknown'')"
proof -
  note m = build_changes_by_id_mem [OF assms]
  have "x \<in> infer_result_status ` set es \<longleftrightarrow> (\<exists>e. e \<in> set es \<and> infer_result_status e = x)" for x es
    by auto
  then show ?thesis
    using build_changes_by_id_events [OF assms] m(2) by (simp add: m(1) result_status_grouped)
qed

theorem change_result_status_witness:
  "ch_result_status (finalize_change 9 (grouped [sample_event ''a'' 7])) = ''unknown''"
proof -
  have "infer_result_status (sample_event ''a'' 7) = ''unknown''" by code_simp
  then show ?thesis
    using change_result_status [of "change_id_of (sample_event ''a'' 7)" _ 9 "[sample_event ''a'' 7]"]
    by (simp add: build_single)
qed

text \<open>
  C10: the health fields of a change in closed form. The health after the deployment is the last
  known health of its sorted events, the health at the start is the last known one among the events
  at the start time, and a degradation is observed exactly when the change started healthy and a
  later event is degraded; its timestamp is the time of the first such event.
\<close>

theorem change_health:
  assumes "(i, c) \<in> set (build_changes_by_id now es)"
  shows "ch_health_after c = last_known (map infer_health_status (ch_events c)) \<and>
    ch_health_at_start c =
      last_known (map infer_health_status (filter (\<lambda>e. ev_time e = ch_started c) (ch_events c))) \<and>
    pd_first (ch_degradation c) = map_option ev_time
      (find (\<lambda>e. ch_started c < ev_time e \<and> infer_health_status e = ''degraded'') (ch_events c)) \<and>
    (pd_observed (ch_degradation c) \<longleftrightarrow>
      ch_health_at_start c = ''healthy'' \<and> pd_first (ch_degradation c) \<noteq> None)"
proof -
  note m = build_changes_by_id_mem [OF assms]
  show ?thesis
    using finalize_change_fields(6-9) [of "grouped (events_of i es)" now] m(2)
      build_changes_by_id_events [OF assms]
    by (simp flip: m(1))
qed

theorem change_health_witness:
  "ch_health_after (finalize_change 9 (grouped
     [(sample_event ''a'' 7)\<lparr>ev_extensions := [(''health'', GStr ''Degraded'')]\<rparr>])) = ''degraded''"
proof -
  let ?e = "(sample_event ''a'' 7)\<lparr>ev_extensions := [(''health'', GStr ''Degraded'')]\<rparr>"
  have "infer_health_status ?e = ''degraded''" by code_simp
  then show ?thesis
    using change_health [of "change_id_of ?e" _ 9 "[?e]"]
    by (simp add: build_single sort_stored_events_def last_known_def)
qed

text \<open>
  C11: what a change reports of its events (their sorted list, count, times, result, approvals,
  health, degradation) does not depend on the order in which the events are read.
\<close>

theorem changes_order_independent:
  assumes "mset es = mset fs" and "distinct (map event_key es)"
    and "map_of (build_changes_by_id now es) i = Some c"
  shows "\<exists>d. map_of (build_changes_by_id now fs) i = Some d \<and> same_evidence c d"
proof -
  have e: "events_of i es \<noteq> []" "c = finalize_change now (grouped (events_of i es))"
    using assms(3) by (auto simp: build_changes_by_id_map split: if_splits)
  note p = events_of_perm [OF assms(1), of i]
  then have "events_of i fs \<noteq> []" using e(1) by auto
  moreover have "same_evidence c (finalize_change now (grouped (events_of i fs)))"
    unfolding e(2) using p assms(2) e(1)
    by (intro same_evidence_grouped [of _ _ i]) (auto simp: events_of_def distinct_map_filter)
  ultimately show ?thesis by (simp add: build_changes_by_id_map)
qed

theorem changes_order_independent_witness:
  "\<exists>d. map_of (build_changes_by_id 9 [sample_event ''a'' 7]) (change_id_of (sample_event ''a'' 7)) = Some d \<and>
     same_evidence (finalize_change 9 (grouped [sample_event ''a'' 7])) d"
  by (rule changes_order_independent [of "[sample_event ''a'' 7]"]) (simp_all add: build_single)


end
