(* ===== verification/Service.thy ===== *)
theory Service
  imports Repository Change_Facts
begin

text \<open>
  The application service: \<open>internal/app/service.go\<close> and the operations of
  \<open>internal/app/changes.go\<close> that use its repository, its cache and its exporter.
  \<open>service\<close> is the Go struct: the repository (\<open>store.Repository\<close>), the cache of the third-party
  package \<open>golang-lru/expirable\<close> and the exporter (\<open>app.Exporter\<close>) are records of operations, and
  \<open>service_state\<close> holds the states they act on. The operations thread that state. Tracing and
  metrics have no effect on results and are left out.
\<close>

subsection \<open>Types\<close>

record parsed_subject =
  ps_app :: string
  ps_env :: string
  ps_cluster :: string

record change_query =
  cq_subject :: parsed_subject
  cq_from :: time
  cq_to :: time
  cq_q :: string
  cq_result_status :: string
  cq_health_status :: string
  cq_external_id :: string
  cq_external_state :: string
  cq_ticket_id :: string
  cq_ticket_state :: string
  cq_approval_ref :: string
  cq_has_approvals :: string
  cq_limit :: int
  cq_cursor :: string

record change_list_result =
  cl_items :: "change list"
  cl_next :: string

record change_evidence =
  ce_change :: change
  ce_supporting :: "stored_event list"
  ce_approvals :: "approval_evidence list"

datatype app_error = StoreError store_error | InvalidChangeCursor | InvalidSubject
  | BadTime string | ExporterError string

record 'x exporter =
  ex_create_pack :: "time \<Rightarrow> string \<Rightarrow> stored_event list \<Rightarrow> 'x \<Rightarrow> (string + string) \<times> 'x"
  ex_read_artifact :: "string \<Rightarrow> 'x \<Rightarrow> string + string"

record 'c event_cache =
  ec_get :: "time \<Rightarrow> string \<Rightarrow> 'c \<Rightarrow> stored_event list option \<times> 'c"
  ec_add :: "time \<Rightarrow> string \<Rightarrow> stored_event list \<Rightarrow> 'c \<Rightarrow> 'c"
  ec_purge :: "'c \<Rightarrow> 'c"

record ('s, 'c, 'x) service =
  svc_repo :: "'s repository"
  svc_exporter :: "'x exporter"
  svc_cache :: "'c event_cache"

record ('s, 'c, 'x) service_state =
  st_repo :: 's
  st_files :: 'x
  st_cache :: 'c

definition lift_store :: "store_error + 'a \<Rightarrow> app_error + 'a" where
  "lift_store r = (case r of Inl err \<Rightarrow> Inl (StoreError err) | Inr x \<Rightarrow> Inr x)"

lemma lift_store_simps [simp]:
  "lift_store (Inl err) = Inl (StoreError err)" "lift_store (Inr x) = Inr x"
  "lift_store r = Inr x \<longleftrightarrow> r = Inr x"
  by (simp_all add: lift_store_def split: sum.split)

subsection \<open>Subjects\<close>

fun split_n :: "char \<Rightarrow> nat \<Rightarrow> string \<Rightarrow> string list" where
  "split_n sep 0 s = [s]"
| "split_n sep (Suc n) s =
     (if n = 0 \<or> sep \<notin> set s then [s]
      else takeWhile (\<lambda>c. c \<noteq> sep) s # split_n sep n (tl (dropWhile (\<lambda>c. c \<noteq> sep) s)))"

definition parse_subject :: "string \<Rightarrow> app_error + parsed_subject" where
  "parse_subject s =
     (case split_n (CHR '':'') 3 s of
        [a, e, c] \<Rightarrow> Inr \<lparr>ps_app = a, ps_env = e, ps_cluster = c\<rparr>
      | _ \<Rightarrow> Inl InvalidSubject)"

subsection \<open>Queries on events\<close>

definition event_matches_query :: "stored_event \<Rightarrow> string \<Rightarrow> bool" where
  "event_matches_query e q \<longleftrightarrow>
     contains (to_lower (ev_id e)) q \<or> contains (to_lower (ev_source e)) q \<or>
     contains (to_lower (ev_type e)) q \<or> contains (to_lower (ev_subject e)) q \<or>
     list_ex (\<lambda>(k, v). case v of GStr s \<Rightarrow> contains (to_lower s) q | _ \<Rightarrow> False) (ev_extensions e) \<or>
     contains (to_lower (ev_data e)) q"

definition filter_events_by_query :: "stored_event list \<Rightarrow> string \<Rightarrow> stored_event list" where
  "filter_events_by_query es q =
     (let q = to_lower (trim_space q)
      in if q = [] then es else filter (\<lambda>e. event_matches_query e q) es)"

definition cache_key_text :: "change_query \<Rightarrow> string" where
  "cache_key_text q =
     ps_app (cq_subject q) @ ''|'' @ ps_env (cq_subject q) @ ''|'' @ ps_cluster (cq_subject q) @ ''|'' @
     show_int (unix_nano (cq_from q)) @ ''|'' @ show_int (unix_nano (cq_to q)) @ ''|'' @
     trim_space (cq_q q)"

definition change_query_cache_key :: "change_query \<Rightarrow> string" where
  "change_query_cache_key q = sha256_hex (cache_key_text q)"

definition change_timeline_query :: "parsed_subject \<Rightarrow> time \<Rightarrow> time \<Rightarrow> timeline_query" where
  "change_timeline_query p from to =
     \<lparr>tq_subject = ps_app p, tq_cluster = ps_cluster p, tq_namespace = ps_env p,
      tq_from = from, tq_to = to, tq_source = [], tq_type = [], tq_corr_key = [], tq_corr_value = [],
      tq_supporting = True, tq_limit = 500, tq_cursor = []\<rparr>"

text \<open>What \<open>eventsForChangeQuery\<close> computes when the cache has no entry.\<close>

definition fetch_events :: "'s repository \<Rightarrow> 's \<Rightarrow> change_query \<Rightarrow> store_error + stored_event list" where
  "fetch_events R s q =
     (case repo_timeline R (change_timeline_query (cq_subject q) (cq_from q) (cq_to q)) s of
        Inl err \<Rightarrow> Inl err
      | Inr r \<Rightarrow>
          Inr (if trim_space (cq_q q) \<noteq> [] then filter_events_by_query (tr_items r) (cq_q q)
               else tr_items r))"

definition events_for_change_query ::
    "('s, 'c, 'x) service \<Rightarrow> time \<Rightarrow> change_query \<Rightarrow> ('s, 'c, 'x) service_state \<Rightarrow>
     (app_error + stored_event list) \<times> ('s, 'c, 'x) service_state" where
  "events_for_change_query S now q st =
     (let k = change_query_cache_key q
      in case ec_get (svc_cache S) now k (st_cache st) of
           (Some es, c) \<Rightarrow> (Inr es, st\<lparr>st_cache := c\<rparr>)
         | (None, c) \<Rightarrow>
             (case fetch_events (svc_repo S) (st_repo st) q of
                Inl err \<Rightarrow> (Inl (StoreError err), st\<lparr>st_cache := c\<rparr>)
              | Inr es \<Rightarrow> (Inr es, st\<lparr>st_cache := ec_add (svc_cache S) now k es c\<rparr>)))"

subsection \<open>Changes: filters and cursors\<close>

definition change_matches :: "change_query \<Rightarrow> change \<Rightarrow> bool" where
  "change_matches q c \<longleftrightarrow>
     (let ext_state = to_lower (trim_space (cq_external_state q));
          ticket_state = to_lower (trim_space (cq_ticket_state q));
          approvals = to_lower (trim_space (cq_has_approvals q))
      in \<not> (cq_result_status q \<noteq> [] \<and> ch_result_status c \<noteq> cq_result_status q) \<and>
         \<not> (cq_health_status q \<noteq> [] \<and> ch_health_status c \<noteq> cq_health_status q) \<and>
         \<not> (ext_state = ''set'' \<and> trim_space (ch_external_change_id c) = []) \<and>
         \<not> (ext_state = ''unset'' \<and> trim_space (ch_external_change_id c) \<noteq> []) \<and>
         \<not> (trim_space (cq_external_id q) \<noteq> [] \<and>
            \<not> equal_fold (ch_external_change_id c) (trim_space (cq_external_id q))) \<and>
         \<not> (ticket_state = ''set'' \<and> trim_space (ch_ticket_id c) = []) \<and>
         \<not> (ticket_state = ''unset'' \<and> trim_space (ch_ticket_id c) \<noteq> []) \<and>
         \<not> (trim_space (cq_ticket_id q) \<noteq> [] \<and>
            \<not> equal_fold (ch_ticket_id c) (trim_space (cq_ticket_id q))) \<and>
         \<not> (trim_space (cq_approval_ref q) \<noteq> [] \<and>
            \<not> equal_fold (ch_approval_reference c) (trim_space (cq_approval_ref q))) \<and>
         \<not> (approvals = ''yes'' \<and> \<not> ch_has_approvals c) \<and>
         \<not> (approvals = ''no'' \<and> ch_has_approvals c))"

definition filter_changes :: "change list \<Rightarrow> change_query \<Rightarrow> change list" where
  "filter_changes cs q = filter (change_matches q) cs"

definition encode_change_cursor :: "time \<Rightarrow> string \<Rightarrow> string" where
  "encode_change_cursor ts i =
     b64_encode False (marshal (GStrMap [(''ts'', format_rfc3339nano ts), (''id'', i)]))"

definition decode_change_cursor :: "string \<Rightarrow> (time \<times> string) option" where
  "decode_change_cursor c =
     (if trim_space c = [] then Some (0, [])
      else (case b64_decode False c of
              None \<Rightarrow> None
            | Some b \<Rightarrow>
                (case unmarshal_str_map b of
                   None \<Rightarrow> None
                 | Some m \<Rightarrow>
                     (case parse_rfc3339 (case map_of m ''ts'' of Some t \<Rightarrow> t | None \<Rightarrow> []) of
                        None \<Rightarrow> None
                      | Some ts \<Rightarrow>
                          (let i = (case map_of m ''id'' of Some i \<Rightarrow> i | None \<Rightarrow> [])
                           in if trim_space i = [] then None else Some (ts, i))))))"

definition apply_change_cursor :: "change list \<Rightarrow> time \<Rightarrow> string \<Rightarrow> change list" where
  "apply_change_cursor cs ts i =
     filter (\<lambda>c. ch_completed c < ts \<or> (ch_completed c = ts \<and> i < ch_id c)) cs"

definition clamp_change_limit :: "int \<Rightarrow> int" where
  "clamp_change_limit n = (let n = (if n \<le> 0 then 100 else n) in if n > 500 then 500 else n)"

text \<open>What \<open>ListChanges\<close> makes of the events.\<close>

definition changes_page :: "time \<Rightarrow> change_query \<Rightarrow> stored_event list \<Rightarrow> app_error + change_list_result" where
  "changes_page now q es =
     (let cs = filter_changes (build_changes now es) q
      in case decode_change_cursor (cq_cursor q) of
           None \<Rightarrow> Inl InvalidChangeCursor
         | Some (ts, i) \<Rightarrow>
             let cs = (if \<not> is_zero ts then apply_change_cursor cs ts i else cs);
                 limit = clamp_change_limit (cq_limit q)
             in Inr (if int (length cs) > limit
                     then (let page = take (nat limit) cs; c = last page
                           in \<lparr>cl_items = page, cl_next = encode_change_cursor (ch_completed c) (ch_id c)\<rparr>)
                     else \<lparr>cl_items = cs, cl_next = []\<rparr>))"

subsection \<open>Operations of the service\<close>

definition svc_ingest_event ::
    "('s, 'c, 'x) service \<Rightarrow> time \<Rightarrow> stored_event \<Rightarrow> ('s, 'c, 'x) service_state \<Rightarrow>
     (app_error + ingest_status \<times> time) \<times> ('s, 'c, 'x) service_state" where
  "svc_ingest_event S now e st =
     (case repo_ingest (svc_repo S) now e (st_repo st) of
        (Inl err, s) \<Rightarrow> (Inl (StoreError err), st\<lparr>st_repo := s\<rparr>)
      | (Inr r, s) \<Rightarrow> (Inr r, st\<lparr>st_repo := s, st_cache := ec_purge (svc_cache S) (st_cache st)\<rparr>))"

definition svc_query_timeline ::
    "('s, 'c, 'x) service \<Rightarrow> timeline_query \<Rightarrow> ('s, 'c, 'x) service_state \<Rightarrow> app_error + timeline_result" where
  "svc_query_timeline S q st = lift_store (repo_timeline (svc_repo S) q (st_repo st))"

definition svc_get_event ::
    "('s, 'c, 'x) service \<Rightarrow> string \<Rightarrow> ('s, 'c, 'x) service_state \<Rightarrow> app_error + stored_event" where
  "svc_get_event S i st = lift_store (repo_get_event (svc_repo S) i (st_repo st))"

definition svc_list_subjects ::
    "('s, 'c, 'x) service \<Rightarrow> ('s, 'c, 'x) service_state \<Rightarrow> app_error + subject_info list" where
  "svc_list_subjects S st = lift_store (repo_subjects (svc_repo S) (st_repo st))"

definition svc_events_by_extension ::
    "('s, 'c, 'x) service \<Rightarrow> string \<Rightarrow> string \<Rightarrow> int \<Rightarrow> ('s, 'c, 'x) service_state \<Rightarrow>
     app_error + stored_event list" where
  "svc_events_by_extension S k v n st = lift_store (repo_by_extension (svc_repo S) k v n (st_repo st))"

definition svc_get_export ::
    "('s, 'c, 'x) service \<Rightarrow> string \<Rightarrow> ('s, 'c, 'x) service_state \<Rightarrow> app_error + export_job" where
  "svc_get_export S i st = lift_store (repo_get_export (svc_repo S) i (st_repo st))"

definition svc_read_artifact ::
    "('s, 'c, 'x) service \<Rightarrow> string \<Rightarrow> ('s, 'c, 'x) service_state \<Rightarrow> app_error + string" where
  "svc_read_artifact S path st =
     (case ex_read_artifact (svc_exporter S) path (st_files st) of
        Inl m \<Rightarrow> Inl (ExporterError m) | Inr b \<Rightarrow> Inr b)"

definition filter_string :: "(string \<times> gval) list \<Rightarrow> string \<Rightarrow> string" where
  "filter_string m k = (case map_of m k of Some (GStr s) \<Rightarrow> s | _ \<Rightarrow> [])"

definition export_items_for_job ::
    "'s repository \<Rightarrow> 's \<Rightarrow> (string \<times> gval) list \<Rightarrow> app_error + stored_event list" where
  "export_items_for_job R s flt =
     (let from_raw = filter_string flt ''from''; to_raw = filter_string flt ''to'';
          subject_raw = filter_string flt ''subject''
      in if from_raw = [] \<or> to_raw = [] \<or> subject_raw = [] then Inr []
         else (case parse_rfc3339 from_raw of
                 None \<Rightarrow> Inl (BadTime from_raw)
               | Some from \<Rightarrow>
                   (case parse_rfc3339 to_raw of
                      None \<Rightarrow> Inl (BadTime to_raw)
                    | Some to \<Rightarrow>
                        (case parse_subject subject_raw of
                           Inl err \<Rightarrow> Inl err
                         | Inr p \<Rightarrow>
                             (case repo_timeline R (change_timeline_query p from to) s of
                                Inl err \<Rightarrow> Inl (StoreError err)
                              | Inr r \<Rightarrow> Inr (tr_items r))))))"

text \<open>
  \<open>text\<close> renders an error for the job; \<open>later\<close> is the time of the last write. A failure after the
  job was created is recorded in the job, best effort, and reported.
\<close>

definition svc_create_export ::
    "('s, 'c, 'x) service \<Rightarrow> (app_error \<Rightarrow> string) \<Rightarrow> time \<Rightarrow> time \<Rightarrow> string \<Rightarrow> (string \<times> gval) list \<Rightarrow>
     ('s, 'c, 'x) service_state \<Rightarrow> (app_error + export_job) \<times> ('s, 'c, 'x) service_state" where
  "svc_create_export S text now later format flt st =
     (let R = svc_repo S in
      case repo_create_export R now format flt (st_repo st) of
        (Inl err, s) \<Rightarrow> (Inl (StoreError err), st\<lparr>st_repo := s\<rparr>)
      | (Inr job, s) \<Rightarrow>
          (case export_items_for_job R s (ej_filter job) of
             Inl err \<Rightarrow>
               (Inl err, st\<lparr>st_repo := snd (repo_set_failed R later (ej_id job) (text err) s)\<rparr>)
           | Inr items \<Rightarrow>
               (case ex_create_pack (svc_exporter S) later (ej_id job) items (st_files st) of
                  (Inl m, f) \<Rightarrow>
                    (Inl (ExporterError m),
                     st\<lparr>st_repo := snd (repo_set_failed R later (ej_id job) (text (ExporterError m)) s),
                        st_files := f\<rparr>)
                | (Inr path, f) \<Rightarrow>
                    (case repo_set_completed R later (ej_id job) path s of
                       (Some err, s') \<Rightarrow> (Inl (StoreError err), st\<lparr>st_repo := s', st_files := f\<rparr>)
                     | (None, s') \<Rightarrow>
                         (lift_store (repo_get_export R (ej_id job) s'),
                          st\<lparr>st_repo := s', st_files := f\<rparr>)))))"

definition svc_list_changes ::
    "('s, 'c, 'x) service \<Rightarrow> time \<Rightarrow> change_query \<Rightarrow> ('s, 'c, 'x) service_state \<Rightarrow>
     (app_error + change_list_result) \<times> ('s, 'c, 'x) service_state" where
  "svc_list_changes S now q st =
     (case events_for_change_query S now q st of
        (Inl err, st) \<Rightarrow> (Inl err, st)
      | (Inr es, st) \<Rightarrow> (changes_page now q es, st))"

definition find_change :: "time \<Rightarrow> string \<Rightarrow> stored_event list \<Rightarrow> app_error + change_detail" where
  "find_change now i es =
     (case map_of (build_changes_by_id now es) i of
        None \<Rightarrow> Inl (StoreError ErrNotFound)
      | Some c \<Rightarrow> Inr (c\<lparr>ch_events := sort_stored_events (ch_events c)\<rparr>))"

definition svc_get_change ::
    "('s, 'c, 'x) service \<Rightarrow> time \<Rightarrow> string \<Rightarrow> change_query \<Rightarrow> ('s, 'c, 'x) service_state \<Rightarrow>
     (app_error + change_detail) \<times> ('s, 'c, 'x) service_state" where
  "svc_get_change S now i q st =
     (case events_for_change_query S now q st of
        (Inl err, st) \<Rightarrow> (Inl err, st)
      | (Inr es, st) \<Rightarrow> (find_change now i es, st))"

definition svc_get_change_timeline ::
    "('s, 'c, 'x) service \<Rightarrow> time \<Rightarrow> string \<Rightarrow> change_query \<Rightarrow> ('s, 'c, 'x) service_state \<Rightarrow>
     (app_error + stored_event list) \<times> ('s, 'c, 'x) service_state" where
  "svc_get_change_timeline S now i q st =
     (case svc_get_change S now i q st of
        (Inl err, st) \<Rightarrow> (Inl err, st)
      | (Inr c, st) \<Rightarrow> (Inr (ch_events c), st))"

definition approval_key :: "approval_evidence \<Rightarrow> string" where
  "approval_key a =
     to_lower (trim_space (ap_source a)) @ ''|'' @ to_lower (trim_space (ap_identity a)) @ ''|'' @
     trim_space (ap_timestamp a) @ ''|'' @ trim_space (ap_reference a) @ ''|'' @ trim_space (ap_summary a)"

fun dedup_approvals :: "string list \<Rightarrow> approval_evidence list \<Rightarrow> approval_evidence list" where
  "dedup_approvals seen [] = []"
| "dedup_approvals seen (a # as) =
     (if approval_key a \<in> set seen then dedup_approvals seen as
      else a # dedup_approvals (approval_key a # seen) as)"

definition evidence_of :: "change_detail \<Rightarrow> change_evidence" where
  "evidence_of c =
     \<lparr>ce_change = change.truncate c,
      ce_supporting = filter (\<lambda>e. extension_bool (ev_extensions e) ''supporting_observation'') (ch_events c),
      ce_approvals = dedup_approvals [] (concat (map (\<lambda>e. approvals_from_data (ev_data e)) (ch_events c)))\<rparr>"

definition svc_get_change_evidence ::
    "('s, 'c, 'x) service \<Rightarrow> time \<Rightarrow> string \<Rightarrow> change_query \<Rightarrow> ('s, 'c, 'x) service_state \<Rightarrow>
     (app_error + change_evidence) \<times> ('s, 'c, 'x) service_state" where
  "svc_get_change_evidence S now i q st =
     (case svc_get_change S now i q st of
        (Inl err, st) \<Rightarrow> (Inl err, st)
      | (Inr c, st) \<Rightarrow> (Inr (evidence_of c), st))"

end
