(* ===== verification/Go_Indent.thy ===== *)
theory Go_Indent
  imports Go_Json_Roundtrip
begin

text \<open>
  Indented JSON: \<open>json.MarshalIndent\<close> is \<open>json.Marshal\<close> followed by \<open>json.Indent\<close>, which adds white
  space outside of string literals. The facts: what \<open>json_indent\<close> makes of a string, of a text without
  structure and of an object, and that an indented object is read as the same members. Both are stated
  over a relation between a compact text and its indented forms, \<open>indents\<close>, and compose.
\<close>

subsection \<open>Indentation\<close>

text \<open>
  \<open>json.Indent\<close> with two blanks: the arguments are the depth, whether a container was just opened, and
  whether the position is inside a string literal.
\<close>

definition newline_indent :: "nat \<Rightarrow> string" where
  "newline_indent d = CHR 0x0A # replicate (2 * d) (CHR '' '')"

fun json_indent :: "nat \<Rightarrow> bool \<Rightarrow> bool \<Rightarrow> string \<Rightarrow> string" where
  "json_indent d opened q [] = []"
| "json_indent d opened True (c # s) =
     (if c = CHR 0x5C then (case s of [] \<Rightarrow> [c] | x # s' \<Rightarrow> c # x # json_indent d False True s')
      else c # json_indent d False (c \<noteq> CHR 0x22) s)"
| "json_indent d opened False (c # s) =
     (if c = CHR ''}'' \<or> c = CHR '']'' then
        (if opened then c # json_indent d False False s
         else newline_indent (d - 1) @ c # json_indent (d - 1) False False s)
      else
        (let d' = (if opened then Suc d else d); lead = (if opened then newline_indent d' else [])
         in if c = CHR ''{'' \<or> c = CHR ''['' then lead @ c # json_indent d' True False s
            else if c = CHR '','' then lead @ c # newline_indent d' @ json_indent d' False False s
            else if c = CHR '':'' then lead @ c # CHR '' '' # json_indent d' False False s
            else lead @ c # json_indent d' False (c = CHR 0x22) s))"

lemma json_indent_opened:
  "c \<noteq> CHR ''}'' \<Longrightarrow> c \<noteq> CHR '']'' \<Longrightarrow>
   json_indent d True False (c # s) = newline_indent (Suc d) @ json_indent (Suc d) False False (c # s)"
  by (simp add: Let_def)

subsection \<open>Texts and their indented forms\<close>

text \<open>The text \<open>t\<close> is a value, and at depth \<open>d\<close> it is indented to \<open>p d\<close>, whatever follows.\<close>

definition indents :: "string \<Rightarrow> (nat \<Rightarrow> string) \<Rightarrow> bool" where
  "indents t p \<longleftrightarrow> t \<noteq> [] \<and> hd t \<notin> {CHR ''}'', CHR '']''} \<and>
     (\<forall>d r. json_indent d False False (t @ r) = p d @ json_indent d False False r)"

lemma indents_step: "indents t p \<Longrightarrow> json_indent d False False (t @ r) = p d @ json_indent d False False r"
  by (simp add: indents_def)

lemma indents_opened:
  assumes "indents t p"
  shows "json_indent d True False (t @ r) =
    newline_indent (Suc d) @ p (Suc d) @ json_indent (Suc d) False False r"
proof -
  obtain c u where "t = c # u" "c \<noteq> CHR ''}''" "c \<noteq> CHR '']''" using assms by (cases t) (auto simp: indents_def)
  then show ?thesis using json_indent_opened [of c d "u @ r"] indents_step [OF assms, of "Suc d" r] by simp
qed

lemma hex_char_inert: "0 \<le> n \<Longrightarrow> n < 16 \<Longrightarrow> hex_char n \<noteq> CHR 0x5C \<and> hex_char n \<noteq> CHR 0x22"
  using hex_val_hex_char [of n] by (auto simp: hex_val_def)

lemma json_indent_esc_char: "json_indent d False True (esc_char c @ r) = esc_char c @ json_indent d False True r"
  using hex_char_inert [of "of_char c div 16"] hex_char_inert [of "of_char c mod 16"] of_char_bounds [of c]
  by (auto simp: esc_char_def Let_def)

lemma json_indent_esc_string:
  "json_indent d False True (esc_string s @ CHR 0x22 # r) = esc_string s @ CHR 0x22 # json_indent d False False r"
  by (induction s rule: esc_string.induct) (auto simp: json_indent_esc_char)

lemma indents_quote: "indents (quote_string s) (\<lambda>d. quote_string s)"
  by (simp add: indents_def quote_string_def json_indent_esc_string)

definition inert :: "char \<Rightarrow> bool" where
  "inert c \<longleftrightarrow> c \<notin> {CHR ''{'', CHR ''}'', CHR ''['', CHR '']'', CHR '','', CHR '':'', CHR 0x22}"

lemma indents_inert: "list_all inert t \<Longrightarrow> t \<noteq> [] \<Longrightarrow> indents t (\<lambda>d. t)"
proof (induction t)
  case (Cons c t)
  then show ?case by (cases "t = []") (auto simp: indents_def inert_def)
qed simp

lemma indents_int: "indents (show_int i) (\<lambda>d. show_int i)"
proof (rule indents_inert)
  have "list_all inert (show_dec j)" if "0 \<le> j" for j
    using show_dec_digits [OF that] by (rule list.pred_mono_strong) (auto simp: inert_def is_digit_def)
  then show "list_all inert (show_int i)" by (simp add: show_int_def inert_def)
qed (simp add: show_int_def)

subsection \<open>Indented objects\<close>

definition pretty_members :: "nat \<Rightarrow> (string \<times> (nat \<Rightarrow> string)) list \<Rightarrow> string" where
  "pretty_members d kps =
     join_with '','' (map (\<lambda>(k, p). newline_indent d @ quote_string k @ '': '' @ p d) kps)"

definition pretty_object :: "(string \<times> (nat \<Rightarrow> string)) list \<Rightarrow> nat \<Rightarrow> string" where
  "pretty_object kps d =
     (if kps = [] then ''{}''
      else CHR ''{'' # pretty_members (Suc d) kps @ newline_indent d @ ''}'')"

lemma pretty_members_simps [simp]:
  "pretty_members d [(k, p)] = newline_indent d @ quote_string k @ '': '' @ p d"
  "pretty_members d ((k, p) # kp # kps) =
     newline_indent d @ quote_string k @ '': '' @ p d @ '','' @ pretty_members d (kp # kps)"
  by (simp_all add: pretty_members_def)

lemma json_indent_members:
  assumes "list_all2 (rel_prod (=) indents) kts kps" "kts \<noteq> []"
  shows "newline_indent d @ json_indent d False False (members_text kts @ r) =
    pretty_members d kps @ json_indent d False False r"
  using assms
proof (induction kts kps rule: list_all2_induct)
  case (Cons kt kts kp kps)
  obtain k t p where kt: "kt = (k, t)" "kp = (k, p)" "indents t p"
    using Cons.hyps(1) by (cases kt; cases kp) auto
  note step = indents_step [OF indents_quote] indents_step [OF kt(3)]
  show ?case
  proof (cases kts)
    case Nil
    then show ?thesis using Cons.hyps(2) kt step by simp
  next
    case c: (Cons kt' kts')
    then obtain kp' kps' where "kps = kp' # kps'" using Cons.hyps(2) by (auto simp: list_all2_Cons1)
    then show ?thesis using Cons.IH c kt step by simp
  qed
qed simp

lemma indents_object:
  assumes "list_all2 (rel_prod (=) indents) kts kps"
  shows "indents (json_object kts) (pretty_object kps)"
proof (cases "kts = []")
  case True
  with assms show ?thesis by (simp add: indents_def json_object_def pretty_object_def)
next
  case False
  then have ne: "kps \<noteq> []" using assms by auto
  obtain w where w: "members_text kts = CHR 0x22 # w"
    using False by (cases kts; cases "hd kts"; cases "tl kts") (auto simp: quote_string_def)
  have "json_indent d False False (json_object kts @ r) = pretty_object kps d @ json_indent d False False r" for d r
    using json_indent_members [OF assms False, of "Suc d" "CHR ''}'' # r"] ne w
      json_indent_opened [of "CHR 0x22" d "w @ CHR ''}'' # r"]
    by (simp add: json_object_def pretty_object_def flip: members_text_def)
  then show ?thesis by (simp add: indents_def json_object_def)
qed

subsection \<open>Reading indented objects\<close>

definition blanks :: "string \<Rightarrow> bool" where
  "blanks w \<longleftrightarrow> list_all is_json_ws w"

lemma newline_indent_blanks: "blanks (newline_indent d)"
  by (simp add: blanks_def newline_indent_def is_json_ws_def list_all_iff)

lemma skip_ws_blanks [simp]: "blanks w \<Longrightarrow> skip_ws (w @ s) = skip_ws s"
  by (simp add: blanks_def skip_ws_def list_all_iff)

lemma parse_val_blanks: "blanks w \<Longrightarrow> parse_val n (w @ s) = parse_val n s"
  by (cases n) simp_all

lemma delim_blanks: "blanks w \<Longrightarrow> c \<in> {CHR '','', CHR ''}''} \<Longrightarrow> delim (w @ c # u)"
  by (cases w) (auto simp: delim_def blanks_def)

text \<open>A member with white space before its key, before its value and after it.\<close>

lemma parse_member_spaced:
  assumes "reads t v" "blanks w" "blanks x" "blanks y" "c \<in> {CHR '','', CHR ''}''}"
    and "2 * length (t @ y @ c # u) \<le> m"
  shows "parse_members (Suc m) (w @ quote_string k @ CHR '':'' # x @ t @ y @ c # u) =
    (if c = CHR ''}'' then Some ([(k, v)], u) else map_option (apfst ((#) (k, v))) (parse_members m u))"
proof -
  have "parse_val m (t @ y @ c # u) = Some (v, y @ c # u)"
    using assms delim_blanks [OF assms(4,5)] by (simp add: reads_def)
  moreover have "skip_ws (c # u) = c # u" using assms(5) by (auto simp: skip_ws_Cons)
  ultimately show ?thesis
    using assms(2-5) by (auto simp: quote_string_def skip_ws_Cons parse_string_esc parse_val_blanks)
qed

lemma blank_space: "blanks '' ''"
  by (simp add: blanks_def is_json_ws_def)

lemma parse_pretty_members:
  assumes "list_all2 (rel_prod (=) (\<lambda>p v. reads (p d) v)) kps kvs" "kps \<noteq> []"
    and "2 * length (pretty_members d kps @ newline_indent e @ CHR ''}'' # r) + 1 \<le> n"
  shows "parse_members n (pretty_members d kps @ newline_indent e @ CHR ''}'' # r) = Some (kvs, r)"
  using assms
proof (induction kps kvs arbitrary: n rule: list_all2_induct)
  case (Cons kp kps kv kvs)
  obtain k p v where kp: "kp = (k, p)" "kv = (k, v)" "reads (p d) v"
    using Cons.hyps(1) by (cases kp; cases kv) auto
  obtain m where n: "n = Suc m" using Cons.prems(2) by (cases n) auto
  note head = parse_member_spaced [OF kp(3) newline_indent_blanks blank_space, where k = k and m = m]
  show ?case
  proof (cases kps)
    case Nil
    then show ?thesis
      using Cons kp n head [of "newline_indent e" "CHR ''}''" r d] newline_indent_blanks [of e] by simp
  next
    case c: (Cons kp' kps')
    then obtain kv' kvs' where "kvs = kv' # kvs'" using Cons.hyps(2) by (auto simp: list_all2_Cons1)
    then show ?thesis
      using Cons c kp n head [of "[]" "CHR '',''" "pretty_members d kps @ newline_indent e @ CHR ''}'' # r" d]
      by (simp add: blanks_def)
  qed
qed simp

lemma reads_pretty_object:
  assumes "list_all2 (rel_prod (=) (\<lambda>p v. \<forall>d. reads (p d) v)) kps kvs" "distinct (map fst kvs)"
  shows "reads (pretty_object kps d) (GObj kvs)"
proof (cases "kps = []")
  case True
  with assms show ?thesis
    by (intro readsI [of _ "CHR ''{''" "''}''"]) (simp_all add: pretty_object_def skip_ws_Cons)
next
  case False
  have rel: "list_all2 (rel_prod (=) (\<lambda>p v. reads (p (Suc d)) v)) kps kvs"
    using assms(1) by (rule list_all2_mono) auto
  obtain w where w: "pretty_members (Suc d) kps = newline_indent (Suc d) @ CHR 0x22 # w"
    using False by (cases kps; cases "hd kps"; cases "tl kps") (auto simp: quote_string_def)
  show ?thesis
  proof (intro readsI [of _ "CHR ''{''" "pretty_members (Suc d) kps @ newline_indent d @ ''}''"])
    fix n r assume "2 * length (pretty_object kps d @ r) \<le> Suc n"
    then have "parse_members n (pretty_members (Suc d) kps @ newline_indent d @ CHR ''}'' # r) = Some (kvs, r)"
      using rel False by (intro parse_pretty_members) (auto simp: pretty_object_def)
    then show "parse_val (Suc n) (pretty_object kps d @ r) = Some (GObj kvs, r)"
      using w False assms(2) newline_indent_blanks [of "Suc d"]
      by (simp add: pretty_object_def skip_ws_Cons obj_of_distinct)
  qed (simp_all add: pretty_object_def False)
qed

lemma json_indent_complete: "indents t p \<Longrightarrow> json_indent d False False t = p d"
  using indents_step [of t p d "[]"] by simp

end
