(* ===== verification/Export.thy ===== *)
theory Export
  imports Service Go_Indent
begin

text \<open>
  Evidence packs: \<open>internal/export/fs.go\<close>. The file system is a map from paths to contents; what the
  operating system decides (whether a directory can be created, a file written, and the texts of its
  errors) is the record \<open>disk\<close>. The package \<open>path/filepath\<close> is modelled as far as \<open>Join\<close> is used.
  Metrics and tracing are left out.
\<close>

subsection \<open>Paths\<close>

text \<open>\<open>filepath.Clean\<close> on the elements of a path: empty and dot elements go, \<open>..\<close> takes one back.\<close>

fun clean_elems :: "bool \<Rightarrow> string list \<Rightarrow> string list \<Rightarrow> string list" where
  "clean_elems rooted out [] = out"
| "clean_elems rooted out (w # ws) =
     (if w = [] \<or> w = ''.'' then clean_elems rooted out ws
      else if w = ''..'' then
        (if out \<noteq> [] \<and> last out \<noteq> ''..'' then clean_elems rooted (butlast out) ws
         else if rooted then clean_elems rooted out ws
         else clean_elems rooted (out @ [w]) ws)
      else clean_elems rooted (out @ [w]) ws)"

definition clean_path :: "string \<Rightarrow> string" where
  "clean_path p =
     (let rooted = (take 1 p = ''/''); out = clean_elems rooted [] (split_on (CHR ''/'') p)
      in if rooted then ''/'' @ join_with ''/'' out
         else if out = [] then ''.'' else join_with ''/'' out)"

definition join_path :: "string \<Rightarrow> string \<Rightarrow> string" where
  "join_path a b = (if a = [] then clean_path b else clean_path (a @ ''/'' @ b))"

subsection \<open>JSON texts\<close>

text \<open>\<open>time.Time\<close> is marshalled like \<open>RFC3339Nano\<close> and fails outside the years 0 to 9999.\<close>

definition marshal_time :: "time \<Rightarrow> string option" where
  "marshal_time t = (if time_ok t then Some (CHR 0x22 # format_rfc3339nano t @ [CHR 0x22]) else None)"

definition marshal_event :: "stored_event \<Rightarrow> string option" where
  "marshal_event e =
     (case (marshal_time (ev_time e), marshal_raw (ev_data e), marshal_time (ev_ingested e)) of
        (Some t, Some d, Some i) \<Rightarrow>
          Some (json_object
            ([(''id'', quote_string (ev_id e)), (''type'', quote_string (ev_type e)),
              (''source'', quote_string (ev_source e))] @
             (if ev_subject e = [] then [] else [(''subject'', quote_string (ev_subject e))]) @
             [(''time'', t)] @
             (if ev_extensions e = [] then [] else [(''extensions'', marshal (GObj (ev_extensions e)))]) @
             [(''data'', d), (''integrity_hash'', quote_string (ev_hash e)), (''ingested_at'', i)]))
      | _ \<Rightarrow> None)"

definition marshal_events :: "stored_event list \<Rightarrow> string option" where
  "marshal_events es = map_option json_array (those (map marshal_event es))"

subsection \<open>The change a pack is about\<close>

record export_change_view =
  xc_change_id :: string
  xc_application :: string
  xc_cluster :: string
  xc_namespace :: string
  xc_revision :: string
  xc_initiator :: string
  xc_result :: string
  xc_external_id :: string
  xc_ticket_id :: string
  xc_degradation :: "(string \<times> gval) list option"

definition empty_view :: export_change_view where
  "empty_view =
     \<lparr>xc_change_id = [], xc_application = [], xc_cluster = [], xc_namespace = [], xc_revision = [],
      xc_initiator = [], xc_result = [], xc_external_id = [], xc_ticket_id = [], xc_degradation = None\<rparr>"

definition data_string_field :: "string \<Rightarrow> string list \<Rightarrow> string" where
  "data_string_field data ks =
     (if data = [] then []
      else (case unmarshal_map data of None \<Rightarrow> [] | Some m \<Rightarrow> first_map_string m ks))"

text \<open>What the loop of \<open>derivePrimaryChange\<close> does with an event.\<close>

definition export_result :: "string \<Rightarrow> stored_event \<Rightarrow> string" where
  "export_result result e =
     (let bucket = to_lower (ev_type e @ '' '' @
            data_string_field (ev_data e) [''status'', ''phase'', ''result'', ''outcome''])
      in if contains bucket ''fail'' \<or> contains bucket ''error'' \<or> contains bucket ''degrad'' \<or>
            contains bucket ''abort'' then ''failed''
         else if result \<noteq> ''failed'' \<and>
            (contains bucket ''success'' \<or> contains bucket ''succeed'' \<or> contains bucket ''complete'')
         then ''succeeded'' else result)"

definition export_view_step :: "export_change_view \<Rightarrow> stored_event \<Rightarrow> export_change_view" where
  "export_view_step v e =
     (let ext = ev_extensions e in
      v\<lparr>xc_change_id := or_else (xc_change_id v) (extension_string ext ''change_id''),
        xc_revision := or_else (xc_revision v)
          (first_extension ext [''sync_revision'', ''revision'', ''commit_sha'']),
        xc_initiator := or_else (xc_initiator v) (extension_string ext ''initiator''),
        xc_external_id := or_else (xc_external_id v)
          (first_extension ext [''external_change_id'', ''change_id'']),
        xc_ticket_id := or_else (xc_ticket_id v)
          (first_extension ext [''ticket_id'', ''ticket_key_primary'']),
        xc_result := export_result (xc_result v) e\<rparr>)"

definition derive_primary_change :: "stored_event list \<Rightarrow> export_change_view" where
  "derive_primary_change es =
     (case es of
        [] \<Rightarrow> empty_view
      | e # _ \<Rightarrow>
          (let v = foldl export_view_step
                 (empty_view\<lparr>xc_application := ev_subject e,
                    xc_cluster := extension_string (ev_extensions e) ''cluster'',
                    xc_namespace := extension_string (ev_extensions e) ''namespace'',
                    xc_result := ''unknown''\<rparr>) es
           in v\<lparr>xc_change_id := or_else (xc_change_id v)
                  (''chg_'' @ stable_hash (xc_application v @ '':'' @ xc_cluster v @ '':'' @ xc_namespace v @
                     '':'' @ xc_revision v)),
                xc_degradation := Some [(''observed'', GBool False)]\<rparr>))"

subsection \<open>The pack\<close>

text \<open>The text that the deterministic hash covers; the keys of a map are written in order.\<close>

definition canonical_pack :: "export_change_view \<Rightarrow> string \<Rightarrow> string" where
  "canonical_pack v items = json_object
     [(''application'', quote_string (xc_application v)), (''change_id'', quote_string (xc_change_id v)),
      (''cluster'', quote_string (xc_cluster v)),
      (''external_change_id'', quote_string (xc_external_id v)),
      (''initiator'', quote_string (xc_initiator v)), (''namespace'', quote_string (xc_namespace v)),
      (''post_deploy_degradation'',
        case xc_degradation v of None \<Rightarrow> ''null'' | Some m \<Rightarrow> marshal (GObj m)),
      (''result'', quote_string (xc_result v)), (''revision'', quote_string (xc_revision v)),
      (''source'', quote_string ''argocd''), (''ticket_id'', quote_string (xc_ticket_id v)),
      (''timeline'', items)]"

definition omit_empty_string :: "string \<Rightarrow> string \<Rightarrow> (string \<times> string) list" where
  "omit_empty_string k s = (if s = [] then [] else [(k, quote_string s)])"

definition evidence_pack :: "time \<Rightarrow> time \<Rightarrow> stored_event list \<Rightarrow> string option" where
  "evidence_pack generated created es =
     (let es = sort_stored_events es; v = derive_primary_change es in
      case (marshal_events es, marshal_time generated, marshal_time created) of
        (Some items, Some g, Some c) \<Rightarrow>
          Some (json_indent 0 False False (json_object
            ([(''schema_version'', quote_string ''evidence-pack/v1'')] @
             omit_empty_string ''change_id'' (xc_change_id v) @
             [(''generated_at'', g), (''source'', quote_string ''argocd'')] @
             omit_empty_string ''application'' (xc_application v) @
             omit_empty_string ''cluster'' (xc_cluster v) @
             omit_empty_string ''namespace'' (xc_namespace v) @
             omit_empty_string ''revision'' (xc_revision v) @
             omit_empty_string ''initiator'' (xc_initiator v) @
             omit_empty_string ''result'' (xc_result v) @
             omit_empty_string ''external_change_id'' (xc_external_id v) @
             omit_empty_string ''ticket_id'' (xc_ticket_id v) @
             (case xc_degradation v of
                None \<Rightarrow> [] | Some m \<Rightarrow> [(''post_deploy_degradation'', marshal (GObj m))]) @
             [(''timeline'', items), (''created_at'', c), (''count'', show_int (int (length es))),
              (''checksum_sha256'', quote_string (sha256_hex items)),
              (''deterministic_hash_sha256'', quote_string (sha256_hex (canonical_pack v items))),
              (''items'', items)])))
      | _ \<Rightarrow> None)"

subsection \<open>The exporter on the file system\<close>

type_synonym files = "(string \<times> string) list"

record disk =
  dk_mkdir :: "string \<Rightarrow> string option"
  dk_write :: "string \<Rightarrow> string option"
  dk_missing :: "string \<Rightarrow> string"
  dk_marshal :: string

definition artifact_path :: "string \<Rightarrow> string \<Rightarrow> string" where
  "artifact_path base i = join_path base (i @ ''.json'')"

definition create_evidence_pack ::
    "disk \<Rightarrow> string \<Rightarrow> time \<Rightarrow> time \<Rightarrow> string \<Rightarrow> stored_event list \<Rightarrow> files \<Rightarrow> (string + string) \<times> files" where
  "create_evidence_pack D base generated created i es fs =
     (case dk_mkdir D base of
        Some msg \<Rightarrow> (Inl msg, fs)
      | None \<Rightarrow>
          (case evidence_pack generated created es of
             None \<Rightarrow> (Inl (dk_marshal D), fs)
           | Some b \<Rightarrow>
               (let path = artifact_path base i in
                case dk_write D path of
                  Some msg \<Rightarrow> (Inl msg, fs)
                | None \<Rightarrow> (Inr path, AList.update path b fs))))"

definition read_artifact :: "disk \<Rightarrow> string \<Rightarrow> files \<Rightarrow> string + string" where
  "read_artifact D path fs =
     (case map_of fs path of None \<Rightarrow> Inl (dk_missing D path) | Some b \<Rightarrow> Inr b)"

definition filesystem_exporter :: "disk \<Rightarrow> string \<Rightarrow> files exporter" where
  "filesystem_exporter D base =
     \<lparr>ex_create_pack = (\<lambda>now. create_evidence_pack D base now now), ex_read_artifact = read_artifact D\<rparr>"

end
