(* ===== verification/Auth.thy ===== *)
theory Auth
  imports CloudEvents "HOL-Library.Signed_Division"
begin

text \<open>
  Authorization of \<open>internal/api\<close>: the rate limiter (\<open>ratelimit.go\<close>), bearer tokens, webhook
  signatures (\<open>httpx.go\<close>), roles from a header or a JWT (\<open>roles.go\<close>), the audit trail
  (\<open>audit.go\<close>) and the three checks of \<open>auth.go\<close>. A request is a record of what the code reads of
  it; header names are compared as \<open>http.Header\<close> canonicalizes them, up to case.

  Parameters: the third-party package \<open>golang-jwt\<close> together with the key store is the record
  \<open>jwt_library\<close>; whether an address text is an IP in one of the configured proxy networks is the
  function \<open>ac_trusted\<close> of the configuration. The state \<open>auth_state\<close> is the rate limiter and the
  lines written to the audit log file.
\<close>

subsection \<open>Requests\<close>

record request =
  rq_method :: string
  rq_path :: string
  rq_query :: "(string \<times> string) list"
  rq_headers :: "(string \<times> string) list"
  rq_remote :: string
  rq_body :: string

definition header_get :: "request \<Rightarrow> string \<Rightarrow> string" where
  "header_get r name =
     (case find (\<lambda>(k, v). equal_fold k name) (rq_headers r) of None \<Rightarrow> [] | Some (k, v) \<Rightarrow> v)"

definition query_get :: "request \<Rightarrow> string \<Rightarrow> string" where
  "query_get r name = (case map_of (rq_query r) name of None \<Rightarrow> [] | Some v \<Rightarrow> v)"

subsection \<open>Configuration\<close>

record rate_limit_policy =
  rp_enabled :: bool
  rp_read :: int
  rp_export :: int
  rp_ingest :: int

record jwt_policy =
  jp_enabled :: bool
  jp_issuer :: string
  jp_audience :: string
  jp_roles_claim :: string
  jp_hs256_secret :: string
  jp_rs256_pem :: string
  jp_jwks_url :: string
  jp_jwks_refresh :: string

record auth_config =
  ac_read_token :: string
  ac_ingest_token :: string
  ac_webhook_header :: string
  ac_webhook_secret :: string
  ac_oidc_enabled :: bool
  ac_roles_header :: string
  ac_jwt :: jwt_policy
  ac_audit_file :: string
  ac_rate :: rate_limit_policy
  ac_trusted :: "(string \<Rightarrow> bool) option"

definition with_auth_defaults :: "auth_config \<Rightarrow> auth_config" where
  "with_auth_defaults a =
     (let j = ac_jwt a; p = ac_rate a in
      a\<lparr>ac_webhook_header := (if trim_space (ac_webhook_header a) = [] then ''X-Evidra-Signature'' else ac_webhook_header a),
        ac_roles_header := (if trim_space (ac_roles_header a) = [] then ''X-Auth-Roles'' else ac_roles_header a),
        ac_jwt := j\<lparr>jp_roles_claim := (if trim_space (jp_roles_claim j) = [] then ''roles'' else jp_roles_claim j),
                    jp_jwks_refresh := (if trim_space (jp_jwks_refresh j) = [] then ''5m'' else jp_jwks_refresh j)\<rparr>,
        ac_rate := p\<lparr>rp_read := (if rp_read p \<le> 0 then 600 else rp_read p),
                     rp_export := (if rp_export p \<le> 0 then 120 else rp_export p),
                     rp_ingest := (if rp_ingest p \<le> 0 then 240 else rp_ingest p)\<rparr>\<rparr>)"

subsection \<open>The rate limiter\<close>

record rate_limiter =
  rl_enabled :: bool
  rl_limits :: "(string \<times> int) list"
  rl_window :: int
  rl_counters :: "(string \<times> int) list"

definition minute_window :: "time \<Rightarrow> int" where
  "minute_window now = unix_sec now sdiv 60"

definition new_rate_limiter :: "time \<Rightarrow> rate_limit_policy \<Rightarrow> rate_limiter" where
  "new_rate_limiter now p =
     \<lparr>rl_enabled = rp_enabled p,
      rl_limits = [(''read'', rp_read p), (''export'', rp_export p), (''ingest'', rp_ingest p)],
      rl_window = minute_window now, rl_counters = []\<rparr>"

text \<open>A missing key of a Go map reads as zero.\<close>

definition int_at :: "(string \<times> int) list \<Rightarrow> string \<Rightarrow> int" where
  "int_at m k = (case map_of m k of None \<Rightarrow> 0 | Some n \<Rightarrow> n)"

definition allow :: "time \<Rightarrow> string \<Rightarrow> string \<Rightarrow> rate_limiter \<Rightarrow> bool \<times> rate_limiter" where
  "allow now ip action l =
     (if \<not> rl_enabled l then (True, l)
      else
        (let limit = int_at (rl_limits l) (trim_space action) in
         if limit \<le> 0 then (True, l)
         else
           (let w = minute_window now;
                k = trim_space action @ ''|'' @ ip;
                l = (if w \<noteq> rl_window l then l\<lparr>rl_window := w, rl_counters := []\<rparr> else l);
                n = int_at (rl_counters l) k + 1
            in (n \<le> limit, l\<lparr>rl_counters := AList.update k n (rl_counters l)\<rparr>))))"

subsection \<open>Bearer tokens and webhook signatures\<close>

definition match_bearer :: "string \<Rightarrow> string \<Rightarrow> bool" where
  "match_bearer header expected =
     (let header = trim_space header in
      if header = [] then False
      else (case split_n2 (CHR '' '') header of
              [scheme, token] \<Rightarrow> equal_fold scheme ''Bearer'' \<and> trim_space token = expected
            | _ \<Rightarrow> False))"

definition bearer_token :: "string \<Rightarrow> string" where
  "bearer_token header =
     (let header = trim_space header in
      if header = [] then []
      else (case split_n2 (CHR '' '') header of
              [scheme, token] \<Rightarrow> if equal_fold scheme ''Bearer'' then trim_space token else []
            | _ \<Rightarrow> []))"

definition valid_webhook_signature :: "string \<Rightarrow> string \<Rightarrow> string \<Rightarrow> bool" where
  "valid_webhook_signature secret body header =
     (let header = trim_space header in
      if header = [] then False
      else (case split_n2 (CHR ''='') header of
              [alg, sig] \<Rightarrow>
                equal_fold alg ''sha256'' \<and> hex_decode (trim_space sig) = Some (hmac_sha256 secret body)
            | _ \<Rightarrow> False))"

subsection \<open>Roles\<close>

datatype auth_error = RateLimited | InsufficientRole | MissingRoles | MissingBearer
  | InvalidToken string | MissingOrInvalidBearer | InvalidSignature

definition auth_error_text :: "auth_error \<Rightarrow> string" where
  "auth_error_text err =
     (case err of RateLimited \<Rightarrow> ''rate limited'' | InsufficientRole \<Rightarrow> ''insufficient role''
      | MissingRoles \<Rightarrow> ''missing oidc roles'' | MissingBearer \<Rightarrow> ''missing bearer token''
      | InvalidToken m \<Rightarrow> m | MissingOrInvalidBearer \<Rightarrow> ''missing or invalid bearer token''
      | InvalidSignature \<Rightarrow> ''invalid webhook signature'')"

definition roles_from_header :: "auth_config \<Rightarrow> request \<Rightarrow> auth_error + string list" where
  "roles_from_header a r =
     (let header = trim_space (header_get r (ac_roles_header a)) in
      if header = [] then Inl MissingRoles
      else
        (let out = filter (\<lambda>x. x \<noteq> []) (map (\<lambda>p. to_lower (trim_space p)) (split_on (CHR '','') header))
         in if out = [] then Inl MissingRoles else Inr out))"

fun append_roles :: "string list \<Rightarrow> string list \<Rightarrow> string list" where
  "append_roles out [] = out"
| "append_roles out (v # vs) =
     (let v = to_lower (trim_space v)
      in append_roles (if v = [] \<or> v \<in> set out then out else out @ [v]) vs)"

text \<open>\<open>strings.FieldsFunc\<close> on commas and blanks.\<close>

definition fields_comma_blank :: "string \<Rightarrow> string list" where
  "fields_comma_blank s =
     filter (\<lambda>x. x \<noteq> []) (split_on (CHR '','') (map (\<lambda>c. if c = CHR '' '' then CHR '','' else c) s))"

definition extract_claim_roles :: "(string \<times> gval) list \<Rightarrow> string \<Rightarrow> string list" where
  "extract_claim_roles claims name =
     (let name = (if trim_space name = [] then ''roles'' else trim_space name) in
      case map_of claims name of
        Some (GStr s) \<Rightarrow> append_roles [] (fields_comma_blank s)
      | Some (GStrs ss) \<Rightarrow> append_roles [] ss
      | Some (GArr vs) \<Rightarrow> append_roles [] (List.map_filter (\<lambda>v. case v of GStr s \<Rightarrow> Some s | _ \<Rightarrow> None) vs)
      | _ \<Rightarrow> [])"

text \<open>
  What the code uses of \<open>golang-jwt\<close>: the algorithm, the key id and the claims of a token text,
  whether a key verifies it, the three claim checks; and the resolution of RSA keys, from the PEM
  text or the JWKS cache. The selection of the key by algorithm is the code's own.
\<close>

datatype ('k) jwt_key = HmacKey string | RsaKey 'k

record 'k jwt_library =
  jl_header :: "string \<Rightarrow> (string \<times> string) option"
  jl_claims :: "string \<Rightarrow> (string \<times> gval) list"
  jl_valid :: "time \<Rightarrow> 'k jwt_key \<Rightarrow> string \<Rightarrow> bool"
  jl_issuer_ok :: "(string \<times> gval) list \<Rightarrow> string \<Rightarrow> bool"
  jl_audience_ok :: "(string \<times> gval) list \<Rightarrow> string \<Rightarrow> bool"
  jl_not_expired :: "(string \<times> gval) list \<Rightarrow> int \<Rightarrow> bool"
  jl_pem_key :: "string \<Rightarrow> 'k option"
  jl_jwks_key :: "string \<Rightarrow> 'k option"

definition jwt_key_for :: "'k jwt_library \<Rightarrow> jwt_policy \<Rightarrow> string \<times> string \<Rightarrow> 'k jwt_key option" where
  "jwt_key_for J p hdr =
     (case hdr of (alg, kid) \<Rightarrow>
       if alg = ''HS256'' then
         (let secret = trim_space (jp_hs256_secret p)
          in if secret = [] then None else Some (HmacKey secret))
       else if alg = ''RS256'' then
         (if trim_space (jp_jwks_url p) \<noteq> [] then
            (let kid = trim_space kid
             in if kid = [] then None else map_option RsaKey (jl_jwks_key J kid))
          else
            (let pem = trim_space (jp_rs256_pem p)
             in if pem = [] then None else map_option RsaKey (jl_pem_key J pem)))
       else None)"

definition roles_from_jwt ::
    "'k jwt_library \<Rightarrow> time \<Rightarrow> jwt_policy \<Rightarrow> request \<Rightarrow> auth_error + string \<times> string list" where
  "roles_from_jwt J now p r =
     (let raw = trim_space (bearer_token (header_get r ''Authorization'')) in
      if raw = [] then Inl MissingBearer
      else if \<not> (case jl_header J raw of
               None \<Rightarrow> False
             | Some hdr \<Rightarrow> (case jwt_key_for J p hdr of None \<Rightarrow> False | Some k \<Rightarrow> jl_valid J now k raw))
      then Inl (InvalidToken ''invalid jwt token'')
      else
        (let claims = jl_claims J raw in
         if \<not> jl_issuer_ok J claims (jp_issuer p) then Inl (InvalidToken ''invalid jwt issuer'')
         else if \<not> jl_audience_ok J claims (jp_audience p) then Inl (InvalidToken ''invalid jwt audience'')
         else if \<not> jl_not_expired J claims (unix_sec now) then Inl (InvalidToken ''jwt token expired'')
         else
           (let roles = extract_claim_roles claims (jp_roles_claim p) in
            if roles = [] then Inl (InvalidToken ''missing jwt roles'')
            else Inr ((case map_of claims ''sub'' of Some (GStr s) \<Rightarrow> trim_space s | _ \<Rightarrow> []), roles))))"

record role_info =
  ri_source :: string
  ri_subject :: string
  ri_roles :: "string list"

text \<open>\<open>None\<close> means that roles are not enforced.\<close>

definition resolve_roles ::
    "'k jwt_library \<Rightarrow> time \<Rightarrow> auth_config \<Rightarrow> request \<Rightarrow> auth_error + role_info option" where
  "resolve_roles J now a r =
     (if jp_enabled (ac_jwt a) then
        (case roles_from_jwt J now (ac_jwt a) r of
           Inl err \<Rightarrow> Inl err
         | Inr (sub, roles) \<Rightarrow> Inr (Some \<lparr>ri_source = ''jwt'', ri_subject = sub, ri_roles = roles\<rparr>))
      else if ac_oidc_enabled a then
        (case roles_from_header a r of
           Inl err \<Rightarrow> Inl err
         | Inr roles \<Rightarrow> Inr (Some \<lparr>ri_source = ''header'', ri_subject = [], ri_roles = roles\<rparr>))
      else Inr None)"

subsection \<open>The audit trail\<close>

record audit_event =
  ae_time :: string
  ae_decision :: string
  ae_mechanism :: string
  ae_actor :: string
  ae_roles :: "string list"
  ae_method :: string
  ae_path :: string
  ae_remote_ip :: string
  ae_request_id :: string
  ae_correlation_id :: string
  ae_reason :: string

record auth_state =
  as_limiter :: rate_limiter
  as_audit :: "audit_event list"
  as_lines :: "string list"

text \<open>\<open>net.SplitHostPort\<close>, the host only.\<close>

definition split_host_port :: "string \<Rightarrow> string option" where
  "split_host_port s =
     (if CHR '':'' \<notin> set s then None
      else
        (let i = length s - 1 - length (takeWhile (\<lambda>c. c \<noteq> CHR '':'') (rev s)) in
         if take 1 s = ''['' then
           (let e = length (takeWhile (\<lambda>c. c \<noteq> CHR '']'') s) in
            if e = length s \<or> e + 1 \<noteq> i then None
            else if CHR ''['' \<in> set (drop 1 s) \<or> CHR '']'' \<in> set (drop (e + 1) s) then None
            else Some (drop 1 (take e s)))
         else if CHR '':'' \<in> set (take i s) then None
         else if CHR ''['' \<in> set s \<or> CHR '']'' \<in> set s then None
         else Some (take i s)))"

definition remote_addr_ip :: "request \<Rightarrow> string" where
  "remote_addr_ip r =
     (case split_host_port (trim_space (rq_remote r)) of Some h \<Rightarrow> h | None \<Rightarrow> trim_space (rq_remote r))"

definition request_remote_ip :: "auth_config \<Rightarrow> request \<Rightarrow> string" where
  "request_remote_ip a r =
     (let ip = remote_addr_ip r in
      case ac_trusted a of
        None \<Rightarrow> ip
      | Some trusted \<Rightarrow>
          if trusted ip then
            (let xff = trim_space (header_get r ''X-Forwarded-For'')
             in if xff \<noteq> [] then trim_space (hd (split_on (CHR '','') xff)) else ip)
          else ip)"

definition omit_empty :: "string \<Rightarrow> string \<Rightarrow> (string \<times> string) list" where
  "omit_empty k s = (if s = [] then [] else [(k, quote_string s)])"

definition audit_json :: "audit_event \<Rightarrow> string" where
  "audit_json e = json_object
     ([(''time'', quote_string (ae_time e)), (''decision'', quote_string (ae_decision e)),
       (''mechanism'', quote_string (ae_mechanism e))] @ omit_empty ''actor'' (ae_actor e) @
      (if ae_roles e = [] then [] else [(''roles'', json_array (map quote_string (ae_roles e)))]) @
      [(''method'', quote_string (ae_method e)), (''path'', quote_string (ae_path e))] @
      omit_empty ''remote_ip'' (ae_remote_ip e) @ omit_empty ''request_id'' (ae_request_id e) @
      omit_empty ''correlation_id'' (ae_correlation_id e) @ omit_empty ''reason'' (ae_reason e))"

definition audit_auth ::
    "auth_config \<Rightarrow> time \<Rightarrow> request \<Rightarrow> string \<Rightarrow> string \<Rightarrow> string \<Rightarrow> string list \<Rightarrow> string \<Rightarrow>
     auth_state \<Rightarrow> auth_state" where
  "audit_auth a now r decision mechanism actor roles reason st =
     (let ev = \<lparr>ae_time = format_rfc3339 now, ae_decision = trim_space decision,
                ae_mechanism = trim_space mechanism, ae_actor = trim_space actor, ae_roles = roles,
                ae_method = rq_method r, ae_path = rq_path r, ae_remote_ip = request_remote_ip a r,
                ae_request_id = trim_space (header_get r ''X-Request-Id''),
                ae_correlation_id = trim_space (header_get r ''X-Correlation-Id''),
                ae_reason = trim_space reason\<rparr>
      in st\<lparr>as_audit := as_audit st @ [ev],
            as_lines := (if trim_space (ac_audit_file a) = [] then as_lines st
              else as_lines st @ [''audit_auth '' @ audit_json ev])\<rparr>)"

subsection \<open>The checks\<close>

definition authorize_roles ::
    "'k jwt_library \<Rightarrow> auth_config \<Rightarrow> time \<Rightarrow> request \<Rightarrow> string list \<Rightarrow> auth_state \<Rightarrow>
     auth_error option \<times> auth_state" where
  "authorize_roles J a now r allowed st =
     (case resolve_roles J now a r of
        Inl err \<Rightarrow> (Some err, st)
      | Inr None \<Rightarrow> (None, st)
      | Inr (Some info) \<Rightarrow>
          let have = set (map (\<lambda>x. to_lower (trim_space x)) (ri_roles info)) in
          if list_ex (\<lambda>x. to_lower (trim_space x) \<in> have) allowed
          then (None, audit_auth a now r ''allow'' (ri_source info) (ri_subject info) (ri_roles info) [] st)
          else (Some InsufficientRole, st))"

definition authorize_read_token ::
    "auth_config \<Rightarrow> time \<Rightarrow> request \<Rightarrow> auth_state \<Rightarrow> auth_error option \<times> auth_state" where
  "authorize_read_token a now r st =
     (let token = trim_space (ac_read_token a) in
      if token = [] then (None, audit_auth a now r ''allow'' ''none'' [] [] [] st)
      else if \<not> match_bearer (header_get r ''Authorization'') token
      then (Some MissingOrInvalidBearer,
            audit_auth a now r ''deny'' ''bearer'' [] [] ''missing or invalid bearer token'' st)
      else (None, audit_auth a now r ''allow'' ''bearer'' ''static-token'' [] [] st))"

definition check_rate ::
    "auth_config \<Rightarrow> time \<Rightarrow> request \<Rightarrow> string \<Rightarrow> auth_state \<Rightarrow> bool \<times> auth_state" where
  "check_rate a now r action st =
     (case allow now (request_remote_ip a r) action (as_limiter st) of
        (ok, l) \<Rightarrow>
          let st = st\<lparr>as_limiter := l\<rparr> in
          if ok then (True, st)
          else (False, audit_auth a now r ''deny'' ''rate_limit'' [] [] (action @ '' rate limit exceeded'') st))"

definition authorize_read ::
    "'k jwt_library \<Rightarrow> auth_config \<Rightarrow> time \<Rightarrow> request \<Rightarrow> auth_state \<Rightarrow> auth_error option \<times> auth_state" where
  "authorize_read J a now r st =
     (case check_rate a now r ''read'' st of
        (False, st) \<Rightarrow> (Some RateLimited, st)
      | (True, st) \<Rightarrow>
          (case authorize_roles J a now r [''reader'', ''exporter'', ''admin''] st of
             (Some err, st) \<Rightarrow>
               (Some err, audit_auth a now r ''deny'' ''roles'' [] [] (auth_error_text err) st)
           | (None, st) \<Rightarrow> authorize_read_token a now r st))"

definition authorize_export ::
    "'k jwt_library \<Rightarrow> auth_config \<Rightarrow> time \<Rightarrow> request \<Rightarrow> auth_state \<Rightarrow> auth_error option \<times> auth_state" where
  "authorize_export J a now r st =
     (case check_rate a now r ''export'' st of
        (False, st) \<Rightarrow> (Some RateLimited, st)
      | (True, st) \<Rightarrow>
          (case authorize_roles J a now r [''exporter'', ''admin''] st of
             (Some err, st) \<Rightarrow> (Some err, st)
           | (None, st) \<Rightarrow> authorize_read_token a now r st))"

definition ingest_token :: "auth_config \<Rightarrow> string" where
  "ingest_token a =
     (let t = trim_space (ac_ingest_token a) in if t = [] then trim_space (ac_read_token a) else t)"

definition authorize_ingest ::
    "'k jwt_library \<Rightarrow> auth_config \<Rightarrow> time \<Rightarrow> request \<Rightarrow> auth_state \<Rightarrow> auth_error option \<times> auth_state" where
  "authorize_ingest J a now r st =
     (case check_rate a now r ''ingest'' st of
        (False, st) \<Rightarrow> (Some RateLimited, st)
      | (True, st) \<Rightarrow>
          (case authorize_roles J a now r [''admin''] st of
             (Some err, st) \<Rightarrow>
               (Some err, audit_auth a now r ''deny'' ''roles'' [] [] (auth_error_text err) st)
           | (None, st) \<Rightarrow>
               (let token = ingest_token a in
                if token \<noteq> [] \<and> \<not> match_bearer (header_get r ''Authorization'') token
                then (Some MissingOrInvalidBearer,
                      audit_auth a now r ''deny'' ''bearer'' [] [] ''missing or invalid bearer token'' st)
                else if trim_space (ac_webhook_secret a) \<noteq> [] \<and>
                  \<not> valid_webhook_signature (ac_webhook_secret a) (rq_body r)
                       (trim_space (header_get r (ac_webhook_header a)))
                then (Some InvalidSignature,
                      audit_auth a now r ''deny'' ''webhook-signature'' [] [] ''invalid webhook signature'' st)
                else (None, audit_auth a now r ''allow'' ''ingest'' [] [] [] st))))"

end
