(* ===== verification/Auth_Facts.thy ===== *)
theory Auth_Facts
  imports Auth
begin

text \<open>
  What the checks of \<open>Auth\<close> guarantee: the exact number of requests the rate limiter admits in a
  window, the conditions under which a request is authorized, the audit trail of a decision, and
  the webhook signatures that are accepted.
\<close>

subsection \<open>Runs of the rate limiter\<close>

fun allow_run :: "rate_limiter \<Rightarrow> (time \<times> string \<times> string) list \<Rightarrow> bool list" where
  "allow_run l [] = []"
| "allow_run l ((t, ip, action) # rs) =
     (case allow t ip action l of (b, l') \<Rightarrow> b # allow_run l' rs)"

text \<open>The requests of one address and action in one window, and those of them that are admitted.\<close>

definition same_bucket :: "int \<Rightarrow> string \<Rightarrow> string \<Rightarrow> time \<times> string \<times> string \<Rightarrow> bool" where
  "same_bucket w ip action r \<longleftrightarrow> minute_window (fst r) = w \<and> snd r = (ip, action)"

definition requests_in :: "int \<Rightarrow> string \<Rightarrow> string \<Rightarrow> (time \<times> string \<times> string) list \<Rightarrow> nat" where
  "requests_in w ip action rs = length (filter (same_bucket w ip action) rs)"

definition admitted_in ::
    "int \<Rightarrow> string \<Rightarrow> string \<Rightarrow> (time \<times> string \<times> string) list \<Rightarrow> bool list \<Rightarrow> nat" where
  "admitted_in w ip action rs bs =
     length (filter (\<lambda>(r, b). b \<and> same_bucket w ip action r) (zip rs bs))"

definition rate_actions :: "string set" where
  "rate_actions = {''read'', ''export'', ''ingest''}"

lemma rate_actions_plain: "a \<in> rate_actions \<Longrightarrow> trim_space a = a \<and> CHR ''|'' \<notin> set a"
  by (auto simp: rate_actions_def trim_space_plain plain_char_def)

lemma bucket_key_inject:
  "a \<in> rate_actions \<Longrightarrow> b \<in> rate_actions \<Longrightarrow>
   (trim_space a @ ''|'' @ ip = trim_space b @ ''|'' @ jp) = (a = b \<and> ip = jp)"
  using rate_actions_plain [of a] rate_actions_plain [of b] by (auto simp: append_sep_inject)

definition bucket_count :: "rate_limiter \<Rightarrow> int \<Rightarrow> string \<Rightarrow> string \<Rightarrow> int" where
  "bucket_count l w ip action = (if rl_window l = w then int_at (rl_counters l) (action @ ''|'' @ ip) else 0)"

lemma allow_unlimited: "int_at (rl_limits l) (trim_space a) \<le> 0 \<Longrightarrow> allow t jp a l = (True, l)"
  by (simp add: allow_def)

lemma allow_limited:
  assumes "rl_enabled l" "a \<in> rate_actions" "0 < int_at (rl_limits l) a"
  shows "fst (allow t jp a l) \<longleftrightarrow> bucket_count l (minute_window t) jp a < int_at (rl_limits l) a"
    and "rl_enabled (snd (allow t jp a l))" "rl_limits (snd (allow t jp a l)) = rl_limits l"
    and "rl_window (snd (allow t jp a l)) = minute_window t"
  using assms rate_actions_plain [OF assms(2)]
  by (auto simp: allow_def Let_def bucket_count_def int_at_def)

lemma allow_counts:
  assumes "rl_enabled l" "a \<in> rate_actions" "0 < int_at (rl_limits l) a" "action \<in> rate_actions"
  shows "bucket_count (snd (allow t jp a l)) w ip action =
    (if minute_window t = w
     then (if same_bucket w ip action (t, jp, a) then bucket_count l w ip action + 1
           else bucket_count l w ip action)
     else 0)"
  using assms rate_actions_plain [OF assms(2)] rate_actions_plain [OF assms(4)]
    bucket_key_inject [OF assms(2,4), of jp ip]
  by (auto simp: allow_def Let_def bucket_count_def int_at_def same_bucket_def update_conv')

lemma requests_in_later:
  "\<forall>r\<in>set rs. w < minute_window (fst r) \<Longrightarrow> requests_in w ip action rs = 0"
  by (auto simp: requests_in_def filter_empty_conv same_bucket_def)

lemma in_Cons:
  "requests_in w ip action (r # rs) = (if same_bucket w ip action r then 1 else 0) + requests_in w ip action rs"
  "admitted_in w ip action (r # rs) (b # bs) =
     (if b \<and> same_bucket w ip action r then 1 else 0) + admitted_in w ip action rs bs"
  by (simp_all add: requests_in_def admitted_in_def)

lemma allow_run_exact:
  assumes "rl_enabled l" "0 < int_at (rl_limits l) action" "action \<in> rate_actions"
    and "\<forall>r\<in>set rs. snd (snd r) \<in> rate_actions"
    and "sorted (rl_window l # map (minute_window \<circ> fst) rs)"
    and "\<And>jp a. a \<in> rate_actions \<Longrightarrow> 0 \<le> bucket_count l (rl_window l) jp a"
  shows "admitted_in w ip action rs (allow_run l rs) =
    min (nat (int_at (rl_limits l) action - bucket_count l w ip action)) (requests_in w ip action rs)"
  using assms
proof (induction rs arbitrary: l)
  case Nil
  then show ?case by (simp add: admitted_in_def requests_in_def)
next
  case (Cons r rs)
  obtain t jp a where r: "r = (t, jp, a)" by (cases r)
  have a: "a \<in> rate_actions" "trim_space a = a" using Cons.prems(4) rate_actions_plain by (auto simp: r)
  show ?case
  proof (cases "0 < int_at (rl_limits l) a")
    case False
    then have "allow t jp a l = (True, l)" using a by (simp add: allow_unlimited)
    moreover have "\<not> same_bucket w ip action r" using False Cons.prems(2) by (auto simp: r same_bucket_def)
    moreover have "admitted_in w ip action rs (allow_run l rs) =
        min (nat (int_at (rl_limits l) action - bucket_count l w ip action)) (requests_in w ip action rs)"
      using Cons.prems by (intro Cons.IH) auto
    ultimately show ?thesis by (simp add: r in_Cons)
  next
    case True
    define l' b where "l' = snd (allow t jp a l)" and "b = fst (allow t jp a l)"
    note lim = allow_limited [OF Cons.prems(1) a(1) True, of t jp, folded l'_def b_def]
    note cnt = allow_counts [OF Cons.prems(1) a(1) True, of _ t jp, folded l'_def]
    have run: "allow_run l (r # rs) = b # allow_run l' rs"
      by (simp add: r l'_def b_def split: prod.split)
    have ih: "admitted_in w ip action rs (allow_run l' rs) =
        min (nat (int_at (rl_limits l') action - bucket_count l' w ip action)) (requests_in w ip action rs)"
    proof (rule Cons.IH)
      fix jp' a' assume a': "a' \<in> rate_actions"
      then have "0 \<le> bucket_count l (minute_window t) jp' a'"
        using Cons.prems(6) by (cases "rl_window l = minute_window t") (auto simp: bucket_count_def)
      then show "0 \<le> bucket_count l' (rl_window l') jp' a'" by (simp add: lim(4) cnt [OF a'])
    qed (use Cons.prems lim in \<open>auto simp: r\<close>)
    have mono: "rl_window l \<le> minute_window t" "\<forall>s\<in>set rs. minute_window t \<le> minute_window (fst s)"
      using Cons.prems(5) by (auto simp: r)
    show ?thesis
    proof (cases "minute_window t = w")
      case True
      have "0 \<le> bucket_count l w ip action"
        using Cons.prems(6) [OF Cons.prems(3)] by (cases "rl_window l = w") (auto simp: bucket_count_def)
      then show ?thesis
        using True lim(1) cnt [OF Cons.prems(3), of w ip]
        unfolding run in_Cons ih lim(3) by (auto simp: r same_bucket_def)
    next
      case False
      then have "requests_in w ip action rs = 0 \<or> bucket_count l w ip action = 0"
      proof (cases "w < minute_window t")
        case True
        with mono(2) have "\<forall>s\<in>set rs. w < minute_window (fst s)" by (auto intro: less_le_trans)
        then show ?thesis by (simp add: requests_in_later)
      qed (use False mono(1) in \<open>auto simp: bucket_count_def\<close>)
      then show ?thesis
        using False cnt [OF Cons.prems(3), of w ip]
        unfolding run in_Cons ih lim(3) by (auto simp: r same_bucket_def)
    qed
  qed
qed

subsection \<open>Decisions and the audit trail\<close>

text \<open>The role condition of a request: no roles are enforced, or it has one of the allowed ones.\<close>

definition has_role ::
    "'k jwt_library \<Rightarrow> auth_config \<Rightarrow> time \<Rightarrow> request \<Rightarrow> string list \<Rightarrow> bool" where
  "has_role J a now r allowed \<longleftrightarrow>
     (case resolve_roles J now a r of
        Inl _ \<Rightarrow> False
      | Inr None \<Rightarrow> True
      | Inr (Some info) \<Rightarrow>
          (\<exists>x y. x \<in> set allowed \<and> y \<in> set (ri_roles info) \<and> to_lower (trim_space x) = to_lower (trim_space y)))"

lemma authorize_roles_None: "fst (authorize_roles J a now r allowed st) = None \<longleftrightarrow> has_role J a now r allowed"
  by (auto simp: authorize_roles_def has_role_def Let_def list_ex_iff split: sum.split option.split)

lemma check_rate_fst: "fst (check_rate a now r action st) = fst (allow now (request_remote_ip a r) action (as_limiter st))"
  by (simp add: check_rate_def Let_def split: prod.split)

lemma authorize_read_token_None:
  "fst (authorize_read_token a now r st) = None \<longleftrightarrow>
     trim_space (ac_read_token a) = [] \<or>
     match_bearer (header_get r ''Authorization'') (trim_space (ac_read_token a))"
  by (simp add: authorize_read_token_def Let_def)

text \<open>The trail only grows, and the last entry of a decision tells its outcome.\<close>

definition audited :: "auth_state \<Rightarrow> auth_error option \<times> auth_state \<Rightarrow> bool" where
  "audited st res \<longleftrightarrow>
     (\<exists>es e. as_audit (snd res) = as_audit st @ es @ [e] \<and>
       (ae_decision e = ''allow'' \<and> fst res = None \<or> ae_decision e = ''deny'' \<and> fst res \<noteq> None))"

lemma trim_decisions [simp]: "trim_space ''allow'' = ''allow''" "trim_space ''deny'' = ''deny''"
  by (simp_all add: trim_space_plain plain_char_def)

lemma audit_auth_extends:
  "\<exists>e. as_audit (audit_auth a now r d m actor roles reason st) = as_audit st @ [e] \<and> ae_decision e = trim_space d"
  by (simp add: audit_auth_def Let_def)

lemma audited_entry:
  assumes "\<exists>es. as_audit st' = as_audit st @ es"
  shows "audited st (None, audit_auth a now r ''allow'' m actor roles reason st')"
    "audited st (Some err, audit_auth a now r ''deny'' m actor roles reason st')"
  using assms audit_auth_extends [of a now r "''allow''" m actor roles reason st']
    audit_auth_extends [of a now r "''deny''" m actor roles reason st']
  by (auto simp: audited_def)

lemma check_rate_audit:
  "check_rate a now r action st = (True, st') \<Longrightarrow> as_audit st' = as_audit st"
  "check_rate a now r action st = (False, st') \<Longrightarrow> audited st (Some RateLimited, st')"
  by (auto simp: check_rate_def Let_def audited_def audit_auth_def split: prod.splits if_splits)

lemma authorize_roles_extends:
  "\<exists>es. as_audit (snd (authorize_roles J a now r allowed st)) = as_audit st @ es"
  by (auto simp: authorize_roles_def Let_def audit_auth_def split: sum.split option.split)

lemma authorize_read_token_audited:
  assumes "\<exists>es. as_audit st' = as_audit st @ es"
  shows "audited st (authorize_read_token a now r st')"
  using assms by (auto simp: authorize_read_token_def Let_def intro: audited_entry)

subsection \<open>Properties\<close>

text \<open>
  C18: the rate limiter is exact. For every address, action and minute it admits as many requests as
  there are, up to the limit of the action and not one more, however the requests of other
  addresses, actions and minutes are interleaved (the clock does not go backwards).
\<close>

theorem rate_limit_exact:
  assumes "rp_enabled p" and "action \<in> rate_actions"
    and "0 < int_at (rl_limits (new_rate_limiter t0 p)) action"
    and "list_all (\<lambda>(t, ip, a). a \<in> rate_actions) rs"
    and "sorted (minute_window t0 # map (minute_window \<circ> fst) rs)"
  shows "admitted_in w ip action rs (allow_run (new_rate_limiter t0 p) rs) =
    min (nat (int_at (rl_limits (new_rate_limiter t0 p)) action)) (requests_in w ip action rs)"
proof -
  have "bucket_count (new_rate_limiter t0 p) w ip a = 0" for w ip a
    by (simp add: bucket_count_def new_rate_limiter_def int_at_def)
  moreover have "\<forall>r\<in>set rs. snd (snd r) \<in> rate_actions"
    using assms(4) by (auto simp: list_all_iff)
  moreover have "rl_enabled (new_rate_limiter t0 p)" "rl_window (new_rate_limiter t0 p) = minute_window t0"
    using assms(1) by (simp_all add: new_rate_limiter_def)
  ultimately show ?thesis
    using allow_run_exact [of "new_rate_limiter t0 p" action rs w ip] assms(2,3,5) by simp
qed

definition sample_policy :: rate_limit_policy where
  "sample_policy = \<lparr>rp_enabled = True, rp_read = 1, rp_export = 2, rp_ingest = 0\<rparr>"

theorem rate_limit_exact_witness:
  "admitted_in (minute_window 0) ''10.0.0.1'' ''read''
     [(0, ''10.0.0.1'', ''read''), (0, ''10.0.0.2'', ''read''), (0, ''10.0.0.1'', ''read'')]
     (allow_run (new_rate_limiter 0 sample_policy)
       [(0, ''10.0.0.1'', ''read''), (0, ''10.0.0.2'', ''read''), (0, ''10.0.0.1'', ''read'')]) = 1"
  using rate_limit_exact [of sample_policy "''read''" 0
      "[(0, ''10.0.0.1'', ''read''), (0, ''10.0.0.2'', ''read''), (0, ''10.0.0.1'', ''read'')]"
      "minute_window 0" "''10.0.0.1''"]
  by (simp add: sample_policy_def rate_actions_def new_rate_limiter_def int_at_def requests_in_def same_bucket_def)

text \<open>
  C19: an ingest request is authorized exactly when the rate limiter admits it, its roles (where they
  are enforced) include \<open>admin\<close>, it carries the ingest token (the read token where no ingest token
  is set), and, where a webhook secret is set, its signature header verifies for its body.
\<close>

theorem authorize_ingest_iff:
  "fst (authorize_ingest J a now r st) = None \<longleftrightarrow>
     fst (allow now (request_remote_ip a r) ''ingest'' (as_limiter st)) \<and>
     has_role J a now r [''admin''] \<and>
     (ingest_token a = [] \<or> match_bearer (header_get r ''Authorization'') (ingest_token a)) \<and>
     (trim_space (ac_webhook_secret a) = [] \<or>
      valid_webhook_signature (ac_webhook_secret a) (rq_body r) (trim_space (header_get r (ac_webhook_header a))))"
proof -
  obtain ok st1 where c: "check_rate a now r ''ingest'' st = (ok, st1)" by fastforce
  obtain e st2 where g: "authorize_roles J a now r [''admin''] st1 = (e, st2)" by fastforce
  have "ok \<longleftrightarrow> fst (allow now (request_remote_ip a r) ''ingest'' (as_limiter st))"
    using check_rate_fst [of a now r "''ingest''" st] c by simp
  moreover have "e = None \<longleftrightarrow> has_role J a now r [''admin'']"
    using authorize_roles_None [of J a now r "[''admin'']" st1] g by simp
  ultimately show ?thesis
    by (cases ok; cases e) (auto simp: authorize_ingest_def c g Let_def)
qed

text \<open>
  An export request is authorized exactly when the rate limiter admits it, its roles (where they
  are enforced) include \<open>exporter\<close> or \<open>admin\<close>, and it carries the read token where one is set.
\<close>

lemma authorize_export_iff:
  "fst (authorize_export J a now r st) = None \<longleftrightarrow>
     fst (allow now (request_remote_ip a r) ''export'' (as_limiter st)) \<and>
     has_role J a now r [''exporter'', ''admin''] \<and>
     (trim_space (ac_read_token a) = [] \<or>
      match_bearer (header_get r ''Authorization'') (trim_space (ac_read_token a)))"
proof -
  obtain ok st1 where c: "check_rate a now r ''export'' st = (ok, st1)" by fastforce
  obtain e st2 where g: "authorize_roles J a now r [''exporter'', ''admin''] st1 = (e, st2)" by fastforce
  have "ok \<longleftrightarrow> fst (allow now (request_remote_ip a r) ''export'' (as_limiter st))"
    using check_rate_fst [of a now r "''export''" st] c by simp
  moreover have "e = None \<longleftrightarrow> has_role J a now r [''exporter'', ''admin'']"
    using authorize_roles_None [of J a now r "[''exporter'', ''admin'']" st1] g by simp
  ultimately show ?thesis
    by (cases ok; cases e) (auto simp: authorize_export_def c g authorize_read_token_None)
qed

text \<open>
  C20: every decision on a read or an ingest request leaves an entry at the end of the audit trail
  that tells its outcome, and no earlier entry is changed or lost.
\<close>

theorem decisions_audited:
  "audited st (authorize_read J a now r st) \<and> audited st (authorize_ingest J a now r st)"
proof
  obtain ok st1 where c: "check_rate a now r ''read'' st = (ok, st1)" by fastforce
  obtain e st2 where g: "authorize_roles J a now r [''reader'', ''exporter'', ''admin''] st1 = (e, st2)" by fastforce
  have x: "ok \<Longrightarrow> \<exists>es. as_audit st2 = as_audit st @ es"
    using check_rate_audit(1) [of a now r "''read''" st st1] c
      authorize_roles_extends [of J a now r "[''reader'', ''exporter'', ''admin'']" st1] g by auto
  show "audited st (authorize_read J a now r st)"
    using check_rate_audit(2) [of a now r "''read''" st st1] c x
    by (cases ok; cases e)
      (auto simp: authorize_read_def c g intro: audited_entry authorize_read_token_audited)
next
  obtain ok st1 where c: "check_rate a now r ''ingest'' st = (ok, st1)" by fastforce
  obtain e st2 where g: "authorize_roles J a now r [''admin''] st1 = (e, st2)" by fastforce
  have x: "ok \<Longrightarrow> \<exists>es. as_audit st2 = as_audit st @ es"
    using check_rate_audit(1) [of a now r "''ingest''" st st1] c
      authorize_roles_extends [of J a now r "[''admin'']" st1] g by auto
  show "audited st (authorize_ingest J a now r st)"
    using check_rate_audit(2) [of a now r "''ingest''" st st1] c x
    by (cases ok; cases e) (auto simp: authorize_ingest_def c g Let_def intro: audited_entry)
qed


text \<open>
  A role denial of an export request is not audited, unlike those of the other two checks: the
  trail is the one from before.
\<close>

lemma export_role_denial_unaudited:
  assumes "fst (allow now (request_remote_ip a r) ''export'' (as_limiter st))"
    and "\<not> has_role J a now r [''exporter'', ''admin'']"
  shows "as_audit (snd (authorize_export J a now r st)) = as_audit st"
proof -
  obtain ok st1 where c: "check_rate a now r ''export'' st = (ok, st1)" by fastforce
  obtain e st2 where g: "authorize_roles J a now r [''exporter'', ''admin''] st1 = (e, st2)" by fastforce
  have "ok" using assms(1) check_rate_fst [of a now r "''export''" st] c by simp
  moreover have "e \<noteq> None" using assms(2) authorize_roles_None [of J a now r "[''exporter'', ''admin'']" st1] g by simp
  moreover from this have "st2 = st1"
    using g by (auto simp: authorize_roles_def Let_def split: sum.splits option.splits if_splits)
  ultimately show ?thesis
    using check_rate_audit(1) [of a now r "''export''" st st1] c
    by (auto simp: authorize_export_def g)
qed

end
