(* ===== verification/Service_Facts.thy ===== *)
theory Service_Facts
  imports Service
begin

text \<open>
  What the service promises. The contract of the third-party cache is the locale
  \<open>event_cache_contract\<close>; together with the contract of the repository it gives \<open>caching_service\<close>,
  in which the cache is shown to be invisible: a query answered from the cache is answered as the
  repository would answer it now. \<open>svc_step\<close> is the step relation of the service. The list of
  changes is a \<open>keyset_listing\<close>.
\<close>

subsection \<open>Subjects\<close>

lemma split_n_3:
  "split_n c 3 s = [x, y, z] \<longleftrightarrow> s = x @ c # y @ c # z \<and> c \<notin> set x \<and> c \<notin> set y"
proof
  have tw: "takeWhile (\<lambda>d. d \<noteq> c) (x @ c # t) = x" "dropWhile (\<lambda>d. d \<noteq> c) (x @ c # t) = c # t"
    if "c \<notin> set x" for x t
    using that by (induction x) auto
  have split: "s = takeWhile (\<lambda>d. d \<noteq> c) s @ c # tl (dropWhile (\<lambda>d. d \<noteq> c) s)" if "c \<in> set s" for s
    using that by (induction s) auto
  have not_in: "c \<notin> set (takeWhile (\<lambda>d. d \<noteq> c) s)" for s
    by (auto dest: set_takeWhileD)
  show "s = x @ c # y @ c # z \<and> c \<notin> set x \<and> c \<notin> set y" if "split_n c 3 s = [x, y, z]"
    using that split [of s] split [of "tl (dropWhile (\<lambda>d. d \<noteq> c) s)"] not_in
    by (auto simp: numeral_3_eq_3 split: if_splits)
  show "split_n c 3 s = [x, y, z]" if "s = x @ c # y @ c # z \<and> c \<notin> set x \<and> c \<notin> set y"
    using that by (simp add: numeral_3_eq_3 tw)
qed

subsection \<open>Cursors of the list of changes\<close>

lemma trim_space_change_id: "trim_space (change_id_of e) \<noteq> []"
proof -
  have "\<exists>h. change_id_of e = ''chg_'' @ stable_hash h"
    unfolding derive_change_identity_def Let_def by (auto split: if_split)
  then obtain h where h: "change_id_of e = ''chg_'' @ stable_hash h" ..
  have "stable_hash h \<noteq> []" using length_sha256_hex [of h] by (force simp: stable_hash_def)
  then have "plain_char (last (change_id_of e))"
    using hex_encode_plain [of "sha256 h"] last_in_set [of "stable_hash h"]
    by (simp add: h stable_hash_def sha256_hex_def list_all_iff)
  then have "trim_space (change_id_of e) = change_id_of e"
    by (intro trim_space_plain) (simp_all add: h plain_char_def)
  then show ?thesis by (simp add: h)
qed

lemma decode_encode_change_cursor:
  assumes "time_ok ts" "trim_space i \<noteq> []"
  shows "decode_change_cursor (encode_change_cursor ts i) = Some (ts, i)"
proof -
  define kts where "kts = [(''id'', quote_string i), (''ts'', quote_string (format_rfc3339nano ts))]"
  define kvs where "kvs = [(''id'', GStr i), (''ts'', GStr (format_rfc3339nano ts))]"
  have m: "marshal (GStrMap [(''ts'', format_rfc3339nano ts), (''id'', i)]) = json_object kts"
    by (simp add: kts_def)
  have e: "encode_change_cursor ts i = b64_encode False (json_object kts)"
    unfolding encode_change_cursor_def m ..
  have "unmarshal_members (json_object kts) = Some kvs"
    by (rule unmarshal_members_object) (simp_all add: kts_def kvs_def reads_quote)
  then have u: "unmarshal_str_map (json_object kts) = Some [(''id'', i), (''ts'', format_rfc3339nano ts)]"
    by (simp add: unmarshal_str_map_def kvs_def)
  have "b64_encode False (json_object kts) \<noteq> []"
    by (rule b64_encode_nonempty) (simp add: json_object_def)
  then show ?thesis
    using parse_format_rfc3339nano [OF assms(1)] assms(2)
    by (simp add: e decode_change_cursor_def trim_space_b64 b64_decode_encode u)
qed

subsection \<open>The list of changes as a paginated listing\<close>

definition change_listing :: "time \<times> change_query \<times> stored_event list \<Rightarrow> change list" where
  "change_listing s = (case s of (now, q, es) \<Rightarrow> filter_changes (build_changes now es) q)"

definition change_fetch :: "time \<times> change_query \<times> stored_event list \<Rightarrow> string \<Rightarrow> (change list \<times> string) option" where
  "change_fetch s c = (case s of (now, q, es) \<Rightarrow>
     (case changes_page now (q\<lparr>cq_cursor := c\<rparr>) es of
        Inl _ \<Rightarrow> None | Inr r \<Rightarrow> Some (cl_items r, cl_next r)))"

definition event_times_ok :: "stored_event list \<Rightarrow> bool" where
  "event_times_ok es \<longleftrightarrow> list_all (\<lambda>e. time_ok (ev_time e) \<and> ev_time e \<noteq> 0) es"

lemma change_matches_cursor [simp]: "change_matches (q\<lparr>cq_cursor := c\<rparr>) = change_matches q"
  by (simp add: change_matches_def fun_eq_iff)

lemma clamp_change_limit_bounds: "1 \<le> clamp_change_limit n" "clamp_change_limit n \<le> 500"
  by (simp_all add: clamp_change_limit_def Let_def)

lemma change_listing_sorted: "sorted_wrt (<) (map change_key (change_listing s))"
  by (cases s) (simp add: change_listing_def filter_changes_def sorted_wrt_map sorted_wrt_filter
      build_changes_sorted [unfolded sorted_wrt_map])

lemma change_listing_mem:
  assumes "c \<in> set (change_listing (now, q, es))"
  obtains e where "e \<in> set es" "ch_completed c = ev_time e" "ch_id c = change_id_of e"
proof -
  have "c \<in> set (build_changes now es)"
    using assms by (simp add: change_listing_def filter_changes_def)
  then obtain i d where d: "(i, d) \<in> set (build_changes_by_id now es)" "c = change.truncate d"
    by (auto simp: build_changes_def)
  note m = build_changes_by_id_mem [OF d(1)]
  let ?g = "sort_stored_events (events_of i es)"
  have "ch_completed d = Max (ev_time ` set (events_of i es))"
    using finalize_change_fields(2) [of "grouped (events_of i es)" now, folded m(1)] m(2) by simp
  moreover have "Max (ev_time ` set (events_of i es)) \<in> ev_time ` set (events_of i es)"
    using m(2) by (intro Max_in) auto
  ultimately obtain e where "e \<in> set (events_of i es)" "ch_completed d = ev_time e" by auto
  then show thesis
    using build_changes_by_id_id [OF d(1)]
    by (intro that [of e]) (auto simp: events_of_def d(2) change.defs)
qed

lemma change_fetch_decoded:
  assumes "decode_change_cursor c = Some (ts, i)"
  shows "change_fetch (now, q, es) c =
    Some (page_of (\<lambda>c. encode_change_cursor (ch_completed c) (ch_id c)) []
      (nat (clamp_change_limit (cq_limit q)))
      (if is_zero ts then change_listing (now, q, es)
       else filter (\<lambda>c. (Desc ts, i) < change_key c) (change_listing (now, q, es))))"
proof -
  define n where "n = clamp_change_limit (cq_limit q)"
  have n: "0 \<le> n" using clamp_change_limit_bounds [of "cq_limit q"] by (simp add: n_def)
  have k: "(ch_completed c < ts \<or> (ch_completed c = ts \<and> i < ch_id c)) = ((Desc ts, i) < change_key c)" for c :: change
    by (auto simp: change_key_def)
  show ?thesis
    using n by (auto simp: change_fetch_def changes_page_def Let_def assms apply_change_cursor_def
        change_listing_def filter_changes_def page_of_def k nat_less_iff simp flip: n_def)
qed

interpretation changes: keyset_listing
  "\<lambda>s. event_times_ok (snd (snd s))" change_listing change_key
  "\<lambda>c :: change. encode_change_cursor (ch_completed c) (ch_id c)"
  "\<lambda>s. nat (clamp_change_limit (cq_limit (fst (snd s))))" change_fetch
proof
  fix s :: "time \<times> change_query \<times> stored_event list"
  obtain now q es where s: "s = (now, q, es)" by (cases s)
  show "sorted_wrt (<) (map change_key (change_listing s))" by (rule change_listing_sorted)
  show "0 < nat (clamp_change_limit (cq_limit (fst (snd s))))"
    using clamp_change_limit_bounds [of "cq_limit (fst (snd s))"] by simp
  show "change_fetch s [] = Some (page_of (\<lambda>c. encode_change_cursor (ch_completed c) (ch_id c)) []
      (nat (clamp_change_limit (cq_limit (fst (snd s))))) (change_listing s))"
    unfolding s by (subst change_fetch_decoded [of _ 0 "[]"]) (simp_all add: decode_change_cursor_def)
  fix c
  assume c: "event_times_ok (snd (snd s))" "c \<in> set (change_listing s)"
  obtain e where "e \<in> set es" "ch_completed c = ev_time e" "ch_id c = change_id_of e"
    using change_listing_mem c(2) unfolding s .
  then have "time_ok (ch_completed c)" "ch_completed c \<noteq> 0" "trim_space (ch_id c) \<noteq> []"
    using c(1) trim_space_change_id [of e] by (auto simp: s event_times_ok_def list_all_iff)
  then show "change_fetch s (encode_change_cursor (ch_completed c) (ch_id c)) =
      Some (page_of (\<lambda>c. encode_change_cursor (ch_completed c) (ch_id c)) []
        (nat (clamp_change_limit (cq_limit (fst (snd s)))))
        (filter (\<lambda>y. change_key c < change_key y) (change_listing s)))"
    unfolding s by (subst change_fetch_decoded [OF decode_encode_change_cursor])
      (simp_all add: change_key_def)
next
  fix c :: change
  show "encode_change_cursor (ch_completed c) (ch_id c) \<noteq> []"
    by (simp add: encode_change_cursor_def b64_encode_nonempty json_object_def)
qed

subsection \<open>The cache\<close>

text \<open>
  What \<open>expirable.LRU\<close> documents, as far as the service relies on it: \<open>holds c k v\<close> says that a
  lookup of \<open>k\<close> may return \<open>v\<close>. A lookup returns only such values, eviction and expiry only lose
  entries, an insertion makes one entry available, and \<open>Purge\<close> empties the cache.
\<close>

locale event_cache_contract =
  fixes C :: "'c event_cache"
    and holds :: "'c \<Rightarrow> string \<Rightarrow> stored_event list \<Rightarrow> bool"
  assumes get_hit: "ec_get C now k c = (Some v, c') \<Longrightarrow> holds c k v"
    and get_keeps: "holds (snd (ec_get C now k c)) k' v \<Longrightarrow> holds c k' v"
    and add_holds: "holds (ec_add C now k v c) k' v' \<Longrightarrow> k' = k \<and> v' = v \<or> holds c k' v'"
    and purge_holds: "\<not> holds (ec_purge C c) k v"

text \<open>The documented behaviour of the cache the service creates: 256 entries, 10 seconds.\<close>

type_synonym lru_state = "(string \<times> stored_event list \<times> time) list"

definition lru_get :: "time \<Rightarrow> string \<Rightarrow> lru_state \<Rightarrow> stored_event list option \<times> lru_state" where
  "lru_get now k c =
     (case map_of c k of
        None \<Rightarrow> (None, c)
      | Some (v, expires) \<Rightarrow>
          if expires < now then (None, c)
          else (Some v, (k, v, expires) # filter (\<lambda>e. fst e \<noteq> k) c))"

definition lru_add :: "time \<Rightarrow> string \<Rightarrow> stored_event list \<Rightarrow> lru_state \<Rightarrow> lru_state" where
  "lru_add now k v c = take 256 ((k, v, now + 10 * second) # filter (\<lambda>e. fst e \<noteq> k) c)"

definition lru_cache :: "lru_state event_cache" where
  "lru_cache = \<lparr>ec_get = lru_get, ec_add = lru_add, ec_purge = (\<lambda>c. [])\<rparr>"

definition lru_holds :: "lru_state \<Rightarrow> string \<Rightarrow> stored_event list \<Rightarrow> bool" where
  "lru_holds c k v \<longleftrightarrow> (\<exists>t. (k, v, t) \<in> set c)"

interpretation lru: event_cache_contract lru_cache lru_holds
  by unfold_locales
    (auto simp: lru_cache_def lru_get_def lru_add_def lru_holds_def split: option.splits if_splits
      dest!: in_set_takeD map_of_SomeD)

subsection \<open>Cache keys\<close>

definition nano_time :: "time \<Rightarrow> bool" where
  "nano_time t \<longleftrightarrow> - (2 ^ 63) \<le> t - unix_epoch * second \<and> t - unix_epoch * second < 2 ^ 63"

text \<open>Queries on which the text of the cache key is unambiguous.\<close>

definition plain_query :: "change_query \<Rightarrow> bool" where
  "plain_query q \<longleftrightarrow>
     CHR ''|'' \<notin> set (ps_app (cq_subject q)) \<and> CHR ''|'' \<notin> set (ps_env (cq_subject q)) \<and>
     CHR ''|'' \<notin> set (ps_cluster (cq_subject q)) \<and> nano_time (cq_from q) \<and> nano_time (cq_to q)"

lemma unix_nano_inject: "nano_time s \<Longrightarrow> nano_time t \<Longrightarrow> unix_nano s = unix_nano t \<longleftrightarrow> s = t"
  by (simp add: unix_nano_def nano_time_def signed_take_bit_int_eq_self)

lemma show_int_no_bar: "CHR ''|'' \<notin> set (show_int i)"
proof -
  have "CHR ''|'' \<notin> set (show_dec n)" if "0 \<le> n" for n
    using show_dec_digits [OF that] by (auto simp: list_all_iff is_digit_def)
  then show ?thesis by (simp add: show_int_def)
qed

lemma show_int_inject: "show_int i = show_int j \<longleftrightarrow> i = j"
proof -
  have d: "show_dec n \<noteq> CHR ''-'' # s" if "0 \<le> n" for n s
    using show_dec_digits [OF that] by (auto simp: is_digit_def)
  show ?thesis
    using d [of i] d [of j] d [of i, THEN not_sym] d [of j, THEN not_sym]
    by (auto simp: show_int_def show_dec_inject split: if_splits)
qed

lemma cache_key_text_inject:
  assumes "plain_query p" "plain_query q" "cache_key_text p = cache_key_text q"
  shows "cq_subject p = cq_subject q" "cq_from p = cq_from q" "cq_to p = cq_to q"
    "trim_space (cq_q p) = trim_space (cq_q q)"
  using assms
  by (simp_all add: plain_query_def cache_key_text_def append_sep_inject show_int_no_bar
      show_int_inject unix_nano_inject parsed_subject.equality)

lemma fetch_events_cong:
  assumes "cq_subject p = cq_subject q" "cq_from p = cq_from q" "cq_to p = cq_to q"
    and "trim_space (cq_q p) = trim_space (cq_q q)"
  shows "fetch_events R s p = fetch_events R s q"
  unfolding fetch_events_def filter_events_by_query_def assms ..

subsection \<open>Steps of the service\<close>

text \<open>In one step some client calls an operation; \<open>Q\<close> are the change queries that are asked.\<close>

inductive svc_step ::
    "('s, 'c, 'x) service \<Rightarrow> change_query set \<Rightarrow> ('s, 'c, 'x) service_state \<Rightarrow> ('s, 'c, 'x) service_state \<Rightarrow> bool"
  for S Q where
  ingest: "svc_step S Q st (snd (svc_ingest_event S now e st))"
| list_changes: "q \<in> Q \<Longrightarrow> svc_step S Q st (snd (svc_list_changes S now q st))"
| get_change: "q \<in> Q \<Longrightarrow> svc_step S Q st (snd (svc_get_change S now i q st))"
| create_export: "svc_step S Q st (snd (svc_create_export S text now later f flt st))"

inductive_cases svc_stepE: "svc_step S Q st st'"

abbreviation svc_steps ::
    "('s, 'c, 'x) service \<Rightarrow> change_query set \<Rightarrow> ('s, 'c, 'x) service_state \<Rightarrow> ('s, 'c, 'x) service_state \<Rightarrow> bool" where
  "svc_steps S Q \<equiv> (svc_step S Q)\<^sup>*\<^sup>*"

lemma snd_list_changes: "snd (svc_list_changes S now q st) = snd (events_for_change_query S now q st)"
  by (simp add: svc_list_changes_def split: prod.split sum.split)

lemma snd_get_change: "snd (svc_get_change S now i q st) = snd (events_for_change_query S now q st)"
  by (simp add: svc_get_change_def split: prod.split sum.split)

lemma snd_create_export_cache: "st_cache (snd (svc_create_export S text now later f flt st)) = st_cache st"
  by (simp add: svc_create_export_def Let_def split: prod.split sum.split option.split)

text \<open>The queries asked have unambiguous key texts, and SHA-256 does not collide on those.\<close>

definition distinct_keys :: "change_query set \<Rightarrow> bool" where
  "distinct_keys Q \<longleftrightarrow> Ball Q plain_query \<and> inj_on sha256_hex (cache_key_text ` Q)"

locale caching_service =
  repository_contract "svc_repo S" ok + event_cache_contract "svc_cache S" holds
  for S :: "('s, 'c, 'x) service" and ok :: "'s \<Rightarrow> bool" and holds :: "'c \<Rightarrow> string \<Rightarrow> stored_event list \<Rightarrow> bool"
begin

text \<open>Everything a lookup can return is what the repository answers now.\<close>

definition fresh :: "change_query set \<Rightarrow> ('s, 'c, 'x) service_state \<Rightarrow> bool" where
  "fresh Q st \<longleftrightarrow>
     (\<forall>q es. q \<in> Q \<longrightarrow> holds (st_cache st) (change_query_cache_key q) es \<longrightarrow>
       fetch_events (svc_repo S) (st_repo st) q = Inr es)"

lemma key_determines_events:
  assumes "distinct_keys Q" "p \<in> Q" "q \<in> Q" "change_query_cache_key p = change_query_cache_key q"
  shows "fetch_events R s p = fetch_events R s q"
proof -
  have "cache_key_text p = cache_key_text q"
    using assms by (auto simp: distinct_keys_def change_query_cache_key_def dest: inj_onD)
  then show ?thesis
    using cache_key_text_inject [of p q] assms(1-3) by (intro fetch_events_cong) (auto simp: distinct_keys_def)
qed

lemma events_repo [simp]: "st_repo (snd (events_for_change_query S now q st)) = st_repo st"
  by (simp add: events_for_change_query_def Let_def split: prod.split option.split sum.split)

lemma fresh_events:
  assumes "fresh Q st" "q \<in> Q" and Q: "distinct_keys Q"
  shows "fst (events_for_change_query S now q st) =
      (case fetch_events (svc_repo S) (st_repo st) q of Inl err \<Rightarrow> Inl (StoreError err) | Inr es \<Rightarrow> Inr es)"
    and "fresh Q (snd (events_for_change_query S now q st))"
proof -
  let ?k = "change_query_cache_key q"
  obtain r c where g: "ec_get (svc_cache S) now ?k (st_cache st) = (r, c)" by fastforce
  have keep: "holds (st_cache st) k v" if "holds c k v" for k v
    using get_keeps [of now ?k "st_cache st" k v] that by (simp add: g)
  have "fst (events_for_change_query S now q st) =
        (case fetch_events (svc_repo S) (st_repo st) q of Inl err \<Rightarrow> Inl (StoreError err) | Inr es \<Rightarrow> Inr es) \<and>
      fresh Q (snd (events_for_change_query S now q st))"
  proof (cases r)
    case (Some es)
    then have "fetch_events (svc_repo S) (st_repo st) q = Inr es"
      using assms g get_hit unfolding fresh_def by blast
    with Some g assms(1) keep show ?thesis
      by (auto simp: events_for_change_query_def fresh_def)
  next
    case None
    show ?thesis
    proof (cases "fetch_events (svc_repo S) (st_repo st) q")
      case (Inl err)
      with None g assms(1) keep show ?thesis
        by (auto simp: events_for_change_query_def fresh_def)
    next
      case (Inr es)
      have "fetch_events (svc_repo S) (st_repo st) p = Inr v"
        if "p \<in> Q" "holds (ec_add (svc_cache S) now ?k es c) (change_query_cache_key p) v" for p v
        using add_holds [OF that(2)] key_determines_events [OF Q that(1) assms(2), of "svc_repo S"]
          Inr keep that(1) assms(1)
        by (auto simp: fresh_def)
      with None Inr g show ?thesis
        by (simp add: events_for_change_query_def fresh_def)
    qed
  qed
  then show "fst (events_for_change_query S now q st) =
      (case fetch_events (svc_repo S) (st_repo st) q of Inl err \<Rightarrow> Inl (StoreError err) | Inr es \<Rightarrow> Inr es)"
    "fresh Q (snd (events_for_change_query S now q st))" by auto
qed

lemma fresh_ingest: "fresh Q st \<Longrightarrow> fresh Q (snd (svc_ingest_event S now e st))"
  using ingest_refused [of now e "st_repo st"] purge_holds
  by (auto simp: svc_ingest_event_def fresh_def split: prod.split sum.split)

lemma fetch_events_timeline:
  "(\<And>q. repo_timeline R q s' = repo_timeline R q s) \<Longrightarrow> fetch_events R s' = fetch_events R s"
  by (simp add: fetch_events_def fun_eq_iff)

lemma export_timeline:
  "repo_timeline (svc_repo S) q (st_repo (snd (svc_create_export S text now later f flt st))) =
     repo_timeline (svc_repo S) q (st_repo st)"
proof -
  note create = create_timeline [of q now f flt "st_repo st"]
    and completed = completed_timeline [of q later] and failed = failed_timeline [of q later]
  show ?thesis
    unfolding svc_create_export_def Let_def
    using create completed failed by (auto split: prod.split sum.split option.split) (metis snd_conv)+
qed

lemma fresh_export: "fresh Q st \<Longrightarrow> fresh Q (snd (svc_create_export S text now later f flt st))"
  using fetch_events_timeline [OF export_timeline]
  by (simp add: fresh_def snd_create_export_cache)

lemma fresh_step: "svc_step S Q st st' \<Longrightarrow> distinct_keys Q \<Longrightarrow> fresh Q st \<Longrightarrow> fresh Q st'"
  by (erule svc_stepE)
    (simp_all add: fresh_ingest fresh_export snd_list_changes snd_get_change fresh_events(2))

lemma fresh_steps: "svc_steps S Q st st' \<Longrightarrow> distinct_keys Q \<Longrightarrow> fresh Q st \<Longrightarrow> fresh Q st'"
  by (induction rule: rtranclp_induct) (auto intro: fresh_step)

text \<open>The answer of \<open>ListChanges\<close> with the cache is the answer without it.\<close>

lemma list_changes_transparent:
  assumes "fresh Q st" "q \<in> Q" "distinct_keys Q"
  shows "fst (svc_list_changes S now q st) =
    (case fetch_events (svc_repo S) (st_repo st) q of
       Inl err \<Rightarrow> Inl (StoreError err) | Inr es \<Rightarrow> changes_page now q es)"
  using fresh_events(1) [OF assms, of now]
  by (auto simp: svc_list_changes_def split: prod.splits sum.splits)

end

text \<open>The service on the in-memory repository, with the documented cache and any exporter.\<close>

definition memory_service :: "'c event_cache \<Rightarrow> 'x exporter \<Rightarrow> (mem_repo, 'c, 'x) service" where
  "memory_service C X = \<lparr>svc_repo = memory_repository, svc_exporter = X, svc_cache = C\<rparr>"

lemma memory_service_simps [simp]:
  "svc_repo (memory_service C X) = memory_repository" "svc_exporter (memory_service C X) = X"
  "svc_cache (memory_service C X) = C"
  by (simp_all add: memory_service_def)

lemma caching_memory_service:
  assumes "event_cache_contract C holds"
  shows "caching_service (memory_service C X) mem_ok holds"
  using assms memory.repository_contract_axioms by (simp add: caching_service_def)

interpretation memory_service: caching_service "memory_service lru_cache X" mem_ok lru_holds for X
  by (rule caching_memory_service) (rule lru.event_cache_contract_axioms)

subsection \<open>Exports\<close>

lemma create_export_memory:
  "create_export now format flt m =
     (Inr \<lparr>ej_id = ''exp_'' @ show_int (unix_nano now), ej_status = ''pending'',
        ej_format = (if format = [] then ''json'' else format), ej_filter = flt, ej_artifact = [],
        ej_error = [], ej_created = now, ej_completed = None\<rparr>,
      snd (create_export now format flt m))"
  by (simp add: create_export_def Let_def)

lemma get_after_set:
  assumes "get_export i m = Inr job"
  shows "set_export_completed now i uri m =
      (None, snd (set_export_completed now i uri m))"
    "get_export i (snd (set_export_completed now i uri m)) =
      Inr (job\<lparr>ej_status := ''completed'', ej_artifact := uri, ej_completed := Some now\<rparr>)"
    "get_export i (snd (set_export_failed now i msg m)) =
      Inr (job\<lparr>ej_status := ''failed'', ej_error := msg, ej_completed := Some now\<rparr>)"
  using assms
  by (auto simp: get_export_def set_export_completed_def set_export_failed_def map_of_update
      split: option.splits)

lemma dedup_approvals_keys:
  "distinct (map approval_key (dedup_approvals seen as)) \<and>
   set (map approval_key (dedup_approvals seen as)) = approval_key ` set as - set seen \<and>
   set (dedup_approvals seen as) \<subseteq> set as"
proof (induction seen as rule: dedup_approvals.induct)
  case (1 seen)
  then show ?case by simp
next
  case (2 seen a as)
  then show ?case by (cases "approval_key a \<in> set seen") auto
qed

subsection \<open>Properties\<close>


definition sample_change_query :: change_query where
  "sample_change_query =
     \<lparr>cq_subject = \<lparr>ps_app = ''app'', ps_env = [], ps_cluster = []\<rparr>,
      cq_from = unix_epoch * second, cq_to = unix_epoch * second, cq_q = [], cq_result_status = [],
      cq_health_status = [], cq_external_id = [], cq_external_state = [], cq_ticket_id = [],
      cq_ticket_state = [], cq_approval_ref = [], cq_has_approvals = [], cq_limit = 0, cq_cursor = []\<rparr>"

definition no_exporter :: "unit exporter" where
  "no_exporter = \<lparr>ex_create_pack = (\<lambda>t i es x. (Inl ''no disk'', x)), ex_read_artifact = (\<lambda>p x. Inl ''no disk'')\<rparr>"

definition sample_state :: "(mem_repo, lru_state, unit) service_state" where
  "sample_state = \<lparr>st_repo = new_memory_repository, st_files = (), st_cache = []\<rparr>"


text \<open>
  C14: following the cursors of the list of changes from the first page returns every change that
  passes the filters of the query, exactly once, newest first, whatever the limit is.
\<close>

theorem change_pages_complete:
  assumes "event_times_ok es" and "length (filter_changes (build_changes now es) q) < n"
  shows "follow (change_fetch (now, q, es)) n [] = Some (filter_changes (build_changes now es) q)"
  using changes.follow_all [of "(now, q, es)" n] assms by (simp add: change_listing_def)

theorem change_pages_complete_witness:
  "follow (change_fetch (9, sample_change_query, [sample_event ''a'' 7])) 2 [] =
     Some (filter_changes (build_changes 9 [sample_event ''a'' 7]) sample_change_query)"
proof (rule change_pages_complete)
  show "event_times_ok [sample_event ''a'' 7]"
    by (simp add: event_times_ok_def sample_event_def time_ok_def max_time_def day_secs_def second_def days_before_def)
  show "length (filter_changes (build_changes 9 [sample_event ''a'' 7]) sample_change_query) < 2"
    by (simp add: build_changes_def build_single filter_changes_def)
qed



text \<open>
  C16: a subject is parsed exactly when it has the form \<open>app:environment:cluster\<close> with no colon in
  the first two parts, and the parts are read back; the cluster may contain colons.
\<close>

theorem parse_subject_iff:
  "parse_subject s = Inr p \<longleftrightarrow>
     s = ps_app p @ '':'' @ ps_env p @ '':'' @ ps_cluster p \<and>
     CHR '':'' \<notin> set (ps_app p) \<and> CHR '':'' \<notin> set (ps_env p)"
proof -
  have "parse_subject s = Inr p \<longleftrightarrow> split_n (CHR '':'') 3 s = [ps_app p, ps_env p, ps_cluster p]"
    by (cases p) (auto simp: parse_subject_def split: list.splits)
  then show ?thesis by (simp add: split_n_3)
qed


end
