(* ===== verification/Api.thy ===== *)
theory Api
  imports Auth_Facts Service_Facts
begin

text \<open>
  The HTTP handlers of \<open>internal/api\<close> over the authorization checks and the service. A handler
  turns a request and the state of the server into a response and the next state. A response body
  is the structure that \<open>writeJSON\<close> encodes, or the raw bytes of an artifact; error texts that the
  standard library or a parser composes are rendered by functions of the server record.
\<close>

subsection \<open>Responses and the server\<close>

datatype body =
    ErrorBody string string bool
  | HealthBody string
  | IngestedBody "string \<times> ingest_status \<times> string"
  | IngestedListBody "(string \<times> ingest_status \<times> string) list"
  | TimelineBody "stored_event list" int string
  | EventBody stored_event
  | SubjectsBody "subject_info list"
  | EventsBody "stored_event list"
  | ChangesBody "change list" int string
  | ChangeBody change_detail
  | EvidenceBody change_evidence
  | ExportBody export_job
  | RawBody string

record response =
  rs_status :: int
  rs_body :: body

record ('s, 'c, 'x, 'k) server =
  se_auth :: auth_config
  se_jwt :: "'k jwt_library"
  se_service :: "('s, 'c, 'x) service"
  se_text :: "app_error \<Rightarrow> string"
  se_parse_text :: "ce_error \<Rightarrow> string"
  se_decode_text :: "string \<Rightarrow> string"

record ('s, 'c, 'x) server_state =
  ss_auth :: auth_state
  ss_service :: "('s, 'c, 'x) service_state"

definition write_error :: "int \<Rightarrow> string \<Rightarrow> string \<Rightarrow> bool \<Rightarrow> response" where
  "write_error status code msg retryable = \<lparr>rs_status = status, rs_body = ErrorBody code msg retryable\<rparr>"

definition method_not_allowed :: response where
  "method_not_allowed = write_error 405 ''METHOD_NOT_ALLOWED'' ''method not allowed'' False"

definition handle_store_err :: "('s, 'c, 'x, 'k) server \<Rightarrow> app_error \<Rightarrow> response" where
  "handle_store_err S err =
     (if err = StoreError ErrInvalidInput \<or> err = StoreError ErrInvalidCursor
      then write_error 400 ''INVALID_REQUEST'' (se_text S err) False
      else if err = StoreError ErrConflict then write_error 409 ''EVENT_ID_CONFLICT'' (se_text S err) False
      else if err = StoreError ErrNotFound then write_error 404 ''NOT_FOUND'' (se_text S err) False
      else write_error 500 ''INTERNAL'' (se_text S err) True)"

definition auth_failure :: "auth_error \<Rightarrow> response" where
  "auth_failure err =
     (if err = RateLimited then write_error 429 ''RATE_LIMITED'' (auth_error_text err) True
      else write_error 401 ''UNAUTHORIZED'' (auth_error_text err) False)"

definition json_ok :: "int \<Rightarrow> body \<Rightarrow> response" where
  "json_ok status b = \<lparr>rs_status = status, rs_body = b\<rparr>"

text \<open>The first two blocks of every reading handler.\<close>

definition read_guard ::
    "('s, 'c, 'x, 'k) server \<Rightarrow> time \<Rightarrow> request \<Rightarrow> ('s, 'c, 'x) server_state \<Rightarrow>
     response option \<times> ('s, 'c, 'x) server_state" where
  "read_guard S now r st =
     (if rq_method r \<noteq> ''GET'' then (Some method_not_allowed, st)
      else (case authorize_read (se_jwt S) (se_auth S) now r (ss_auth st) of
              (Some err, a) \<Rightarrow> (Some (auth_failure err), st\<lparr>ss_auth := a\<rparr>)
            | (None, a) \<Rightarrow> (None, st\<lparr>ss_auth := a\<rparr>)))"

subsection \<open>Query parameters\<close>

text \<open>\<open>fmt.Sscanf\<close> with a decimal verb: white space but no newline, a sign, digits; the rest is ignored.\<close>

definition scan_int :: "string \<Rightarrow> int option" where
  "scan_int s =
     (let s = strip (filter (\<lambda>w. w \<noteq> [CHR 0x0A]) space_runes) s;
          neg = (take 1 s = ''-'');
          s = (if take 1 s = ''-'' \<or> take 1 s = ''+'' then drop 1 s else s);
          ds = takeWhile is_digit s;
          n = (if neg then - int_of_digits ds else int_of_digits ds)
      in if ds = [] \<or> n < - (2 ^ 63) \<or> 2 ^ 63 \<le> n then None else Some n)"

definition state_param_ok :: "string \<Rightarrow> string list \<Rightarrow> bool" where
  "state_param_ok v allowed \<longleftrightarrow> v = [] \<or> v \<in> set allowed"

definition parse_change_query :: "request \<Rightarrow> string + change_query" where
  "parse_change_query r =
     (let get = (\<lambda>k. trim_space (query_get r k)) in
      case parse_rfc3339 (query_get r ''from'') of
        None \<Rightarrow> Inl ''invalid from''
      | Some from \<Rightarrow>
      (case parse_rfc3339 (query_get r ''to'') of
        None \<Rightarrow> Inl ''invalid to''
      | Some to \<Rightarrow>
      (if get ''subject'' = [] then Inl ''subject is required''
       else (case parse_subject (get ''subject'') of
         Inl _ \<Rightarrow> Inl ''subject must be app:environment:cluster''
       | Inr p \<Rightarrow>
         (let q = \<lparr>cq_subject = p, cq_from = from, cq_to = to, cq_q = get ''q'',
                   cq_result_status = get ''result_status'', cq_health_status = get ''health_status'',
                   cq_external_id = get ''external_change_id'',
                   cq_external_state = to_lower (get ''external_change_id_state''),
                   cq_ticket_id = get ''ticket_id'', cq_ticket_state = to_lower (get ''ticket_id_state''),
                   cq_approval_ref = get ''approval_reference'',
                   cq_has_approvals = to_lower (get ''has_approvals''),
                   cq_limit = 100, cq_cursor = get ''cursor''\<rparr>
          in if \<not> state_param_ok (cq_external_state q) [''any'', ''set'', ''unset'']
             then Inl ''external_change_id_state must be one of any|set|unset''
             else if \<not> state_param_ok (cq_ticket_state q) [''any'', ''set'', ''unset'']
             then Inl ''ticket_id_state must be one of any|set|unset''
             else if \<not> state_param_ok (cq_has_approvals q) [''any'', ''yes'', ''no'']
             then Inl ''has_approvals must be one of any|yes|no''
             else if get ''limit'' \<noteq> [] then
               (case scan_int (get ''limit'') of
                  None \<Rightarrow> Inl ''invalid limit'' | Some n \<Rightarrow> Inr (q\<lparr>cq_limit := n\<rparr>))
             else Inr q)))))"

definition parse_change_path :: "string \<Rightarrow> string \<times> string" where
  "parse_change_path path =
     (let tail = trim_space (trim_prefix path ''/v1/changes/'') in
      if tail = [] then ([], ''detail'')
      else if suffix ''/timeline'' tail
      then (trim_suffix (trim_suffix tail ''/timeline'') ''/'', ''timeline'')
      else if suffix ''/evidence'' tail
      then (trim_suffix (trim_suffix tail ''/evidence'') ''/'', ''evidence'')
      else if CHR ''/'' \<in> set tail then ([], ''unknown'')
      else (tail, ''detail''))"

subsection \<open>Reading handlers\<close>

definition handle_changes ::
    "('s, 'c, 'x, 'k) server \<Rightarrow> time \<Rightarrow> request \<Rightarrow> ('s, 'c, 'x) server_state \<Rightarrow>
     response \<times> ('s, 'c, 'x) server_state" where
  "handle_changes S now r st =
     (case read_guard S now r st of
        (Some resp, st) \<Rightarrow> (resp, st)
      | (None, st) \<Rightarrow>
          (case parse_change_query r of
             Inl m \<Rightarrow> (write_error 400 ''INVALID_QUERY'' m False, st)
           | Inr q \<Rightarrow>
               (case svc_list_changes (se_service S) now q (ss_service st) of
                  (Inl err, s) \<Rightarrow>
                    (if err = InvalidChangeCursor
                     then write_error 400 ''INVALID_CURSOR'' (se_text S err) False
                     else handle_store_err S err, st\<lparr>ss_service := s\<rparr>)
                | (Inr res, s) \<Rightarrow>
                    (json_ok 200 (ChangesBody (cl_items res) (cq_limit q) (cl_next res)),
                     st\<lparr>ss_service := s\<rparr>))))"

definition handle_change_by_id ::
    "('s, 'c, 'x, 'k) server \<Rightarrow> time \<Rightarrow> request \<Rightarrow> ('s, 'c, 'x) server_state \<Rightarrow>
     response \<times> ('s, 'c, 'x) server_state" where
  "handle_change_by_id S now r st =
     (case read_guard S now r st of
        (Some resp, st) \<Rightarrow> (resp, st)
      | (None, st) \<Rightarrow>
          (case parse_change_path (rq_path r) of (i, view) \<Rightarrow>
            if trim_space i = []
            then (write_error 400 ''INVALID_CHANGE_ID'' ''change id is required'' False, st)
            else
              (case parse_change_query r of
                 Inl m \<Rightarrow> (write_error 400 ''INVALID_QUERY'' m False, st)
               | Inr q \<Rightarrow>
                   if view = ''timeline'' then
                     (case svc_get_change_timeline (se_service S) now i q (ss_service st) of
                        (Inl err, s) \<Rightarrow> (handle_store_err S err, st\<lparr>ss_service := s\<rparr>)
                      | (Inr es, s) \<Rightarrow> (json_ok 200 (EventsBody es), st\<lparr>ss_service := s\<rparr>))
                   else if view = ''evidence'' then
                     (case svc_get_change_evidence (se_service S) now i q (ss_service st) of
                        (Inl err, s) \<Rightarrow> (handle_store_err S err, st\<lparr>ss_service := s\<rparr>)
                      | (Inr e, s) \<Rightarrow> (json_ok 200 (EvidenceBody e), st\<lparr>ss_service := s\<rparr>))
                   else if view = ''detail'' then
                     (case svc_get_change (se_service S) now i q (ss_service st) of
                        (Inl err, s) \<Rightarrow> (handle_store_err S err, st\<lparr>ss_service := s\<rparr>)
                      | (Inr c, s) \<Rightarrow> (json_ok 200 (ChangeBody c), st\<lparr>ss_service := s\<rparr>))
                   else (write_error 404 ''NOT_FOUND'' ''route not found'' False, st))))"

definition handle_timeline ::
    "('s, 'c, 'x, 'k) server \<Rightarrow> time \<Rightarrow> request \<Rightarrow> ('s, 'c, 'x) server_state \<Rightarrow>
     response \<times> ('s, 'c, 'x) server_state" where
  "handle_timeline S now r st =
     (case read_guard S now r st of
        (Some resp, st) \<Rightarrow> (resp, st)
      | (None, st) \<Rightarrow>
      (case parse_rfc3339 (query_get r ''from'') of
        None \<Rightarrow> (write_error 400 ''INVALID_FROM'' ''invalid from'' False, st)
      | Some from \<Rightarrow>
      (case parse_rfc3339 (query_get r ''to'') of
        None \<Rightarrow> (write_error 400 ''INVALID_TO'' ''invalid to'' False, st)
      | Some to \<Rightarrow>
      (case (if query_get r ''subject'' = [] then Inr \<lparr>ps_app = [], ps_env = [], ps_cluster = []\<rparr>
             else parse_subject (query_get r ''subject'')) of
        Inl _ \<Rightarrow> (write_error 400 ''INVALID_SUBJECT'' ''subject must be app:environment:cluster'' False, st)
      | Inr p \<Rightarrow>
          let q = \<lparr>tq_subject = ps_app p, tq_cluster = ps_cluster p, tq_namespace = ps_env p,
                   tq_from = from, tq_to = to, tq_source = query_get r ''source'',
                   tq_type = query_get r ''type'', tq_corr_key = query_get r ''correlation_key'',
                   tq_corr_value = query_get r ''correlation_value'',
                   tq_supporting = equal_fold (trim_space (query_get r ''include_supporting'')) ''true'',
                   tq_limit = (case scan_int (query_get r ''limit'') of Some n \<Rightarrow> n | None \<Rightarrow> 0),
                   tq_cursor = query_get r ''cursor''\<rparr>
          in if tq_subject q = [] \<and> (tq_corr_key q = [] \<or> tq_corr_value q = [])
             then (write_error 400 ''SCOPE_REQUIRED'' ''subject or correlation filters required'' False, st)
             else (case svc_query_timeline (se_service S) q (ss_service st) of
                     Inl err \<Rightarrow> (handle_store_err S err, st)
                   | Inr res \<Rightarrow> (json_ok 200 (TimelineBody (tr_items res) (tq_limit q) (tr_next res)), st))))))"

definition handle_event_by_id ::
    "('s, 'c, 'x, 'k) server \<Rightarrow> time \<Rightarrow> request \<Rightarrow> ('s, 'c, 'x) server_state \<Rightarrow>
     response \<times> ('s, 'c, 'x) server_state" where
  "handle_event_by_id S now r st =
     (case read_guard S now r st of
        (Some resp, st) \<Rightarrow> (resp, st)
      | (None, st) \<Rightarrow>
          (case svc_get_event (se_service S) (trim_prefix (rq_path r) ''/v1/events/'') (ss_service st) of
             Inl err \<Rightarrow> (handle_store_err S err, st)
           | Inr e \<Rightarrow> (json_ok 200 (EventBody e), st)))"

definition handle_subjects ::
    "('s, 'c, 'x, 'k) server \<Rightarrow> time \<Rightarrow> request \<Rightarrow> ('s, 'c, 'x) server_state \<Rightarrow>
     response \<times> ('s, 'c, 'x) server_state" where
  "handle_subjects S now r st =
     (case read_guard S now r st of
        (Some resp, st) \<Rightarrow> (resp, st)
      | (None, st) \<Rightarrow>
          (case svc_list_subjects (se_service S) (ss_service st) of
             Inl err \<Rightarrow> (handle_store_err S err, st)
           | Inr xs \<Rightarrow> (json_ok 200 (SubjectsBody xs), st)))"

definition handle_correlations ::
    "('s, 'c, 'x, 'k) server \<Rightarrow> time \<Rightarrow> request \<Rightarrow> ('s, 'c, 'x) server_state \<Rightarrow>
     response \<times> ('s, 'c, 'x) server_state" where
  "handle_correlations S now r st =
     (case read_guard S now r st of
        (Some resp, st) \<Rightarrow> (resp, st)
      | (None, st) \<Rightarrow>
          (case svc_events_by_extension (se_service S) (trim_prefix (rq_path r) ''/v1/correlations/'')
                  (query_get r ''value'') 100 (ss_service st) of
             Inl err \<Rightarrow> (handle_store_err S err, st)
           | Inr es \<Rightarrow> (json_ok 200 (EventsBody es), st)))"

subsection \<open>Ingestion\<close>

definition max_ingest_body_bytes :: int where
  "max_ingest_body_bytes = 1048576"

text \<open>
  The loop over the events of a request: it stops at the first error, and what it has ingested
  before stays. The accumulator holds the results so far and the last status.
\<close>

fun ingest_loop ::
    "('s, 'c, 'x, 'k) server \<Rightarrow> time \<Rightarrow> stored_event list \<Rightarrow> (string \<times> ingest_status \<times> string) list \<Rightarrow> int \<Rightarrow>
     ('s, 'c, 'x) server_state \<Rightarrow> response \<times> ('s, 'c, 'x) server_state" where
  "ingest_loop S now [] results last_status st =
     (case results of
        [x] \<Rightarrow> (json_ok last_status (IngestedBody x), st)
      | _ \<Rightarrow> (json_ok 202 (IngestedListBody results), st))"
| "ingest_loop S now (e # es) results last_status st =
     (case svc_ingest_event (se_service S) now e (ss_service st) of
        (Inl err, s) \<Rightarrow>
          (if err = StoreError ErrConflict
           then write_error 409 ''EVENT_ID_CONFLICT'' ''event id already exists with different payload'' False
           else handle_store_err S err, st\<lparr>ss_service := s\<rparr>)
      | (Inr (status, ingested), s) \<Rightarrow>
          ingest_loop S now es (results @ [(ev_id e, status, format_rfc3339 ingested)])
            (if status = IngestDuplicate then 200 else last_status) (st\<lparr>ss_service := s\<rparr>))"

definition handle_events ::
    "('s, 'c, 'x, 'k) server \<Rightarrow> time \<Rightarrow> request \<Rightarrow> ('s, 'c, 'x) server_state \<Rightarrow>
     response \<times> ('s, 'c, 'x) server_state" where
  "handle_events S now r st =
     (if rq_method r \<noteq> ''POST'' then (method_not_allowed, st)
      else if int (length (rq_body r)) > max_ingest_body_bytes
      then (write_error 413 ''PAYLOAD_TOO_LARGE'' ''request body is too large'' False, st)
      else
        (case authorize_ingest (se_jwt S) (se_auth S) now r (ss_auth st) of
           (Some err, a) \<Rightarrow> (auth_failure err, st\<lparr>ss_auth := a\<rparr>)
         | (None, a) \<Rightarrow>
             (case parse_request now (header_get r ''Content-Type'') (rq_body r) of
                Inl err \<Rightarrow> (write_error 400 ''INVALID_CLOUDEVENT'' (se_parse_text S err) False, st\<lparr>ss_auth := a\<rparr>)
              | Inr es \<Rightarrow> ingest_loop S now es [] 202 (st\<lparr>ss_auth := a\<rparr>))))"

subsection \<open>Exports\<close>

text \<open>
  \<open>decodeJSON\<close> into the struct of \<open>handleExports\<close>: the first JSON value of the body, unknown
  fields refused. A second \<open>filter\<close> is decoded into the same map.
\<close>

definition decode_export_request :: "string \<Rightarrow> (string \<times> (string \<times> gval) list) option" where
  "decode_export_request s =
     (case parse_val (2 * length s) s of
        Some (GNull, _) \<Rightarrow> Some ([], [])
      | Some (GObj m, _) \<Rightarrow>
          (case (if m = [] then Some []
                 else map_option fst (parse_members (2 * length s - 1) (drop 1 (skip_ws s)))) of
             None \<Rightarrow> None
           | Some ms \<Rightarrow>
               foldl (\<lambda>acc (k, v).
                 case acc of
                   None \<Rightarrow> None
                 | Some (f, flt) \<Rightarrow>
                     if fold_name k = fold_name ''format'' then
                       (case v of GStr t \<Rightarrow> Some (t, flt) | GNull \<Rightarrow> Some (f, flt) | _ \<Rightarrow> None)
                     else if fold_name k = fold_name ''filter'' then
                       (case v of
                          GObj kvs \<Rightarrow> Some (f, foldl (\<lambda>m (k, v). AList.update k v m) flt kvs)
                        | GNull \<Rightarrow> Some (f, []) | _ \<Rightarrow> None)
                     else None) (Some ([], [])) ms)
      | _ \<Rightarrow> None)"

definition export_guard ::
    "('s, 'c, 'x, 'k) server \<Rightarrow> time \<Rightarrow> request \<Rightarrow> ('s, 'c, 'x) server_state \<Rightarrow>
     response option \<times> ('s, 'c, 'x) server_state" where
  "export_guard S now r st =
     (case authorize_export (se_jwt S) (se_auth S) now r (ss_auth st) of
        (Some err, a) \<Rightarrow> (Some (auth_failure err), st\<lparr>ss_auth := a\<rparr>)
      | (None, a) \<Rightarrow> (None, st\<lparr>ss_auth := a\<rparr>))"

definition handle_exports ::
    "('s, 'c, 'x, 'k) server \<Rightarrow> time \<Rightarrow> time \<Rightarrow> request \<Rightarrow> ('s, 'c, 'x) server_state \<Rightarrow>
     response \<times> ('s, 'c, 'x) server_state" where
  "handle_exports S now later r st =
     (if rq_method r \<noteq> ''POST'' then (method_not_allowed, st)
      else
        (case export_guard S now r st of
           (Some resp, st) \<Rightarrow> (resp, st)
         | (None, st) \<Rightarrow>
             (case decode_export_request (rq_body r) of
                None \<Rightarrow> (write_error 400 ''INVALID_JSON'' (se_decode_text S (rq_body r)) False, st)
              | Some (format, flt) \<Rightarrow>
                  (case svc_create_export (se_service S) (se_text S) now later format flt (ss_service st) of
                     (Inl err, s) \<Rightarrow> (handle_store_err S err, st\<lparr>ss_service := s\<rparr>)
                   | (Inr job, s) \<Rightarrow> (json_ok 202 (ExportBody job), st\<lparr>ss_service := s\<rparr>)))))"

definition handle_export_download ::
    "('s, 'c, 'x, 'k) server \<Rightarrow> request \<Rightarrow> string \<Rightarrow> ('s, 'c, 'x) server_state \<Rightarrow> response" where
  "handle_export_download S r i st =
     (if rq_method r \<noteq> ''GET'' then method_not_allowed
      else
        (case svc_get_export (se_service S) i (ss_service st) of
           Inl err \<Rightarrow> handle_store_err S err
         | Inr job \<Rightarrow>
             if ej_artifact job = []
             then write_error 409 ''EXPORT_NOT_READY'' ''export artifact is not ready'' True
             else (case svc_read_artifact (se_service S) (ej_artifact job) (ss_service st) of
                     Inl err \<Rightarrow> handle_store_err S err
                   | Inr b \<Rightarrow> json_ok 200 (RawBody b))))"

definition handle_export_by_id ::
    "('s, 'c, 'x, 'k) server \<Rightarrow> time \<Rightarrow> request \<Rightarrow> ('s, 'c, 'x) server_state \<Rightarrow>
     response \<times> ('s, 'c, 'x) server_state" where
  "handle_export_by_id S now r st =
     (case export_guard S now r st of
        (Some resp, st) \<Rightarrow> (resp, st)
      | (None, st) \<Rightarrow>
          (let path = trim_prefix (rq_path r) ''/v1/exports/'' in
           if suffix ''/download'' path
           then (handle_export_download S r (trim_suffix (trim_suffix path ''/download'') ''/'') st, st)
           else if rq_method r \<noteq> ''GET'' then (method_not_allowed, st)
           else (case svc_get_export (se_service S) path (ss_service st) of
                   Inl err \<Rightarrow> (handle_store_err S err, st)
                 | Inr job \<Rightarrow> (json_ok 200 (ExportBody job), st))))"

definition handle_health :: "time \<Rightarrow> response" where
  "handle_health now = json_ok 200 (HealthBody (format_rfc3339 now))"

text \<open>
  The routes of the API. \<open>ServeMux\<close> matches a pattern without a final slash exactly and one with it
  as a prefix; \<open>None\<close> is a path it does not route to the API (the pages of the UI, and 404).
\<close>

definition serve ::
    "('s, 'c, 'x, 'k) server \<Rightarrow> time \<Rightarrow> time \<Rightarrow> request \<Rightarrow> ('s, 'c, 'x) server_state \<Rightarrow>
     (response \<times> ('s, 'c, 'x) server_state) option" where
  "serve S now later r st =
     (let p = rq_path r in
      if p = ''/healthz'' then Some (handle_health now, st)
      else if p = ''/v1/events'' then Some (handle_events S now r st)
      else if p = ''/v1/timeline'' then Some (handle_timeline S now r st)
      else if p = ''/v1/changes'' then Some (handle_changes S now r st)
      else if prefix ''/v1/changes/'' p then Some (handle_change_by_id S now r st)
      else if prefix ''/v1/events/'' p then Some (handle_event_by_id S now r st)
      else if p = ''/v1/subjects'' then Some (handle_subjects S now r st)
      else if prefix ''/v1/correlations/'' p then Some (handle_correlations S now r st)
      else if p = ''/v1/exports'' then Some (handle_exports S now later r st)
      else if prefix ''/v1/exports/'' p then Some (handle_export_by_id S now r st)
      else None)"

end
