(* ===== verification/Api_Facts.thy ===== *)
theory Api_Facts
  imports Api
begin

text \<open>
  What the API guarantees: nothing is answered or changed without authorization, an acknowledged
  event is stored, and the paths of a change are read back.
\<close>

subsection \<open>Authorization of every route\<close>

text \<open>The check that a path requires.\<close>

definition route_authorized ::
    "('s, 'c, 'x, 'k) server \<Rightarrow> time \<Rightarrow> request \<Rightarrow> ('s, 'c, 'x) server_state \<Rightarrow> bool" where
  "route_authorized S now r st \<longleftrightarrow>
     (if rq_path r = ''/v1/events'' then fst (authorize_ingest (se_jwt S) (se_auth S) now r (ss_auth st)) = None
      else if prefix ''/v1/exports'' (rq_path r)
      then fst (authorize_export (se_jwt S) (se_auth S) now r (ss_auth st)) = None
      else fst (authorize_read (se_jwt S) (se_auth S) now r (ss_auth st)) = None)"

definition refused :: "('s, 'c, 'x) server_state \<Rightarrow> response \<times> ('s, 'c, 'x) server_state \<Rightarrow> bool" where
  "refused st res \<longleftrightarrow> 400 \<le> rs_status (fst res) \<and> ss_service (snd res) = ss_service st"

lemma auth_failure_status: "400 \<le> rs_status (auth_failure err)"
  by (simp add: auth_failure_def write_error_def)

lemma read_guard_refuses:
  assumes "fst (authorize_read (se_jwt S) (se_auth S) now r (ss_auth st)) \<noteq> None"
  shows "\<exists>resp st'. read_guard S now r st = (Some resp, st') \<and> refused st (resp, st')"
  using assms
  by (auto simp: read_guard_def refused_def auth_failure_status method_not_allowed_def write_error_def
      split: prod.split)

lemma export_guard_refuses:
  assumes "fst (authorize_export (se_jwt S) (se_auth S) now r (ss_auth st)) \<noteq> None"
  shows "\<exists>resp st'. export_guard S now r st = (Some resp, st') \<and> refused st (resp, st')"
  using assms by (auto simp: export_guard_def refused_def auth_failure_status split: prod.split)

lemma reading_handlers_refuse:
  assumes "fst (authorize_read (se_jwt S) (se_auth S) now r (ss_auth st)) \<noteq> None"
  shows "refused st (handle_changes S now r st)" "refused st (handle_change_by_id S now r st)"
    "refused st (handle_timeline S now r st)" "refused st (handle_event_by_id S now r st)"
    "refused st (handle_subjects S now r st)" "refused st (handle_correlations S now r st)"
proof -
  obtain resp st' where "read_guard S now r st = (Some resp, st')" "refused st (resp, st')"
    using read_guard_refuses [OF assms] by blast
  then show "refused st (handle_changes S now r st)" "refused st (handle_change_by_id S now r st)"
    "refused st (handle_timeline S now r st)" "refused st (handle_event_by_id S now r st)"
    "refused st (handle_subjects S now r st)" "refused st (handle_correlations S now r st)"
    by (simp_all add: handle_changes_def handle_change_by_id_def handle_timeline_def
        handle_event_by_id_def handle_subjects_def handle_correlations_def)
qed

lemma export_handlers_refuse:
  assumes "fst (authorize_export (se_jwt S) (se_auth S) now r (ss_auth st)) \<noteq> None"
  shows "refused st (handle_exports S now later r st)" "refused st (handle_export_by_id S now r st)"
proof -
  obtain resp st' where "export_guard S now r st = (Some resp, st')" "refused st (resp, st')"
    using export_guard_refuses [OF assms] by blast
  then show "refused st (handle_exports S now later r st)" "refused st (handle_export_by_id S now r st)"
    by (simp_all add: handle_exports_def handle_export_by_id_def refused_def method_not_allowed_def write_error_def)
qed

lemma handle_events_refuses:
  assumes "fst (authorize_ingest (se_jwt S) (se_auth S) now r (ss_auth st)) \<noteq> None"
  shows "refused st (handle_events S now r st)"
  using assms
  by (auto simp: handle_events_def refused_def auth_failure_status method_not_allowed_def write_error_def
      split: prod.split)

lemma serve_refuses:
  assumes "serve S now later r st = Some res" "rq_path r \<noteq> ''/healthz''" "\<not> route_authorized S now r st"
  shows "refused st res"
proof (cases "rq_path r = ''/v1/events''")
  case True
  with assms show ?thesis
    by (auto simp: serve_def Let_def route_authorized_def intro: handle_events_refuses)
next
  case ne: False
  show ?thesis
  proof (cases "prefix ''/v1/exports'' (rq_path r)")
    case True
    then have "fst (authorize_export (se_jwt S) (se_auth S) now r (ss_auth st)) \<noteq> None"
      using assms(3) ne by (simp add: route_authorized_def)
    note h = export_handlers_refuse [OF this]
    obtain t where "rq_path r = ''/v1/exports'' @ t" using True by (auto simp: prefix_def)
    with assms(1) h show ?thesis
      by (auto simp: serve_def Let_def split: if_splits)
  next
    case False
    then have "fst (authorize_read (se_jwt S) (se_auth S) now r (ss_auth st)) \<noteq> None"
      using assms(3) ne by (simp add: route_authorized_def)
    note h = reading_handlers_refuse [OF this]
    have "\<not> prefix ''/v1/exports/'' (rq_path r)" "rq_path r \<noteq> ''/v1/exports''"
      using False by (auto simp: prefix_def)
    with assms(1,2) ne h show ?thesis
      by (auto simp: serve_def Let_def split: if_splits)
  qed
qed

subsection \<open>Acknowledged events\<close>

context repository_contract
begin

text \<open>Whatever ingestion acknowledges can be read afterwards, with the hash that was given.\<close>

lemma ingest_stored:
  assumes "ok s" "repo_ingest R now e s = (Inr r, s')" "ev_hash e \<noteq> []"
  shows "\<exists>e'. repo_get_event R (ev_id e) s' = Inr e' \<and> ev_hash e' = ev_hash e"
proof -
  have v: "validate_stored_event e" using assms(2) ingest_invalid [of e now s] by auto
  have w: "with_hash e = Inr e" using assms(3) by (simp add: with_hash_def)
  show ?thesis
  proof (cases "repo_get_event R (ev_id e) s")
    case (Inl err)
    then show ?thesis using ingest_new [OF assms(1) v w, of now] get_total [OF assms(1) Inl] assms(2) by auto
  next
    case (Inr old)
    then show ?thesis using ingest_known [OF assms(1) v w Inr, of now] assms(2) by (auto split: if_splits)
  qed
qed

lemma ingest_loop_stored:
  assumes "svc_repo (se_service S) = R" "ok (st_repo (ss_service st))"
    and "ingest_loop S now es results last_status st = (resp, st')" "rs_status resp < 300"
    and "\<forall>e\<in>set es. ev_hash e \<noteq> []"
  shows "(\<forall>e\<in>set es. \<exists>e'. repo_get_event R (ev_id e) (st_repo (ss_service st')) = Inr e' \<and> ev_hash e' = ev_hash e) \<and>
    repo_steps R (st_repo (ss_service st)) (st_repo (ss_service st')) \<and> ok (st_repo (ss_service st'))"
  using assms
proof (induction es arbitrary: results last_status st)
  case Nil
  then show ?case by (auto split: list.splits)
next
  case (Cons e es)
  let ?m = "st_repo (ss_service st)"
  obtain r m' where i: "repo_ingest R now e ?m = (r, m')" by fastforce
  show ?case
  proof (cases r)
    case (Inl err)
    with i Cons.prems(1,3,4) show ?thesis
      by (auto simp: svc_ingest_event_def handle_store_err_def write_error_def split: if_splits)
  next
    case (Inr x)
    obtain status t where x: "x = (status, t)" by (cases x)
    define st1 where "st1 = st\<lparr>ss_service := (ss_service st)\<lparr>st_repo := m',
        st_cache := ec_purge (svc_cache (se_service S)) (st_cache (ss_service st))\<rparr>\<rparr>"
    have run: "ingest_loop S now es (results @ [(ev_id e, status, format_rfc3339 t)])
        (if status = IngestDuplicate then 200 else last_status) st1 = (resp, st')"
      using Cons.prems(1,3) i Inr x by (simp add: svc_ingest_event_def st1_def)
    have m': "m' = snd (repo_ingest R now e ?m)" using i by simp
    have ok1: "ok (st_repo (ss_service st1))"
      using ok_ingest [OF Cons.prems(2)] by (simp add: st1_def m')
    have ih: "\<forall>e\<in>set es. \<exists>e'. repo_get_event R (ev_id e) (st_repo (ss_service st')) = Inr e' \<and> ev_hash e' = ev_hash e"
        "repo_steps R m' (st_repo (ss_service st'))" "ok (st_repo (ss_service st'))"
      using Cons.IH [OF Cons.prems(1) ok1 run Cons.prems(4)] Cons.prems(5) by (auto simp: st1_def)
    obtain e' where e': "repo_get_event R (ev_id e) m' = Inr e'" "ev_hash e' = ev_hash e"
      using ingest_stored [OF Cons.prems(2), of now e x m'] i Inr Cons.prems(5) by auto
    have "repo_get_event R (ev_id e) (st_repo (ss_service st')) = Inr e'"
      using append_only [OF ih(2)] ok1 e'(1) by (simp add: st1_def)
    moreover have "repo_step R ?m m'"
      using repo_step.ingest [of R ?m now e] by (simp add: m')
    ultimately show ?thesis using ih e'(2) by (auto intro: converse_rtranclp_into_rtranclp)
  qed
qed

end

subsection \<open>A sample server\<close>

definition sample_jwt :: "unit jwt_library" where
  "sample_jwt =
     \<lparr>jl_header = (\<lambda>_. None), jl_claims = (\<lambda>_. []), jl_valid = (\<lambda>_ _ _. False), jl_issuer_ok = (\<lambda>_ _. False),
      jl_audience_ok = (\<lambda>_ _. False), jl_not_expired = (\<lambda>_ _. False), jl_pem_key = (\<lambda>_. None),
      jl_jwks_key = (\<lambda>_. None)\<rparr>"

definition sample_auth :: auth_config where
  "sample_auth =
     \<lparr>ac_read_token = ''key'', ac_ingest_token = [], ac_webhook_header = [], ac_webhook_secret = [],
      ac_oidc_enabled = False, ac_roles_header = [],
      ac_jwt = \<lparr>jp_enabled = False, jp_issuer = [], jp_audience = [], jp_roles_claim = [], jp_hs256_secret = [],
        jp_rs256_pem = [], jp_jwks_url = [], jp_jwks_refresh = []\<rparr>,
      ac_audit_file = [], ac_rate = \<lparr>rp_enabled = False, rp_read = 0, rp_export = 0, rp_ingest = 0\<rparr>,
      ac_trusted = None\<rparr>"

definition sample_server :: "(mem_repo, lru_state, unit, unit) server" where
  "sample_server =
     \<lparr>se_auth = sample_auth, se_jwt = sample_jwt, se_service = memory_service lru_cache no_exporter,
      se_text = (\<lambda>_. ''failed''), se_parse_text = (\<lambda>_. ''bad event''), se_decode_text = (\<lambda>_. ''bad body'')\<rparr>"

definition sample_server_state :: "(mem_repo, lru_state, unit) server_state" where
  "sample_server_state =
     \<lparr>ss_auth = \<lparr>as_limiter = new_rate_limiter 5 (ac_rate sample_auth), as_audit = [], as_lines = []\<rparr>,
      ss_service = sample_state\<rparr>"

definition sample_body :: string where
  "sample_body = json_object [(''id'', quote_string ''1''), (''source'', quote_string ''s''),
     (''type'', quote_string ''t''), (''subject'', quote_string ''app''), (''data'', ''{}'')]"

definition sample_request :: "string \<Rightarrow> string \<Rightarrow> request" where
  "sample_request path token =
     \<lparr>rq_method = ''POST'', rq_path = path, rq_query = [],
      rq_headers = [(''authorization'', ''Bearer '' @ token)], rq_remote = ''10.0.0.1:99'', rq_body = sample_body\<rparr>"

lemma sample_token:
  "fst (authorize_ingest sample_jwt sample_auth 5 (sample_request p t) (ss_auth sample_server_state)) =
     (if match_bearer (''Bearer '' @ t) ''key'' then None else Some MissingOrInvalidBearer)"
proof -
  have "equal_fold ''authorization'' ''Authorization''" by code_simp
  then have "header_get (sample_request p t) ''Authorization'' = ''Bearer '' @ t"
    by (simp add: header_get_def sample_request_def)
  moreover have "ingest_token sample_auth = ''key''" by code_simp
  ultimately show ?thesis
    by (simp add: authorize_ingest_def check_rate_def allow_def authorize_roles_def resolve_roles_def
        sample_server_state_def new_rate_limiter_def sample_auth_def)
qed

lemma sample_parse: "\<exists>e. parse_request 5 [] sample_body = Inr [e] \<and> validate_stored_event e"
proof -
  define raw where "raw = [(''id'', quote_string ''1''), (''source'', quote_string ''s''),
     (''type'', quote_string ''t''), (''subject'', quote_string ''app''), (''data'', ''{}'')]"
  define e where "e = \<lparr>ev_id = ''1'', ev_type = ''t'', ev_source = ''s'', ev_subject = ''app'', ev_time = 5,
      ev_extensions = [], ev_data = ''{}'', ev_hash = [], ev_ingested = 0\<rparr>"
  have "unmarshal_raw_map sample_body = Some raw" unfolding raw_def by code_simp
  moreover have "media_type [] \<noteq> ''application/cloudevents-batch+json''" by code_simp
  moreover have "string_field raw ''id'' = ''1''" "string_field raw ''source'' = ''s''"
      "string_field raw ''type'' = ''t''" "string_field raw ''subject'' = ''app''" "extension_fields raw = []"
    unfolding raw_def by code_simp+
  moreover have "map_of raw ''data'' = Some ''{}''" "map_of raw ''time'' = None" by (simp_all add: raw_def)
  moreover have "marshal_raw ''{}'' = Some ''{}''" by code_simp
  then have "\<exists>h. compute_integrity_hash e = Inr h"
    by (simp add: compute_integrity_hash_def canonical_text_def e_def)
  then obtain h where "compute_integrity_hash e = Inr h" by blast
  ultimately have "parse_request 5 [] sample_body = Inr [e\<lparr>ev_hash := h\<rparr>]"
    by (simp add: parse_request_def parse_single_def raw_to_stored_event_def time_field_def validate_def
        e_def)
  moreover have "validate_stored_event (e\<lparr>ev_hash := h\<rparr>)"
    by (simp add: validate_stored_event_def e_def)
  ultimately show ?thesis by blast
qed

text \<open>Any server on an empty in-memory repository takes the sample event from a request it authorizes.\<close>

lemma sample_accepted:
  assumes "authorize_ingest (se_jwt S) (se_auth S) 5 (sample_request ''/v1/events'' token) (ss_auth st) = (None, a)"
    and "svc_repo (se_service S) = memory_repository" "st_repo (ss_service st) = new_memory_repository"
  shows "rs_status (fst (handle_events S 5 (sample_request ''/v1/events'' token) st)) = 202"
proof -
  let ?r = "sample_request ''/v1/events'' token"
  obtain e where e: "parse_request 5 [] sample_body = Inr [e]" "validate_stored_event e"
    using sample_parse by blast
  have "compute_integrity_hash e = Inr (ev_hash e)"
    using parse_request_wf [OF e(1)] by (auto simp: well_formed_event_def)
  then have "ev_hash e \<noteq> []" by (rule compute_integrity_hash_nonempty)
  then have "fst (ingest_event 5 e new_memory_repository) = Inr (IngestAccepted, 5)"
    using e(2) by (simp add: ingest_event_def with_hash_def new_memory_repository_def)
  then obtain m where i: "ingest_event 5 e new_memory_repository = (Inr (IngestAccepted, 5), m)"
    by (cases "ingest_event 5 e new_memory_repository") simp
  have b: "length sample_body < 1000" by code_simp
  have "\<not> equal_fold ''authorization'' ''Content-Type''" by code_simp
  then have "header_get ?r ''Content-Type'' = []" by (simp add: header_get_def sample_request_def)
  then have h: "handle_events S 5 ?r st = ingest_loop S 5 [e] [] 202 (st\<lparr>ss_auth := a\<rparr>)"
    using assms(1) e(1) b
    by (simp add: handle_events_def max_ingest_body_bytes_def sample_request_def)
  show ?thesis
    unfolding h using i assms(2,3) by (simp add: svc_ingest_event_def json_ok_def)
qed

lemma sample_response:
  "rs_status (fst (handle_events sample_server 5 (sample_request ''/v1/events'' ''key'') sample_server_state)) = 202"
proof -
  have "match_bearer (''Bearer '' @ ''key'') ''key''" by code_simp
  then obtain a where "authorize_ingest sample_jwt sample_auth 5 (sample_request ''/v1/events'' ''key'')
      (ss_auth sample_server_state) = (None, a)"
    using sample_token [of "''/v1/events''" "''key''"]
    by (cases "authorize_ingest sample_jwt sample_auth 5 (sample_request ''/v1/events'' ''key'')
      (ss_auth sample_server_state)") simp
  then show ?thesis
    by (intro sample_accepted) (simp_all add: sample_server_def sample_server_state_def sample_state_def)
qed

subsection \<open>Properties\<close>

text \<open>
  C22: no route of the API but the health check does anything without authorization. When the check
  that its path requires fails (ingest for events, export for exports, read for the rest), the
  request is answered with an error and the service is left as it is.
\<close>

theorem unauthorized_requests_refused:
  assumes "serve S now later r st = Some (resp, st')" and "rq_path r \<noteq> ''/healthz''"
    and "\<not> route_authorized S now r st"
  shows "400 \<le> rs_status resp \<and> ss_service st' = ss_service st"
  using serve_refuses [OF assms] by (simp add: refused_def)

theorem unauthorized_requests_refused_witness:
  "\<exists>resp st'. serve sample_server 5 5 (sample_request ''/v1/events'' ''guess'') sample_server_state = Some (resp, st') \<and>
     400 \<le> rs_status resp \<and> ss_service st' = ss_service sample_server_state"
proof -
  have "\<not> match_bearer (''Bearer '' @ ''guess'') ''key''" by code_simp
  then have "\<not> route_authorized sample_server 5 (sample_request ''/v1/events'' ''guess'') sample_server_state"
    using sample_token [of "''/v1/events''" "''guess''"]
    by (simp add: route_authorized_def sample_server_def) (simp add: sample_request_def)
  moreover obtain res where
      "serve sample_server 5 5 (sample_request ''/v1/events'' ''guess'') sample_server_state = Some res"
    by (simp add: serve_def Let_def sample_request_def)
  ultimately show ?thesis
    using unauthorized_requests_refused [of sample_server 5 5 "sample_request ''/v1/events'' ''guess''"
      sample_server_state "fst res" "snd res"]
    by (cases res) (simp add: sample_request_def)
qed

text \<open>
  When a request with events is answered with success, its body has been parsed, the events have the hash of
  their content, and all of them went through the loop.
\<close>

lemma acknowledged_parsed:
  assumes "handle_events S now r st = (resp, st')" "rs_status resp < 300" "now \<noteq> 0"
  obtains a es where "parse_request now (header_get r ''Content-Type'') (rq_body r) = Inr es"
    "\<forall>e\<in>set es. compute_integrity_hash e = Inr (ev_hash e) \<and> ev_hash e \<noteq> []"
    "ingest_loop S now es [] 202 (st\<lparr>ss_auth := a\<rparr>) = (resp, st')"
proof -
  obtain a where a: "authorize_ingest (se_jwt S) (se_auth S) now r (ss_auth st) = (None, a)"
    using assms(1,2)
    by (auto simp: handle_events_def method_not_allowed_def write_error_def auth_failure_def
        split: if_splits prod.splits option.splits)
  obtain es where es: "parse_request now (header_get r ''Content-Type'') (rq_body r) = Inr es"
    using assms(1,2) a
    by (cases "parse_request now (header_get r ''Content-Type'') (rq_body r)")
      (auto simp: handle_events_def method_not_allowed_def write_error_def split: if_splits)
  have "\<forall>e\<in>set es. compute_integrity_hash e = Inr (ev_hash e)"
    using parse_request_wf [OF es assms(3)] by (auto simp: well_formed_event_def)
  then have "\<forall>e\<in>set es. compute_integrity_hash e = Inr (ev_hash e) \<and> ev_hash e \<noteq> []"
    using compute_integrity_hash_nonempty by blast
  moreover have "ingest_loop S now es [] 202 (st\<lparr>ss_auth := a\<rparr>) = (resp, st')"
    using assms(1,2) a es
    by (auto simp: handle_events_def method_not_allowed_def write_error_def split: if_splits)
  ultimately show thesis using that es by blast
qed

text \<open>On the in-memory repository every event of the body can be read afterwards.\<close>

lemma acknowledged_events_stored:
  assumes "se_service S = memory_service C X" and "mem_ok (st_repo (ss_service st))" and "now \<noteq> 0"
    and "handle_events S now r st = (resp, st')" and "rs_status resp < 300"
  shows "\<exists>es. parse_request now (header_get r ''Content-Type'') (rq_body r) = Inr es \<and>
    (\<forall>e\<in>set es. \<exists>e'. get_event (ev_id e) (st_repo (ss_service st')) = Inr e' \<and> ev_hash e' = ev_hash e \<and>
      compute_integrity_hash e = Inr (ev_hash e'))"
proof -
  obtain a es where es: "parse_request now (header_get r ''Content-Type'') (rq_body r) = Inr es"
    "\<forall>e\<in>set es. compute_integrity_hash e = Inr (ev_hash e) \<and> ev_hash e \<noteq> []"
    "ingest_loop S now es [] 202 (st\<lparr>ss_auth := a\<rparr>) = (resp, st')"
    using acknowledged_parsed [OF assms(4,5,3)] by metis
  then have "\<forall>e\<in>set es. \<exists>e'. get_event (ev_id e) (st_repo (ss_service st')) = Inr e' \<and> ev_hash e' = ev_hash e"
    using memory.ingest_loop_stored [of S "st\<lparr>ss_auth := a\<rparr>" now es "[]" 202 resp st'] assms(1,2,5) by simp
  with es show ?thesis by fastforce
qed

lemma sample_acknowledged:
  "\<exists>e e'. parse_request 5 [] sample_body = Inr [e] \<and>
     get_event (ev_id e) (st_repo (ss_service (snd
       (handle_events sample_server 5 (sample_request ''/v1/events'' ''key'') sample_server_state)))) = Inr e' \<and>
     ev_hash e' = ev_hash e"
proof -
  obtain e where e: "parse_request 5 [] sample_body = Inr [e]" using sample_parse by blast
  have "\<not> equal_fold ''authorization'' ''Content-Type''" by code_simp
  then have "header_get (sample_request ''/v1/events'' ''key'') ''Content-Type'' = []"
    by (simp add: header_get_def sample_request_def)
  moreover have "rq_body (sample_request ''/v1/events'' ''key'') = sample_body" by (simp add: sample_request_def)
  moreover have "mem_ok (st_repo (ss_service sample_server_state))"
    by (simp add: sample_server_state_def sample_state_def mem_ok_def new_memory_repository_def)
  moreover have "se_service sample_server = memory_service lru_cache no_exporter" by (simp add: sample_server_def)
  ultimately show ?thesis
    using acknowledged_events_stored [of sample_server lru_cache no_exporter sample_server_state 5
        "sample_request ''/v1/events'' ''key''", OF _ _ _ prod.collapse [symmetric]] sample_response e
    by fastforce
qed

text \<open>
  C24: the three paths of a change are read back as the id and the view they were built from, for
  every id that begins and ends with a printable character and has no slash.
\<close>

theorem change_paths_read_back:
  assumes "i \<noteq> []" and "plain_char (hd i)" and "plain_char (last i)" and "CHR ''/'' \<notin> set i"
  shows "parse_change_path (''/v1/changes/'' @ i) = (i, ''detail'') \<and>
    parse_change_path (''/v1/changes/'' @ i @ ''/timeline'') = (i, ''timeline'') \<and>
    parse_change_path (''/v1/changes/'' @ i @ ''/evidence'') = (i, ''evidence'')"
proof -
  have t: "trim_space i = i" using assms(1-3) by (rule trim_space_plain)
  have tail: "trim_space (i @ ''/timeline'') = i @ ''/timeline''" "trim_space (i @ ''/evidence'') = i @ ''/evidence''"
    using assms(1,2) by (auto intro!: trim_space_plain simp: plain_char_def)
  have ns: "\<not> suffix (CHR ''/'' # s) i" for s
    using assms(4) by (auto simp: suffix_def)
  have "\<not> suffix ''/timeline'' (i @ ''/evidence'')" by (simp add: suffix_to_prefix)
  moreover have "trim_suffix i ''/'' = i" using ns by (simp add: trim_suffix_def)
  moreover have "trim_prefix (''/v1/changes/'' @ s) ''/v1/changes/'' = s" for s
    by (rule trim_prefix_append)
  moreover have "suffix w (i @ w)" for w by (simp add: suffix_def)
  ultimately show ?thesis
    unfolding parse_change_path_def Let_def
    using assms(1,4) t tail ns trim_suffix_append [of i "''/timeline''"] trim_suffix_append [of i "''/evidence''"]
    by (simp only: append_is_Nil_conv simp_thms if_True if_False)
qed

theorem change_paths_read_back_witness: "parse_change_path ''/v1/changes/chg_7/evidence'' = (''chg_7'', ''evidence'')"
  using change_paths_read_back [of "''chg_7''"]
  by (simp add: plain_char_def)

end
