(* ===== verification/Export_Facts.thy ===== *)
theory Export_Facts
  imports Export Api_Facts
begin

text \<open>
  What exports promise. The contract that the service relies on is the locale
  \<open>artifact_exporter\<close>; the exporter on the file system is an interpretation. Inside the locale a
  completed export is shown to stay downloadable, whatever requests follow. The second part is about
  the pack: it is a function of the set of events, not of their order.
\<close>

subsection \<open>Paths of artifacts\<close>

lemma split_on_append: "c \<notin> set b \<Longrightarrow> split_on c (a @ c # b) = split_on c a @ [b]"
proof (induction a)
  case Nil
  then show ?case by (simp add: split_on_no_sep)
next
  case (Cons x a)
  then show ?case using split_on_nonempty [of c a] by (auto split: list.split)
qed

lemma clean_elems_snoc:
  "w \<notin> {[], ''.'', ''..''} \<Longrightarrow> clean_elems r out (ws @ [w]) = clean_elems r out ws @ [w]"
  by (induction r out ws rule: clean_elems.induct) auto

lemma join_with_snoc: "join_with sep (ws @ [w]) = (if ws = [] then w else join_with sep ws @ sep @ w)"
  by (cases ws) (simp_all add: join_with_def)

text \<open>A name without a slash becomes the last element of the path, whatever the directory is.\<close>

definition plain_name :: "string \<Rightarrow> bool" where
  "plain_name w \<longleftrightarrow> CHR ''/'' \<notin> set w \<and> w \<notin> {[], ''.'', ''..''}"

lemma clean_path_elems:
  "take 1 p = ''/'' \<longleftrightarrow> r \<Longrightarrow> clean_elems r [] (split_on (CHR ''/'') p) = es \<Longrightarrow> es \<noteq> [] \<Longrightarrow>
   clean_path p = (if r then ''/'' else []) @ join_with ''/'' es"
  by (cases r) (simp_all add: clean_path_def)

lemma join_path_plain: "\<exists>d. \<forall>w. plain_name w \<longrightarrow> join_path base w = d @ w"
proof (cases "base = []")
  case True
  then show ?thesis
    by (intro exI [of _ "[]"])
      (auto simp: join_path_def clean_path_def split_on_no_sep plain_name_def join_with_def Let_def neq_Nil_conv)
next
  case False
  define rooted where "rooted = (take 1 base = ''/'')"
  define out where "out = clean_elems rooted [] (split_on (CHR ''/'') base)"
  define d where "d = (if rooted then ''/'' else []) @ (if out = [] then [] else join_with ''/'' out @ ''/'')"
  have "join_path base w = d @ w" if "plain_name w" for w
  proof -
    have "clean_elems rooted [] (split_on (CHR ''/'') (base @ CHR ''/'' # w)) = out @ [w]"
      using that by (auto simp: split_on_append clean_elems_snoc out_def plain_name_def)
    moreover have "take 1 (base @ CHR ''/'' # w) = ''/'' \<longleftrightarrow> rooted"
      using False by (cases base) (simp_all add: rooted_def)
    ultimately have "join_path base w = (if rooted then ''/'' else []) @ join_with ''/'' (out @ [w])"
      using False by (simp add: join_path_def clean_path_elems)
    then show ?thesis by (simp add: join_with_snoc d_def)
  qed
  then show ?thesis by blast
qed

lemma artifact_path_inject:
  assumes "CHR ''/'' \<notin> set i" "CHR ''/'' \<notin> set j"
  shows "artifact_path base i = artifact_path base j \<longleftrightarrow> i = j"
proof -
  have "plain_name (i @ ''.json'')" "plain_name (j @ ''.json'')"
    using assms by (auto simp: plain_name_def append_eq_Cons_conv)
  then show ?thesis
    using join_path_plain [of base] by (auto simp: artifact_path_def)
qed

subsection \<open>The contract of an exporter\<close>

locale artifact_exporter =
  fixes X :: "'x exporter"
    and uri :: "string \<Rightarrow> string"
    and render :: "time \<Rightarrow> stored_event list \<Rightarrow> string option"
  assumes created: "ex_create_pack X now i es x = (Inr p, x') \<Longrightarrow>
      p = uri i \<and> (\<exists>b. render now es = Some b \<and> ex_read_artifact X p x' = Inr b)"
    and others: "uri j \<noteq> uri i \<Longrightarrow>
      ex_read_artifact X (uri j) (snd (ex_create_pack X now i es x)) = ex_read_artifact X (uri j) x"

interpretation filesystem: artifact_exporter "filesystem_exporter D base" "artifact_path base"
    "\<lambda>now. evidence_pack now now" for D base
proof
  show "p = artifact_path base i \<and> (\<exists>b. evidence_pack now now es = Some b \<and>
      ex_read_artifact (filesystem_exporter D base) p x' = Inr b)"
    if "ex_create_pack (filesystem_exporter D base) now i es x = (Inr p, x')" for now i es x p x'
    using that
    by (auto simp: filesystem_exporter_def create_evidence_pack_def read_artifact_def Let_def
        map_of_update split: option.splits)
  show "ex_read_artifact (filesystem_exporter D base) (artifact_path base j)
      (snd (ex_create_pack (filesystem_exporter D base) now i es x)) =
    ex_read_artifact (filesystem_exporter D base) (artifact_path base j) x"
    if "artifact_path base j \<noteq> artifact_path base i" for i j now es x
    using that
    by (simp add: filesystem_exporter_def create_evidence_pack_def read_artifact_def Let_def
        map_of_update split: option.split)
qed

subsection \<open>What requests do to the exports\<close>

text \<open>
  The steps of the service over the in-memory repository. A new export gets its id from the clock;
  the step relation for the export \<open>i\<close> leaves out the exports that get the same id.
\<close>

inductive other_request ::
    "(mem_repo, 'c, 'x) service \<Rightarrow> string \<Rightarrow> (mem_repo, 'c, 'x) service_state \<Rightarrow>
     (mem_repo, 'c, 'x) service_state \<Rightarrow> bool" for S i where
  ingest: "other_request S i st (snd (svc_ingest_event S now e st))"
| list_changes: "other_request S i st (snd (svc_list_changes S now q st))"
| get_change: "other_request S i st (snd (svc_get_change S now c q st))"
| create_export: "''exp_'' @ show_int (unix_nano now) \<noteq> i \<Longrightarrow>
    other_request S i st (snd (svc_create_export S text now later f flt st))"

inductive_cases other_requestE: "other_request S i st st'"

lemma ingest_exports [simp]: "mr_exports (snd (ingest_event now e m)) = mr_exports m"
  by (simp add: ingest_event_def Let_def split: sum.split option.split)

lemma list_changes_exports [simp]:
  "st_repo (snd (svc_list_changes S now q st)) = st_repo st"
  "st_files (snd (svc_list_changes S now q st)) = st_files st"
  "st_repo (snd (svc_get_change S now c q st)) = st_repo st"
  "st_files (snd (svc_get_change S now c q st)) = st_files st"
  by (auto simp: svc_list_changes_def svc_get_change_def events_for_change_query_def Let_def
      split: prod.split sum.split option.split)

lemma ingest_request_exports [simp]:
  "mr_exports (st_repo (snd (svc_ingest_event (memory_service C X) now e st))) = mr_exports (st_repo st)"
  "st_files (snd (svc_ingest_event (memory_service C X) now e st)) = st_files st"
proof -
  obtain r m where m: "ingest_event now e (st_repo st) = (r, m)" by fastforce
  then have "mr_exports m = mr_exports (st_repo st)" using ingest_exports [of now e "st_repo st"] by simp
  with m show "mr_exports (st_repo (snd (svc_ingest_event (memory_service C X) now e st))) = mr_exports (st_repo st)"
    "st_files (snd (svc_ingest_event (memory_service C X) now e st)) = st_files st"
    by (auto simp: svc_ingest_event_def split: sum.split)
qed

lemma get_export_others:
  "j \<noteq> i \<Longrightarrow> get_export j (snd (set_export_completed now i uri m)) = get_export j m"
  "j \<noteq> i \<Longrightarrow> get_export j (snd (set_export_failed now i msg m)) = get_export j m"
  "j \<noteq> ''exp_'' @ show_int (unix_nano now) \<Longrightarrow> get_export j (snd (create_export now f flt m)) = get_export j m"
  by (simp_all add: get_export_def set_export_completed_def set_export_failed_def create_export_def Let_def
      map_of_update split: option.split)


lemma create_export_effects:
  assumes "snd (svc_create_export (memory_service C X) text now later f flt st) = st'"
  defines "i \<equiv> ''exp_'' @ show_int (unix_nano now)"
  shows "j \<noteq> i \<Longrightarrow> get_export j (st_repo st') = get_export j (st_repo st)"
    and "st_files st' = st_files st \<or> (\<exists>es. st_files st' = snd (ex_create_pack X later i es (st_files st)))"
proof -
  obtain job m where c: "create_export now f flt (st_repo st) = (Inr job, m)" "ej_id job = i"
      "m = snd (create_export now f flt (st_repo st))"
    using create_export_memory [of now f flt "st_repo st"] by (simp add: i_def)
  have m: "get_export j m = get_export j (st_repo st)" if "j \<noteq> i"
    using that by (simp add: c(3) get_export_others i_def)
  have completed: "get_export j m' = get_export j m"
    if "j \<noteq> i" "set_export_completed later i p m = (r, m')" for p r m'
    using get_export_others(1) [OF that(1), of later p m] that(2) by simp
  show "get_export j (st_repo st') = get_export j (st_repo st)" if "j \<noteq> i"
    using assms(1) c(1,2) m [OF that] completed [OF that] that
    by (auto simp: svc_create_export_def get_export_others split: sum.splits prod.splits option.splits)
  show "st_files st' = st_files st \<or> (\<exists>es. st_files st' = snd (ex_create_pack X later i es (st_files st)))"
  proof (cases "export_items_for_job memory_repository m (ej_filter job)")
    case (Inl err)
    then show ?thesis using assms(1) c(1,2) by (auto simp: svc_create_export_def)
  next
    case (Inr items)
    obtain r x where x: "ex_create_pack X later i items (st_files st) = (r, x)" by fastforce
    have "st_files st' = x"
      using assms(1) c(1,2) Inr x by (auto simp: svc_create_export_def split: sum.splits prod.splits option.splits)
    then have "st_files st' = snd (ex_create_pack X later i items (st_files st))" by (simp add: x)
    then show ?thesis by blast
  qed
qed

context artifact_exporter
begin

lemma kept_by_request:
  assumes "other_request (memory_service C X) i st st'"
    and "\<And>t. ''exp_'' @ show_int (unix_nano t) \<noteq> i \<Longrightarrow> uri (''exp_'' @ show_int (unix_nano t)) \<noteq> uri i"
  shows "get_export i (st_repo st') = get_export i (st_repo st) \<and>
    ex_read_artifact X (uri i) (st_files st') = ex_read_artifact X (uri i) (st_files st)"
  using assms(1)
proof (cases rule: other_request.cases)
  case (create_export now tx later f flt)
  let ?st = "snd (svc_create_export (memory_service C X) tx now later f flt st)"
  note eff = create_export_effects [OF refl, where C = C and X = X and st = st]
  have "ex_read_artifact X (uri i) (st_files ?st) = ex_read_artifact X (uri i) (st_files st)"
    using eff(2) others [OF assms(2) [OF create_export(2), symmetric]] by metis
  then show ?thesis using eff(1) [of i] create_export by auto
qed (simp_all add: get_export_def)

lemma kept_by_requests:
  assumes "(other_request (memory_service C X) i)\<^sup>*\<^sup>* st st'"
    and "\<And>t. ''exp_'' @ show_int (unix_nano t) \<noteq> i \<Longrightarrow> uri (''exp_'' @ show_int (unix_nano t)) \<noteq> uri i"
  shows "get_export i (st_repo st') = get_export i (st_repo st) \<and>
    ex_read_artifact X (uri i) (st_files st') = ex_read_artifact X (uri i) (st_files st)"
  using assms(1)
proof (induction rule: rtranclp_induct)
  case base
  then show ?case by simp
next
  case (step st1 st2)
  then show ?case using kept_by_request [OF step(2) assms(2)] by simp
qed

lemma completed_export:
  assumes "svc_create_export (memory_service C X) text now later f flt st = (Inr job, st')"
  shows "get_export (ej_id job) (st_repo st') = Inr job \<and> ej_id job = ''exp_'' @ show_int (unix_nano now) \<and>
    ej_artifact job = uri (ej_id job) \<and>
    (\<exists>es b. export_items_for_job memory_repository (st_repo st) flt = Inr es \<and> render later es = Some b \<and>
       ex_read_artifact X (uri (ej_id job)) (st_files st') = Inr b)"
proof -
  let ?i = "''exp_'' @ show_int (unix_nano now)"
  obtain job0 m where c: "create_export now f flt (st_repo st) = (Inr job0, m)" "ej_id job0 = ?i"
      "ej_filter job0 = flt" "m = snd (create_export now f flt (st_repo st))"
    using create_export_memory [of now f flt "st_repo st"] by simp
  have t: "repo_timeline memory_repository q m = repo_timeline memory_repository q (st_repo st)" for q
    using memory.create_timeline [of q now f flt "st_repo st"] by (simp add: c(4))
  have e: "export_items_for_job memory_repository m flt = export_items_for_job memory_repository (st_repo st) flt"
    unfolding export_items_for_job_def t ..
  obtain items where items: "export_items_for_job memory_repository m flt = Inr items"
    using assms c(1-3) by (cases "export_items_for_job memory_repository m flt") (auto simp: svc_create_export_def)
  obtain p x where p: "ex_create_pack X later ?i items (st_files st) = (Inr p, x)"
    using assms c(1-3) items
    by (cases "ex_create_pack X later ?i items (st_files st)"; cases "fst (ex_create_pack X later ?i items (st_files st))")
      (auto simp: svc_create_export_def)
  obtain b where b: "p = uri ?i" "render later items = Some b" "ex_read_artifact X p x = Inr b"
    using created [OF p] by blast
  have g: "get_export ?i m = Inr job0"
    using memory.create_get [of now f flt "st_repo st" job0 m] c(1,2) by simp
  note set = get_after_set [OF g, of later p]
  have job: "job = job0\<lparr>ej_status := ''completed'', ej_artifact := p, ej_completed := Some later\<rparr>"
    and st': "st_repo st' = snd (set_export_completed later ?i p m)" "st_files st' = x"
    using assms c(1-3) items p set(1) set(2)
    by (auto simp: svc_create_export_def split: option.splits prod.splits)
  have ids: "ej_id job = ?i" "ej_artifact job = uri ?i" using c(2) b(1) by (simp_all add: job)
  moreover have "get_export ?i (st_repo st') = Inr job" using set(2) by (simp add: st' job)
  moreover have "export_items_for_job memory_repository (st_repo st) flt = Inr items" using e items by simp
  moreover have "ex_read_artifact X (uri ?i) (st_files st') = Inr b" using b by (simp add: st')
  ultimately show ?thesis unfolding ids(1) using b(2) by blast
qed

end


lemma show_int_no_slash: "CHR ''/'' \<notin> set (show_int i)"
proof -
  have "CHR ''/'' \<notin> set (show_dec n)" if "0 \<le> n" for n
    using show_dec_digits [OF that] by (auto simp: list_all_iff is_digit_def)
  then show ?thesis by (simp add: show_int_def)
qed

lemma artifact_path_nonempty: "CHR ''/'' \<notin> set i \<Longrightarrow> artifact_path base i \<noteq> []"
proof -
  assume "CHR ''/'' \<notin> set i"
  then have "plain_name (i @ ''.json'')" by (auto simp: plain_name_def append_eq_Cons_conv)
  then show ?thesis using join_path_plain [of base] by (auto simp: artifact_path_def)
qed

lemma artifact_path_export_inject:
  "''exp_'' @ show_int a \<noteq> ''exp_'' @ show_int b \<Longrightarrow>
   artifact_path base (''exp_'' @ show_int a) \<noteq> artifact_path base (''exp_'' @ show_int b)"
  using artifact_path_inject [of "''exp_'' @ show_int a" "''exp_'' @ show_int b" base] show_int_no_slash
  by simp

subsection \<open>What a pack says about its events\<close>

lemma or_else_assoc: "or_else (or_else a b) c = or_else a (or_else b c)"
  by (simp add: or_else_def)

lemma or_else_Nil [simp]: "or_else [] a = a" "or_else a [] = a"
  by (simp_all add: or_else_def)

text \<open>The first event with a value decides a field.\<close>

definition first_value :: "('a \<Rightarrow> string) \<Rightarrow> 'a list \<Rightarrow> string" where
  "first_value f es = foldr (\<lambda>e. or_else (f e)) es []"

lemma first_value_find: "first_value f es = (case find (\<lambda>e. f e \<noteq> []) es of None \<Rightarrow> [] | Some e \<Rightarrow> f e)"
  by (induction es) (auto simp: first_value_def or_else_def split: option.split)

lemma export_view_step_fields:
  "xc_change_id (export_view_step v e) =
     or_else (xc_change_id v) (extension_string (ev_extensions e) ''change_id'')"
  "xc_revision (export_view_step v e) =
     or_else (xc_revision v) (first_extension (ev_extensions e) [''sync_revision'', ''revision'', ''commit_sha''])"
  "xc_result (export_view_step v e) = export_result (xc_result v) e"
  by (simp_all add: export_view_step_def Let_def)

lemma export_view_steps:
  "xc_change_id (foldl export_view_step v es) =
     or_else (xc_change_id v) (first_value (\<lambda>e. extension_string (ev_extensions e) ''change_id'') es)"
  "xc_revision (foldl export_view_step v es) = or_else (xc_revision v)
     (first_value (\<lambda>e. first_extension (ev_extensions e) [''sync_revision'', ''revision'', ''commit_sha'']) es)"
  "xc_result (foldl export_view_step v es) = foldl export_result (xc_result v) es"
  by (induction es arbitrary: v) (simp_all add: export_view_step_fields first_value_def or_else_assoc)

definition says_failed :: "stored_event \<Rightarrow> bool" where
  "says_failed e \<longleftrightarrow> export_result ''unknown'' e = ''failed''"

definition says_succeeded :: "stored_event \<Rightarrow> bool" where
  "says_succeeded e \<longleftrightarrow> export_result ''unknown'' e = ''succeeded''"

lemma export_result_cases:
  "export_result r e = (if says_failed e then ''failed'' else if r \<noteq> ''failed'' \<and> says_succeeded e then ''succeeded'' else r)"
  by (simp add: export_result_def says_failed_def says_succeeded_def Let_def)

lemma foldl_export_result:
  "foldl export_result r es =
     (if r = ''failed'' \<or> (\<exists>e\<in>set es. says_failed e) then ''failed''
      else if \<exists>e\<in>set es. says_succeeded e then ''succeeded'' else r)"
  by (induction es arbitrary: r) (auto simp: export_result_cases)

subsection \<open>A sample export\<close>

definition sample_disk :: disk where
  "sample_disk =
     \<lparr>dk_mkdir = (\<lambda>_. None), dk_write = (\<lambda>_. None), dk_missing = (\<lambda>_. ''no such file''), dk_marshal = ''json''\<rparr>"

definition sample_filter :: "(string \<times> gval) list" where
  "sample_filter = [(''from'', GStr ''0001-01-01T00:00:00Z''), (''to'', GStr ''0001-01-01T00:00:00Z''),
     (''subject'', GStr ''app::'')]"

definition sample_export_server :: "(mem_repo, lru_state, files, unit) server" where
  "sample_export_server =
     \<lparr>se_auth = sample_auth, se_jwt = sample_jwt,
      se_service = memory_service lru_cache (filesystem_exporter sample_disk ''/data''),
      se_text = (\<lambda>_. ''failed''), se_parse_text = (\<lambda>_. ''bad event''), se_decode_text = (\<lambda>_. ''bad body'')\<rparr>"

definition sample_export_state :: "(mem_repo, lru_state, files) service_state" where
  "sample_export_state = \<lparr>st_repo = sample_repo, st_files = [], st_cache = []\<rparr>"

lemma sample_pack: "\<exists>b. evidence_pack 6 6 [sample_event ''c'' 5, sample_event ''a'' 7, sample_event ''b'' 7] = Some b"
proof -
  have "sort_stored_events [sample_event ''c'' 5, sample_event ''a'' 7, sample_event ''b'' 7] =
      [sample_event ''c'' 5, sample_event ''a'' 7, sample_event ''b'' 7]" by code_simp
  moreover have "marshal_events [sample_event ''c'' 5, sample_event ''a'' 7, sample_event ''b'' 7] \<noteq> None"
    by code_simp
  moreover have "marshal_time 6 \<noteq> None" by code_simp
  ultimately show ?thesis by (auto simp: evidence_pack_def Let_def)
qed

lemma sample_export_items:
  "export_items_for_job memory_repository (snd (create_export 5 [] sample_filter sample_repo)) sample_filter =
     Inr [sample_event ''c'' 5, sample_event ''a'' 7, sample_event ''b'' 7]"
  by code_simp

lemma sample_export:
  "\<exists>job s'. svc_create_export (se_service sample_export_server) (se_text sample_export_server) 5 6 [] sample_filter
     sample_export_state = (Inr job, s')"
proof -
  define m where "m = snd (create_export 5 [] sample_filter sample_repo)"
  obtain job where c: "create_export 5 [] sample_filter sample_repo = (Inr job, m)" "ej_filter job = sample_filter"
    using create_export_memory [of 5 "[]" sample_filter sample_repo] by (simp add: m_def)
  have g: "get_export (ej_id job) m = Inr job"
    using memory.create_get [of 5 "[]" sample_filter sample_repo job m] c by simp
  obtain b where "evidence_pack 6 6 [sample_event ''c'' 5, sample_event ''a'' 7, sample_event ''b'' 7] = Some b"
    using sample_pack by blast
  moreover have "export_items_for_job memory_repository m sample_filter =
      Inr [sample_event ''c'' 5, sample_event ''a'' 7, sample_event ''b'' 7]"
    unfolding m_def by (rule sample_export_items)
  moreover obtain m' where "set_export_completed 6 (ej_id job) (artifact_path ''/data'' (ej_id job)) m = (None, m')"
      "\<exists>job'. get_export (ej_id job) m' = Inr job'"
    using get_after_set(1,2) [OF g, of 6 "artifact_path ''/data'' (ej_id job)"] by blast
  ultimately show ?thesis
    using c by (auto simp: svc_create_export_def sample_export_server_def sample_export_state_def
        filesystem_exporter_def create_evidence_pack_def sample_disk_def Let_def)
qed

subsection \<open>Properties\<close>

text \<open>
  C25: a completed export can be downloaded for good. When \<open>CreateExport\<close> has returned its job, every
  later download of the artifact, whatever other requests the service has answered in between,
  returns the evidence pack of the events that the filter selected when the export was made.
\<close>

theorem completed_export_downloadable:
  assumes "se_service S = memory_service C (filesystem_exporter D base)"
    and "svc_create_export (se_service S) (se_text S) now later f flt s = (Inr job, s')"
    and "(other_request (se_service S) (ej_id job))\<^sup>*\<^sup>* s' (ss_service st)"
    and "rq_method r = ''GET''"
  shows "\<exists>es b. export_items_for_job memory_repository (st_repo s) flt = Inr es \<and>
    evidence_pack later later es = Some b \<and>
    handle_export_download S r (ej_id job) st = json_ok 200 (RawBody b)"
proof -
  note fin = filesystem.completed_export [OF assms(2) [unfolded assms(1)]]
  then have i: "ej_id job = ''exp_'' @ show_int (unix_nano now)" by blast
  have kept: "get_export (ej_id job) (st_repo (ss_service st)) = get_export (ej_id job) (st_repo s')"
    "ex_read_artifact (filesystem_exporter D base) (artifact_path base (ej_id job)) (st_files (ss_service st)) =
     ex_read_artifact (filesystem_exporter D base) (artifact_path base (ej_id job)) (st_files s')"
    using filesystem.kept_by_requests [OF assms(3) [unfolded assms(1)]] artifact_path_export_inject
    by (metis i)+
  have "ej_artifact job \<noteq> []"
    using fin i artifact_path_nonempty [of "ej_id job" base] show_int_no_slash by simp
  then show ?thesis
    using fin kept assms(1,4)
    by (auto simp: handle_export_download_def svc_get_export_def svc_read_artifact_def)
qed

theorem completed_export_downloadable_witness:
  "\<exists>job s' b. fst (svc_create_export (se_service sample_export_server) (se_text sample_export_server) 5 6 []
       sample_filter sample_export_state) = Inr job \<and>
     handle_export_download sample_export_server ((sample_request ''/'' [])\<lparr>rq_method := ''GET''\<rparr>) (ej_id job)
       \<lparr>ss_auth = ss_auth sample_server_state, ss_service = s'\<rparr> = json_ok 200 (RawBody b)"
proof -
  obtain job s' where c: "svc_create_export (se_service sample_export_server) (se_text sample_export_server) 5 6 []
      sample_filter sample_export_state = (Inr job, s')"
    using sample_export by blast
  have "se_service sample_export_server = memory_service lru_cache (filesystem_exporter sample_disk ''/data'')"
    by (simp add: sample_export_server_def)
  then obtain b where "handle_export_download sample_export_server ((sample_request ''/'' [])\<lparr>rq_method := ''GET''\<rparr>)
      (ej_id job) \<lparr>ss_auth = ss_auth sample_server_state, ss_service = s'\<rparr> = json_ok 200 (RawBody b)"
    using completed_export_downloadable [OF _ c, of lru_cache sample_disk "''/data''"
        "\<lparr>ss_auth = ss_auth sample_server_state, ss_service = s'\<rparr>" "(sample_request ''/'' [])\<lparr>rq_method := ''GET''\<rparr>"]
    by auto
  with c show ?thesis by (metis fst_conv)
qed

text \<open>
  C26: the evidence pack of a set of events does not depend on the order in which the repository
  returns them: for events with distinct times and ids, any permutation gives the same text, and so
  the same checksum and the same deterministic hash.
\<close>

theorem evidence_pack_order_independent:
  assumes "mset es = mset es'" and "distinct (map event_key es)"
  shows "evidence_pack generated created es = evidence_pack generated created es'"
proof -
  have "sort_stored_events es = sort_stored_events es'"
    unfolding sort_stored_events_def by (rule sort_key_unique [OF assms])
  then show ?thesis unfolding evidence_pack_def by (simp only: Let_def)
qed

theorem evidence_pack_order_independent_witness:
  "evidence_pack 6 6 [sample_event ''a'' 7, sample_event ''c'' 5] = evidence_pack 6 6 [sample_event ''c'' 5, sample_event ''a'' 7]"
  by (rule evidence_pack_order_independent) (simp_all add: event_key_def sample_event_def)

text \<open>
  What the summary of a pack says: it has failed when one of its events says so, has succeeded when
  none failed and one succeeded; the revision is the one of the first event that has any; the
  change id is the first one given, or one derived from the target and the revision.
\<close>

lemma export_view_fields:
  assumes "es \<noteq> []"
  shows "xc_result (derive_primary_change es) =
      (if \<exists>e\<in>set es. says_failed e then ''failed''
       else if \<exists>e\<in>set es. says_succeeded e then ''succeeded'' else ''unknown'') \<and>
    xc_revision (derive_primary_change es) =
      (case find (\<lambda>e. first_extension (ev_extensions e) [''sync_revision'', ''revision'', ''commit_sha''] \<noteq> []) es of
         None \<Rightarrow> [] | Some e \<Rightarrow> first_extension (ev_extensions e) [''sync_revision'', ''revision'', ''commit_sha'']) \<and>
    xc_change_id (derive_primary_change es) \<noteq> []"
proof -
  obtain e es' where es: "es = e # es'" using assms by (cases es) auto
  define v where "v = empty_view\<lparr>xc_application := ev_subject e,
      xc_cluster := extension_string (ev_extensions e) ''cluster'',
      xc_namespace := extension_string (ev_extensions e) ''namespace'', xc_result := ''unknown''\<rparr>"
  define w where "w = foldl export_view_step v es"
  have d: "derive_primary_change es = w\<lparr>xc_change_id := or_else (xc_change_id w)
      (''chg_'' @ stable_hash (xc_application w @ '':'' @ xc_cluster w @ '':'' @ xc_namespace w @ '':'' @ xc_revision w)),
      xc_degradation := Some [(''observed'', GBool False)]\<rparr>"
    unfolding w_def v_def derive_primary_change_def by (simp add: es Let_def del: foldl_Cons)
  have "xc_revision v = []" "xc_result v = ''unknown''" by (simp_all add: v_def empty_view_def)
  then show ?thesis
    by (simp add: d) (simp add: w_def export_view_steps foldl_export_result first_value_find or_else_def)
qed


lemma export_view_fields_witness:
  "xc_result (derive_primary_change [(sample_event ''a'' 5)\<lparr>ev_type := ''sync.failed''\<rparr>, sample_event ''b'' 7]) = ''failed''"
proof -
  have "says_failed ((sample_event ''a'' 5)\<lparr>ev_type := ''sync.failed''\<rparr>)" unfolding says_failed_def by code_simp
  then show ?thesis
    using export_view_fields [of "[(sample_event ''a'' 5)\<lparr>ev_type := ''sync.failed''\<rparr>, sample_event ''b'' 7]"] by simp
qed

end
