(* ===== verification/Store_SQL.thy ===== *)
theory Store_SQL
  imports Repository
begin

text \<open>
  The SQL repository of \<open>internal/store/sql.go\<close>: the texts and parameters of its statements, the
  reading of rows, and every operation. The driver and the database behind \<open>database/sql\<close> are the
  record \<open>sql_db\<close> of operations on a state. A statement is a text with its parameters; a row is a
  list of driver values. The text in \<open>ErrBackend\<close> is the driver's where the error is the driver's,
  and a short label otherwise.
\<close>

subsection \<open>The database\<close>

datatype sql_value = SqlNull | SqlText string | SqlBytes string | SqlInt int | SqlTime time

type_synonym sql_row = "sql_value list"

text \<open>
  \<open>db_commit\<close> gets the state at the beginning of the transaction and the state in it; the deferred
  rollback drops the latter when the transaction is left without a commit.
\<close>

record 'd sql_db =
  db_begin :: "'d \<Rightarrow> string option"
  db_query :: "string \<Rightarrow> sql_value list \<Rightarrow> 'd \<Rightarrow> string + sql_row list"
  db_exec :: "string \<Rightarrow> sql_value list \<Rightarrow> 'd \<Rightarrow> (string + int) \<times> 'd"
  db_commit :: "'d \<Rightarrow> 'd \<Rightarrow> string option \<times> 'd"

record 'd sql_repo =
  sr_db :: "'d sql_db"
  sr_dialect :: string

definition new_sql_repository :: "'d sql_db option \<Rightarrow> string \<Rightarrow> string + 'd sql_repo" where
  "new_sql_repository db dialect =
     (case db of
        None \<Rightarrow> Inl ''nil db''
      | Some db \<Rightarrow>
          (let d = to_lower (trim_space dialect) in
           if d = [] then Inl ''empty dialect''
           else if d \<noteq> ''postgres'' \<and> d \<noteq> ''sqlite'' then Inl (''unsupported dialect: '' @ dialect)
           else Inr \<lparr>sr_db = db, sr_dialect = d\<rparr>))"

subsection \<open>Texts of statements\<close>

definition ph :: "'d sql_repo \<Rightarrow> nat \<Rightarrow> string" where
  "ph r n = (if sr_dialect r = ''postgres'' then CHR ''$'' # show_int (int n) else ''?'')"

text \<open>A text in single quotes.\<close>

definition sql_quoted :: "string \<Rightarrow> string" where
  "sql_quoted s = CHR 0x27 # s @ [CHR 0x27]"

definition dialect_expr_key :: "'d sql_repo \<Rightarrow> string \<Rightarrow> string \<Rightarrow> string" where
  "dialect_expr_key r col k =
     (if sr_dialect r = ''postgres'' then col @ ''->>'' @ sql_quoted k
      else ''json_extract('' @ col @ '', '' @ sql_quoted (''$.'' @ k) @ '')'')"

definition dialect_coalesce :: "'d sql_repo \<Rightarrow> string \<Rightarrow> string \<Rightarrow> string \<Rightarrow> string" where
  "dialect_coalesce r col k fallback =
     ''COALESCE('' @ dialect_expr_key r col k @ '', '' @ sql_quoted fallback @ '')''"

definition ts_value :: "'d sql_repo \<Rightarrow> time \<Rightarrow> sql_value" where
  "ts_value r t = (if sr_dialect r = ''sqlite'' then SqlText (format_rfc3339nano t) else SqlTime t)"

definition nullable :: "string \<Rightarrow> sql_value" where
  "nullable s = (if trim_space s = [] then SqlNull else SqlText s)"

definition is_key_char :: "char \<Rightarrow> bool" where
  "is_key_char c \<longleftrightarrow>
     (let n = of_char c :: int in
      97 \<le> n \<and> n \<le> 122 \<or> 65 \<le> n \<and> n \<le> 90 \<or> 48 \<le> n \<and> n \<le> 57 \<or> c = CHR ''_'' \<or> c = CHR ''-'')"

definition is_valid_extension_key :: "string \<Rightarrow> bool" where
  "is_valid_extension_key k \<longleftrightarrow> list_all is_key_char k \<and> k \<noteq> []"

definition sanitize_key :: "string \<Rightarrow> string" where
  "sanitize_key k = k"

definition event_columns :: string where
  "event_columns = ''id, type, source, subject, event_time, extensions, data, integrity_hash, ingested_at''"

definition event_columns_e :: string where
  "event_columns_e = ''e.id, e.type, e.source, e.subject, e.event_time, e.extensions, e.data, e.integrity_hash, e.ingested_at''"

definition insert_event_sql :: "'d sql_repo \<Rightarrow> string" where
  "insert_event_sql r =
     ''INSERT INTO events (id, type, source, subject, event_time, extensions, data, integrity_hash) VALUES ('' @
     join_with '','' (map (ph r) [1..<9]) @ '')''"

definition get_event_sql :: "'d sql_repo \<Rightarrow> string" where
  "get_event_sql r = ''SELECT '' @ event_columns @ '' FROM events WHERE id = '' @ ph r 1"

type_synonym statement = "string \<times> sql_value list"

text \<open>A piece of text with a placeholder for one more parameter.\<close>

definition emit :: "'d sql_repo \<Rightarrow> string \<Rightarrow> sql_value \<Rightarrow> string \<Rightarrow> statement \<Rightarrow> statement" where
  "emit r before v after b =
     (case b of (t, ps) \<Rightarrow> (t @ before @ ph r (length ps + 1) @ after, ps @ [v]))"

definition emit_if :: "bool \<Rightarrow> 'd sql_repo \<Rightarrow> string \<Rightarrow> sql_value \<Rightarrow> statement \<Rightarrow> statement" where
  "emit_if c r before v b = (if c then emit r before v [] b else b)"

definition supporting_clause :: "'d sql_repo \<Rightarrow> string" where
  "supporting_clause r =
     (if sr_dialect r = ''postgres''
      then '' AND COALESCE(e.extensions->>'' @ sql_quoted ''supporting_observation'' @ '', '' @ sql_quoted ''false'' @
           '') != '' @ sql_quoted ''true''
      else '' AND COALESCE(json_extract(e.extensions, '' @ sql_quoted ''$.supporting_observation'' @ ''), 0) = 0'')"

definition emit_supporting :: "bool \<Rightarrow> 'd sql_repo \<Rightarrow> statement \<Rightarrow> statement" where
  "emit_supporting c r b = (if c then b else (fst b @ supporting_clause r, snd b))"

definition cursor_clause :: "'d sql_repo \<Rightarrow> time \<Rightarrow> string \<Rightarrow> statement \<Rightarrow> statement" where
  "cursor_clause r ts i b =
     (if is_zero ts then b
      else emit r '' AND e.id > '' (SqlText i) ''))''
        (emit r '' OR (e.event_time = '' (ts_value r ts) []
          (emit r '' AND (e.event_time > '' (ts_value r ts) [] b)))"

definition timeline_sql :: "'d sql_repo \<Rightarrow> timeline_query \<Rightarrow> int \<Rightarrow> time \<Rightarrow> string \<Rightarrow> statement" where
  "timeline_sql r q limit ts i =
     (let b = (''SELECT '' @ event_columns_e @ '' FROM events e WHERE 1=1'', []);
          b = emit_if (\<not> is_zero (tq_from q)) r '' AND e.event_time >= '' (ts_value r (tq_from q)) b;
          b = emit_if (\<not> is_zero (tq_to q)) r '' AND e.event_time <= '' (ts_value r (tq_to q)) b;
          b = emit_if (tq_subject q \<noteq> []) r '' AND e.subject = '' (SqlText (tq_subject q)) b;
          b = emit_if (tq_subject q \<noteq> [] \<and> tq_cluster q \<noteq> []) r
                ('' AND '' @ dialect_expr_key r ''e.extensions'' ''cluster'' @ '' = '') (SqlText (tq_cluster q)) b;
          b = emit_if (tq_subject q \<noteq> [] \<and> tq_namespace q \<noteq> []) r
                ('' AND '' @ dialect_expr_key r ''e.extensions'' ''namespace'' @ '' = '') (SqlText (tq_namespace q)) b;
          b = emit_if (tq_source q \<noteq> []) r '' AND e.source = '' (SqlText (tq_source q)) b;
          b = emit_if (tq_type q \<noteq> []) r '' AND e.type = '' (SqlText (tq_type q)) b;
          b = emit_if (tq_corr_key q \<noteq> [] \<and> tq_corr_value q \<noteq> []) r
                ('' AND '' @ dialect_expr_key r ''e.extensions'' (sanitize_key (tq_corr_key q)) @ '' = '')
                (SqlText (tq_corr_value q)) b;
          b = emit_supporting (tq_supporting q) r b;
          b = cursor_clause r ts i b
      in emit r '' ORDER BY e.event_time ASC, e.id ASC LIMIT '' (SqlInt (limit + 1)) [] b)"

definition list_subjects_sql :: "'d sql_repo \<Rightarrow> string" where
  "list_subjects_sql r =
     ''SELECT DISTINCT subject, '' @ dialect_coalesce r ''extensions'' ''cluster'' [] @ '', '' @
     dialect_coalesce r ''extensions'' ''namespace'' [] @
     '' FROM events WHERE subject IS NOT NULL ORDER BY 1, 2, 3''"

definition events_by_extension_sql :: "'d sql_repo \<Rightarrow> string \<Rightarrow> string \<Rightarrow> int \<Rightarrow> statement" where
  "events_by_extension_sql r k v limit =
     (if sr_dialect r = ''postgres''
      then (''SELECT '' @ event_columns_e @ '' FROM events e WHERE e.extensions @> '' @ ph r 1 @
              ''::jsonb ORDER BY e.event_time ASC, e.id ASC LIMIT '' @ ph r 2,
            [SqlText (marshal (GObj [(k, GStr v)])), SqlInt limit])
      else (''SELECT '' @ event_columns_e @ '' FROM events e WHERE json_extract(e.extensions, '' @
              sql_quoted (''$.'' @ sanitize_key k) @ '') = '' @ ph r 1 @
              '' ORDER BY e.event_time ASC, e.id ASC LIMIT '' @ ph r 2,
            [SqlText v, SqlInt limit]))"

definition create_export_sql :: "'d sql_repo \<Rightarrow> string" where
  "create_export_sql r =
     ''INSERT INTO exports (id, status, format, filter_json) VALUES ('' @ join_with '','' (map (ph r) [1..<5]) @ '')''"

definition set_export_sql :: "'d sql_repo \<Rightarrow> string \<Rightarrow> string" where
  "set_export_sql r col =
     ''UPDATE exports SET status = '' @ ph r 1 @ '', '' @ col @ '' = '' @ ph r 2 @ '', completed_at = '' @ ph r 3 @
     '' WHERE id = '' @ ph r 4"

definition get_export_sql :: "'d sql_repo \<Rightarrow> string" where
  "get_export_sql r =
     ''SELECT id, status, format, filter_json, artifact_uri, error_message, created_at, completed_at FROM exports WHERE id = '' @
     ph r 1"

subsection \<open>Reading rows\<close>

text \<open>\<open>Scan\<close> into a string: what the driver value is converted to.\<close>

definition scan_string :: "sql_value \<Rightarrow> string option" where
  "scan_string v =
     (case v of SqlText s \<Rightarrow> Some s | SqlBytes s \<Rightarrow> Some s | SqlInt i \<Rightarrow> Some (show_int i)
      | SqlTime t \<Rightarrow> Some (format_rfc3339nano t) | SqlNull \<Rightarrow> None)"

definition scan_null_string :: "sql_value \<Rightarrow> string" where
  "scan_null_string v = (case scan_string v of None \<Rightarrow> [] | Some s \<Rightarrow> s)"

definition bytes_from :: "sql_value \<Rightarrow> string" where
  "bytes_from v = (case v of SqlBytes s \<Rightarrow> s | SqlText s \<Rightarrow> s | _ \<Rightarrow> [])"

text \<open>The layouts in order: the two of RFC 3339, then a blank between date and time, with an offset or without.\<close>

definition parse_time_string :: "string \<Rightarrow> time option" where
  "parse_time_string s =
     (let s = trim_space s in
      if s = [] then Some 0
      else (case parse_rfc3339 s of
              Some t \<Rightarrow> Some t
            | None \<Rightarrow>
                (case parse_date_time_with True (CHR '' '') (take_offset True) s of
                   Some t \<Rightarrow> Some t
                 | None \<Rightarrow> parse_date_time_with True (CHR '' '') (\<lambda>r. if r = [] then Some 0 else None) s)))"

definition parse_time_raw :: "sql_value \<Rightarrow> time option" where
  "parse_time_raw v =
     (case v of SqlTime t \<Rightarrow> Some t | SqlBytes s \<Rightarrow> parse_time_string s | SqlText s \<Rightarrow> parse_time_string s
      | SqlNull \<Rightarrow> Some 0 | SqlInt _ \<Rightarrow> None)"

definition scan_extensions :: "sql_value \<Rightarrow> (string \<times> gval) list option" where
  "scan_extensions v =
     (let b = bytes_from v in if b \<noteq> [] \<and> b \<noteq> ''{}'' then unmarshal_map b else Some [])"

definition scan_event_row :: "sql_row \<Rightarrow> store_error + stored_event" where
  "scan_event_row row =
     (case row of
        [i, ty, so, su, ts, ext, dat, hash, ing] \<Rightarrow>
          (case (scan_string i, scan_string ty, scan_string so, scan_string hash) of
             (Some i, Some ty, Some so, Some hash) \<Rightarrow>
               (case parse_time_raw ts of
                  None \<Rightarrow> Inl (ErrBackend ''time'')
                | Some t \<Rightarrow>
                    (case scan_extensions ext of
                       None \<Rightarrow> Inl (ErrBackend ''extensions'')
                     | Some m \<Rightarrow>
                         (case parse_time_raw ing of
                            None \<Rightarrow> Inl (ErrBackend ''time'')
                          | Some it \<Rightarrow>
                              Inr \<lparr>ev_id = i, ev_type = ty, ev_source = so, ev_subject = scan_null_string su,
                                   ev_time = t, ev_extensions = m, ev_data = bytes_from dat, ev_hash = hash,
                                   ev_ingested = it\<rparr>)))
           | _ \<Rightarrow> Inl (ErrBackend ''scan''))
      | _ \<Rightarrow> Inl (ErrBackend ''scan''))"

fun scan_event_rows :: "sql_row list \<Rightarrow> store_error + stored_event list" where
  "scan_event_rows [] = Inr []"
| "scan_event_rows (row # rows) =
     (case scan_event_row row of
        Inl err \<Rightarrow> Inl err
      | Inr e \<Rightarrow> (case scan_event_rows rows of Inl err \<Rightarrow> Inl err | Inr es \<Rightarrow> Inr (e # es)))"

text \<open>\<open>QueryRow\<close> takes the first row; none is \<open>sql.ErrNoRows\<close>.\<close>

definition query_event :: "'d sql_repo \<Rightarrow> string \<Rightarrow> 'd \<Rightarrow> store_error + stored_event option" where
  "query_event r i d =
     (case db_query (sr_db r) (get_event_sql r) [SqlText i] d of
        Inl m \<Rightarrow> Inl (ErrBackend m)
      | Inr [] \<Rightarrow> Inr None
      | Inr (row # _) \<Rightarrow> (case scan_event_row row of Inl err \<Rightarrow> Inl err | Inr e \<Rightarrow> Inr (Some e)))"

subsection \<open>Operations on events\<close>

definition insert_params :: "'d sql_repo \<Rightarrow> stored_event \<Rightarrow> sql_value list" where
  "insert_params r e =
     [SqlText (ev_id e), SqlText (ev_type e), SqlText (ev_source e), nullable (ev_subject e),
      ts_value r (ev_time e), SqlText (marshal (GObj (ev_extensions e))),
      SqlText (if ev_data e = [] then ''{}'' else ev_data e), SqlText (ev_hash e)]"

definition sql_ingest_event ::
    "'d sql_repo \<Rightarrow> time \<Rightarrow> stored_event \<Rightarrow> 'd \<Rightarrow> (store_error + ingest_status \<times> time) \<times> 'd" where
  "sql_ingest_event r now e d =
     (if \<not> validate_stored_event e then (Inl ErrInvalidInput, d)
      else (case with_hash e of
        Inl err \<Rightarrow> (Inl err, d)
      | Inr e \<Rightarrow>
          (case db_begin (sr_db r) d of
             Some m \<Rightarrow> (Inl (ErrBackend m), d)
           | None \<Rightarrow>
               (case query_event r (ev_id e) d of
                  Inl err \<Rightarrow> (Inl err, d)
                | Inr (Some existing) \<Rightarrow>
                    (if ev_hash existing = ev_hash e then
                       (case db_commit (sr_db r) d d of
                          (Some m, d) \<Rightarrow> (Inl (ErrBackend m), d)
                        | (None, d) \<Rightarrow> (Inr (IngestDuplicate, ev_ingested existing), d))
                     else (Inl ErrConflict, d))
                | Inr None \<Rightarrow>
                    (case db_exec (sr_db r) (insert_event_sql r) (insert_params r e) d of
                       (Inl m, _) \<Rightarrow> (Inl (ErrBackend m), d)
                     | (Inr _, d') \<Rightarrow>
                         (case db_commit (sr_db r) d d' of
                            (Some m, d) \<Rightarrow> (Inl (ErrBackend m), d)
                          | (None, d) \<Rightarrow> (Inr (IngestAccepted, now), d)))))))"

definition sql_get_event :: "'d sql_repo \<Rightarrow> string \<Rightarrow> 'd \<Rightarrow> store_error + stored_event" where
  "sql_get_event r i d =
     (case query_event r i d of
        Inl err \<Rightarrow> Inl err | Inr None \<Rightarrow> Inl ErrNotFound | Inr (Some e) \<Rightarrow> Inr e)"

definition sql_query_timeline :: "'d sql_repo \<Rightarrow> timeline_query \<Rightarrow> 'd \<Rightarrow> store_error + timeline_result" where
  "sql_query_timeline r q d =
     (let limit = clamp_limit (tq_limit q) in
      case decode_cursor (tq_cursor q) of
        Inl err \<Rightarrow> Inl err
      | Inr (ts, i) \<Rightarrow>
          (case timeline_sql r q limit ts i of (text, params) \<Rightarrow>
            (case db_query (sr_db r) text params d of
               Inl m \<Rightarrow> Inl (ErrBackend m)
             | Inr rows \<Rightarrow>
                 (case scan_event_rows rows of
                    Inl err \<Rightarrow> Inl err
                  | Inr items \<Rightarrow> Inr (timeline_page limit items)))))"

definition scan_subject_row :: "sql_row \<Rightarrow> subject_info option" where
  "scan_subject_row row =
     (case row of
        [s, c, n] \<Rightarrow>
          (case (scan_string s, scan_string c, scan_string n) of
             (Some s, Some c, Some n) \<Rightarrow> Some \<lparr>si_subject = s, si_cluster = c, si_namespace = n\<rparr>
           | _ \<Rightarrow> None)
      | _ \<Rightarrow> None)"

definition sql_list_subjects :: "'d sql_repo \<Rightarrow> 'd \<Rightarrow> store_error + subject_info list" where
  "sql_list_subjects r d =
     (case db_query (sr_db r) (list_subjects_sql r) [] d of
        Inl m \<Rightarrow> Inl (ErrBackend m)
      | Inr rows \<Rightarrow>
          (case those (map scan_subject_row rows) of None \<Rightarrow> Inl (ErrBackend ''scan'') | Some xs \<Rightarrow> Inr xs))"

definition sql_events_by_extension ::
    "'d sql_repo \<Rightarrow> string \<Rightarrow> string \<Rightarrow> int \<Rightarrow> 'd \<Rightarrow> store_error + stored_event list" where
  "sql_events_by_extension r k v limit d =
     (if k = [] \<or> v = [] then Inl ErrInvalidInput
      else if \<not> is_valid_extension_key k then Inl ErrInvalidInput
      else
        (case events_by_extension_sql r k v (if limit \<le> 0 then 100 else limit) of (text, params) \<Rightarrow>
          (case db_query (sr_db r) text params d of
             Inl m \<Rightarrow> Inl (ErrBackend m) | Inr rows \<Rightarrow> scan_event_rows rows)))"

definition sql_delete_event :: "'d sql_repo \<Rightarrow> string \<Rightarrow> 'd \<Rightarrow> store_error option \<times> 'd" where
  "sql_delete_event r i d = (Some ErrAppendOnly, d)"

subsection \<open>Operations on exports\<close>

definition scan_export_row :: "sql_row \<Rightarrow> store_error + export_job" where
  "scan_export_row row =
     (case row of
        [i, st, fmt, flt, art, msg, created, completed] \<Rightarrow>
          (case (scan_string i, scan_string st, scan_string fmt) of
             (Some i, Some st, Some fmt) \<Rightarrow>
               (case (if bytes_from flt \<noteq> [] then unmarshal_map (bytes_from flt) else Some []) of
                  None \<Rightarrow> Inl (ErrBackend ''filter'')
                | Some m \<Rightarrow>
                    (case parse_time_raw created of
                       None \<Rightarrow> Inl (ErrBackend ''time'')
                     | Some c \<Rightarrow>
                         Inr \<lparr>ej_id = i, ej_status = st, ej_format = fmt, ej_filter = m,
                              ej_artifact = scan_null_string art, ej_error = scan_null_string msg,
                              ej_created = c,
                              ej_completed =
                                (case (if completed = SqlNull then None else parse_time_raw completed) of
                                   Some t \<Rightarrow> if is_zero t then None else Some t
                                 | None \<Rightarrow> None)\<rparr>))
           | _ \<Rightarrow> Inl (ErrBackend ''scan''))
      | _ \<Rightarrow> Inl (ErrBackend ''scan''))"

definition sql_get_export :: "'d sql_repo \<Rightarrow> string \<Rightarrow> 'd \<Rightarrow> store_error + export_job" where
  "sql_get_export r i d =
     (case db_query (sr_db r) (get_export_sql r) [SqlText i] d of
        Inl m \<Rightarrow> Inl (ErrBackend m)
      | Inr [] \<Rightarrow> Inl ErrNotFound
      | Inr (row # _) \<Rightarrow> scan_export_row row)"

definition sql_create_export ::
    "'d sql_repo \<Rightarrow> time \<Rightarrow> string \<Rightarrow> (string \<times> gval) list \<Rightarrow> 'd \<Rightarrow> (store_error + export_job) \<times> 'd" where
  "sql_create_export r now format flt d =
     (let format = (if format = [] then ''json'' else format);
          i = ''exp_'' @ show_int (unix_nano now)
      in case db_exec (sr_db r) (create_export_sql r)
                [SqlText i, SqlText ''pending'', SqlText format, SqlText (marshal (GObj flt))] d of
           (Inl m, d) \<Rightarrow> (Inl (ErrBackend m), d)
         | (Inr _, d) \<Rightarrow> (sql_get_export r i d, d))"

definition sql_set_export ::
    "'d sql_repo \<Rightarrow> string \<Rightarrow> string \<Rightarrow> time \<Rightarrow> string \<Rightarrow> string \<Rightarrow> 'd \<Rightarrow> store_error option \<times> 'd" where
  "sql_set_export r status col now i v d =
     (case db_exec (sr_db r) (set_export_sql r col) [SqlText status, SqlText v, ts_value r now, SqlText i] d of
        (Inl m, d) \<Rightarrow> (Some (ErrBackend m), d)
      | (Inr affected, d) \<Rightarrow> (if affected = 0 then Some ErrNotFound else None, d))"

definition sql_set_export_completed ::
    "'d sql_repo \<Rightarrow> time \<Rightarrow> string \<Rightarrow> string \<Rightarrow> 'd \<Rightarrow> store_error option \<times> 'd" where
  "sql_set_export_completed r now i uri d = sql_set_export r ''completed'' ''artifact_uri'' now i uri d"

definition sql_set_export_failed ::
    "'d sql_repo \<Rightarrow> time \<Rightarrow> string \<Rightarrow> string \<Rightarrow> 'd \<Rightarrow> store_error option \<times> 'd" where
  "sql_set_export_failed r now i msg d = sql_set_export r ''failed'' ''error_message'' now i msg d"

text \<open>The repository as the service sees it.\<close>

definition sql_repository :: "'d sql_repo \<Rightarrow> 'd repository" where
  "sql_repository r =
     \<lparr>repo_ingest = sql_ingest_event r, repo_get_event = sql_get_event r,
      repo_timeline = sql_query_timeline r, repo_subjects = sql_list_subjects r,
      repo_by_extension = sql_events_by_extension r, repo_create_export = sql_create_export r,
      repo_set_completed = sql_set_export_completed r, repo_set_failed = sql_set_export_failed r,
      repo_get_export = sql_get_export r, repo_delete = sql_delete_event r\<rparr>"

end
