(* ===== verification/Store_SQL_Facts.thy ===== *)
theory Store_SQL_Facts
  imports Store_SQL
begin

text \<open>
  What the SQL repository promises: which parts of a query can reach the text of a statement, that
  placeholders and parameters correspond, that rows are read back as they were written; and that
  both repositories implement the same abstract append-only \<open>ledger\<close> from event ids to hashes. What
  is assumed of the database is the locale \<open>sql_events\<close>: the documented behaviour of the two
  statements on the events table and of transactions.
\<close>

subsection \<open>What a statement depends on\<close>

definition same_text :: "statement \<Rightarrow> statement \<Rightarrow> bool" where
  "same_text b b' \<longleftrightarrow> fst b = fst b' \<and> length (snd b) = length (snd b')"

lemma same_text_refl [simp]: "same_text b b"
  by (simp add: same_text_def)

lemma same_text_emit: "same_text b b' \<Longrightarrow> same_text (emit r x v y b) (emit r x v' y b')"
  by (cases b; cases b') (simp add: same_text_def emit_def)

lemma same_text_emit_if: "same_text b b' \<Longrightarrow> c = c' \<Longrightarrow> same_text (emit_if c r x v b) (emit_if c' r x v' b')"
  by (simp add: emit_if_def same_text_emit)

lemma same_text_supporting:
  "same_text b b' \<Longrightarrow> c = c' \<Longrightarrow> same_text (emit_supporting c r b) (emit_supporting c' r b')"
  by (simp add: same_text_def emit_supporting_def)

lemma same_text_cursor:
  "same_text b b' \<Longrightarrow> is_zero ts = is_zero ts' \<Longrightarrow> same_text (cursor_clause r ts i b) (cursor_clause r ts' i' b')"
  by (simp add: cursor_clause_def same_text_emit)

text \<open>Which filters a query sets, and the key of its correlation filter.\<close>

definition query_shape :: "timeline_query \<Rightarrow> bool list \<times> string" where
  "query_shape q =
     ([is_zero (tq_from q), is_zero (tq_to q), tq_subject q = [], tq_cluster q = [], tq_namespace q = [],
       tq_source q = [], tq_type q = [], tq_corr_key q = [] \<or> tq_corr_value q = [], tq_supporting q],
      if tq_corr_value q = [] then [] else tq_corr_key q)"

lemma timeline_sql_same_text:
  assumes "query_shape q = query_shape q'" "is_zero ts = is_zero ts'"
  shows "same_text (timeline_sql r q limit ts i) (timeline_sql r q' limit' ts' i')"
proof -
  have s: "is_zero (tq_from q) = is_zero (tq_from q')" "is_zero (tq_to q) = is_zero (tq_to q')"
    "(tq_subject q = []) = (tq_subject q' = [])" "(tq_cluster q = []) = (tq_cluster q' = [])"
    "(tq_namespace q = []) = (tq_namespace q' = [])" "(tq_source q = []) = (tq_source q' = [])"
    "(tq_type q = []) = (tq_type q' = [])" "tq_supporting q = tq_supporting q'"
    "(tq_corr_key q \<noteq> [] \<and> tq_corr_value q \<noteq> []) = (tq_corr_key q' \<noteq> [] \<and> tq_corr_value q' \<noteq> [])"
    "tq_corr_key q \<noteq> [] \<and> tq_corr_value q \<noteq> [] \<Longrightarrow> tq_corr_key q = tq_corr_key q'"
    using assms(1) by (auto simp: query_shape_def split: if_splits)
  have corr: "same_text b b' \<Longrightarrow> same_text
      (emit_if (tq_corr_key q \<noteq> [] \<and> tq_corr_value q \<noteq> []) r (f (tq_corr_key q)) v b)
      (emit_if (tq_corr_key q' \<noteq> [] \<and> tq_corr_value q' \<noteq> []) r (f (tq_corr_key q')) v' b')" for f v v' b b'
    using s(9,10) by (auto simp: emit_if_def same_text_emit)
  show ?thesis
    unfolding timeline_sql_def Let_def
    by (rule same_text_emit same_text_cursor same_text_supporting corr [of _ _ "\<lambda>k. '' AND '' @ dialect_expr_key r ''e.extensions'' (sanitize_key k) @ '' = ''"]
        same_text_emit_if same_text_refl assms(2) s(8) | (simp only: s; fail))+
qed

subsection \<open>Placeholders\<close>

text \<open>Pieces of text with the placeholders \<open>n\<close>, \<open>n + 1\<close>, \dots between them.\<close>

fun weave :: "'d sql_repo \<Rightarrow> nat \<Rightarrow> string list \<Rightarrow> string" where
  "weave r n [] = []"
| "weave r n [p] = p"
| "weave r n (p # p' # ps) = p @ ph r n @ weave r (Suc n) (p' # ps)"

lemma weave_last: "weave r n (ps @ [p]) @ x = weave r n (ps @ [p @ x])"
proof (induction ps arbitrary: n)
  case (Cons a ps)
  then show ?case by (cases ps) simp_all
qed simp

lemma weave_snoc: "weave r n (ps @ [p, x]) = weave r n (ps @ [p]) @ ph r (n + length ps) @ x"
proof (induction ps arbitrary: n)
  case (Cons a ps)
  then show ?case by (cases ps) simp_all
qed simp

definition marker :: "'d sql_repo \<Rightarrow> char" where
  "marker r = (if sr_dialect r = ''postgres'' then CHR ''$'' else CHR ''?'')"

definition clean :: "'d sql_repo \<Rightarrow> string \<Rightarrow> bool" where
  "clean r p \<longleftrightarrow> marker r \<notin> set p"

definition numbered :: "'d sql_repo \<Rightarrow> statement \<Rightarrow> bool" where
  "numbered r b \<longleftrightarrow>
     (\<exists>ps. length ps = length (snd b) + 1 \<and> list_all (clean r) ps \<and> fst b = weave r 1 ps)"

lemma numbered_emit:
  assumes "numbered r b" "clean r x" "clean r y"
  shows "numbered r (emit r x v y b)"
proof -
  obtain ps where ps: "length ps = length (snd b) + 1" "list_all (clean r) ps" "fst b = weave r 1 ps"
    using assms(1) by (auto simp: numbered_def)
  from ps(1) obtain qs p where qs: "ps = qs @ [p]" "length qs = length (snd b)"
    by (cases ps rule: rev_cases) auto
  have "fst (emit r x v y b) = weave r 1 (qs @ [p @ x]) @ ph r (1 + length qs) @ y"
    using ps(3) qs by (cases b) (simp add: emit_def weave_last [symmetric])
  then have "fst (emit r x v y b) = weave r 1 (qs @ [p @ x, y])" by (simp add: weave_snoc)
  moreover have "list_all (clean r) (qs @ [p @ x, y])"
    using ps(2) qs assms(2,3) by (auto simp: clean_def)
  moreover have "length (qs @ [p @ x, y]) = length (snd (emit r x v y b)) + 1"
    using qs by (cases b) (simp add: emit_def)
  ultimately show ?thesis unfolding numbered_def by blast
qed

lemma numbered_append:
  assumes "numbered r b" "clean r x"
  shows "numbered r (fst b @ x, snd b)"
proof -
  obtain ps where ps: "length ps = length (snd b) + 1" "list_all (clean r) ps" "fst b = weave r 1 ps"
    using assms(1) by (auto simp: numbered_def)
  from ps(1) obtain qs p where qs: "ps = qs @ [p]" by (cases ps rule: rev_cases) auto
  then have "fst b @ x = weave r 1 (qs @ [p @ x])" using ps(3) by (simp add: weave_last)
  moreover have "list_all (clean r) (qs @ [p @ x])" "length (qs @ [p @ x]) = length (snd b) + 1"
    using ps qs assms(2) by (auto simp: clean_def)
  ultimately show ?thesis unfolding numbered_def by (intro exI [of _ "qs @ [p @ x]"]) simp
qed

lemma numbered_emit_if: "numbered r b \<Longrightarrow> clean r x \<Longrightarrow> numbered r (emit_if c r x v b)"
  by (simp add: emit_if_def numbered_emit clean_def)

lemma clean_literal: "clean r (a @ b) \<longleftrightarrow> clean r a \<and> clean r b" "clean r []"
  by (auto simp: clean_def)

lemma clean_expr_key:
  "clean r k \<Longrightarrow> clean r ('' AND '' @ dialect_expr_key r ''e.extensions'' k @ '' = '')"
  by (cases "sr_dialect r = ''postgres''") (simp_all add: clean_def marker_def dialect_expr_key_def sql_quoted_def)

lemma timeline_sql_numbered:
  assumes "clean r (tq_corr_key q)"
  shows "numbered r (timeline_sql r q limit ts i)"
proof -
  have base: "numbered r (''SELECT '' @ event_columns_e @ '' FROM events e WHERE 1=1'', [])"
    unfolding numbered_def
    by (rule exI [of _ "[''SELECT '' @ event_columns_e @ '' FROM events e WHERE 1=1'']"])
      (simp add: clean_def marker_def event_columns_e_def)
  have lits: "clean r '' AND e.event_time >= ''" "clean r '' AND e.event_time <= ''" "clean r '' AND e.subject = ''"
    "clean r '' AND e.source = ''" "clean r '' AND e.type = ''" "clean r '' AND e.id > ''"
    "clean r '' OR (e.event_time = ''" "clean r '' AND (e.event_time > ''" "clean r ''))''"
    "clean r '' ORDER BY e.event_time ASC, e.id ASC LIMIT ''" "clean r ''cluster''" "clean r ''namespace''" "clean r []"
    by (simp_all add: clean_def marker_def)
  have "clean r (supporting_clause r)"
    by (simp add: clean_def marker_def supporting_clause_def sql_quoted_def)
  then have sup: "numbered r b \<Longrightarrow> numbered r (emit_supporting c r b)" for c b
    by (simp add: emit_supporting_def numbered_append)
  have cur: "numbered r b \<Longrightarrow> numbered r (cursor_clause r ts i b)" for b
    by (simp add: cursor_clause_def numbered_emit lits)
  show ?thesis
    unfolding timeline_sql_def Let_def sanitize_key_def
    by (rule numbered_emit cur numbered_emit_if sup lits clean_expr_key assms base)+
qed

subsection \<open>Rows are read back\<close>

lemma parse_rfc3339_digit: "parse_rfc3339 s = Some t \<Longrightarrow> s \<noteq> [] \<and> is_digit (hd s)"
  by (cases s) (auto simp: parse_rfc3339_def parse_date_time_with_def take_uint_def split: bind_splits if_splits)

lemma plain_digit: "is_digit c \<Longrightarrow> plain_char c"
proof -
  assume "is_digit c"
  then have "(48 :: int) \<le> of_char c" "(of_char c :: int) \<le> 57" by (simp_all add: is_digit_def)
  moreover have "(of_char c :: int) = int (of_char c)" by (simp add: of_char_def)
  ultimately show ?thesis unfolding plain_char_def by linarith
qed

lemma trim_format_time:
  assumes "time_ok t"
  shows "trim_space (format_rfc3339nano t) = format_rfc3339nano t"
proof (rule trim_space_plain)
  note d = parse_rfc3339_digit [OF parse_format_rfc3339nano(1) [OF assms]]
  then show "format_rfc3339nano t \<noteq> []" "plain_char (hd (format_rfc3339nano t))" by (auto intro: plain_digit)
  show "plain_char (last (format_rfc3339nano t))" by (simp add: format_rfc3339nano_def plain_char_def)
qed

lemma parse_ts_value: "time_ok t \<Longrightarrow> parse_time_raw (ts_value r t) = Some t"
  using parse_format_rfc3339nano(1) [of t] trim_format_time [of t]
  by (auto simp: ts_value_def parse_time_raw_def parse_time_string_def format_rfc3339nano_def)

definition storable :: "stored_event \<Rightarrow> bool" where
  "storable e \<longleftrightarrow> time_ok (ev_time e) \<and> ev_data e \<noteq> [] \<and> json_plain (GObj (ev_extensions e))"

text \<open>The event as the database returns it: extensions in the form of decoded JSON, a blank subject empty.\<close>

definition as_stored :: "stored_event \<Rightarrow> time \<Rightarrow> stored_event" where
  "as_stored e t = e\<lparr>ev_subject := (if trim_space (ev_subject e) = [] then [] else ev_subject e),
     ev_extensions := sort_key fst (map (map_prod (\<lambda>k. k) norm_json) (ev_extensions e)), ev_ingested := t\<rparr>"

lemma scan_insert_params:
  assumes "storable e" "parse_time_raw v = Some t"
  shows "scan_event_row (insert_params r e @ [v]) = Inr (as_stored e t)"
proof -
  let ?m = "marshal (GObj (ev_extensions e))"
  have u: "unmarshal_map ?m = Some (sort_key fst (map (map_prod (\<lambda>k. k) norm_json) (ev_extensions e)))"
    using assms(1) by (intro unmarshal_map_marshal) (simp add: storable_def)
  have "unmarshal_map ''{}'' = Some []" by code_simp
  then have "scan_extensions (SqlText ?m) = Some (sort_key fst (map (map_prod (\<lambda>k. k) norm_json) (ev_extensions e)))"
    unfolding scan_extensions_def bytes_from_def using u
    by (cases "?m = ''{}''") (simp_all add: json_object_def)
  then show ?thesis
    using assms parse_ts_value [of "ev_time e" r]
    by (simp add: scan_event_row_def insert_params_def scan_string_def scan_null_string_def
        nullable_def storable_def as_stored_def bytes_from_def del: marshal.simps)
qed


subsection \<open>The ledger\<close>

text \<open>
  The abstract specification of ingestion, for both repositories: a finite map from event ids to
  hashes that only grows.
\<close>

type_synonym ledger = "string \<rightharpoonup> string"

definition ledger_ingest :: "string \<Rightarrow> string \<Rightarrow> ledger \<Rightarrow> (store_error + ingest_status) \<times> ledger" where
  "ledger_ingest i h L =
     (case L i of
        None \<Rightarrow> (Inr IngestAccepted, L(i \<mapsto> h))
      | Some h' \<Rightarrow> (if h = h' then Inr IngestDuplicate else Inl ErrConflict, L))"

definition answer :: "(store_error + ingest_status \<times> time) \<Rightarrow> store_error + ingest_status" where
  "answer res = map_sum (\<lambda>x. x) fst res"

definition memory_ledger :: "mem_repo \<Rightarrow> ledger" where
  "memory_ledger m i = map_option ev_hash (map_of (mr_events m) i)"

definition sql_ledger :: "sql_row list \<Rightarrow> ledger" where
  "sql_ledger rows i =
     (case find (\<lambda>row. hd row = SqlText i) rows of
        None \<Rightarrow> None
      | Some row \<Rightarrow> (case scan_event_row row of Inl _ \<Rightarrow> None | Inr e \<Rightarrow> Some (ev_hash e)))"

definition rows_ok :: "sql_row list \<Rightarrow> bool" where
  "rows_ok rows \<longleftrightarrow> list_all (\<lambda>row. \<not> isl (scan_event_row row)) rows"

lemma find_filter: "find P xs = (case filter P xs of [] \<Rightarrow> None | x # _ \<Rightarrow> Some x)"
  by (induction xs) auto

lemma find_append: "find P (xs @ ys) = (case find P xs of None \<Rightarrow> find P ys | Some x \<Rightarrow> Some x)"
  by (induction xs) auto

lemma with_hash_fields:
  "with_hash e = Inr e' \<Longrightarrow> ev_id e' = ev_id e \<and> ev_time e' = ev_time e \<and> ev_data e' = ev_data e \<and>
   ev_extensions e' = ev_extensions e \<and> ev_hash e' \<noteq> []"
  by (auto simp: with_hash_def dest: compute_integrity_hash_nonempty split: if_splits sum.splits)

lemma scan_event_row_error: "scan_event_row row = Inl err \<Longrightarrow> \<exists>m. err = ErrBackend m"
  by (auto simp: scan_event_row_def split: list.splits option.splits)

lemma query_event_error: "query_event r i d = Inl err \<Longrightarrow> \<exists>m. err = ErrBackend m"
  by (auto simp: query_event_def dest: scan_event_row_error split: sum.splits list.splits)

text \<open>
  The database: \<open>rows\<close> are those of the events table. A new row has the id and the hash of the
  parameters (a JSON column may keep its value in another form) and is readable when the parameters
  are; a commit keeps what the transaction did, a failed one keeps nothing.
\<close>

locale sql_events =
  fixes r :: "'d sql_repo" and rows :: "'d \<Rightarrow> sql_row list"
  assumes select: "db_query (sr_db r) (get_event_sql r) [SqlText i] d = Inr rs \<Longrightarrow>
      rs = filter (\<lambda>row. hd row = SqlText i) (rows d)"
    and insert: "db_exec (sr_db r) (insert_event_sql r) ps d = (Inr n, d') \<Longrightarrow>
      scan_event_row (ps @ [SqlNull]) = Inr e \<Longrightarrow>
      \<exists>row e'. rows d' = rows d @ [row] \<and> hd row = hd ps \<and> scan_event_row row = Inr e' \<and> ev_hash e' = ev_hash e"
    and committed: "db_commit (sr_db r) d d' = (None, d'') \<Longrightarrow> rows d'' = rows d'"
    and rolled_back: "db_commit (sr_db r) d d' = (Some m, d'') \<Longrightarrow> rows d'' = rows d"
begin

lemma query_event_find:
  assumes "query_event r i d = Inr res"
  shows "case find (\<lambda>row. hd row = SqlText i) (rows d) of
      None \<Rightarrow> res = None
    | Some row \<Rightarrow> (\<exists>e. scan_event_row row = Inr e \<and> res = Some e)"
proof -
  obtain rs where rs: "db_query (sr_db r) (get_event_sql r) [SqlText i] d = Inr rs"
    using assms by (auto simp: query_event_def split: sum.splits)
  from select [OF rs] have "find (\<lambda>row. hd row = SqlText i) (rows d) = (case rs of [] \<Rightarrow> None | row # _ \<Rightarrow> Some row)"
    by (simp add: find_filter)
  with rs show ?thesis
    using assms by (auto simp: query_event_def split: sum.splits list.splits)
qed

lemma ingest_refines:
  assumes "validate_stored_event e" "with_hash e = Inr e'" "storable e" "rows_ok (rows d)"
    and "sql_ingest_event r now e d = (res, d')"
  shows "rows_ok (rows d') \<and>
    ((\<exists>m. res = Inl (ErrBackend m)) \<and> sql_ledger (rows d') = sql_ledger (rows d) \<or>
     (answer res, sql_ledger (rows d')) = ledger_ingest (ev_id e) (ev_hash e') (sql_ledger (rows d)))"
proof (cases "db_begin (sr_db r) d")
  case (Some m)
  then show ?thesis using assms by (auto simp: sql_ingest_event_def)
next
  case begun: None
  have i: "ev_id e' = ev_id e" and st: "storable e'"
    using with_hash_fields [OF assms(2)] assms(3) by (auto simp: storable_def)
  show ?thesis
  proof (cases "query_event r (ev_id e') d")
    case (Inl err)
    then show ?thesis using assms begun query_event_error [OF Inl] by (auto simp: sql_ingest_event_def)
  next
    case (Inr found)
    note q = query_event_find [OF Inr]
    show ?thesis
    proof (cases found)
      case (Some old)
      then have L: "sql_ledger (rows d) (ev_id e) = Some (ev_hash old)"
        using q i by (auto simp: sql_ledger_def split: option.splits)
      show ?thesis
      proof (cases "db_commit (sr_db r) d d")
        case (Pair c d'')
        then have "rows d'' = rows d" using committed rolled_back by (cases c) auto
        with Pair show ?thesis using assms begun Inr Some L
          by (cases c) (auto simp: sql_ingest_event_def ledger_ingest_def answer_def split: if_splits)
      qed
    next
      case None
      then have fresh: "find (\<lambda>row. hd row = SqlText (ev_id e)) (rows d) = None"
        using q i by (auto split: option.splits)
      then have L: "sql_ledger (rows d) (ev_id e) = None" by (simp add: sql_ledger_def)
      obtain x d1 where x: "db_exec (sr_db r) (insert_event_sql r) (insert_params r e') d = (x, d1)" by fastforce
      show ?thesis
      proof (cases x)
        case (Inl m)
        then show ?thesis using assms begun Inr None x by (auto simp: sql_ingest_event_def)
      next
        case (Inr n)
        have "scan_event_row (insert_params r e' @ [SqlNull]) = Inr (as_stored e' 0)"
          by (rule scan_insert_params [OF st]) (simp add: parse_time_raw_def)
        from insert [OF x [unfolded Inr] this] obtain row e2 where
          row: "rows d1 = rows d @ [row]" "hd row = SqlText (ev_id e)" "scan_event_row row = Inr e2"
            "ev_hash e2 = ev_hash e'"
          by (auto simp: insert_params_def as_stored_def i)
        have L1: "sql_ledger (rows d1) = (sql_ledger (rows d))(ev_id e \<mapsto> ev_hash e')"
          using fresh row by (auto simp: fun_eq_iff sql_ledger_def find_append split: option.split)
        obtain c d2 where c: "db_commit (sr_db r) d d1 = (c, d2)" by fastforce
        show ?thesis
        proof (cases c)
          case None
          then show ?thesis
            using assms begun \<open>query_event r (ev_id e') d = Inr found\<close> \<open>found = None\<close> x Inr c committed [of d d1 d2]
              L L1 row
            by (auto simp: sql_ingest_event_def ledger_ingest_def answer_def rows_ok_def)
        next
          case (Some m)
          then show ?thesis
            using assms begun \<open>query_event r (ev_id e') d = Inr found\<close> \<open>found = None\<close> x Inr c
              rolled_back [of d d1 m d2]
            by (auto simp: sql_ingest_event_def)
        qed
      qed
    qed
  qed
qed

end

lemma memory_refines:
  assumes "validate_stored_event e" "with_hash e = Inr e'"
  shows "(answer (fst (ingest_event now e m)), memory_ledger (snd (ingest_event now e m))) =
    ledger_ingest (ev_id e) (ev_hash e') (memory_ledger m)"
proof (cases "map_of (mr_events m) (ev_id e)")
  case None
  then show ?thesis
    using assms with_hash_fields [OF assms(2)]
    by (auto simp: ingest_event_def answer_def ledger_ingest_def memory_ledger_def fun_eq_iff map_of_update Let_def)
next
  case (Some old)
  then show ?thesis
    using assms with_hash_fields [OF assms(2)]
    by (simp add: ingest_event_def answer_def ledger_ingest_def memory_ledger_def fun_eq_iff)
qed

subsection \<open>A table\<close>

text \<open>
  The events table of SQLite as a list of rows, with the two statements of \<open>IngestEvent\<close>. The record
  \<open>table_sql\<close> has the texts of the statements, which depend on the dialect only.
\<close>

definition table_sql :: "unit sql_repo" where
  "table_sql =
     \<lparr>sr_db = \<lparr>db_begin = (\<lambda>_. None), db_query = (\<lambda>_ _ _. Inl []), db_exec = (\<lambda>_ _ d. (Inl [], d)),
        db_commit = (\<lambda>_ d. (None, d))\<rparr>, sr_dialect = ''sqlite''\<rparr>"

definition table_db :: "sql_row list sql_db" where
  "table_db =
     \<lparr>db_begin = (\<lambda>_. None),
      db_query = (\<lambda>t ps d. if t = get_event_sql table_sql then Inr (filter (\<lambda>row. hd row = hd ps) d)
        else Inl ''unknown statement''),
      db_exec = (\<lambda>t ps d. if t \<noteq> insert_event_sql table_sql then (Inl ''unknown statement'', d)
        else if \<exists>row\<in>set d. hd row = hd ps then (Inl ''UNIQUE constraint failed'', d)
        else (Inr 1, d @ [ps @ [SqlText ''2024-01-01T00:00:00.000Z'']])),
      db_commit = (\<lambda>d d'. (None, d'))\<rparr>"

definition table_repo :: "sql_row list sql_repo" where
  "table_repo = \<lparr>sr_db = table_db, sr_dialect = ''sqlite''\<rparr>"

lemma table_repo_sql: "get_event_sql table_repo = get_event_sql table_sql" "insert_event_sql table_repo = insert_event_sql table_sql"
proof -
  have "ph table_repo = ph table_sql" by (simp add: fun_eq_iff ph_def table_repo_def table_sql_def)
  then show "get_event_sql table_repo = get_event_sql table_sql" "insert_event_sql table_repo = insert_event_sql table_sql"
    unfolding get_event_sql_def insert_event_sql_def by (simp_all only:)
qed

lemma scan_event_row_ingested:
  assumes "scan_event_row (ps @ [SqlNull]) = Inr e" "parse_time_raw v = Some t"
  shows "scan_event_row (ps @ [v]) = Inr (e\<lparr>ev_ingested := t\<rparr>) \<and> ps \<noteq> []"
  using assms
  by (auto simp: scan_event_row_def parse_time_raw_def append_eq_Cons_conv Cons_eq_append_conv
      split: list.splits option.splits)

lemma table_ingested: "parse_time_raw (SqlText ''2024-01-01T00:00:00.000Z'') \<noteq> None"
  by code_simp

interpretation table: sql_events table_repo "\<lambda>d. d"
proof
  show "rs = filter (\<lambda>row. hd row = SqlText i) d"
    if "db_query (sr_db table_repo) (get_event_sql table_repo) [SqlText i] d = Inr rs" for i d rs
    using that unfolding table_repo_sql by (simp add: table_repo_def table_db_def)
  show "\<exists>row e'. d' = d @ [row] \<and> hd row = hd ps \<and> scan_event_row row = Inr e' \<and> ev_hash e' = ev_hash e"
    if "db_exec (sr_db table_repo) (insert_event_sql table_repo) ps d = (Inr n, d')"
      "scan_event_row (ps @ [SqlNull]) = Inr e" for ps d n d' e
  proof -
    obtain t where "parse_time_raw (SqlText ''2024-01-01T00:00:00.000Z'') = Some t"
      using table_ingested by blast
    from scan_event_row_ingested [OF that(2) this]
    have row: "scan_event_row (ps @ [SqlText ''2024-01-01T00:00:00.000Z'']) = Inr (e\<lparr>ev_ingested := t\<rparr>)" "ps \<noteq> []"
      by simp_all
    have "d' = d @ [ps @ [SqlText ''2024-01-01T00:00:00.000Z'']]"
      using that(1) unfolding table_repo_sql by (simp add: table_repo_def table_db_def split: if_splits)
    with row show ?thesis
      by (intro exI [of _ "ps @ [SqlText ''2024-01-01T00:00:00.000Z'']"] exI [of _ "e\<lparr>ev_ingested := t\<rparr>"]) simp
  qed
qed (simp_all add: table_repo_def table_db_def)

subsection \<open>Properties\<close>

text \<open>
  C28: the text of a timeline statement depends on which filters a query sets and on the key of its
  correlation filter, and on nothing else of the request: the values of the filters, the limit and
  the cursor reach the database as parameters only.
\<close>

theorem timeline_text_shape:
  assumes "query_shape q = query_shape q'" and "is_zero ts = is_zero ts'"
  shows "fst (timeline_sql r q limit ts i) = fst (timeline_sql r q' limit' ts' i')"
  using timeline_sql_same_text [OF assms, of r limit i limit' i'] by (simp add: same_text_def)

theorem timeline_text_shape_witness:
  "fst (timeline_sql table_repo sample_query 5 0 []) =
   fst (timeline_sql table_repo (sample_query\<lparr>tq_subject := CHR 0x27 # ''; DROP TABLE events''\<rparr>) 7 0 ''x'')"
  by (rule timeline_text_shape) (simp_all add: query_shape_def sample_query_def)





text \<open>
  C31: the two repositories agree on ingestion. When they hold the same events up to content, every
  event that SQL can store gets the same answer from both (accepted, duplicate, conflict, invalid),
  unless the database fails, and afterwards they hold the same events again.
\<close>

theorem repositories_agree:
  assumes "sql_events r rows" and "rows_ok (rows d)" and "memory_ledger m = sql_ledger (rows d)" and "storable e"
    and "sql_ingest_event r now e d = (res, d')" and "\<nexists>msg. res = Inl (ErrBackend msg)"
  shows "answer res = answer (fst (ingest_event now' e m)) \<and>
    memory_ledger (snd (ingest_event now' e m)) = sql_ledger (rows d') \<and> rows_ok (rows d')"
proof (cases "validate_stored_event e")
  case False
  then show ?thesis using assms by (auto simp: sql_ingest_event_def ingest_event_def)
next
  case valid: True
  show ?thesis
  proof (cases "with_hash e")
    case (Inl err)
    then show ?thesis using assms valid by (auto simp: sql_ingest_event_def ingest_event_def)
  next
    case (Inr e')
    show ?thesis
      using sql_events.ingest_refines [OF assms(1) valid Inr assms(4,2,5)] assms(3,6)
        memory_refines [OF valid Inr, of now' m]
      by (auto simp: prod_eq_iff)
  qed
qed

theorem repositories_agree_witness:
  "answer (fst (sql_ingest_event table_repo 9 (sample_event ''a'' 7) [])) =
     answer (fst (ingest_event 9 (sample_event ''a'' 7) new_memory_repository)) \<and>
   sql_ledger (snd (sql_ingest_event table_repo 9 (sample_event ''a'' 7) [])) ''a'' = Some ''h''"
proof -
  have s: "storable (sample_event ''a'' 7)"
    by (simp add: storable_def sample_event_def time_ok_def max_time_def second_def day_secs_def days_before_def)
  have a: "fst (sql_ingest_event table_repo 9 (sample_event ''a'' 7) []) = Inr (IngestAccepted, 9)" by code_simp
  have m: "memory_ledger (snd (ingest_event 9 (sample_event ''a'' 7) new_memory_repository)) ''a'' = Some ''h''"
    by code_simp
  have l: "memory_ledger new_memory_repository = sql_ledger []"
    by (simp add: fun_eq_iff memory_ledger_def sql_ledger_def new_memory_repository_def)
  show ?thesis
    using repositories_agree [OF table.sql_events_axioms _ l s prod.collapse [symmetric], of 9 9] a m
    by (simp add: rows_ok_def)
qed

end
