(* ===== verification/Argo_Collector.thy ===== *)
theory Argo_Collector
  imports Repository
begin

text \<open>
  The Argo CD collector of \<open>internal/ingest/argo\<close>: what an application's state is turned into
  (\<open>client_fetch_argocd.go\<close>), the checkpoint with its test for new events, the two loops
  (\<open>collector.go\<close>) and the normalized event (\<open>normalize.go\<close>).

  An application is the record of the fields that the code reads of the Argo CD type; what the
  client of \<open>Argo_Client\<close> or the informer delivers is an argument of the loops, with the clock. The
  history id is an \<open>int64\<close> that is only compared and printed. The normalizer, the sink and the
  checkpoint store are fields of the collector, as in the code.
\<close>

subsection \<open>Source events\<close>

record source_event =
  se_id :: string
  se_app_uid :: string
  se_app :: string
  se_cluster :: string
  se_namespace :: string
  se_revision :: string
  se_occurred :: time
  se_actor :: string
  se_type :: string
  se_result :: string
  se_health :: string
  se_history_id :: int
  se_op_key :: string
  se_payload :: "(string \<times> gval) list option"

definition source_app_key :: "source_event \<Rightarrow> string" where
  "source_app_key se =
     (let v = trim_space (se_app_uid se) in if v \<noteq> [] then v else trim_space (se_app se))"

subsection \<open>The checkpoint\<close>

record app_checkpoint =
  cp_history_id :: int
  cp_history_at :: time
  cp_start_key :: string
  cp_terminal_key :: string
  cp_health :: string

definition empty_checkpoint :: app_checkpoint where
  "empty_checkpoint =
     \<lparr>cp_history_id = 0, cp_history_at = 0, cp_start_key = [], cp_terminal_key = [], cp_health = []\<rparr>"

type_synonym cursors = "(string \<times> app_checkpoint) list"

text \<open>A missing key of the Go map reads as the zero value.\<close>

definition cursor_of :: "cursors \<Rightarrow> source_event \<Rightarrow> app_checkpoint" where
  "cursor_of cs se = (case map_of cs (source_app_key se) of None \<Rightarrow> empty_checkpoint | Some c \<Rightarrow> c)"

definition history_should_process :: "source_event \<Rightarrow> app_checkpoint \<Rightarrow> bool" where
  "history_should_process se c =
     (if 0 < se_history_id se then
        (if cp_history_id c < se_history_id se then True
         else se_history_id se = cp_history_id c \<and> cp_history_at c < se_occurred se)
      else if trim_space (se_op_key se) = [] then False
      else trim_space (se_op_key se) \<noteq> trim_space (cp_terminal_key c))"

definition update_history_cursor :: "app_checkpoint \<Rightarrow> source_event \<Rightarrow> app_checkpoint" where
  "update_history_cursor c se =
     (if 0 < se_history_id se then
        c\<lparr>cp_history_id := (if cp_history_id c < se_history_id se then se_history_id se else cp_history_id c),
          cp_history_at := (if cp_history_at c < se_occurred se then se_occurred se else cp_history_at c)\<rparr>
      else if trim_space (se_op_key se) \<noteq> [] then c\<lparr>cp_terminal_key := trim_space (se_op_key se)\<rparr>
      else c)"

definition should_process :: "cursors \<Rightarrow> source_event \<Rightarrow> bool" where
  "should_process cs se =
     (if trim_space (se_id se) = [] \<or> trim_space (se_type se) = [] then False
      else
        (let c = cursor_of cs se; ty = trim_space (se_type se) in
         if ty = ''argo.deployment.recorded'' \<or> ty = ''argo.sync.finished'' then history_should_process se c
         else if ty = ''argo.sync.started'' then
           trim_space (se_op_key se) \<noteq> [] \<and> trim_space (se_op_key se) \<noteq> trim_space (cp_start_key c)
         else if ty = ''argo.health.changed'' then
           trim_space (se_health se) \<noteq> [] \<and> \<not> equal_fold (trim_space (se_health se)) (trim_space (cp_health c))
         else True))"

definition advance_cursor :: "app_checkpoint \<Rightarrow> source_event \<Rightarrow> app_checkpoint" where
  "advance_cursor c se =
     (let ty = trim_space (se_type se) in
      if ty = ''argo.deployment.recorded'' \<or> ty = ''argo.sync.finished'' then update_history_cursor c se
      else if ty = ''argo.sync.started'' then
        (if trim_space (se_op_key se) \<noteq> [] then c\<lparr>cp_start_key := trim_space (se_op_key se)\<rparr> else c)
      else if ty = ''argo.health.changed'' then
        (if trim_space (se_health se) \<noteq> [] then c\<lparr>cp_health := trim_space (se_health se)\<rparr> else c)
      else c)"

definition advance_checkpoint :: "cursors \<Rightarrow> source_event \<Rightarrow> cursors" where
  "advance_checkpoint cs se = AList.update (source_app_key se) (advance_cursor (cursor_of cs se) se) cs"

subsection \<open>The collector\<close>

record 'k checkpoint_store =
  ck_load :: "'k \<Rightarrow> string + cursors"
  ck_save :: "cursors \<Rightarrow> 'k \<Rightarrow> string option \<times> 'k"

record ('s, 'k) collector =
  co_normalize :: "(source_event \<Rightarrow> string + stored_event) option"
  co_sink :: "'s repository option"
  co_checkpoint :: "'k checkpoint_store option"

record ('s, 'k) collector_state =
  cs_loaded :: bool
  cs_cursors :: cursors
  cs_sink :: 's
  cs_store :: 'k

definition load_checkpoint :: "('s, 'k) collector \<Rightarrow> ('s, 'k) collector_state \<Rightarrow> ('s, 'k) collector_state" where
  "load_checkpoint C st =
     (case (if cs_loaded st then None else co_checkpoint C) of
        None \<Rightarrow> st\<lparr>cs_loaded := True\<rparr>
      | Some k \<Rightarrow>
          (case ck_load k (cs_store st) of
             Inl _ \<Rightarrow> st\<lparr>cs_loaded := True\<rparr>
           | Inr cs \<Rightarrow> st\<lparr>cs_cursors := cs, cs_loaded := True\<rparr>))"

definition save_checkpoint :: "('s, 'k) collector \<Rightarrow> ('s, 'k) collector_state \<Rightarrow> ('s, 'k) collector_state" where
  "save_checkpoint C st =
     (case co_checkpoint C of
        None \<Rightarrow> st | Some k \<Rightarrow> st\<lparr>cs_store := snd (ck_save k (cs_cursors st) (cs_store st))\<rparr>)"

text \<open>
  What both loops do with a source event: skip what is not new, normalize, ingest, and advance the
  checkpoint when that has succeeded. The flag says whether the event was collected.
\<close>

definition collect ::
    "('s, 'k) collector \<Rightarrow> time \<Rightarrow> source_event \<Rightarrow> ('s, 'k) collector_state \<Rightarrow> bool \<times> ('s, 'k) collector_state" where
  "collect C now se st =
     (if \<not> should_process (cs_cursors st) se then (False, st)
      else
        (case (co_normalize C, co_sink C) of
           (Some norm, Some R) \<Rightarrow>
             (case norm se of
                Inl _ \<Rightarrow> (False, st)
              | Inr e \<Rightarrow>
                  (case repo_ingest R now e (cs_sink st) of
                     (Inl _, s) \<Rightarrow> (False, st\<lparr>cs_sink := s\<rparr>)
                   | (Inr _, s) \<Rightarrow>
                       (True, st\<lparr>cs_sink := s, cs_cursors := advance_checkpoint (cs_cursors st) se\<rparr>)))
         | _ \<Rightarrow> (False, st)))"

fun collect_all ::
    "('s, 'k) collector \<Rightarrow> time \<Rightarrow> source_event list \<Rightarrow> ('s, 'k) collector_state \<Rightarrow> ('s, 'k) collector_state" where
  "collect_all C now [] st = st"
| "collect_all C now (se # ses) st = collect_all C now ses (snd (collect C now se st))"

text \<open>One poll of the REST fallback, for what \<open>Fetch\<close> has returned.\<close>

definition poll ::
    "('s, 'k) collector \<Rightarrow> time \<Rightarrow> string + source_event list \<Rightarrow> ('s, 'k) collector_state \<Rightarrow>
     ('s, 'k) collector_state" where
  "poll C now fetched st =
     (case fetched of Inl _ \<Rightarrow> st | Inr ses \<Rightarrow> save_checkpoint C (collect_all C now ses st))"

text \<open>
  The polling fallback: the checkpoint is loaded, then \<open>wait.UntilWithContext\<close> calls the poll until the
  context is done. A round is the reading of the clock and what \<open>Fetch\<close> has returned.
\<close>

fun poll_rounds ::
    "('s, 'k) collector \<Rightarrow> (time \<times> (string + source_event list)) list \<Rightarrow> ('s, 'k) collector_state \<Rightarrow>
     ('s, 'k) collector_state" where
  "poll_rounds C [] st = st"
| "poll_rounds C ((now, fetched) # rounds) st = poll_rounds C rounds (poll C now fetched st)"

definition run_polling ::
    "('s, 'k) collector \<Rightarrow> (time \<times> (string + source_event list)) list \<Rightarrow> ('s, 'k) collector_state \<Rightarrow>
     ('s, 'k) collector_state" where
  "run_polling C rounds st = poll_rounds C rounds (load_checkpoint C st)"

subsection \<open>The informer\<close>

fun nested_value :: "gval \<Rightarrow> string list \<Rightarrow> gval option" where
  "nested_value v [] = Some v"
| "nested_value v (f # fs) =
     (case v of GObj m \<Rightarrow> (case map_of m f of None \<Rightarrow> None | Some w \<Rightarrow> nested_value w fs) | _ \<Rightarrow> None)"

definition nested_string :: "(string \<times> gval) list \<Rightarrow> string list \<Rightarrow> string option" where
  "nested_string m fs = (case nested_value (GObj m) fs of Some (GStr s) \<Rightarrow> Some s | _ \<Rightarrow> None)"

definition truncate_num :: "int \<Rightarrow> int \<Rightarrow> int" where
  "truncate_num m e =
     (if 0 \<le> e then m * 10 ^ nat e else sgn m * (abs m div 10 ^ nat (- e)))"

text \<open>
  The last entry of the history. The type assertions of the code panic when \<open>status\<close> or that entry
  is not an object: the outer \<open>None\<close>.
\<close>

definition last_history :: "(string \<times> gval) list \<Rightarrow> (string \<times> gval) list option option" where
  "last_history payload =
     (case map_of payload ''status'' of
        Some (GObj status) \<Rightarrow>
          (case map_of status ''history'' of
             Some (GArr hs) \<Rightarrow>
               (if hs = [] then Some None else (case last hs of GObj h \<Rightarrow> Some (Some h) | _ \<Rightarrow> None))
           | _ \<Rightarrow> Some None)
      | _ \<Rightarrow> None)"

definition history_fields :: "(string \<times> gval) list option \<Rightarrow> int \<times> string \<times> time" where
  "history_fields h =
     (case h of
        None \<Rightarrow> (0, [], 0)
      | Some h \<Rightarrow>
          (case map_of h ''id'' of Some (GInt64 i) \<Rightarrow> i | Some (GNum m e) \<Rightarrow> truncate_num m e | _ \<Rightarrow> 0,
           case map_of h ''revision'' of Some (GStr s) \<Rightarrow> s | _ \<Rightarrow> [],
           case map_of h ''deployedAt'' of
             Some (GStr s) \<Rightarrow> (case parse_rfc3339 s of Some t \<Rightarrow> t | None \<Rightarrow> 0) | _ \<Rightarrow> 0))"

definition or_empty :: "string option \<Rightarrow> string" where
  "or_empty s = (case s of None \<Rightarrow> [] | Some s \<Rightarrow> s)"

text \<open>The arguments are the two readings of the clock and the metadata of the object.\<close>

definition app_source_event ::
    "time \<Rightarrow> time \<Rightarrow> string \<Rightarrow> string \<Rightarrow> string \<Rightarrow> (string \<times> gval) list \<Rightarrow> source_event option" where
  "app_source_event now later uid name ns payload =
     (case last_history payload of
        None \<Rightarrow> None
      | Some h \<Rightarrow>
          (case history_fields h of (hist_id, hist_rev, hist_at) \<Rightarrow>
            let op_key = or_empty (nested_string payload [''status'', ''sync'', ''revision'']);
                op_key = (if op_key = [] then hist_rev else op_key);
                cluster = (case nested_string payload [''spec'', ''destination'', ''name''] of
                    Some s \<Rightarrow> s
                  | None \<Rightarrow> or_empty (nested_string payload [''spec'', ''destination'', ''server'']));
                result = (case nested_string payload [''status'', ''operationState'', ''phase''] of
                    Some s \<Rightarrow> s
                  | None \<Rightarrow> or_empty (nested_string payload [''status'', ''sync'', ''status'']));
                occurred = (if \<not> is_zero hist_at then hist_at
                  else (case nested_string payload [''status'', ''operationState'', ''finishedAt''] of
                          Some s \<Rightarrow> (case parse_rfc3339 s of Some t \<Rightarrow> t | None \<Rightarrow> now)
                        | None \<Rightarrow> now))
            in Some \<lparr>se_id = uid @ ''-'' @ show_int (unix_nano later), se_app_uid = uid, se_app = name,
                 se_cluster = cluster, se_namespace = ns, se_revision = op_key, se_occurred = occurred,
                 se_actor = [], se_type = ''argo.sync.finished'', se_result = result,
                 se_health = or_empty (nested_string payload [''status'', ''health'', ''status'']),
                 se_history_id = hist_id, se_op_key = op_key, se_payload = Some payload\<rparr>))"

definition handle_app_event ::
    "('s, 'k) collector \<Rightarrow> time \<Rightarrow> time \<Rightarrow> string \<Rightarrow> string \<Rightarrow> string \<Rightarrow> (string \<times> gval) list \<Rightarrow>
     ('s, 'k) collector_state \<Rightarrow> ('s, 'k) collector_state option" where
  "handle_app_event C now later uid name ns payload st =
     (case app_source_event now later uid name ns payload of
        None \<Rightarrow> None
      | Some se \<Rightarrow>
          (case collect C later se st of
             (collected, st) \<Rightarrow> Some (if collected then save_checkpoint C st else st)))"

text \<open>
  With a Kubernetes client: the checkpoint is loaded, the informer calls the handler for every added and
  updated object in turn, and the checkpoint is saved at the end. An event is the readings of the clock, the
  metadata and the content of its object.
\<close>

fun app_events ::
    "('s, 'k) collector \<Rightarrow> (time \<times> time \<times> string \<times> string \<times> string \<times> (string \<times> gval) list) list \<Rightarrow>
     ('s, 'k) collector_state \<Rightarrow> ('s, 'k) collector_state option" where
  "app_events C [] st = Some st"
| "app_events C ((now, later, uid, name, ns, payload) # evs) st =
     (case handle_app_event C now later uid name ns payload st of None \<Rightarrow> None | Some st \<Rightarrow> app_events C evs st)"

definition run_informer ::
    "('s, 'k) collector \<Rightarrow> (time \<times> time \<times> string \<times> string \<times> string \<times> (string \<times> gval) list) list \<Rightarrow>
     ('s, 'k) collector_state \<Rightarrow> ('s, 'k) collector_state option" where
  "run_informer C evs st = map_option (save_checkpoint C) (app_events C evs (load_checkpoint C st))"

subsection \<open>Normalized events\<close>

text \<open>The annotations of a payload, \<open>None\<close> when there are none or they are no map.\<close>

definition payload_annotations :: "(string \<times> gval) list \<Rightarrow> (string \<times> string) list option" where
  "payload_annotations payload =
     (let some = (\<lambda>m. if m = [] then None else Some m) in
      case map_of payload ''annotations'' of
        Some (GStrMap m) \<Rightarrow> some (map (\<lambda>(k, v). (k, trim_space v)) m)
      | Some (GObj m) \<Rightarrow>
          some (List.map_filter (\<lambda>(k, v). case v of GStr s \<Rightarrow> Some (k, trim_space s) | _ \<Rightarrow> None) m)
      | _ \<Rightarrow> None)"

definition annotation :: "(string \<times> string) list \<Rightarrow> string \<Rightarrow> string" where
  "annotation m k = trim_space (case map_of m k of None \<Rightarrow> [] | Some v \<Rightarrow> v)"

text \<open>\<open>json.Unmarshal\<close> into a list of objects.\<close>

definition parse_approval_list :: "string \<Rightarrow> gval option" where
  "parse_approval_list t =
     (case unmarshal t of
        Some (GArr vs) \<Rightarrow>
          if list_all (\<lambda>v. case v of GObj _ \<Rightarrow> True | GNull \<Rightarrow> True | _ \<Rightarrow> False) vs then Some (GArr vs) else None
      | Some GNull \<Rightarrow> Some GNull
      | _ \<Rightarrow> None)"

definition or_default :: "string \<Rightarrow> string \<Rightarrow> string" where
  "or_default v d = (if v = [] then d else v)"

definition set_if :: "bool \<Rightarrow> string \<Rightarrow> gval \<Rightarrow> (string \<times> gval) list \<Rightarrow> (string \<times> gval) list" where
  "set_if c k v m = (if c then AList.update k v m else m)"

definition annotation_extensions ::
    "(string \<times> string) list \<Rightarrow> (string \<times> gval) list \<Rightarrow> (string \<times> gval) list" where
  "annotation_extensions ann ext =
     (let put = (\<lambda>a k ext. set_if (annotation ann a \<noteq> []) k (GStr (annotation ann a)) ext)
      in put ''evidra.rest/approvals-json'' ''approvals_json''
           (put ''evidra.rest/approvals-ref'' ''approval_reference''
             (put ''evidra.rest/ticket'' ''ticket_id''
               (put ''evidra.rest/change-id'' ''external_change_id'' ext))))"

definition annotation_data ::
    "(string \<times> string) list \<Rightarrow> (string \<times> gval) list \<Rightarrow> (string \<times> gval) list" where
  "annotation_data ann m =
     (let v = annotation ann ''evidra.rest/approvals-json'' in
      if v = [] then m
      else (case parse_approval_list v of None \<Rightarrow> m | Some a \<Rightarrow> AList.update ''approvals'' a m))"

definition source_environment :: "string \<Rightarrow> source_event \<Rightarrow> string" where
  "source_environment default_env se =
     or_default (or_default (trim_space (se_namespace se)) (trim_space default_env)) ''unknown''"

definition source_event_type :: "source_event \<Rightarrow> string" where
  "source_event_type se = or_default (trim_space (se_type se)) ''argo.sync.finished''"

definition source_extensions :: "string \<Rightarrow> source_event \<Rightarrow> (string \<times> gval) list" where
  "source_extensions default_env se =
     (let revision = trim_space (se_revision se); result = trim_space (se_result se);
          op_key = trim_space (se_op_key se); health = trim_space (se_health se);
          ext = [(''cluster'', GStr (or_default (trim_space (se_cluster se)) ''unknown'')),
                 (''namespace'', GStr (source_environment default_env se)),
                 (''initiator'', GStr (or_default (trim_space (se_actor se)) ''argocd'')),
                 (''sync_revision'', GStr revision), (''argo_event_type'', GStr (source_event_type se))];
          ext = set_if (revision \<noteq> []) ''commit_sha'' (GStr revision) ext;
          ext = set_if (result \<noteq> []) ''argo_result'' (GStr result) ext;
          ext = set_if (0 < se_history_id se) ''history_id'' (GInt64 (se_history_id se)) ext;
          ext = set_if (op_key \<noteq> []) ''operation_id'' (GStr op_key) ext
      in set_if (health \<noteq> []) ''health_status'' (GStr health) ext)"

definition source_data :: "source_event \<Rightarrow> (string \<times> gval) list" where
  "source_data se =
     [(''argocd_app'', GStr (trim_space (se_app se))), (''phase'', GStr (trim_space (se_result se))),
      (''result'', GStr (trim_space (se_result se)))]"

text \<open>What the payload adds to both.\<close>

definition add_payload ::
    "(string \<times> gval) list option \<Rightarrow> (string \<times> gval) list \<times> (string \<times> gval) list \<Rightarrow>
     (string \<times> gval) list \<times> (string \<times> gval) list" where
  "add_payload payload ed =
     (case (payload, ed) of
        (None, _) \<Rightarrow> ed
      | (Some p, (ext, data)) \<Rightarrow>
          (let data = AList.update ''source_payload'' (GObj p) data in
           case payload_annotations p of
             None \<Rightarrow> (ext, data)
           | Some ann \<Rightarrow> (annotation_extensions ann ext, annotation_data ann data)))"

definition normalize_source_event :: "string \<Rightarrow> source_event \<Rightarrow> string + stored_event" where
  "normalize_source_event default_env se =
     (if trim_space (se_id se) = [] \<or> trim_space (se_app se) = [] \<or> is_zero (se_occurred se)
      then Inl ''invalid source event''
      else
        (case add_payload (se_payload se) (source_extensions default_env se, source_data se) of
           (ext, data) \<Rightarrow>
             Inr \<lparr>ev_id = ''evt_argocd_'' @ se_id se, ev_type = source_event_type se, ev_source = ''argocd'',
               ev_subject = trim_space (se_app se), ev_time = se_occurred se, ev_extensions = ext,
               ev_data = marshal (GObj data), ev_hash = [], ev_ingested = 0\<rparr>))"

subsection \<open>Applications\<close>

record revision_history =
  rh_id :: int
  rh_revision :: string
  rh_deployed_at :: time
  rh_deploy_started :: "time option"

record operation_state =
  os_phase :: string
  os_started :: time
  os_finished :: "time option"
  os_username :: string
  os_automated :: bool

record application =
  app_uid :: string
  app_name :: string
  app_revision :: string
  app_revisions :: "string list"
  app_server :: string
  app_namespace :: string
  app_annotations :: "(string \<times> string) list"
  app_history :: "revision_history list"
  app_operation :: "operation_state option"
  app_health :: string
  app_reconciled :: "time option"

definition time_from_meta :: "time option \<Rightarrow> time" where
  "time_from_meta t = (case t of None \<Rightarrow> 0 | Some t \<Rightarrow> t)"

definition trim_time_key :: "time \<Rightarrow> string" where
  "trim_time_key t = (if is_zero t then ''0'' else show_int (unix_sec t))"

definition evidra_annotations :: "(string \<times> string) list \<Rightarrow> (string \<times> string) list" where
  "evidra_annotations m =
     List.map_filter (\<lambda>k. if annotation m k \<noteq> [] then Some (k, annotation m k) else None)
       [''evidra.rest/change-id'', ''evidra.rest/ticket'', ''evidra.rest/approvals-ref'', ''evidra.rest/approvals-json'']"

definition resolve_actor :: "application \<Rightarrow> string" where
  "resolve_actor app =
     (case app_operation app of
        None \<Rightarrow> ''argocd''
      | Some op \<Rightarrow>
          (if trim_space (os_username op) \<noteq> [] then trim_space (os_username op)
           else if os_automated op then ''argocd-automated'' else ''argocd''))"

definition operation_key :: "string \<Rightarrow> time \<Rightarrow> time \<Rightarrow> string" where
  "operation_key revision started finished =
     (let revision = or_default (trim_space revision) ''unknown'' in
      if \<not> is_zero started then revision @ '':'' @ show_int (unix_nano started)
      else if \<not> is_zero finished then revision @ '':'' @ show_int (unix_nano finished)
      else revision @ '':unknown'')"

definition history_operation_key :: "int \<Rightarrow> string \<Rightarrow> time \<Rightarrow> string" where
  "history_operation_key i revision occurred =
     (if 0 < i then ''hist:'' @ show_int i else operation_key revision 0 occurred)"

definition deterministic_history_id :: "string \<Rightarrow> int \<Rightarrow> string \<Rightarrow> time \<Rightarrow> string" where
  "deterministic_history_id uid i revision occurred =
     (if 0 < i then trim_space uid @ '':hist:'' @ show_int i
      else trim_space uid @ '':hist:'' @ trim_space revision @ '':'' @ trim_time_key occurred)"

definition deterministic_operation_id :: "string \<Rightarrow> string \<Rightarrow> string \<Rightarrow> string" where
  "deterministic_operation_id uid op_key part =
     trim_space uid @ '':op:'' @ trim_space op_key @ '':'' @ trim_space part"

definition deterministic_health_id :: "string \<Rightarrow> string \<Rightarrow> time \<Rightarrow> string" where
  "deterministic_health_id uid health occurred =
     trim_space uid @ '':health:'' @ to_lower (trim_space health) @ '':'' @ trim_time_key occurred"

definition recent_choices :: "application \<Rightarrow> time list" where
  "recent_choices app =
     [time_from_meta (app_reconciled app)] @
     (case app_operation app of None \<Rightarrow> [] | Some op \<Rightarrow> [time_from_meta (os_finished op), os_started op]) @
     (if app_history app = [] then []
      else (let h = last (app_history app)
            in rh_deployed_at h # (case rh_deploy_started h of None \<Rightarrow> [] | Some t \<Rightarrow> [t])))"

definition most_recent_time :: "time \<Rightarrow> application \<Rightarrow> time" where
  "most_recent_time now app =
     (let latest = foldl (\<lambda>latest t. if is_zero t then latest else if latest < t then t else latest) 0
            (recent_choices app)
      in if is_zero latest then now else latest)"

definition history_occurred_at :: "time \<Rightarrow> revision_history \<Rightarrow> application \<Rightarrow> time" where
  "history_occurred_at now h app =
     (if \<not> is_zero (rh_deployed_at h) then rh_deployed_at h
      else (case rh_deploy_started h of
              Some t \<Rightarrow> if \<not> is_zero t then t else most_recent_time now app
            | None \<Rightarrow> most_recent_time now app))"

definition is_terminal_phase :: "string \<Rightarrow> bool" where
  "is_terminal_phase p \<longleftrightarrow> p = ''Succeeded'' \<or> p = ''Failed'' \<or> p = ''Error''"

definition terminal_operation_window :: "application \<Rightarrow> string \<Rightarrow> (string \<times> time \<times> time) option" where
  "terminal_operation_window app revision =
     (case app_operation app of
        None \<Rightarrow> None
      | Some op \<Rightarrow>
          if \<not> is_terminal_phase (os_phase op) then None
          else
            (let rev = or_default (trim_space revision) (trim_space (app_revision app));
                 fin = time_from_meta (os_finished op)
             in Some (rev, os_started op, if is_zero fin then os_started op else fin)))"

definition same_revision_window :: "string \<Rightarrow> string \<Rightarrow> time \<Rightarrow> time \<Rightarrow> time \<Rightarrow> bool" where
  "same_revision_window hist_rev term_rev occurred started finished =
     (if trim_space hist_rev = [] \<or> trim_space term_rev = [] then False
      else if trim_space hist_rev \<noteq> trim_space term_rev then False
      else if is_zero occurred \<or> is_zero started \<or> is_zero finished then True
      else (let jitter = 120 * second
            in \<not> occurred < started - jitter \<and> \<not> finished + jitter < occurred))"

definition with_annotations :: "(string \<times> string) list \<Rightarrow> (string \<times> gval) list \<Rightarrow> (string \<times> gval) list" where
  "with_annotations ann m = (if ann = [] then m else m @ [(''annotations'', GStrMap ann)])"

definition sync_revision :: "application \<Rightarrow> string" where
  "sync_revision app =
     (if app_revision app = [] \<and> app_revisions app \<noteq> [] then hd (app_revisions app) else app_revision app)"

text \<open>The three parts of \<open>toSourceEvents\<close>: the history, the operation, the health.\<close>

definition base_source_event :: "application \<Rightarrow> source_event" where
  "base_source_event app =
     \<lparr>se_id = [], se_app_uid = trim_space (app_uid app), se_app = trim_space (app_name app),
      se_cluster = or_default (trim_space (app_server app)) ''unknown'',
      se_namespace = trim_space (app_namespace app), se_revision = trim_space (sync_revision app), se_occurred = 0,
      se_actor = resolve_actor app, se_type = [], se_result = [], se_health = [], se_history_id = 0, se_op_key = [],
      se_payload = None\<rparr>"

definition history_event :: "time \<Rightarrow> application \<Rightarrow> revision_history \<Rightarrow> source_event option" where
  "history_event now app h =
     (let occurred = history_occurred_at now h app;
          rev = or_default (trim_space (rh_revision h)) (trim_space (sync_revision app))
      in if (case terminal_operation_window app (sync_revision app) of
               None \<Rightarrow> False
             | Some (term_rev, started, finished) \<Rightarrow> same_revision_window rev term_rev occurred started finished)
         then None
         else Some ((base_source_event app)
           \<lparr>se_id := deterministic_history_id (trim_space (app_uid app)) (rh_id h) rev occurred,
            se_revision := rev, se_occurred := occurred, se_type := ''argo.deployment.recorded'',
            se_result := ''Recorded'', se_history_id := rh_id h, se_op_key := history_operation_key (rh_id h) rev occurred,
            se_payload := Some (with_annotations (evidra_annotations (app_annotations app))
              [(''history_id'', GInt64 (rh_id h)), (''sync_revision'', GStr rev)])\<rparr>))"

definition operation_finished :: "time \<Rightarrow> application \<Rightarrow> operation_state \<Rightarrow> time" where
  "operation_finished now app op =
     (let fin = time_from_meta (os_finished op); fin = (if is_zero fin then os_started op else fin)
      in if is_zero fin then most_recent_time now app else fin)"

text \<open>What the events of an operation have in common.\<close>

definition operation_event :: "time \<Rightarrow> application \<Rightarrow> operation_state \<Rightarrow> source_event" where
  "operation_event now app op = (base_source_event app)
     \<lparr>se_result := trim_space (os_phase op),
      se_op_key := operation_key (sync_revision app) (os_started op) (operation_finished now app op),
      se_payload := Some (with_annotations (evidra_annotations (app_annotations app))
        [(''operation_phase'', GStr (trim_space (os_phase op)))])\<rparr>"

definition operation_events :: "time \<Rightarrow> application \<Rightarrow> source_event list" where
  "operation_events now app =
     (case app_operation app of
        None \<Rightarrow> []
      | Some op \<Rightarrow>
          (let e = operation_event now app op; uid = trim_space (app_uid app) in
           if os_phase op = ''Running'' \<or> os_phase op = ''Terminating'' then
             (if is_zero (os_started op) then []
              else [e\<lparr>se_id := deterministic_operation_id uid (se_op_key e) ''start'',
                      se_occurred := os_started op, se_type := ''argo.sync.started''\<rparr>])
           else if is_terminal_phase (os_phase op) then
             [e\<lparr>se_id := deterministic_operation_id uid (se_op_key e) ''finish'',
                se_occurred := operation_finished now app op, se_type := ''argo.sync.finished''\<rparr>]
           else []))"

definition health_events :: "time \<Rightarrow> application \<Rightarrow> source_event list" where
  "health_events now app =
     (let health = trim_space (app_health app) in
      if health = [] then []
      else
        (let occurred = (if is_zero (time_from_meta (app_reconciled app)) then now
               else time_from_meta (app_reconciled app))
         in [(base_source_event app)
              \<lparr>se_id := deterministic_health_id (trim_space (app_uid app)) health occurred,
               se_occurred := occurred, se_actor := ''argocd'', se_type := ''argo.health.changed'', se_health := health,
               se_payload := Some (with_annotations (evidra_annotations (app_annotations app))
                 [(''health_status'', GStr health), (''observed_at'', GStr (format_rfc3339nano occurred))])\<rparr>]))"

definition to_source_events :: "time \<Rightarrow> application \<Rightarrow> source_event list" where
  "to_source_events now app =
     List.map_filter (history_event now app) (app_history app) @ operation_events now app @ health_events now app"

definition fetch_applications :: "time \<Rightarrow> application list \<Rightarrow> source_event list" where
  "fetch_applications now apps = concat (map (to_source_events now) apps)"

end
