(* ===== verification/Go_Struct.thy ===== *)
theory Go_Struct
  imports Go_Json Go_Time
begin

text \<open>
  \<open>encoding/json\<close> into structs: a decoder of a Go type takes a value and the old content of the place
  and gives the new content, or \<open>None\<close> when the value has the wrong type. A field of a struct is filled
  by the last member of its name, up to case, that is not \<open>null\<close>; an object that repeats a key
  literally has the last value of it. Integers are the numbers without a fraction that fit in 64 bits.
\<close>

definition struct_field :: "(gval \<Rightarrow> 'a \<Rightarrow> 'a option) \<Rightarrow> string \<Rightarrow> 'a \<Rightarrow> (string \<times> gval) list \<Rightarrow> 'a option" where
  "struct_field decode name init ms =
     foldl (\<lambda>acc (k, v). case acc of
         None \<Rightarrow> None
       | Some old \<Rightarrow> if fold_name k \<noteq> fold_name name then Some old else decode v old) (Some init) ms"

definition decode_string :: "gval \<Rightarrow> string \<Rightarrow> string option" where
  "decode_string v old = (case v of GStr t \<Rightarrow> Some t | GNull \<Rightarrow> Some old | _ \<Rightarrow> None)"

definition decode_struct :: "((string \<times> gval) list \<Rightarrow> 'a \<Rightarrow> 'a option) \<Rightarrow> gval \<Rightarrow> 'a \<Rightarrow> 'a option" where
  "decode_struct decode v old = (case v of GObj ms \<Rightarrow> decode ms old | GNull \<Rightarrow> Some old | _ \<Rightarrow> None)"

definition decode_slice :: "(gval \<Rightarrow> 'a \<Rightarrow> 'a option) \<Rightarrow> 'a \<Rightarrow> gval \<Rightarrow> 'a list \<Rightarrow> 'a list option" where
  "decode_slice decode zero v old =
     (case v of GArr vs \<Rightarrow> those (map (\<lambda>v. decode v zero) vs) | GNull \<Rightarrow> Some [] | _ \<Rightarrow> None)"

text \<open>A \<open>json.Decoder\<close> reads the first value of its input.\<close>

definition decode_first :: "string \<Rightarrow> gval option" where
  "decode_first s = map_option fst (parse_val (2 * length s) s)"

definition decode_int :: "gval \<Rightarrow> int \<Rightarrow> int option" where
  "decode_int v old =
     (case v of
        GNum m e \<Rightarrow>
          (let n = m * 10 ^ nat e in if 0 \<le> e \<and> - (2 ^ 63) \<le> n \<and> n < 2 ^ 63 then Some n else None)
      | GNull \<Rightarrow> Some old
      | _ \<Rightarrow> None)"

text \<open>
  A \<open>map[string]T\<close>: an object adds its members, each decoded on its own; \<open>null\<close> gives the nil map. A
  \<open>time.Time\<close> is a string in RFC 3339; the decoder of Go looks at the literal and refuses one with escapes.
\<close>

definition decode_map ::
    "(gval \<Rightarrow> 'a \<Rightarrow> 'a option) \<Rightarrow> 'a \<Rightarrow> gval \<Rightarrow> (string \<times> 'a) list \<Rightarrow> (string \<times> 'a) list option" where
  "decode_map decode zero v old =
     (case v of
        GObj ms \<Rightarrow>
          foldl (\<lambda>acc (k, v). case acc of
              None \<Rightarrow> None
            | Some m \<Rightarrow> map_option (\<lambda>x. AList.update k x m) (decode v zero)) (Some old) ms
      | GNull \<Rightarrow> Some []
      | _ \<Rightarrow> None)"

definition decode_time :: "gval \<Rightarrow> time \<Rightarrow> time option" where
  "decode_time v old = (case v of GStr s \<Rightarrow> parse_json_time s | GNull \<Rightarrow> Some old | _ \<Rightarrow> None)"

text \<open>\<open>json.Unmarshal\<close> of a text into a struct.\<close>

definition unmarshal_struct :: "((string \<times> gval) list \<Rightarrow> 'a \<Rightarrow> 'a option) \<Rightarrow> 'a \<Rightarrow> string \<Rightarrow> 'a option" where
  "unmarshal_struct decode zero s =
     (case unmarshal s of None \<Rightarrow> None | Some v \<Rightarrow> decode_struct decode v zero)"

subsection \<open>What the printer writes is decoded again\<close>

lemma norm_num_value:
  "norm_num m e = (m', e') \<Longrightarrow> m \<noteq> 0 \<Longrightarrow> e \<le> e' \<and> m' * 10 ^ nat (e' - e) = m"
proof (induction m e arbitrary: m' e' rule: norm_num.induct)
  case (1 m e)
  show ?case
  proof (cases "m mod 10 = 0")
    case False
    then show ?thesis using "1.prems" by (simp add: norm_num.simps [of m e])
  next
    case True
    then have m: "m div 10 \<noteq> 0" "m = m div 10 * 10" using "1.prems"(2) by auto
    have r: "e + 1 \<le> e'" "m' * 10 ^ nat (e' - (e + 1)) = m div 10"
      using "1.IH" [OF _ True] "1.prems" True m(1) by (auto simp: norm_num.simps [of m e])
    have "nat (e' - e) = Suc (nat (e' - (e + 1)))" using r(1) by simp
    then have "m' * 10 ^ nat (e' - e) = m div 10 * 10" using r(2) by simp
    then show ?thesis using r(1) m(2) by simp
  qed
qed

lemma decode_int_norm:
  assumes "- (2 ^ 63) \<le> i" "i < 2 ^ 63"
  shows "decode_int (case norm_num i 0 of (m, e) \<Rightarrow> GNum m e) old = Some i"
proof (cases "i = 0")
  case True
  then show ?thesis by (simp add: norm_num.simps [of 0] decode_int_def)
next
  case False
  obtain m e where n: "norm_num i 0 = (m, e)" by (cases "norm_num i 0")
  then show ?thesis using norm_num_value [OF n False] assms by (simp add: decode_int_def)
qed

lemma decode_map_distinct:
  assumes "list_all2 (rel_prod (=) (\<lambda>v x. decode v zero = Some x)) ms xs" "distinct (map fst (old @ xs))"
  shows "decode_map decode zero (GObj ms) old = Some (old @ xs)"
proof -
  have "foldl (\<lambda>acc (k, v). case acc of None \<Rightarrow> None
        | Some m \<Rightarrow> map_option (\<lambda>x. AList.update k x m) (decode v zero)) (Some old) ms = Some (old @ xs)"
    using assms
  proof (induction ms xs arbitrary: old rule: list_all2_induct)
    case (Cons kv ms kx xs)
    obtain k v x where k: "kv = (k, v)" "kx = (k, x)" "decode v zero = Some x"
      using Cons.hyps(1) by (cases kv; cases kx) auto
    then have "k \<notin> fst ` set old" using Cons.prems by auto
    then have "AList.update k x old = old @ [(k, x)]" by (induction old) auto
    then show ?case using Cons.IH [of "old @ [(k, x)]"] Cons.prems k by simp
  qed simp
  then show ?thesis by (simp add: decode_map_def)
qed

end
