(* ===== verification/Argo_Checkpoint.thy ===== *)
theory Argo_Checkpoint
  imports Argo_Collector Export Go_Struct
begin

text \<open>
  The checkpoint of the Argo CD collector in a file: \<open>internal/ingest/argo/checkpoint.go\<close>. The file
  system is that of \<open>Export\<close>, a map from paths to contents; what the operating system decides is the record
  \<open>checkpoint_disk\<close>: whether a directory can be made, a file written or read, and what a write that fails
  leaves behind, since \<open>os.WriteFile\<close> truncates first.

  What the collector relies on is the locale \<open>checkpoint_contract\<close>: a checkpoint that was saved is loaded
  again, as a map. The file store is an instance, because the indented JSON of a checkpoint is read back.
\<close>

subsection \<open>The file store\<close>

record checkpoint_disk = disk +
  kd_unreadable :: "string \<Rightarrow> string option"
  kd_torn :: "string \<Rightarrow> string \<Rightarrow> files \<Rightarrow> files"
  kd_bad_json :: string

text \<open>\<open>filepath.Dir\<close>: the path up to its last slash, cleaned.\<close>

definition dir_path :: "string \<Rightarrow> string" where
  "dir_path p = clean_path (rev (dropWhile (\<lambda>c. c \<noteq> CHR ''/'') (rev p)))"

definition marshal_app_checkpoint :: "app_checkpoint \<Rightarrow> string option" where
  "marshal_app_checkpoint c =
     map_option (\<lambda>t. json_object
       [(''last_history_id'', show_int (cp_history_id c)), (''last_history_at'', t),
        (''last_start_key'', quote_string (cp_start_key c)),
        (''last_terminal_key'', quote_string (cp_terminal_key c)),
        (''last_health'', quote_string (cp_health c))]) (marshal_time (cp_history_at c))"

definition checkpoint_text :: "cursors \<Rightarrow> string option" where
  "checkpoint_text cs =
     map_option (\<lambda>kts. json_indent 0 False False (json_object [(''apps'', json_object (sort_key fst kts))]))
       (those (map (\<lambda>(k, c). map_option (Pair k) (marshal_app_checkpoint c)) cs))"

definition app_checkpoint_fields :: "(string \<times> gval) list \<Rightarrow> app_checkpoint \<Rightarrow> app_checkpoint option" where
  "app_checkpoint_fields ms old =
     do { h \<leftarrow> struct_field decode_int ''last_history_id'' (cp_history_id old) ms;
          t \<leftarrow> struct_field decode_time ''last_history_at'' (cp_history_at old) ms;
          s \<leftarrow> struct_field decode_string ''last_start_key'' (cp_start_key old) ms;
          f \<leftarrow> struct_field decode_string ''last_terminal_key'' (cp_terminal_key old) ms;
          g \<leftarrow> struct_field decode_string ''last_health'' (cp_health old) ms;
          Some \<lparr>cp_history_id = h, cp_history_at = t, cp_start_key = s, cp_terminal_key = f, cp_health = g\<rparr> }"

definition decode_checkpoint :: "(string \<times> gval) list \<Rightarrow> cursors \<Rightarrow> cursors option" where
  "decode_checkpoint ms old =
     struct_field (decode_map (decode_struct app_checkpoint_fields) empty_checkpoint) ''apps'' old ms"

definition load_file :: "checkpoint_disk \<Rightarrow> string \<Rightarrow> files \<Rightarrow> string + cursors" where
  "load_file D path fs =
     (case map_of fs path of
        None \<Rightarrow> Inr []
      | Some b \<Rightarrow>
          (case kd_unreadable D path of
             Some msg \<Rightarrow> Inl msg
           | None \<Rightarrow>
               (case unmarshal_struct decode_checkpoint [] b of
                  None \<Rightarrow> Inl (kd_bad_json D) | Some cs \<Rightarrow> Inr cs)))"

definition save_file :: "checkpoint_disk \<Rightarrow> string \<Rightarrow> cursors \<Rightarrow> files \<Rightarrow> string option \<times> files" where
  "save_file D path cs fs =
     (case dk_mkdir D (dir_path path) of
        Some msg \<Rightarrow> (Some msg, fs)
      | None \<Rightarrow>
          (case checkpoint_text cs of
             None \<Rightarrow> (Some (dk_marshal D), fs)
           | Some b \<Rightarrow>
               (case dk_write D path of
                  Some msg \<Rightarrow> (Some msg, kd_torn D path b fs)
                | None \<Rightarrow> (None, AList.update path b fs))))"

definition file_checkpoint_store :: "checkpoint_disk \<Rightarrow> string \<Rightarrow> files checkpoint_store" where
  "file_checkpoint_store D path = \<lparr>ck_load = load_file D path, ck_save = save_file D path\<rparr>"

subsection \<open>A saved checkpoint is loaded again\<close>

definition int64_cursors :: "cursors \<Rightarrow> bool" where
  "int64_cursors cs \<longleftrightarrow> distinct (map fst cs) \<and>
     list_all (\<lambda>(k, c). - (2 ^ 63) \<le> cp_history_id c \<and> cp_history_id c < 2 ^ 63) cs"

lemma checkpoint_names [simp]:
  "fold_name ''last_history_id'' = ''LAST_HISTORY_ID''" "fold_name ''last_history_at'' = ''LAST_HISTORY_AT''"
  "fold_name ''last_start_key'' = ''LAST_START_KEY''" "fold_name ''last_terminal_key'' = ''LAST_TERMINAL_KEY''"
  "fold_name ''last_health'' = ''LAST_HEALTH''"
  by code_simp+

lemma esc_string_time: "list_all time_char s \<Longrightarrow> esc_string s = s"
proof (induction s)
  case (Cons c s)
  then have "esc_char c = [c]" "c \<noteq> CHR 0xE2" by (auto simp: time_char_def is_digit_def esc_char_def Let_def)
  with Cons show ?case by simp
qed simp

lemma marshal_time_quote: "marshal_time t = (if time_ok t then Some (quote_string (format_rfc3339nano t)) else None)"
  by (simp add: marshal_time_def quote_string_def esc_string_time format_rfc3339nano_chars)

lemma app_checkpoint_read_back:
  assumes "marshal_app_checkpoint c = Some t" "- (2 ^ 63) \<le> cp_history_id c" "cp_history_id c < 2 ^ 63"
  shows "\<exists>p v. indents t p \<and> (\<forall>d. reads (p d) v) \<and>
    decode_struct app_checkpoint_fields v empty_checkpoint = Some c"
proof -
  let ?time = "quote_string (format_rfc3339nano (cp_history_at c))"
  let ?texts = "[(''last_history_id'', show_int (cp_history_id c)), (''last_history_at'', ?time),
        (''last_start_key'', quote_string (cp_start_key c)),
        (''last_terminal_key'', quote_string (cp_terminal_key c)),
        (''last_health'', quote_string (cp_health c))]"
  let ?ms = "[(''last_history_id'', norm_json (GInt (cp_history_id c))),
        (''last_history_at'', GStr (format_rfc3339nano (cp_history_at c))),
        (''last_start_key'', GStr (cp_start_key c)), (''last_terminal_key'', GStr (cp_terminal_key c)),
        (''last_health'', GStr (cp_health c))]"
  let ?ps = "map (map_prod (\<lambda>k. k) (\<lambda>t (d :: nat). t)) ?texts"
  have ok: "time_ok (cp_history_at c)" and t: "t = json_object ?texts"
    using assms(1) by (auto simp: marshal_app_checkpoint_def marshal_time_quote split: if_splits)
  have "indents t (pretty_object ?ps)"
    unfolding t by (intro indents_object) (simp add: indents_quote indents_int)
  moreover have "reads (pretty_object ?ps d) (GObj ?ms)" for d
    by (intro reads_pretty_object) (simp_all add: reads_quote reads_int del: norm_json.simps)
  moreover have "decode_struct app_checkpoint_fields (GObj ?ms) empty_checkpoint = Some c"
    using assms(2,3) ok
    by (simp del: fold_name.simps norm_json.simps
        add: decode_struct_def app_checkpoint_fields_def struct_field_def decode_string_def decode_time_def
          parse_format_rfc3339nano norm_json.simps(5) decode_int_norm)
  ultimately show ?thesis by blast
qed

lemma those_map_Some: "those (map f xs) = Some ys \<longleftrightarrow> list_all2 (\<lambda>x y. f x = Some y) xs ys"
  by (induction xs arbitrary: ys) (auto simp: list_all2_Cons1 split: option.split)

lemma cursors_read_back:
  assumes "list_all2 (rel_prod (=) (\<lambda>c t. marshal_app_checkpoint c = Some t \<and>
      - (2 ^ 63) \<le> cp_history_id c \<and> cp_history_id c < 2 ^ 63)) cs kts"
  shows "\<exists>kps kvs. list_all2 (rel_prod (=) indents) kts kps \<and>
    list_all2 (rel_prod (=) (\<lambda>p v. \<forall>d. reads (p d) v)) kps kvs \<and>
    list_all2 (rel_prod (=) (\<lambda>v c. decode_struct app_checkpoint_fields v empty_checkpoint = Some c)) kvs cs"
  using assms
proof (induction cs kts rule: list_all2_induct)
  case (Cons kc cs kt kts)
  then obtain k c t where k: "kc = (k, c)" "kt = (k, t)" "marshal_app_checkpoint c = Some t"
      "- (2 ^ 63) \<le> cp_history_id c" "cp_history_id c < 2 ^ 63"
    by (cases kc; cases kt) auto
  obtain p v where p: "indents t p" "\<forall>d. reads (p d) v"
      "decode_struct app_checkpoint_fields v empty_checkpoint = Some c"
    using app_checkpoint_read_back [OF k(3-5)] by blast
  obtain kps kvs where ih: "list_all2 (rel_prod (=) indents) kts kps"
      "list_all2 (rel_prod (=) (\<lambda>p v. \<forall>d. reads (p d) v)) kps kvs"
      "list_all2 (rel_prod (=) (\<lambda>v c. decode_struct app_checkpoint_fields v empty_checkpoint = Some c)) kvs cs"
    using Cons.IH by blast
  show ?case
    by (rule exI [of _ "(k, p) # kps"], rule exI [of _ "(k, v) # kvs"]) (use ih p k in simp)
qed simp

lemma sort_key_fst_distinct: "distinct (map fst kvs) \<Longrightarrow> distinct (map fst (sort_key fst kvs))"
  by (metis distinct_map distinct_sort set_sort)

lemma checkpoint_read_back:
  assumes "checkpoint_text cs = Some b" "int64_cursors cs"
  shows "unmarshal_struct decode_checkpoint [] b = Some (sort_key fst cs)"
proof -
  have dist: "distinct (map fst cs)" using assms(2) by (simp add: int64_cursors_def)
  obtain kts where kts: "those (map (\<lambda>(k, c). map_option (Pair k) (marshal_app_checkpoint c)) cs) = Some kts"
    and b: "b = json_indent 0 False False (json_object [(''apps'', json_object (sort_key fst kts))])"
    using assms(1) by (auto simp: checkpoint_text_def)
  have "list_all2 (rel_prod (=) (\<lambda>c t. marshal_app_checkpoint c = Some t \<and>
      - (2 ^ 63) \<le> cp_history_id c \<and> cp_history_id c < 2 ^ 63)) cs kts"
    using kts assms(2) unfolding those_map_Some int64_cursors_def
    by (fastforce simp: list_all2_conv_all_nth list_all_length rel_prod_conv split: prod.splits)
  then obtain kps kvs where r: "list_all2 (rel_prod (=) indents) (sort_key fst kts) kps"
      "list_all2 (rel_prod (=) (\<lambda>p v. \<forall>d. reads (p d) v)) kps kvs"
      "list_all2 (rel_prod (=) (\<lambda>v c. decode_struct app_checkpoint_fields v empty_checkpoint = Some c)) kvs (sort_key fst cs)"
    using cursors_read_back [OF list_all2_sort_key] by blast
  have "map fst kvs = map fst (sort_key fst cs)"
    using r(3) by (auto simp: list_all2_conv_all_nth rel_prod.simps intro!: nth_equalityI)
  then have kd: "distinct (map fst kvs)" using sort_key_fst_distinct [OF dist] by simp
  let ?top = "[(''apps'', pretty_object kps)]"
  have "indents (json_object [(''apps'', json_object (sort_key fst kts))]) (pretty_object ?top)"
    by (intro indents_object) (simp add: indents_object [OF r(1)])
  moreover have "reads (pretty_object ?top 0) (GObj [(''apps'', GObj kvs)])"
    by (intro reads_pretty_object) (simp_all add: reads_pretty_object [OF r(2) kd])
  ultimately have "unmarshal b = Some (GObj [(''apps'', GObj kvs)])"
    unfolding b by (simp only: json_indent_complete) (rule unmarshal_reads)
  moreover have "decode_map (decode_struct app_checkpoint_fields) empty_checkpoint (GObj kvs) [] =
      Some (sort_key fst cs)"
    using decode_map_distinct [of "decode_struct app_checkpoint_fields" empty_checkpoint kvs "sort_key fst cs" "[]"]
      r(3) sort_key_fst_distinct [OF dist] by simp
  ultimately show ?thesis
    by (simp add: unmarshal_struct_def decode_struct_def decode_checkpoint_def struct_field_def)
qed

subsection \<open>The contract\<close>

text \<open>The process that starts after a run has ended: nothing is loaded yet.\<close>

definition restarted :: "('s, 'k) collector_state \<Rightarrow> ('s, 'k) collector_state" where
  "restarted st = st\<lparr>cs_loaded := False, cs_cursors := []\<rparr>"

text \<open>
  What the collector relies on: of a storable checkpoint that was saved without an error, every cursor is
  found again after loading.
\<close>

locale checkpoint_contract =
  fixes K :: "'k checkpoint_store" and storable :: "cursors \<Rightarrow> bool"
  assumes load_saved: "storable cs \<Longrightarrow> ck_save K cs k = (None, k') \<Longrightarrow>
      \<exists>cs'. ck_load K k' = Inr cs' \<and> map_of cs' = map_of cs"
begin

text \<open>A collector that starts after the checkpoint was saved finds the cursors of the one that saved it.\<close>

lemma restart_cursors:
  assumes "co_checkpoint C = Some K" "storable (cs_cursors st)" "ck_save K (cs_cursors st) k = (None, cs_store st)"
  shows "map_of (cs_cursors (load_checkpoint C (restarted st))) = map_of (cs_cursors st)"
  using load_saved [OF assms(2,3)] assms(1) by (auto simp: load_checkpoint_def restarted_def)

end

lemma map_of_sort_key_fst:
  assumes "distinct (map fst kvs)"
  shows "map_of (sort_key fst kvs) = map_of kvs"
proof
  fix k show "map_of (sort_key fst kvs) k = map_of kvs k"
  proof (cases "map_of kvs k")
    case None
    moreover have "map_of (sort_key fst kvs) k = None" using None by (simp add: map_of_eq_None_iff)
    ultimately show ?thesis by simp
  next
    case (Some c)
    then have "(k, c) \<in> set (sort_key fst kvs)" by (simp add: map_of_SomeD)
    then show ?thesis using Some map_of_is_SomeI [OF sort_key_fst_distinct [OF assms]] by simp
  qed
qed

text \<open>For the file store: the ids are of type \<open>int64\<close>, and the file can be read.\<close>

definition storable_cursors :: "checkpoint_disk \<Rightarrow> string \<Rightarrow> cursors \<Rightarrow> bool" where
  "storable_cursors D path cs \<longleftrightarrow> int64_cursors cs \<and> kd_unreadable D path = None"

interpretation file_checkpoint: checkpoint_contract "file_checkpoint_store D path" "storable_cursors D path"
proof
  fix cs k k'
  assume cs: "storable_cursors D path cs" and saved: "ck_save (file_checkpoint_store D path) cs k = (None, k')"
  obtain b where b: "checkpoint_text cs = Some b" "k' = AList.update path b k"
    using saved by (auto simp: file_checkpoint_store_def save_file_def split: option.splits)
  show "\<exists>cs'. ck_load (file_checkpoint_store D path) k' = Inr cs' \<and> map_of cs' = map_of cs"
    using checkpoint_read_back [OF b(1)] cs
    by (auto simp: b(2) file_checkpoint_store_def load_file_def update_conv' map_of_sort_key_fst
        storable_cursors_def int64_cursors_def)
qed

text \<open>
  Without the contract nothing is kept: a file that a failed save has truncated does not load, and the
  collector then starts as if it had never collected anything.
\<close>

lemma torn_checkpoint_forgotten:
  assumes "co_checkpoint C = Some (file_checkpoint_store D path)" "map_of (cs_store st) path = Some []"
  shows "cs_cursors (load_checkpoint C (restarted st)) = []"
proof -
  have "unmarshal_struct decode_checkpoint [] [] = None"
    by (simp add: unmarshal_struct_def unmarshal_def)
  then show ?thesis
    using assms by (simp add: load_checkpoint_def restarted_def file_checkpoint_store_def load_file_def split: option.split)
qed

end
