(* ===== verification/Argo_Collector_Facts.thy ===== *)
theory Argo_Collector_Facts
  imports Argo_Collector Changes
begin

text \<open>
  What the Argo CD collector promises: a settled checkpoint makes a repeated poll a no-op, the events
  of an application do not depend on the clock, a normalized event is a valid one, and the events of
  one operation belong to one change.
\<close>

subsection \<open>The checkpoint settles\<close>

definition history_type :: "source_event \<Rightarrow> bool" where
  "history_type se \<longleftrightarrow> trim_space (se_type se) \<in> {''argo.deployment.recorded'', ''argo.sync.finished''}"

definition tracked :: "source_event \<Rightarrow> bool" where
  "tracked se \<longleftrightarrow> history_type se \<or> trim_space (se_type se) \<in> {''argo.sync.started'', ''argo.health.changed''}"

text \<open>Two events of one application that the checkpoint cannot tell apart by history id agree in their key.\<close>

definition compatible :: "source_event \<Rightarrow> source_event \<Rightarrow> bool" where
  "compatible a b \<longleftrightarrow>
     source_app_key a = source_app_key b \<longrightarrow>
       (history_type a \<and> history_type b \<and> se_history_id a \<le> 0 \<and> se_history_id b \<le> 0 \<longrightarrow>
          trim_space (se_op_key a) = trim_space (se_op_key b)) \<and>
       (trim_space (se_type a) = ''argo.sync.started'' \<and> trim_space (se_type b) = ''argo.sync.started'' \<longrightarrow>
          trim_space (se_op_key a) = trim_space (se_op_key b)) \<and>
       (trim_space (se_type a) = ''argo.health.changed'' \<and> trim_space (se_type b) = ''argo.health.changed'' \<longrightarrow>
          trim_space (se_health a) = trim_space (se_health b))"

definition poll_batch :: "source_event list \<Rightarrow> bool" where
  "poll_batch ses \<longleftrightarrow> (\<forall>a\<in>set ses. tracked a \<and> (\<forall>b\<in>set ses. compatible a b))"

lemma cursor_of_advance:
  "cursor_of (advance_checkpoint cs se) a =
     (if source_app_key a = source_app_key se then advance_cursor (cursor_of cs a) se else cursor_of cs a)"
  by (simp add: cursor_of_def advance_checkpoint_def map_of_update)

lemma should_process_cursor:
  "cursor_of cs a = cursor_of cs' a \<Longrightarrow> should_process cs a = should_process cs' a"
  by (simp add: should_process_def Let_def)

lemma should_process_history:
  "history_type se \<Longrightarrow> should_process cs se \<longleftrightarrow> trim_space (se_id se) \<noteq> [] \<and> history_should_process se (cursor_of cs se)"
  by (auto simp: should_process_def history_type_def Let_def)

lemma advance_cursor_history: "history_type se \<Longrightarrow> advance_cursor c se = update_history_cursor c se"
  by (auto simp: advance_cursor_def history_type_def Let_def)

lemma advance_history_other:
  "\<not> history_type se \<Longrightarrow>
   cp_history_id (advance_cursor c se) = cp_history_id c \<and> cp_history_at (advance_cursor c se) = cp_history_at c \<and>
   cp_terminal_key (advance_cursor c se) = cp_terminal_key c"
  by (auto simp: advance_cursor_def history_type_def Let_def)

lemma advance_history_keys:
  "history_type se \<Longrightarrow>
   cp_start_key (advance_cursor c se) = cp_start_key c \<and> cp_health (advance_cursor c se) = cp_health c"
  by (simp add: advance_cursor_history update_history_cursor_def)

text \<open>An event that has been collected is not collected again.\<close>

lemma advance_settles: "tracked se \<Longrightarrow> \<not> should_process (advance_checkpoint cs se) se"
  by (auto simp: tracked_def should_process_def cursor_of_advance advance_cursor_def history_type_def Let_def
      history_should_process_def update_history_cursor_def)

text \<open>Collecting another event of the batch does not undo that.\<close>

lemma history_settled_mono:
  assumes "\<not> history_should_process a c" "history_type b"
    and "se_history_id a \<le> 0 \<Longrightarrow> se_history_id b \<le> 0 \<Longrightarrow> trim_space (se_op_key a) = trim_space (se_op_key b)"
  shows "\<not> history_should_process a (update_history_cursor c b)"
  using assms(1,3) by (auto simp: history_should_process_def update_history_cursor_def split: if_splits)

lemma advance_keeps:
  assumes "\<not> should_process cs a" "tracked a" "tracked b" "compatible a b"
  shows "\<not> should_process (advance_checkpoint cs b) a"
proof (cases "source_app_key a = source_app_key b")
  case False
  then have "cursor_of (advance_checkpoint cs b) a = cursor_of cs a" by (simp add: cursor_of_advance)
  then show ?thesis using assms(1) should_process_cursor by blast
next
  case same: True
  then have c: "cursor_of (advance_checkpoint cs b) a = advance_cursor (cursor_of cs a) b"
    by (simp add: cursor_of_advance)
  show ?thesis
  proof (cases "history_type a")
    case True
    show ?thesis
    proof (cases "history_type b")
      case b: True
      then show ?thesis
        using assms(1,4) same True history_settled_mono [of a "cursor_of cs a" b]
        by (auto simp: should_process_history c advance_cursor_history compatible_def)
    next
      case False
      then show ?thesis
        using assms(1) True advance_history_other [OF False, of "cursor_of cs a"]
        by (auto simp: should_process_history c history_should_process_def)
    qed
  next
    case False
    then show ?thesis
    proof (cases "history_type b")
      case True
      then show ?thesis
        using assms(1,2) False advance_history_keys [OF True, of "cursor_of cs a"]
        by (auto simp: tracked_def should_process_def Let_def c history_type_def)
    next
      case nb: False
      then show ?thesis
        using assms same False
        by (auto simp: tracked_def should_process_def Let_def c history_type_def compatible_def advance_cursor_def)
    qed
  qed
qed

text \<open>Whether a run collects everything that it does not skip.\<close>

fun all_collected ::
    "('s, 'k) collector \<Rightarrow> time \<Rightarrow> source_event list \<Rightarrow> ('s, 'k) collector_state \<Rightarrow> bool" where
  "all_collected C now [] st = True"
| "all_collected C now (se # ses) st =
     ((\<not> should_process (cs_cursors st) se \<or> fst (collect C now se st)) \<and>
      all_collected C now ses (snd (collect C now se st)))"

lemma collect_skips: "\<not> should_process (cs_cursors st) se \<Longrightarrow> collect C now se st = (False, st)"
  by (simp add: collect_def)

lemma collect_cursors:
  "cs_cursors (snd (collect C now se st)) =
     (if fst (collect C now se st) then advance_checkpoint (cs_cursors st) se else cs_cursors st)"
  by (auto simp: collect_def split: option.split sum.split prod.split)

lemma collect_all_skips: "\<forall>se\<in>set ses. \<not> should_process (cs_cursors st) se \<Longrightarrow> collect_all C now ses st = st"
  by (induction ses) (simp_all add: collect_skips)

lemma collect_keeps:
  assumes "\<not> should_process (cs_cursors st) a" "tracked a" "tracked b" "compatible a b"
  shows "\<not> should_process (cs_cursors (snd (collect C now b st))) a"
  using assms advance_keeps by (simp add: collect_cursors)

lemma collect_all_keeps:
  assumes "\<not> should_process (cs_cursors st) a" "tracked a" "\<forall>b\<in>set ses. tracked b \<and> compatible a b"
  shows "\<not> should_process (cs_cursors (collect_all C now ses st)) a"
  using assms by (induction ses arbitrary: st) (simp_all add: collect_keeps)

lemma collect_all_settles:
  assumes "all_collected C now ses st" "poll_batch ses"
  shows "\<forall>a\<in>set ses. \<not> should_process (cs_cursors (collect_all C now ses st)) a"
  using assms
proof (induction ses arbitrary: st)
  case Nil
  then show ?case by simp
next
  case (Cons se ses)
  let ?st = "snd (collect C now se st)"
  have "tracked se" using Cons.prems(2) by (simp add: poll_batch_def)
  then have "\<not> should_process (cs_cursors ?st) se"
    using Cons.prems(1) by (cases "fst (collect C now se st)") (auto simp: collect_cursors advance_settles)
  then have "\<not> should_process (cs_cursors (collect_all C now ses ?st)) se"
    using \<open>tracked se\<close> Cons.prems(2) by (intro collect_all_keeps) (auto simp: poll_batch_def)
  moreover have "poll_batch ses" using Cons.prems(2) by (simp add: poll_batch_def)
  ultimately show ?case using Cons.IH [of ?st] Cons.prems(1) by simp
qed

subsection \<open>The events of an application\<close>

definition app_key :: "application \<Rightarrow> string" where
  "app_key app = (if trim_space (app_uid app) \<noteq> [] then trim_space (app_uid app) else trim_space (app_name app))"

lemma source_app_key_base: "source_app_key (base_source_event app) = app_key app"
  by (simp add: source_app_key_def base_source_event_def app_key_def Let_def)

lemma base_history_id [simp]: "se_history_id (base_source_event app) = 0"
  by (simp add: base_source_event_def)

lemma source_app_key_update [simp]:
  "source_app_key (se\<lparr>se_id := a\<rparr>) = source_app_key se" "source_app_key (se\<lparr>se_revision := a\<rparr>) = source_app_key se"
  "source_app_key (se\<lparr>se_occurred := t\<rparr>) = source_app_key se" "source_app_key (se\<lparr>se_actor := a\<rparr>) = source_app_key se"
  "source_app_key (se\<lparr>se_type := a\<rparr>) = source_app_key se" "source_app_key (se\<lparr>se_result := a\<rparr>) = source_app_key se"
  "source_app_key (se\<lparr>se_health := a\<rparr>) = source_app_key se" "source_app_key (se\<lparr>se_history_id := i\<rparr>) = source_app_key se"
  "source_app_key (se\<lparr>se_op_key := a\<rparr>) = source_app_key se" "source_app_key (se\<lparr>se_payload := p\<rparr>) = source_app_key se"
  by (simp_all add: source_app_key_def Let_def)

lemma trim_types [simp]:
  "trim_space ''argo.deployment.recorded'' = ''argo.deployment.recorded''"
  "trim_space ''argo.sync.finished'' = ''argo.sync.finished''"
  "trim_space ''argo.sync.started'' = ''argo.sync.started''"
  "trim_space ''argo.health.changed'' = ''argo.health.changed''"
  by (rule trim_space_plain; simp add: plain_char_def)+

lemma history_event_fields:
  "history_event now app h = Some se \<Longrightarrow>
   source_app_key se = app_key app \<and> se_type se = ''argo.deployment.recorded'' \<and> se_history_id se = rh_id h"
  by (auto simp: history_event_def Let_def source_app_key_base split: if_splits)

lemma operation_event_base:
  "source_app_key (operation_event now app op) = app_key app" "se_history_id (operation_event now app op) = 0"
  by (simp_all add: operation_event_def source_app_key_base)

lemma operation_event_update:
  "se = (operation_event now app op)\<lparr>se_id := a, se_occurred := t, se_type := ty\<rparr> \<Longrightarrow>
   source_app_key se = app_key app \<and> se_type se = ty \<and> se_history_id se = 0"
  by (simp add: operation_event_base)

lemma guarded_singleton:
  "x \<in> set (if p then (if q then [] else [a]) else if r then [b] else []) \<Longrightarrow>
   (x = a \<or> x = b) \<and> (if p then (if q then [] else [a]) else if r then [b] else []) = [x]"
  by (auto split: if_splits)

lemma operation_event_fields:
  assumes "se \<in> set (operation_events now app)"
  shows "source_app_key se = app_key app \<and> se_type se \<in> {''argo.sync.started'', ''argo.sync.finished''} \<and>
   se_history_id se = 0 \<and> operation_events now app = [se]"
proof -
  from assms obtain op where op: "app_operation app = Some op"
    by (cases "app_operation app") (simp_all add: operation_events_def)
  note eq = operation_events_def [of now app, unfolded op option.case Let_def]
  note se = guarded_singleton [OF assms [unfolded eq], folded eq]
  from se have "operation_events now app = [se]" by blast
  moreover from se have "source_app_key se = app_key app \<and> se_history_id se = 0 \<and>
      (se_type se = ''argo.sync.started'' \<or> se_type se = ''argo.sync.finished'')"
    using operation_event_update by (elim conjE disjE) metis+
  ultimately show ?thesis by simp
qed

lemma health_event_fields:
  "se \<in> set (health_events now app) \<Longrightarrow>
   source_app_key se = app_key app \<and> se_type se = ''argo.health.changed'' \<and> health_events now app = [se]"
  by (auto simp: health_events_def Let_def source_app_key_base split: if_splits)

lemma to_source_events_cases:
  assumes "se \<in> set (to_source_events now app)"
  obtains (history) h where "h \<in> set (app_history app)" "history_event now app h = Some se"
    | (operation) "se \<in> set (operation_events now app)"
    | (health) "se \<in> set (health_events now app)"
  using assms by (auto simp: to_source_events_def List.map_filter_def)

lemma to_source_events_tracked:
  "se \<in> set (to_source_events now app) \<Longrightarrow> source_app_key se = app_key app \<and> tracked se"
  by (erule to_source_events_cases)
    (auto dest!: history_event_fields operation_event_fields health_event_fields simp: tracked_def history_type_def)

lemma to_source_events_compatible:
  assumes "a \<in> set (to_source_events now app)" "b \<in> set (to_source_events now app)"
    and "\<forall>h\<in>set (app_history app). 0 < rh_id h"
  shows "compatible a b"
  using assms(1)
proof (cases rule: to_source_events_cases)
  case (history h)
  then show ?thesis
    using history_event_fields [OF history(2)] assms(3) by (force simp: compatible_def)
next
  case operation
  note a = operation_event_fields [OF operation]
  from assms(2) show ?thesis
  proof (cases rule: to_source_events_cases)
    case (history h)
    then show ?thesis
      using history_event_fields [OF history(2)] assms(3) by (force simp: compatible_def)
  next
    case operation
    then have "b = a" using a by simp
    then show ?thesis by (simp add: compatible_def)
  next
    case health
    then show ?thesis using a health_event_fields [OF health] by (auto simp: compatible_def history_type_def)
  qed
next
  case health
  note a = health_event_fields [OF health]
  from assms(2) show ?thesis
  proof (cases rule: to_source_events_cases)
    case (history h)
    then show ?thesis
      using a history_event_fields [OF history(2)] by (auto simp: compatible_def history_type_def)
  next
    case operation
    then show ?thesis using a operation_event_fields [OF operation] by (auto simp: compatible_def history_type_def)
  next
    case health
    then have "b = a" using a by simp
    then show ?thesis by (simp add: compatible_def)
  qed
qed

lemma poll_batch_fetch:
  assumes "\<forall>app\<in>set apps. \<forall>h\<in>set (app_history app). 0 < rh_id h" "distinct (map app_key apps)"
  shows "poll_batch (fetch_applications now apps)"
  unfolding poll_batch_def
proof (intro ballI conjI)
  fix a assume "a \<in> set (fetch_applications now apps)"
  then obtain x where x: "x \<in> set apps" "a \<in> set (to_source_events now x)"
    by (auto simp: fetch_applications_def)
  note ax = to_source_events_tracked [OF x(2)]
  then show "tracked a" by simp
  fix b assume "b \<in> set (fetch_applications now apps)"
  then obtain y where y: "y \<in> set apps" "b \<in> set (to_source_events now y)"
    by (auto simp: fetch_applications_def)
  show "compatible a b"
  proof (cases "x = y")
    case True
    then show ?thesis using to_source_events_compatible [OF x(2)] y(2) assms(1) x(1) by blast
  next
    case False
    then have "app_key x \<noteq> app_key y" using assms(2) x(1) y(1) by (auto simp: distinct_map inj_on_def)
    then show ?thesis using ax to_source_events_tracked [OF y(2)] by (simp add: compatible_def)
  qed
qed

subsection \<open>The events do not depend on the clock\<close>

definition latest_of :: "time \<Rightarrow> time list \<Rightarrow> time" where
  "latest_of t ts = foldl (\<lambda>latest t. if is_zero t then latest else if latest < t then t else latest) t ts"

lemma latest_of_mono: "t \<le> latest_of t ts"
proof (induction ts arbitrary: t)
  case (Cons a ts)
  have "t \<le> (if is_zero a then t else if t < a then a else t)" by simp
  also have "\<dots> \<le> latest_of \<dots> ts" by (rule Cons.IH)
  finally show ?case by (simp add: latest_of_def)
qed (simp add: latest_of_def)

lemma most_recent_time_clock:
  assumes "app_reconciled app = Some t" "0 < t"
  shows "most_recent_time now app = most_recent_time later app"
proof -
  obtain ts where ts: "recent_choices app = t # ts"
    by (simp add: recent_choices_def time_from_meta_def assms(1))
  have "0 < latest_of 0 (recent_choices app)"
    using latest_of_mono [of t ts] assms(2) by (simp add: ts latest_of_def)
  then show ?thesis by (simp add: most_recent_time_def latest_of_def)
qed

lemma to_source_events_clock:
  assumes "app_reconciled app = Some t" "0 < t"
  shows "to_source_events now app = to_source_events later app"
proof -
  note m = most_recent_time_clock [OF assms, of now later]
  have h: "history_occurred_at now h app = history_occurred_at later h app" for h
    unfolding history_occurred_at_def m ..
  have "history_event now app = history_event later app"
    unfolding history_event_def h ..
  moreover have "operation_events now app = operation_events later app"
    unfolding operation_events_def operation_event_def operation_finished_def m ..
  moreover have "health_events now app = health_events later app"
    using assms by (simp add: health_events_def time_from_meta_def)
  ultimately show ?thesis by (simp add: to_source_events_def)
qed

subsection \<open>Normalized events\<close>

lemma map_of_set_if: "map_of (set_if c k v m) k' = (if c \<and> k' = k then Some v else map_of m k')"
  by (simp add: set_if_def map_of_update)

lemma map_of_annotation_extensions:
  "k \<notin> {''external_change_id'', ''ticket_id'', ''approval_reference'', ''approvals_json''} \<Longrightarrow>
   map_of (annotation_extensions ann ext) k = map_of ext k"
  by (simp add: annotation_extensions_def map_of_set_if)

lemma add_payload_extensions:
  assumes "add_payload p (ext, data) = (ext', data')"
    and "k \<notin> {''external_change_id'', ''ticket_id'', ''approval_reference'', ''approvals_json''}"
  shows "map_of ext' k = map_of ext k"
  using assms(1) map_of_annotation_extensions [OF assms(2)]
  by (auto simp: add_payload_def Let_def split: option.splits)

lemma normalize_Inr:
  assumes "normalize_source_event env se = Inr e"
  obtains ext data where "add_payload (se_payload se) (source_extensions env se, source_data se) = (ext, data)"
    and "ev_extensions e = ext" "ev_data e = marshal (GObj data)" "ev_id e = ''evt_argocd_'' @ se_id se"
      "ev_source e = ''argocd''" "ev_type e = source_event_type se" "ev_subject e = trim_space (se_app se)"
      "ev_time e = se_occurred se" "se_occurred se \<noteq> 0" "ev_hash e = []"
proof (cases "add_payload (se_payload se) (source_extensions env se, source_data se)")
  case (Pair ext data)
  show thesis
    by (rule that [of ext data], rule Pair)
      (use assms Pair in \<open>auto simp: normalize_source_event_def split: if_splits\<close>)
qed

lemma normalize_extension:
  assumes "normalize_source_event env se = Inr e"
    and "k \<notin> {''external_change_id'', ''ticket_id'', ''approval_reference'', ''approvals_json''}"
  shows "map_of (ev_extensions e) k = map_of (source_extensions env se) k"
  using assms(1) by (rule normalize_Inr) (use add_payload_extensions [OF _ assms(2)] in auto)

lemma source_extensions_lookup:
  "map_of (source_extensions env se) ''cluster'' = Some (GStr (or_default (trim_space (se_cluster se)) ''unknown''))"
  "map_of (source_extensions env se) ''namespace'' = Some (GStr (source_environment env se))"
  "map_of (source_extensions env se) ''supporting_observation'' = None"
  "map_of (source_extensions env se) ''primary_provider'' = None"
  "map_of (source_extensions env se) ''primary_reference'' = None"
  "map_of (source_extensions env se) ''operation_id'' =
     (if trim_space (se_op_key se) \<noteq> [] then Some (GStr (trim_space (se_op_key se))) else None)"
  by (simp_all add: source_extensions_def Let_def map_of_set_if)

text \<open>The change of a normalized event depends on its application, destination and operation only.\<close>

lemma normalized_change:
  assumes e: "normalize_source_event env se = Inr e" and "trim_space (se_op_key se) \<noteq> []"
  shows "derive_change_identity e =
    (let subject = to_lower (trim_space (se_app se) @ '':'' @ trim_space (source_environment env se) @ '':'' @
           trim_space (or_default (trim_space (se_cluster se)) ''unknown''))
     in (''chg_'' @ stable_hash (subject @ '':'' @ ''argo'' @ '':'' @ trim_space (se_op_key se)), ''argo'',
         trim_space (se_op_key se), first_extension (ev_extensions e) [''revision'', ''sync_revision'', ''commit_sha'']))"
proof -
  let ?x = "ev_extensions e"
  have l: "extension_string ?x ''cluster'' = trim_space (or_default (trim_space (se_cluster se)) ''unknown'')"
    "extension_string ?x ''namespace'' = trim_space (source_environment env se)"
    "\<not> extension_bool ?x ''supporting_observation''"
    "extension_string ?x ''primary_provider'' = []" "extension_string ?x ''primary_reference'' = []"
    "extension_string ?x ''operation_id'' = trim_space (se_op_key se)"
    using assms(2)
    by (simp_all add: extension_string_def extension_bool_def normalize_extension [OF e] source_extensions_lookup)
  have n: "normalize_primary_provider ''argocd'' ?x = ''argo''"
    using l(3,4) by (simp add: normalize_primary_provider_def) code_simp
  have r: "first_extension ?x [''primary_reference'', ''operation_id'', ''history_id'', ''deploy_id'',
      ''pipeline_id'', ''run_id'', ''job_id''] = trim_space (se_op_key se)"
    using l assms(2) by (simp add: first_extension_def)
  have "ev_source e = ''argocd''" "ev_subject e = trim_space (se_app se)"
    using e by (rule normalize_Inr, simp)+
  then show ?thesis
    using assms(2) by (simp add: derive_change_identity_def subject_identity_def Let_def n r l)
qed

subsection \<open>What is fetched can be stored\<close>

lemma trim_colon: "CHR '':'' \<in> set s \<Longrightarrow> trim_space s \<noteq> []"
  using trim_space_keeps [of "CHR '':''" s] by (auto simp: plain_char_def)

lemma deterministic_ids_nonblank:
  "trim_space (deterministic_history_id u i r t) \<noteq> []" "trim_space (deterministic_operation_id u k x) \<noteq> []"
  "trim_space (deterministic_health_id u h t) \<noteq> []"
  by (rule trim_colon, simp add: deterministic_history_id_def deterministic_operation_id_def deterministic_health_id_def)+

lemma clock_nonzero:
  assumes "now \<noteq> (0::time)"
  shows "most_recent_time now app \<noteq> 0" "history_occurred_at now h app \<noteq> 0" "operation_finished now app op \<noteq> 0"
  using assms by (simp_all add: most_recent_time_def history_occurred_at_def operation_finished_def Let_def
      split: option.split)

text \<open>What the four kinds of source event have in common; \<open>kvs\<close> is the payload without its annotations.\<close>

definition fetched_event :: "application \<Rightarrow> source_event \<Rightarrow> bool" where
  "fetched_event app se \<longleftrightarrow>
     trim_space (se_id se) \<noteq> [] \<and> se_app se = trim_space (app_name app) \<and> se_occurred se \<noteq> 0 \<and>
     (\<exists>kvs. se_payload se = Some (with_annotations (evidra_annotations (app_annotations app)) kvs) \<and>
        json_plain (GObj kvs) \<and> ''annotations'' \<notin> fst ` set kvs)"

lemma base_app [simp]: "se_app (base_source_event app) = trim_space (app_name app)"
  by (simp add: base_source_event_def)

lemma history_event_fetched: "history_event now app h = Some se \<Longrightarrow> now \<noteq> 0 \<Longrightarrow> fetched_event app se"
  by (auto simp: history_event_def fetched_event_def Let_def deterministic_ids_nonblank clock_nonzero split: if_splits)

lemma health_event_fetched: "se \<in> set (health_events now app) \<Longrightarrow> now \<noteq> 0 \<Longrightarrow> fetched_event app se"
  by (auto simp: health_events_def fetched_event_def Let_def deterministic_ids_nonblank split: if_splits)

lemma operation_event_fetched:
  assumes "se \<in> set (operation_events now app)" "now \<noteq> 0"
  shows "fetched_event app se"
proof -
  from assms obtain op where op: "app_operation app = Some op"
    by (cases "app_operation app") (simp_all add: operation_events_def)
  have ok: "fetched_event app ((operation_event now app op)
      \<lparr>se_id := deterministic_operation_id u k x, se_occurred := t, se_type := ty\<rparr>)" if "t \<noteq> 0" for u k x t ty
    using that
    by (auto simp: fetched_event_def operation_event_def deterministic_ids_nonblank
        intro!: exI [of _ "[(''operation_phase'', GStr (trim_space (os_phase op)))]"])
  note se = assms(1) [unfolded operation_events_def op option.case Let_def]
  show ?thesis
  proof (cases "os_started op = 0")
    case True
    with se have "se \<in> set (if is_terminal_phase (os_phase op) then
       [(operation_event now app op)
          \<lparr>se_id := deterministic_operation_id (trim_space (app_uid app)) (se_op_key (operation_event now app op)) ''finish'',
           se_occurred := operation_finished now app op, se_type := ''argo.sync.finished''\<rparr>] else [])"
      by (simp split: if_splits)
    then show ?thesis using ok clock_nonzero(3) [OF assms(2)] by (simp split: if_splits)
  next
    case False
    with guarded_singleton [OF se] show ?thesis using ok clock_nonzero(3) [OF assms(2)] by auto
  qed
qed

lemma to_source_events_fetched:
  "se \<in> set (to_source_events now app) \<Longrightarrow> now \<noteq> 0 \<Longrightarrow> fetched_event app se"
  by (erule to_source_events_cases)
    (auto intro: history_event_fetched operation_event_fetched health_event_fetched)

lemma map_of_map_filter:
  "map_of (List.map_filter (\<lambda>k. if p k then Some (k, f k) else None) ks) k =
     (if k \<in> set ks \<and> p k then Some (f k) else None)"
  by (induction ks) (auto simp: List.map_filter_simps)

lemma map_filter_keys:
  "map fst (List.map_filter (\<lambda>k. if p k then Some (k, f k) else None) ks) = filter p ks"
  by (induction ks) (simp_all add: List.map_filter_simps)

lemma evidra_annotations_plain: "json_plain (GStrMap (evidra_annotations m))"
  by (simp add: evidra_annotations_def map_filter_keys)

lemma map_of_evidra_annotations:
  "annotation m k = [] \<Longrightarrow> map_of (evidra_annotations m) k = None"
  unfolding evidra_annotations_def map_of_map_filter by simp

lemma map_of_trim_values: "map_of (map (\<lambda>(k, v). (k, trim_space v)) m) k = map_option trim_space (map_of m k)"
  by (induction m) auto

lemma annotation_absent: "map_of m k = None \<Longrightarrow> annotation m k = []"
  by (simp add: annotation_def)

lemma payload_annotations_with:
  assumes "''annotations'' \<notin> fst ` set kvs"
  shows "payload_annotations (with_annotations ann kvs) =
    (if ann = [] then None else Some (map (\<lambda>(k, v). (k, trim_space v)) ann))"
  using assms map_of_eq_None_iff [of kvs "''annotations''"]
  by (auto simp: payload_annotations_def with_annotations_def Let_def map_add_def)

lemma with_annotations_plain:
  assumes "json_plain (GObj kvs)" "json_plain (GStrMap ann)" "''annotations'' \<notin> fst ` set kvs"
  shows "json_plain (GObj (with_annotations ann kvs))"
  using assms by (auto simp: with_annotations_def)

text \<open>Without inline approvals the data of the event is valid JSON.\<close>

lemma normalized_data_plain:
  assumes "fetched_event app se" "annotation (app_annotations app) ''evidra.rest/approvals-json'' = []"
    and "add_payload (se_payload se) (ext, source_data se) = (ext', data)"
  shows "json_plain (GObj data)"
proof -
  let ?ann = "evidra_annotations (app_annotations app)"
  from assms(1) obtain kvs where p: "se_payload se = Some (with_annotations ?ann kvs)"
    and kvs: "json_plain (GObj kvs)" "''annotations'' \<notin> fst ` set kvs"
    by (auto simp: fetched_event_def)
  have "annotation (map (\<lambda>(k, v). (k, trim_space v)) ?ann) ''evidra.rest/approvals-json'' = []"
    using map_of_evidra_annotations [OF assms(2)] by (intro annotation_absent) (simp add: map_of_trim_values)
  then have "data = AList.update ''source_payload'' (GObj (with_annotations ?ann kvs)) (source_data se)"
    using assms(3) kvs(2)
    by (simp add: add_payload_def p payload_annotations_with annotation_data_def split: if_splits)
  moreover have "json_plain (GObj (with_annotations ?ann kvs))"
    using kvs evidra_annotations_plain by (intro with_annotations_plain)
  ultimately show ?thesis by (simp add: source_data_def)
qed

lemma marshal_object_shape: "marshal (GObj kvs) \<noteq> [] \<and> marshal (GObj kvs) \<noteq> ''null''"
  by (simp add: json_object_def)

lemma hash_plain:
  assumes "ev_data e = marshal (GObj data)" "json_plain (GObj data)"
  shows "\<exists>h. compute_integrity_hash e = Inr h"
  using unmarshal_marshal [OF assms(2)] marshal_object_shape [of data]
  by (simp add: compute_integrity_hash_def canonical_text_def marshal_raw_def assms(1) del: marshal.simps)

lemma ingest_accepts:
  assumes "validate_stored_event e" "ev_hash e = []" "\<exists>h. compute_integrity_hash e = Inr h"
  shows "fst (ingest_event t e m) = Inl ErrConflict \<or> (\<exists>r. fst (ingest_event t e m) = Inr r)"
  using assms by (cases rule: ingest_event_cases [where e = e and now = t and m = m]) (auto simp: with_hash_def)

subsection \<open>An operation and its events\<close>

lemma operation_event_key:
  assumes "se \<in> set (operation_events now app)" "app_operation app = Some op"
  shows "se_op_key se = operation_key (sync_revision app) (os_started op) (operation_finished now app op) \<and>
    se_app se = trim_space (app_name app) \<and> se_namespace se = trim_space (app_namespace app) \<and>
    se_cluster se = or_default (trim_space (app_server app)) ''unknown''"
  using guarded_singleton [OF assms(1) [unfolded operation_events_def assms(2) option.case Let_def]]
  by (auto simp: operation_event_def base_source_event_def)

lemma operation_key_started: "started \<noteq> 0 \<Longrightarrow> operation_key r started x = operation_key r started y"
  by (simp add: operation_key_def)

lemma operation_key_nonblank: "trim_space (operation_key r started x) \<noteq> []"
  by (rule trim_colon) (simp add: operation_key_def Let_def)

lemma history_overtaken:
  assumes "history_type a" "history_type b" "source_app_key a = source_app_key b"
    and "0 < se_history_id a" "se_history_id a < se_history_id b"
  shows "\<not> should_process (advance_checkpoint cs b) a"
  using assms
  by (auto simp: should_process_history cursor_of_advance advance_cursor_history history_should_process_def
      update_history_cursor_def)

lemma poll_fields [simp]:
  "cs_sink (poll C now (Inr ses) st) = cs_sink (collect_all C now ses st)"
  "cs_cursors (poll C now (Inr ses) st) = cs_cursors (collect_all C now ses st)"
  by (simp_all add: poll_def save_checkpoint_def split: option.split)

lemma fetch_applications_clock:
  assumes "\<forall>app\<in>set apps. \<exists>t. app_reconciled app = Some t \<and> 0 < t"
  shows "fetch_applications later apps = fetch_applications now apps"
  using assms to_source_events_clock unfolding fetch_applications_def
  by (intro arg_cong [of _ _ concat] map_cong) blast+

subsection \<open>A sample\<close>

definition sample_app :: "operation_state option \<Rightarrow> application" where
  "sample_app op =
     \<lparr>app_uid = ''u1'', app_name = ''shop'', app_revision = ''abc'', app_revisions = [], app_server = ''c1'',
      app_namespace = ''prod'', app_annotations = [(''evidra.rest/ticket'', ''T-1'')],
      app_history = [\<lparr>rh_id = 7, rh_revision = ''abc'', rh_deployed_at = 90, rh_deploy_started = None\<rparr>],
      app_operation = op, app_health = [], app_reconciled = Some 100\<rparr>"

definition sample_operation :: "string \<Rightarrow> time option \<Rightarrow> operation_state" where
  "sample_operation phase finished =
     \<lparr>os_phase = phase, os_started = 50, os_finished = finished, os_username = [], os_automated = True\<rparr>"

definition sample_collector :: "(mem_repo, unit) collector" where
  "sample_collector =
     \<lparr>co_normalize = Some (normalize_source_event ''prod''), co_sink = Some memory_repository, co_checkpoint = None\<rparr>"

definition sample_collector_state :: "(mem_repo, unit) collector_state" where
  "sample_collector_state =
     \<lparr>cs_loaded = True, cs_cursors = [], cs_sink = new_memory_repository, cs_store = ()\<rparr>"

lemma sample_app_key: "app_key (sample_app op) = ''u1''"
  unfolding app_key_def sample_app_def by code_simp

lemma sample_annotation: "annotation (app_annotations (sample_app op)) ''evidra.rest/approvals-json'' = []"
  by (simp add: annotation_def sample_app_def)

lemma sample_history_event: "\<exists>se. to_source_events 120 (sample_app None) = [se] \<and> se_history_id se = 7"
  by (simp add: to_source_events_def sample_app_def operation_events_def health_events_def history_event_def
      terminal_operation_window_def Let_def List.map_filter_simps)

text \<open>An event of the fetch is normalized, and a repository without it stores it.\<close>

lemma fetched_event_normalized:
  assumes "fetched_event app se" "annotation (app_annotations app) ''evidra.rest/approvals-json'' = []"
    and "trim_space (app_name app) \<noteq> []"
  shows "\<exists>e. normalize_source_event env se = Inr e \<and> validate_stored_event e \<and> ev_hash e = [] \<and>
    (\<exists>h. compute_integrity_hash e = Inr h)"
proof -
  obtain ext data where ap: "add_payload (se_payload se) (source_extensions env se, source_data se) = (ext, data)"
    by fastforce
  let ?e = "\<lparr>ev_id = ''evt_argocd_'' @ se_id se, ev_type = source_event_type se, ev_source = ''argocd'',
      ev_subject = trim_space (se_app se), ev_time = se_occurred se, ev_extensions = ext,
      ev_data = marshal (GObj data), ev_hash = [], ev_ingested = 0\<rparr>"
  have e: "normalize_source_event env se = Inr ?e"
    using assms(1,3) ap by (simp add: normalize_source_event_def fetched_event_def)
  have "source_event_type se \<noteq> []" by (simp add: source_event_type_def or_default_def)
  then have "validate_stored_event ?e"
    using assms(1) marshal_object_shape [of data]
    by (simp add: validate_stored_event_def fetched_event_def del: marshal.simps)
  moreover have "\<exists>h. compute_integrity_hash ?e = Inr h"
    using normalized_data_plain [OF assms(1,2) ap] by (intro hash_plain) (simp_all del: marshal.simps)
  ultimately show ?thesis using e by auto
qed

lemma sample_collect:
  assumes "to_source_events 120 (sample_app None) = [se]" "should_process (cs_cursors st) se" "cs_sink st = new_memory_repository"
  shows "fst (collect sample_collector 120 se st)"
proof -
  have f: "fetched_event (sample_app None) se"
    using to_source_events_fetched [of se 120 "sample_app None"] assms(1) by simp
  have "trim_space (app_name (sample_app None)) \<noteq> []" unfolding sample_app_def by code_simp
  then obtain e where e: "normalize_source_event ''prod'' se = Inr e" "validate_stored_event e" "ev_hash e = []"
      "\<exists>h. compute_integrity_hash e = Inr h"
    using fetched_event_normalized [OF f sample_annotation, of "''prod''"] by blast
  then have "\<exists>x. fst (ingest_event 120 e new_memory_repository) = Inr x"
    by (cases rule: ingest_event_cases [where e = e and now = 120 and m = new_memory_repository])
      (auto simp: with_hash_def new_memory_repository_def)
  then show ?thesis
    using e(1) assms(2,3) by (auto simp: collect_def sample_collector_def split: prod.split sum.split)
qed

lemma sample_collected: "all_collected sample_collector 120 (fetch_applications 120 [sample_app None]) sample_collector_state"
proof -
  obtain se where se: "to_source_events 120 (sample_app None) = [se]"
    using sample_history_event by blast
  then have "should_process (cs_cursors sample_collector_state) se \<Longrightarrow>
      fst (collect sample_collector 120 se sample_collector_state)"
    by (intro sample_collect) (simp_all add: sample_collector_state_def)
  then show ?thesis by (auto simp: fetch_applications_def se)
qed

subsection \<open>Properties\<close>

text \<open>
  C32: polling is idempotent. After a poll in which every new event was collected, polling the same
  applications again, at any later time, changes neither the event store nor the checkpoint. The
  applications have distinct keys, have been reconciled, and their history entries carry an id.
\<close>

theorem argo_poll_twice:
  assumes "distinct (map app_key apps)"
    and "\<forall>app\<in>set apps. \<exists>t. app_reconciled app = Some t \<and> 0 < t"
    and "\<forall>app\<in>set apps. \<forall>h\<in>set (app_history app). 0 < rh_id h"
    and "all_collected C now (fetch_applications now apps) st"
    and "st' = poll C now (Inr (fetch_applications now apps)) st"
  shows "cs_sink (poll C later (Inr (fetch_applications later apps)) st') = cs_sink st' \<and>
    cs_cursors (poll C later (Inr (fetch_applications later apps)) st') = cs_cursors st'"
proof -
  have same: "fetch_applications later apps = fetch_applications now apps"
    by (rule fetch_applications_clock [OF assms(2)])
  have "\<forall>a\<in>set (fetch_applications now apps). \<not> should_process (cs_cursors st') a"
    using collect_all_settles [OF assms(4)] poll_batch_fetch [OF assms(3,1)] by (simp add: assms(5))
  then show ?thesis by (simp add: same collect_all_skips)
qed

theorem argo_poll_twice_witness:
  "cs_sink (poll sample_collector 900 (Inr (fetch_applications 900 [sample_app None]))
      (poll sample_collector 120 (Inr (fetch_applications 120 [sample_app None])) sample_collector_state)) =
   cs_sink (poll sample_collector 120 (Inr (fetch_applications 120 [sample_app None])) sample_collector_state)"
  using argo_poll_twice [OF _ _ _ sample_collected refl, of 900] by (simp add: sample_app_def)

text \<open>
  What the fetch produces can be stored: every source event of a named application without inline
  approvals normalizes to an event that the repository accepts, unless it holds a different event of
  that id: no validation error and no hashing error is possible.
\<close>

lemma fetched_events_storable:
  assumes "se \<in> set (to_source_events now app)" "now \<noteq> 0" "trim_space (app_name app) \<noteq> []"
    and "annotation (app_annotations app) ''evidra.rest/approvals-json'' = []"
  shows "\<exists>e. normalize_source_event env se = Inr e \<and> validate_stored_event e \<and>
    (\<forall>t m. fst (ingest_event t e m) = Inl ErrConflict \<or> (\<exists>r. fst (ingest_event t e m) = Inr r))"
  using fetched_event_normalized [OF to_source_events_fetched [OF assms(1,2)] assms(4,3), of env] ingest_accepts
  by blast

lemma fetched_events_storable_witness:
  "\<exists>se e. to_source_events 120 (sample_app None) = [se] \<and> normalize_source_event ''x'' se = Inr e \<and>
     (\<exists>r. fst (ingest_event 5 e new_memory_repository) = Inr r)"
proof -
  obtain se where se: "to_source_events 120 (sample_app None) = [se]" using sample_history_event by blast
  have "trim_space (app_name (sample_app None)) \<noteq> []" unfolding sample_app_def by code_simp
  then obtain e where e: "normalize_source_event ''x'' se = Inr e"
      "fst (ingest_event 5 e new_memory_repository) = Inl ErrConflict \<or> (\<exists>r. fst (ingest_event 5 e new_memory_repository) = Inr r)"
    using fetched_events_storable [of se 120 "sample_app None" "''x''"] se sample_annotation by auto
  moreover have "fst (ingest_event 5 e new_memory_repository) \<noteq> Inl ErrConflict"
    by (cases rule: ingest_event_cases [where e = e and now = 5 and m = new_memory_repository])
      (auto simp: new_memory_repository_def with_hash_def split: if_splits sum.splits)
  ultimately show ?thesis using se by blast
qed



text \<open>
  A failed history event can be overtaken. When the repository refuses an entry of the history and
  takes a later entry of the same application in the same run, the checkpoint moves past the refused
  one, and no later run collects it.
\<close>

lemma failed_event_overtaken:
  assumes "history_type a" "history_type b" "source_app_key a = source_app_key b"
    and "0 < se_history_id a" "se_history_id a < se_history_id b"
    and "\<not> fst (collect C now a st)" "fst (collect C now b (snd (collect C now a st)))"
  shows "collect C later a (collect_all C now [a, b] st) = (False, collect_all C now [a, b] st)"
  using assms(7) history_overtaken [OF assms(1-5)] by (intro collect_skips) (simp add: collect_cursors)

lemma failed_event_overtaken_witness:
  "\<exists>a b. 0 < se_history_id a \<and> se_history_id a < se_history_id b \<and>
     fst (collect sample_collector 900 a (collect_all sample_collector 120 [a, b] sample_collector_state)) = False"
proof -
  obtain b where b: "to_source_events 120 (sample_app None) = [b]" "se_history_id b = 7"
    using sample_history_event by blast
  let ?a = "b\<lparr>se_history_id := 3, se_occurred := 0\<rparr>"
  obtain h where "history_event 120 (sample_app None) h = Some b"
    using b(1) by (auto simp: to_source_events_def sample_app_def operation_events_def health_events_def List.map_filter_simps
        split: option.splits)
  then have "se_type b = ''argo.deployment.recorded''" by (simp add: history_event_fields)
  then have ty: "history_type b" "history_type ?a" by (simp_all add: history_type_def)
  have "trim_space (se_id b) \<noteq> []"
    using to_source_events_fetched [of b 120 "sample_app None"] b(1) by (simp add: fetched_event_def)
  then have "should_process [] b"
    using ty(1) b(2) by (simp add: should_process_history history_should_process_def cursor_of_def empty_checkpoint_def)
  moreover have "collect sample_collector 120 ?a sample_collector_state = (False, sample_collector_state)"
    by (simp add: collect_def sample_collector_def normalize_source_event_def)
  ultimately show ?thesis
    using failed_event_overtaken [of ?a b sample_collector 120 sample_collector_state 900]
      sample_collect [OF b(1), of sample_collector_state] ty b(2)
    by (intro exI [of _ ?a] exI [of _ b]) (simp add: sample_collector_state_def)
qed

end
