(* ===== verification/Argo_Checkpoint_Facts.thy ===== *)
theory Argo_Checkpoint_Facts
  imports Argo_Checkpoint Argo_Collector_Facts
begin

text \<open>
  The Argo CD collector across restarts: a process that starts with the checkpoint file that a poll has
  written goes on as the one before would have. The cursors stay in the range of their type, and a
  checkpoint is only ever asked for its cursors, so that the order of the file does not matter.
\<close>

subsection \<open>Cursors stay storable\<close>

lemma int64_advance_cursor:
  assumes "- (2 ^ 63) \<le> cp_history_id c" "cp_history_id c < 2 ^ 63" "se_history_id se < 2 ^ 63"
  shows "- (2 ^ 63) \<le> cp_history_id (advance_cursor c se) \<and> cp_history_id (advance_cursor c se) < 2 ^ 63"
  using assms by (auto simp: advance_cursor_def update_history_cursor_def Let_def)

lemma set_update_subset: "set (AList.update k c cs) \<subseteq> insert (k, c) (set cs)"
  by (induction cs) auto

text \<open>A predicate that the empty cursor has and that every event keeps holds of all cursors.\<close>

lemma cursors_invariant:
  assumes "P empty_checkpoint" "\<And>c se. se \<in> set ses \<Longrightarrow> P c \<Longrightarrow> P (advance_cursor c se)"
    and "\<forall>(k, c)\<in>set (cs_cursors st). P c"
  shows "\<forall>(k, c)\<in>set (cs_cursors (collect_all C now ses st)). P c"
  using assms(2,3)
proof (induction ses arbitrary: st)
  case (Cons se ses)
  have "P (cursor_of (cs_cursors st) se)"
    using assms(1) Cons.prems(2) by (auto simp: cursor_of_def split: option.split dest!: map_of_SomeD)
  then have "P (advance_cursor (cursor_of (cs_cursors st) se) se)" using Cons.prems(1) by simp
  then have "\<forall>(k, c)\<in>set (advance_checkpoint (cs_cursors st) se). P c"
    unfolding advance_checkpoint_def
    using Cons.prems(2) set_update_subset [of "source_app_key se" "advance_cursor (cursor_of (cs_cursors st) se) se" "cs_cursors st"]
    by blast
  then have "\<forall>(k, c)\<in>set (cs_cursors (snd (collect C now se st))). P c"
    using Cons.prems(2) by (simp add: collect_cursors)
  then show ?case using Cons by simp
qed simp

lemma distinct_collect_all:
  "distinct (map fst (cs_cursors st)) \<Longrightarrow> distinct (map fst (cs_cursors (collect_all C now ses st)))"
proof (induction ses arbitrary: st)
  case (Cons se ses)
  then have "distinct (map fst (cs_cursors (snd (collect C now se st))))"
    by (simp add: collect_cursors advance_checkpoint_def distinct_update)
  then show ?case using Cons.IH by simp
qed simp

lemma int64_collect_all:
  assumes "int64_cursors (cs_cursors st)" "\<forall>se\<in>set ses. se_history_id se < 2 ^ 63"
  shows "int64_cursors (cs_cursors (collect_all C now ses st))"
  unfolding int64_cursors_def list_all_iff
proof
  show "distinct (map fst (cs_cursors (collect_all C now ses st)))"
    using assms(1) by (intro distinct_collect_all) (simp add: int64_cursors_def)
  show "\<forall>(k, c)\<in>set (cs_cursors (collect_all C now ses st)). - (2 ^ 63) \<le> cp_history_id c \<and> cp_history_id c < 2 ^ 63"
  proof (rule cursors_invariant)
    show "\<forall>(k, c)\<in>set (cs_cursors st). - (2 ^ 63) \<le> cp_history_id c \<and> cp_history_id c < 2 ^ 63"
      using assms(1) by (simp add: int64_cursors_def list_all_iff)
  qed (use assms(2) int64_advance_cursor in \<open>auto simp: empty_checkpoint_def\<close>)
qed

subsection \<open>Only the map of the cursors matters\<close>

definition same_view :: "('s, 'k) collector_state \<Rightarrow> ('s, 'k) collector_state \<Rightarrow> bool" where
  "same_view st st' \<longleftrightarrow> cs_sink st = cs_sink st' \<and> map_of (cs_cursors st) = map_of (cs_cursors st')"

lemma same_view_collect:
  assumes "same_view st st'"
  shows "same_view (snd (collect C now se st)) (snd (collect C now se st'))"
proof -
  have c: "cursor_of (cs_cursors st) se = cursor_of (cs_cursors st') se"
    using assms by (simp add: same_view_def cursor_of_def)
  then have "should_process (cs_cursors st) se = should_process (cs_cursors st') se"
    by (simp add: should_process_def)
  moreover have "map_of (advance_checkpoint (cs_cursors st) se) = map_of (advance_checkpoint (cs_cursors st') se)"
    using assms c by (simp add: advance_checkpoint_def update_conv' same_view_def)
  moreover have "cs_sink st = cs_sink st'" "map_of (cs_cursors st) = map_of (cs_cursors st')"
    using assms by (simp_all add: same_view_def)
  ultimately show ?thesis
    by (simp add: collect_def same_view_def split: option.split sum.split prod.split)
qed

lemma same_view_collect_all:
  "same_view st st' \<Longrightarrow> same_view (collect_all C now ses st) (collect_all C now ses st')"
  by (induction ses arbitrary: st st') (simp_all add: same_view_collect)

lemma same_view_poll: "same_view st st' \<Longrightarrow> same_view (poll C now fetched st) (poll C now fetched st')"
  using same_view_collect_all [of st st' C now]
  by (cases fetched) (simp_all add: same_view_def, simp_all add: poll_def)

lemma same_view_rounds: "same_view st st' \<Longrightarrow> same_view (poll_rounds C rounds st) (poll_rounds C rounds st')"
  by (induction rounds arbitrary: st st') (auto simp: same_view_poll)

subsection \<open>Restarting\<close>

lemma collect_all_store: "cs_store (collect_all C now ses st) = cs_store st"
proof (induction ses arbitrary: st)
  case (Cons se ses)
  have "cs_store (snd (collect C now se st)) = cs_store st"
    by (auto simp: collect_def split: option.split sum.split prod.split)
  then show ?case using Cons by simp
qed simp

lemma load_checkpoint_sink [simp]: "cs_sink (load_checkpoint C st) = cs_sink st"
  by (auto simp: load_checkpoint_def split: option.split sum.split)

lemma poll_saved:
  assumes "co_checkpoint C = Some K" "fst (ck_save K (cs_cursors (collect_all C now ses st)) (cs_store st)) = None"
  shows "ck_save K (cs_cursors (poll C now (Inr ses) st)) (cs_store st) = (None, cs_store (poll C now (Inr ses) st))"
  using assms by (simp add: poll_def save_checkpoint_def collect_all_store prod_eq_iff)

context checkpoint_contract
begin

text \<open>For any store that keeps the contract: after a saved poll, the new process sees what the old one saw.\<close>

lemma restart_same_view:
  assumes "co_checkpoint C = Some K" "storable (cs_cursors (collect_all C now ses st))"
    and "fst (ck_save K (cs_cursors (collect_all C now ses st)) (cs_store st)) = None"
  shows "same_view (load_checkpoint C (restarted (poll C now (Inr ses) st))) (poll C now (Inr ses) st)"
  using restart_cursors [OF assms(1) _ poll_saved [OF assms(1,3)]] assms(2)
  by (simp add: same_view_def) (simp add: restarted_def)

end

subsection \<open>Properties\<close>


text \<open>In particular a restart repeats nothing that was collected.\<close>

lemma argo_restart_repeats_nothing:
  assumes "distinct (map app_key apps)"
    and "\<forall>app\<in>set apps. \<exists>t. app_reconciled app = Some t \<and> 0 < t"
    and "\<forall>app\<in>set apps. \<forall>h\<in>set (app_history app). 0 < rh_id h"
    and "all_collected C now (fetch_applications now apps) st"
    and "st' = poll C now (Inr (fetch_applications now apps)) st"
    and "same_view (load_checkpoint C (restarted st')) st'"
  shows "cs_sink (run_polling C [(later, Inr (fetch_applications later apps))] (restarted st')) = cs_sink st'"
proof -
  have "\<forall>a\<in>set (fetch_applications now apps). \<not> should_process (cs_cursors st') a"
    using collect_all_settles [OF assms(4)] poll_batch_fetch [OF assms(3,1)] by (simp add: assms(5))
  then have "cs_sink (poll C later (Inr (fetch_applications later apps)) st') = cs_sink st'"
    by (simp add: fetch_applications_clock [OF assms(2), of later now] collect_all_skips)
  then show ?thesis using same_view_poll [OF assms(6)] by (simp add: run_polling_def same_view_def)
qed

lemma checkpoint_text_total:
  assumes "\<forall>(k, c)\<in>set cs. time_ok (cp_history_at c)"
  shows "checkpoint_text cs \<noteq> None"
proof -
  have "those (map (\<lambda>(k, c). map_option (Pair k) (marshal_app_checkpoint c)) cs) \<noteq> None"
    using assms by (induction cs) (auto simp: marshal_app_checkpoint_def marshal_time_quote)
  then show ?thesis by (auto simp: checkpoint_text_def)
qed

lemma time_ok_zero: "time_ok 0"
  by (simp add: time_ok_def max_time_def days_before_def day_secs_def second_def)

lemma time_ok_advance: "time_ok (cp_history_at c) \<Longrightarrow> time_ok (se_occurred se) \<Longrightarrow> time_ok (cp_history_at (advance_cursor c se))"
  by (simp add: advance_cursor_def update_history_cursor_def Let_def)

definition sample_checkpoint_disk :: checkpoint_disk where
  "sample_checkpoint_disk =
     \<lparr>dk_mkdir = (\<lambda>p. None), dk_write = (\<lambda>p. None), dk_missing = (\<lambda>p. ''missing''), dk_marshal = ''marshal'',
      kd_unreadable = (\<lambda>p. None), kd_torn = (\<lambda>p b fs. fs), kd_bad_json = ''bad''\<rparr>"

definition sample_file_collector :: "(mem_repo, files) collector" where
  "sample_file_collector =
     \<lparr>co_normalize = co_normalize sample_collector, co_sink = co_sink sample_collector,
      co_checkpoint = Some (file_checkpoint_store sample_checkpoint_disk ''var/argo.json'')\<rparr>"

definition sample_file_state :: "(mem_repo, files) collector_state" where
  "sample_file_state = \<lparr>cs_loaded = True, cs_cursors = [], cs_sink = new_memory_repository, cs_store = []\<rparr>"

lemma sample_batch: "\<exists>se. fetch_applications 120 [sample_app None] = [se] \<and> se_history_id se = 7 \<and> se_occurred se = 90"
  using sample_history_event
  by (auto simp: fetch_applications_def to_source_events_def sample_app_def operation_events_def health_events_def
      history_event_def terminal_operation_window_def history_occurred_at_def Let_def List.map_filter_simps)


end
