(* ===== verification/Configuration.thy ===== *)
theory Configuration
  imports Auth
begin

text \<open>
  The configuration of \<open>internal/config/config.go\<close>: its validation, its summary and the connection
  text built from the split database settings, and its loading. Reading the environment and the configuration
  file is the work of the package viper, whose calls are the record \<open>viper_lib\<close>. The list of trusted proxies
  is parsed in \<open>Trusted_Proxies\<close>.

  \<open>url_escape\<close> is the escaping of \<open>net/url\<close>, byte by byte, in the modes the code uses.
\<close>

subsection \<open>Settings\<close>

record jwt_section =
  js_enabled :: bool
  js_issuer :: string
  js_audience :: string
  js_roles_claim :: string
  js_hs256_secret :: string
  js_rs256_pem :: string
  js_jwks_url :: string
  js_jwks_refresh :: int

record auth_section =
  au_read_token :: string
  au_ingest_token :: string
  au_webhook_secret :: string
  au_github_secret :: string
  au_gitlab_token :: string
  au_bitbucket_secret :: string
  au_oidc_enabled :: bool
  au_roles_header :: string
  au_jwt :: jwt_section
  au_audit_file :: string
  au_rate :: rate_limit_policy

record db_tls_section =
  dt_sslmode :: string
  dt_sslrootcert :: string
  dt_sslcert :: string
  dt_sslkey :: string

record argo_section =
  ar_backend :: string
  ar_enabled :: bool
  ar_interval :: int
  ar_api_url :: string
  ar_api_token :: string
  ar_default_env :: string
  ar_checkpoint_file :: string

record k8s_section =
  k8_enabled :: bool
  k8_interval :: int
  k8_namespace :: string
  k8_cluster :: string
  k8_environment :: string
  k8_kubeconfig :: string
  k8_context :: string

record tls_section =
  ts_enabled :: bool
  ts_cert_file :: string
  ts_key_file :: string

text \<open>The telemetry settings; a \<open>float64\<close> is the decimal \<open>m * 10 ^ e\<close>, as in \<open>Go_Json\<close>.\<close>

record otel_section =
  ot_service_name :: string
  ot_service_version :: string
  ot_environment :: string
  ot_traces_exporter :: string
  ot_metrics_exporter :: string
  ot_logs_exporter :: string
  ot_endpoint :: string
  ot_protocol :: string
  ot_insecure :: bool
  ot_sampler :: string
  ot_sampler_arg :: "int \<times> int"
  ot_log_level :: string

record config =
  cf_addr :: string
  cf_export_dir :: string
  cf_dev_insecure :: bool
  cf_trusted_proxies :: string
  cf_db_driver :: string
  cf_db_dsn :: string
  cf_db_dialect :: string
  cf_db_migrate :: bool
  cf_db_host :: string
  cf_db_port :: string
  cf_db_name :: string
  cf_db_user :: string
  cf_db_password :: string
  cf_auth :: auth_section
  cf_db :: db_tls_section
  cf_argo :: argo_section
  cf_k8s :: k8s_section
  cf_tls :: tls_section
  cf_otel :: otel_section

abbreviation blank :: "string \<Rightarrow> bool" where
  "blank s \<equiv> trim_space s = []"

subsection \<open>Validation\<close>

definition db_parts :: "config \<Rightarrow> string list" where
  "db_parts c = [cf_db_host c, cf_db_port c, cf_db_name c, cf_db_user c, cf_db_password c]"

definition has_any_db_parts :: "config \<Rightarrow> bool" where
  "has_any_db_parts c \<longleftrightarrow> list_ex (\<lambda>s. \<not> blank s) (db_parts c)"

definition has_all_db_parts :: "config \<Rightarrow> bool" where
  "has_all_db_parts c \<longleftrightarrow> list_all (\<lambda>s. \<not> blank s) (db_parts c)"

definition problem :: "bool \<Rightarrow> string \<Rightarrow> string list" where
  "problem b msg = (if b then [msg] else [])"

definition db_problems :: "config \<Rightarrow> string list" where
  "db_problems c =
     problem (cf_db_driver c \<noteq> [] \<and> cf_db_dsn c = [])
       ''database connection is not configured; set EVIDRA_DB_DSN or EVIDRA_DB_HOST/EVIDRA_DB_PORT/EVIDRA_DB_NAME/EVIDRA_DB_USER/EVIDRA_DB_PASSWORD'' @
     problem (cf_db_dsn c \<noteq> [] \<and> cf_db_driver c = [])
       ''EVIDRA_DB_DRIVER is required when EVIDRA_DB_DSN is set'' @
     problem (cf_db_dsn c = [] \<and> has_any_db_parts c \<and> \<not> has_all_db_parts c)
       ''incomplete split DB config; set all of EVIDRA_DB_HOST/EVIDRA_DB_PORT/EVIDRA_DB_NAME/EVIDRA_DB_USER/EVIDRA_DB_PASSWORD'' @
     problem (cf_db_dsn c = [] \<and> has_any_db_parts c \<and> cf_db_driver c = [])
       ''EVIDRA_DB_DRIVER is required when split DB connection variables are set''"

definition argo_problems :: "argo_section \<Rightarrow> string list" where
  "argo_problems a =
     problem (ar_enabled a \<and> blank (ar_api_url a))
       ''EVIDRA_ARGO_API_URL is required when EVIDRA_ARGO_COLLECTOR_ENABLED=true'' @
     problem (ar_enabled a \<and> blank (ar_checkpoint_file a))
       ''EVIDRA_ARGO_CHECKPOINT_FILE is required when EVIDRA_ARGO_COLLECTOR_ENABLED=true'' @
     problem (ar_enabled a \<and> to_lower (trim_space (ar_backend a)) \<noteq> ''argocd-client'')
       ''EVIDRA_ARGO_BACKEND must be: argocd-client''"

definition jwt_problems :: "jwt_section \<Rightarrow> string list" where
  "jwt_problems j =
     (if \<not> js_enabled j then []
      else
        problem (blank (js_issuer j)) ''EVIDRA_AUTH_JWT_ISSUER is required when EVIDRA_AUTH_JWT_ENABLED=true'' @
        problem (blank (js_audience j)) ''EVIDRA_AUTH_JWT_AUDIENCE is required when EVIDRA_AUTH_JWT_ENABLED=true'' @
        problem (blank (js_hs256_secret j) \<and> blank (js_rs256_pem j) \<and> blank (js_jwks_url j))
          ''one of EVIDRA_AUTH_JWT_HS256_SECRET, EVIDRA_AUTH_JWT_RS256_PUBLIC_KEY_PEM, or EVIDRA_AUTH_JWT_JWKS_URL is required when EVIDRA_AUTH_JWT_ENABLED=true'')"

definition read_auth_configured :: "auth_section \<Rightarrow> bool" where
  "read_auth_configured a \<longleftrightarrow> \<not> blank (au_read_token a) \<or> au_oidc_enabled a \<or> js_enabled (au_jwt a)"

definition auth_problems :: "config \<Rightarrow> string list" where
  "auth_problems c =
     problem (\<not> cf_dev_insecure c \<and> \<not> read_auth_configured (cf_auth c))
       ''read/export auth is not configured; set EVIDRA_READ_TOKEN or enable OIDC/JWT, or explicitly set EVIDRA_DEV_INSECURE=true for local development only''"

definition tls_problems :: "tls_section \<Rightarrow> string list" where
  "tls_problems t =
     problem (ts_enabled t \<and> blank (ts_cert_file t)) ''EVIDRA_TLS_CERT_FILE is required when EVIDRA_TLS_ENABLED=true'' @
     problem (ts_enabled t \<and> blank (ts_key_file t)) ''EVIDRA_TLS_KEY_FILE is required when EVIDRA_TLS_ENABLED=true''"

definition config_problems :: "config \<Rightarrow> string list" where
  "config_problems c =
     problem (blank (cf_addr c)) ''EVIDRA_ADDR must not be empty'' @
     problem (blank (cf_export_dir c)) ''EVIDRA_EXPORT_DIR must not be empty'' @
     db_problems c @ argo_problems (cf_argo c) @
     problem (k8_enabled (cf_k8s c)) ''EVIDRA_K8S_COLLECTOR_ENABLED=true is out of scope for Argo CD-first v1'' @
     auth_problems c @ jwt_problems (au_jwt (cf_auth c)) @ tls_problems (cf_tls c)"

text \<open>\<open>None\<close> is a valid configuration.\<close>

definition validate_config :: "config \<Rightarrow> string option" where
  "validate_config c = (if config_problems c = [] then None else Some (join_with ''; '' (config_problems c)))"

subsection \<open>The summary\<close>

record startup_summary =
  su_repository_mode :: string
  su_webhook_providers :: "string list"
  su_argo_collector :: bool
  su_argo_backend :: string
  su_argo_checkpoint_file :: string
  su_k8s_collector :: bool
  su_k8s_namespace :: string
  su_oidc_enabled :: bool
  su_jwt_enabled :: bool
  su_tls_enabled :: bool
  su_auth_rate_limit :: bool
  su_dev_insecure :: bool
  su_traces_exporter :: string
  su_metrics_exporter :: string

definition summary :: "config \<Rightarrow> startup_summary" where
  "summary c =
     \<lparr>su_repository_mode = (if cf_db_driver c \<noteq> [] \<and> cf_db_dsn c \<noteq> [] then ''sql:'' @ cf_db_dialect c else ''memory''),
      su_webhook_providers = [''argocd''], su_argo_collector = ar_enabled (cf_argo c),
      su_argo_backend = ar_backend (cf_argo c), su_argo_checkpoint_file = ar_checkpoint_file (cf_argo c),
      su_k8s_collector = False, su_k8s_namespace = k8_namespace (cf_k8s c),
      su_oidc_enabled = au_oidc_enabled (cf_auth c), su_jwt_enabled = js_enabled (au_jwt (cf_auth c)),
      su_tls_enabled = ts_enabled (cf_tls c), su_auth_rate_limit = rp_enabled (au_rate (cf_auth c)),
      su_dev_insecure = cf_dev_insecure c, su_traces_exporter = ot_traces_exporter (cf_otel c),
      su_metrics_exporter = ot_metrics_exporter (cf_otel c)\<rparr>"

text \<open>\<open>parsePositiveIntOr\<close> for the text that viper has under the key; the sum wraps at 64 bits.\<close>

definition parse_positive_int_or :: "string \<Rightarrow> int \<Rightarrow> int" where
  "parse_positive_int_or value fallback =
     (let v = trim_space value;
          n = sint (foldl (\<lambda>n c. n * 10 + word_of_int (digit_val c)) (0 :: 64 word) v)
      in if v = [] \<or> \<not> list_all is_digit v \<or> n \<le> 0 then fallback else n)"

subsection \<open>The connection text\<close>

datatype url_mode = InPath | InPathSegment | InUserPassword | InQueryComponent | InHost

definition is_alnum :: "char \<Rightarrow> bool" where
  "is_alnum c \<longleftrightarrow>
     (let n = of_char c :: nat in (97 \<le> n \<and> n \<le> 122) \<or> (65 \<le> n \<and> n \<le> 90) \<or> (48 \<le> n \<and> n \<le> 57))"

definition should_escape :: "url_mode \<Rightarrow> char \<Rightarrow> bool" where
  "should_escape mode c =
     (if is_alnum c \<or> c \<in> set ''-_.~'' then False
      else if mode = InHost then c \<notin> set ''!$&()*+,;=:[]<>'' \<and> c \<noteq> CHR 0x27 \<and> c \<noteq> CHR 0x22
      else if c \<in> set ''$&+,/:;=?@'' then
        (case mode of
           InPath \<Rightarrow> c = CHR ''?''
         | InPathSegment \<Rightarrow> c \<in> set ''/;,?''
         | InUserPassword \<Rightarrow> c \<in> set ''@/?:''
         | _ \<Rightarrow> True)
      else True)"

definition upper_hex :: "int \<Rightarrow> char" where
  "upper_hex n = (if n < 10 then char_of (48 + n) else char_of (55 + n))"

definition escape_byte :: "url_mode \<Rightarrow> char \<Rightarrow> string" where
  "escape_byte mode c =
     (if mode = InQueryComponent \<and> c = CHR '' '' then ''+''
      else if should_escape mode c then [CHR ''%'', upper_hex (of_char c div 16), upper_hex (of_char c mod 16)]
      else [c])"

definition url_escape :: "url_mode \<Rightarrow> string \<Rightarrow> string" where
  "url_escape mode s = concat (map (escape_byte mode) s)"

text \<open>\<open>strconv.Atoi\<close> succeeds: digits with an optional sign, in the range of \<open>int64\<close>.\<close>

definition atoi_ok :: "string \<Rightarrow> bool" where
  "atoi_ok s =
     (let neg = take 1 s = ''-''; d = (if take 1 s = ''-'' \<or> take 1 s = ''+'' then drop 1 s else s) in
      d \<noteq> [] \<and> list_all is_digit d \<and> int_of_digits d < (if neg then 2 ^ 63 + 1 else 2 ^ 63))"

definition dsn_text :: "config \<Rightarrow> string \<Rightarrow> string \<Rightarrow> string" where
  "dsn_text c port ssl_mode =
     ''postgres://'' @ url_escape InUserPassword (cf_db_user c) @ '':'' @ url_escape InUserPassword (cf_db_password c) @ ''@'' @
     url_escape InHost (cf_db_host c @ '':'' @ port) @
     url_escape InPath (''/'' @ url_escape InPathSegment (cf_db_name c)) @
     ''?sslmode='' @ url_escape InQueryComponent ssl_mode"

text \<open>The empty text is no connection.\<close>

definition build_dsn_from_parts :: "config \<Rightarrow> string" where
  "build_dsn_from_parts c =
     (if \<not> has_all_db_parts c then []
      else
        (let port = trim_space (cf_db_port c);
             port = (if port = [] then ''5432'' else port)
         in if \<not> atoi_ok port then []
            else dsn_text c port (if blank (dt_sslmode (cf_db c)) then ''disable'' else trim_space (dt_sslmode (cf_db c)))))"

text \<open>The end of \<open>LoadFromEnv\<close>: the dialect and the connection text that were not set.\<close>

definition fill_database :: "config \<Rightarrow> config" where
  "fill_database c =
     (let c = (if cf_db_dialect c = [] then c\<lparr>cf_db_dialect := cf_db_driver c\<rparr> else c)
      in if cf_db_dsn c = [] then c\<lparr>cf_db_dsn := build_dsn_from_parts c\<rparr> else c)"

subsection \<open>Loading\<close>

text \<open>
  What the loader uses of viper: the text and the truth value under a key, and the configuration that
  \<open>Unmarshal\<close> has filled. \<open>parse_duration\<close> stands for \<open>time.ParseDuration\<close>.
\<close>

record viper =
  vp_string :: "string \<Rightarrow> string"
  vp_bool :: "string \<Rightarrow> bool"
  vp_config :: config

definition setting :: "viper \<Rightarrow> string \<Rightarrow> string \<Rightarrow> string" where
  "setting v key old = (if vp_string v key \<noteq> [] then vp_string v key else old)"

definition override_db :: "viper \<Rightarrow> config \<Rightarrow> config" where
  "override_db v c =
     c\<lparr>cf_db_driver := setting v ''db_driver'' (cf_db_driver c), cf_db_dsn := setting v ''db_dsn'' (cf_db_dsn c),
       cf_db_dialect := setting v ''db_dialect'' (cf_db_dialect c), cf_db_host := setting v ''db_host'' (cf_db_host c),
       cf_db_port := setting v ''db_port'' (cf_db_port c), cf_db_name := setting v ''db_name'' (cf_db_name c),
       cf_db_user := setting v ''db_user'' (cf_db_user c), cf_db_password := setting v ''db_password'' (cf_db_password c)\<rparr>"

definition override_jwt :: "(string \<Rightarrow> int option) \<Rightarrow> viper \<Rightarrow> jwt_section \<Rightarrow> jwt_section" where
  "override_jwt parse_duration v j =
     j\<lparr>js_enabled := js_enabled j \<or> vp_bool v ''auth.jwt.enabled'',
       js_issuer := setting v ''auth.jwt.issuer'' (js_issuer j), js_audience := setting v ''auth.jwt.audience'' (js_audience j),
       js_roles_claim := setting v ''auth.jwt.roles_claim'' (js_roles_claim j),
       js_hs256_secret := setting v ''auth.jwt.hs256_secret'' (js_hs256_secret j),
       js_jwks_url := setting v ''auth.jwt.jwks_url'' (js_jwks_url j),
       js_jwks_refresh := (let val = vp_string v ''auth.jwt.jwks_refresh'' in
         if val = [] then js_jwks_refresh j else (case parse_duration val of None \<Rightarrow> 0 | Some d \<Rightarrow> d))\<rparr>"

definition override_auth :: "(string \<Rightarrow> int option) \<Rightarrow> viper \<Rightarrow> auth_section \<Rightarrow> auth_section" where
  "override_auth parse_duration v a =
     a\<lparr>au_read_token := setting v ''auth.read.token'' (au_read_token a),
       au_ingest_token := setting v ''auth.ingest.bearer.token'' (au_ingest_token a),
       au_webhook_secret := setting v ''auth.ingest.generic_webhook.secret'' (au_webhook_secret a),
       au_roles_header := setting v ''auth.oidc.roles_header'' (au_roles_header a),
       au_oidc_enabled := au_oidc_enabled a \<or> vp_bool v ''auth.oidc.enabled'',
       au_jwt := override_jwt parse_duration v (au_jwt a),
       au_audit_file := setting v ''auth.audit.log_file'' (au_audit_file a)\<rparr>"

definition override_rest :: "viper \<Rightarrow> config \<Rightarrow> config" where
  "override_rest v c =
     (let t = cf_db c; s = cf_tls c; k = cf_k8s c; a = cf_argo c in
      c\<lparr>cf_db := t\<lparr>dt_sslmode := setting v ''db.sslmode'' (dt_sslmode t),
          dt_sslrootcert := setting v ''db.sslrootcert'' (dt_sslrootcert t),
          dt_sslcert := setting v ''db.sslcert'' (dt_sslcert t), dt_sslkey := setting v ''db.sslkey'' (dt_sslkey t)\<rparr>,
        cf_tls := s\<lparr>ts_enabled := ts_enabled s \<or> vp_bool v ''tls.enabled'',
          ts_cert_file := setting v ''tls.cert_file'' (ts_cert_file s), ts_key_file := setting v ''tls.key_file'' (ts_key_file s)\<rparr>,
        cf_k8s := k\<lparr>k8_namespace := setting v ''k8s.namespace'' (k8_namespace k),
          k8_cluster := setting v ''k8s.cluster'' (k8_cluster k),
          k8_environment := setting v ''k8s.environment'' (k8_environment k),
          k8_kubeconfig := setting v ''k8s.kubeconfig'' (k8_kubeconfig k), k8_context := setting v ''k8s.context'' (k8_context k)\<rparr>,
        cf_argo := a\<lparr>ar_api_url := setting v ''argo.api_url'' (ar_api_url a),
          ar_api_token := setting v ''argo.api_token'' (ar_api_token a),
          ar_default_env := setting v ''argo.default_env'' (ar_default_env a),
          ar_checkpoint_file := setting v ''argo.checkpoint_file'' (ar_checkpoint_file a)\<rparr>\<rparr>)"

definition load_config :: "(string \<Rightarrow> int option) \<Rightarrow> viper \<Rightarrow> config" where
  "load_config parse_duration v =
     (let c = override_db v (vp_config v);
          c = c\<lparr>cf_auth := override_auth parse_duration v (cf_auth c)\<rparr>
      in fill_database (override_rest v c))"

subsection \<open>The settings of the loader\<close>

text \<open>
  Before that, \<open>LoadFromEnv\<close> makes a viper of its own, with defaults, the environment and a configuration file.
  The names of variables for single keys it binds on the \<^emph>\<open>global\<close> viper of the package. A viper is a state
  that the calls of the package change; \<open>vl_view\<close> is what can be read of it.
\<close>

datatype default_value = DText string | DBool bool | DInt int | DDuration int | DFloat "int \<times> int"

record 'v viper_lib =
  vl_new :: 'v
  vl_env_prefix :: "string \<Rightarrow> 'v \<Rightarrow> 'v"
  vl_key_replacer :: "(string \<times> string) list \<Rightarrow> 'v \<Rightarrow> 'v"
  vl_automatic_env :: "'v \<Rightarrow> 'v"
  vl_default :: "string \<Rightarrow> default_value \<Rightarrow> 'v \<Rightarrow> 'v"
  vl_config_name :: "string \<Rightarrow> 'v \<Rightarrow> 'v"
  vl_config_type :: "string \<Rightarrow> 'v \<Rightarrow> 'v"
  vl_config_path :: "string \<Rightarrow> 'v \<Rightarrow> 'v"
  vl_read_config :: "'v \<Rightarrow> 'v"
  vl_bind_env :: "string \<Rightarrow> string \<Rightarrow> 'v \<Rightarrow> 'v"
  vl_view :: "'v \<Rightarrow> viper"

definition config_defaults :: "(string \<times> default_value) list" where
  "config_defaults =
     [(''addr'', DText '':8080''), (''export_dir'', DText ''./var/exports''), (''dev_insecure'', DBool False),
      (''db_migrate'', DBool True), (''auth.oidc.enabled'', DBool False),
      (''auth.oidc.roles_header'', DText ''X-Auth-Roles''), (''auth.jwt.enabled'', DBool False),
      (''auth.jwt.roles_claim'', DText ''roles''), (''auth.jwt.jwks_refresh'', DDuration (5 * minute)),
      (''auth.rate_limit.enabled'', DBool False), (''auth.rate_limit.read_per_min'', DInt 600),
      (''auth.rate_limit.export_per_min'', DInt 120), (''auth.rate_limit.ingest_per_min'', DInt 240),
      (''argo.backend'', DText ''argocd-client''), (''argo.collector_enabled'', DBool False),
      (''argo.collector_interval'', DDuration (30 * second)), (''argo.default_env'', DText ''unknown''),
      (''argo.checkpoint_file'', DText ''./var/argo_checkpoint.json''), (''k8s.collector_enabled'', DBool False),
      (''k8s.collector_interval'', DDuration (30 * second)), (''k8s.namespace'', DText []),
      (''k8s.cluster'', DText ''unknown''), (''k8s.environment'', DText ''unknown''), (''tls.enabled'', DBool False),
      (''otel.service_name'', DText ''evidra''), (''otel.service_version'', DText []), (''otel.environment'', DText []),
      (''otel.traces_exporter'', DText ''none''), (''otel.metrics_exporter'', DText ''prometheus''),
      (''otel.logs_exporter'', DText ''none''), (''otel.exporter_endpoint'', DText ''localhost:4317''),
      (''otel.exporter_protocol'', DText ''grpc''), (''otel.exporter_insecure'', DBool False),
      (''otel.sampler_type'', DText ''parentbased_traceidratio''), (''otel.sampler_arg'', DFloat (1, 0)),
      (''otel.log_level'', DText ''info'')]"

definition env_bindings :: "(string \<times> string) list" where
  "env_bindings =
     [(''auth.read.token'', ''EVIDRA_READ_TOKEN''), (''auth.ingest.bearer.token'', ''EVIDRA_INGEST_TOKEN''),
      (''auth.ingest.generic_webhook.secret'', ''EVIDRA_WEBHOOK_SECRET''),
      (''auth.providers.github.secret'', ''EVIDRA_GITHUB_WEBHOOK_SECRET''),
      (''auth.providers.gitlab.token'', ''EVIDRA_GITLAB_WEBHOOK_TOKEN''),
      (''auth.providers.bitbucket.secret'', ''EVIDRA_BITBUCKET_WEBHOOK_SECRET''),
      (''argo.api_url'', ''EVIDRA_ARGO_API_URL''), (''argo.api_token'', ''EVIDRA_ARGO_API_TOKEN''),
      (''auth.jwt.jwks_url'', ''EVIDRA_AUTH_JWT_JWKS_URL''),
      (''auth.jwt.jwks_refresh'', ''EVIDRA_AUTH_JWT_JWKS_REFRESH''),
      (''auth.rate_limit.read_per_min'', ''EVIDRA_AUTH_RATE_LIMIT_READ_PER_MIN''),
      (''auth.rate_limit.export_per_min'', ''EVIDRA_AUTH_RATE_LIMIT_EXPORT_PER_MIN''),
      (''auth.rate_limit.ingest_per_min'', ''EVIDRA_AUTH_RATE_LIMIT_INGEST_PER_MIN''),
      (''argo.collector_interval'', ''EVIDRA_ARGO_COLLECTOR_INTERVAL''),
      (''k8s.collector_interval'', ''EVIDRA_K8S_COLLECTOR_INTERVAL''),
      (''otel.service_name'', ''EVIDRA_OTEL_SERVICE_NAME''), (''otel.service_version'', ''EVIDRA_OTEL_SERVICE_VERSION''),
      (''otel.environment'', ''EVIDRA_OTEL_ENVIRONMENT''), (''otel.traces_exporter'', ''EVIDRA_OTEL_TRACES_EXPORTER''),
      (''otel.metrics_exporter'', ''EVIDRA_OTEL_METRICS_EXPORTER''),
      (''otel.logs_exporter'', ''EVIDRA_OTEL_LOGS_EXPORTER''),
      (''otel.exporter_endpoint'', ''EVIDRA_OTEL_EXPORTER_OTLP_ENDPOINT''),
      (''otel.exporter_protocol'', ''EVIDRA_OTEL_EXPORTER_OTLP_PROTOCOL''),
      (''otel.exporter_insecure'', ''EVIDRA_OTEL_EXPORTER_OTLP_INSECURE''),
      (''otel.sampler_type'', ''EVIDRA_OTEL_TRACES_SAMPLER''), (''otel.sampler_arg'', ''EVIDRA_OTEL_TRACES_SAMPLER_ARG''),
      (''otel.log_level'', ''EVIDRA_LOG_LEVEL'')]"

definition loader_viper :: "'v viper_lib \<Rightarrow> 'v" where
  "loader_viper L =
     (let v = vl_automatic_env L (vl_key_replacer L [(''.'', ''_'')] (vl_env_prefix L ''EVIDRA'' (vl_new L)));
          v = foldl (\<lambda>v (k, d). vl_default L k d v) v config_defaults;
          v = vl_config_type L ''yaml'' (vl_config_name L ''config'' v);
          v = vl_config_path L ''/etc/evidra/'' (vl_config_path L ''.'' v)
      in vl_read_config L v)"

text \<open>The second argument is the global viper, which is returned with its new bindings.\<close>

definition load_from_env :: "'v viper_lib \<Rightarrow> (string \<Rightarrow> int option) \<Rightarrow> 'v \<Rightarrow> config \<times> 'v" where
  "load_from_env L parse_duration global =
     (let global' = foldl (\<lambda>g (k, n). vl_bind_env L k n g) global env_bindings
      in (load_config parse_duration (vl_view L (loader_viper L)), global'))"

lemma config_defaults_distinct: "distinct (map fst config_defaults)"
  by (simp add: config_defaults_def)

text \<open>
  So no binding has an effect on the configuration, whatever \<open>BindEnv\<close> does: a variable is only read under the
  name that the prefix and the replacer make of its key, such as \<open>EVIDRA_AUTH_READ_TOKEN\<close>.
\<close>

lemma env_bindings_without_effect:
  "fst (load_from_env (L\<lparr>vl_bind_env := b\<rparr>) pd global') = fst (load_from_env L pd global)"
  by (simp add: load_from_env_def loader_viper_def Let_def)

text \<open>A configuration for examples.\<close>

definition sample_config :: config where
  "sample_config =
     \<lparr>cf_addr = '':8080'', cf_export_dir = ''var'', cf_dev_insecure = False, cf_trusted_proxies = [],
      cf_db_driver = ''pgx'', cf_db_dsn = [], cf_db_dialect = ''postgres'', cf_db_migrate = True, cf_db_host = ''db'',
      cf_db_port = ''5432'', cf_db_name = ''my db'', cf_db_user = ''u'', cf_db_password = ''p@ss'',
      cf_auth = \<lparr>au_read_token = ''secret'', au_ingest_token = [], au_webhook_secret = [], au_github_secret = [],
        au_gitlab_token = [], au_bitbucket_secret = [], au_oidc_enabled = False, au_roles_header = [],
        au_jwt = \<lparr>js_enabled = False, js_issuer = [], js_audience = [], js_roles_claim = [], js_hs256_secret = [],
          js_rs256_pem = [], js_jwks_url = [], js_jwks_refresh = 0\<rparr>,
        au_audit_file = [], au_rate = \<lparr>rp_enabled = False, rp_read = 0, rp_export = 0, rp_ingest = 0\<rparr>\<rparr>,
      cf_db = \<lparr>dt_sslmode = [], dt_sslrootcert = [], dt_sslcert = [], dt_sslkey = []\<rparr>,
      cf_argo = \<lparr>ar_backend = [], ar_enabled = False, ar_interval = 0, ar_api_url = [], ar_api_token = [],
        ar_default_env = [], ar_checkpoint_file = []\<rparr>,
      cf_k8s = \<lparr>k8_enabled = False, k8_interval = 0, k8_namespace = [], k8_cluster = [], k8_environment = [],
        k8_kubeconfig = [], k8_context = []\<rparr>,
      cf_tls = \<lparr>ts_enabled = False, ts_cert_file = [], ts_key_file = []\<rparr>,
      cf_otel = \<lparr>ot_service_name = [], ot_service_version = [], ot_environment = [], ot_traces_exporter = [],
        ot_metrics_exporter = [], ot_logs_exporter = [], ot_endpoint = [], ot_protocol = [], ot_insecure = False,
        ot_sampler = [], ot_sampler_arg = (0, 0), ot_log_level = []\<rparr>\<rparr>"

end
