(* ===== verification/Jwks.thy ===== *)
theory Jwks
  imports Auth Go_Struct
begin

text \<open>
  The cache of RSA keys of \<open>internal/api/jwks.go\<close>. The HTTP client is the argument \<open>get\<close>: it takes
  the URL and the state of the network and answers with an error or a status and a body. Base64 with
  the URL alphabet is the codec of \<open>Go_Codec\<close> after renaming two characters. \<open>big.Int.Int64\<close> of a
  number that does not fit takes its low 64 bits.
\<close>

subsection \<open>Keys\<close>

record rsa_key =
  rk_n :: int
  rk_e :: int

record jwk_entry =
  je_kty :: string
  je_kid :: string
  je_use :: string
  je_alg :: string
  je_n :: string
  je_e :: string

definition b64url_decode :: "string \<Rightarrow> string option" where
  "b64url_decode s =
     (if CHR ''+'' \<in> set s \<or> CHR ''/'' \<in> set s then None
      else b64_decode False
        (map (\<lambda>c. if c = CHR ''-'' then CHR ''+'' else if c = CHR ''_'' then CHR ''/'' else c) s))"

definition big_int :: "string \<Rightarrow> int" where
  "big_int s = foldl (\<lambda>n c. 256 * n + of_char c) 0 s"

definition int64_of :: "int \<Rightarrow> int" where
  "int64_of n = sint (word_of_int n :: 64 word)"

definition rsa_key_from_jwk :: "string \<Rightarrow> string \<Rightarrow> rsa_key option" where
  "rsa_key_from_jwk n e =
     (case (b64url_decode (trim_space n), b64url_decode (trim_space e)) of
        (Some nb, Some eb) \<Rightarrow>
          (let n = big_int nb; e = int64_of (big_int eb)
           in if n \<le> 0 \<or> e \<le> 0 then None else Some \<lparr>rk_n = n, rk_e = e\<rparr>)
      | _ \<Rightarrow> None)"

definition jwk_fields :: "(string \<times> gval) list \<Rightarrow> jwk_entry \<Rightarrow> jwk_entry option" where
  "jwk_fields ms old =
     (case (struct_field decode_string ''kty'' (je_kty old) ms, struct_field decode_string ''kid'' (je_kid old) ms,
            struct_field decode_string ''use'' (je_use old) ms, struct_field decode_string ''alg'' (je_alg old) ms,
            struct_field decode_string ''n'' (je_n old) ms, struct_field decode_string ''e'' (je_e old) ms) of
        (Some kty, Some kid, Some use, Some alg, Some n, Some e) \<Rightarrow>
          Some \<lparr>je_kty = kty, je_kid = kid, je_use = use, je_alg = alg, je_n = n, je_e = e\<rparr>
      | _ \<Rightarrow> None)"

definition empty_jwk :: jwk_entry where
  "empty_jwk = \<lparr>je_kty = [], je_kid = [], je_use = [], je_alg = [], je_n = [], je_e = []\<rparr>"

definition jwks_document :: "string \<Rightarrow> jwk_entry list option" where
  "jwks_document body =
     (case decode_first body of
        Some (GObj ms) \<Rightarrow> struct_field (decode_slice (decode_struct jwk_fields) empty_jwk) ''keys'' [] ms
      | Some GNull \<Rightarrow> Some []
      | _ \<Rightarrow> None)"

text \<open>The key of an entry, if the loop takes it.\<close>

definition entry_key :: "jwk_entry \<Rightarrow> (string \<times> rsa_key) option" where
  "entry_key j =
     (if to_upper (trim_space (je_kty j)) \<noteq> ''RSA'' then None
      else if trim_space (je_kid j) = [] \<or> trim_space (je_n j) = [] \<or> trim_space (je_e j) = [] then None
      else map_option (Pair (je_kid j)) (rsa_key_from_jwk (je_n j) (je_e j)))"

definition rsa_keys :: "jwk_entry list \<Rightarrow> (string \<times> rsa_key) list" where
  "rsa_keys es = fold (\<lambda>(k, v). AList.update k v) (List.map_filter entry_key es) []"

subsection \<open>The cache\<close>

datatype jwks_error = JwksDisabled | JwksRequest string | JwksFetchFailed | JwksDecode | JwksNoKeys | JwksNotFound

record jwks_cache =
  jk_url :: string
  jk_refresh_every :: int
  jk_last_refresh :: time
  jk_keys :: "(string \<times> rsa_key) list"

text \<open>\<open>parse_duration\<close> stands for \<open>time.ParseDuration\<close>.\<close>

definition new_jwks_cache :: "(string \<Rightarrow> int option) \<Rightarrow> jwt_policy \<Rightarrow> jwks_cache option" where
  "new_jwks_cache parse_duration p =
     (if trim_space (jp_jwks_url p) = [] then None
      else
        (let refresh = (case parse_duration (trim_space (jp_jwks_refresh p)) of
             Some d \<Rightarrow> if 0 < d then d else 5 * minute
           | None \<Rightarrow> 5 * minute)
         in Some \<lparr>jk_url = trim_space (jp_jwks_url p), jk_refresh_every = refresh, jk_last_refresh = 0, jk_keys = []\<rparr>))"

type_synonym 'w http = "string \<Rightarrow> 'w \<Rightarrow> (string + int \<times> string) \<times> 'w"

text \<open>What a response holds: the keys, or why there are none.\<close>

definition response_keys :: "string + int \<times> string \<Rightarrow> jwks_error + (string \<times> rsa_key) list" where
  "response_keys resp =
     (case resp of
        Inl err \<Rightarrow> Inl (JwksRequest err)
      | Inr (status, body) \<Rightarrow>
          if status < 200 \<or> 300 \<le> status then Inl JwksFetchFailed
          else
            (case jwks_document body of
               None \<Rightarrow> Inl JwksDecode
             | Some es \<Rightarrow> if rsa_keys es = [] then Inl JwksNoKeys else Inr (rsa_keys es)))"

definition jwks_refresh :: "'w http \<Rightarrow> time \<Rightarrow> jwks_cache \<times> 'w \<Rightarrow> jwks_error option \<times> jwks_cache \<times> 'w" where
  "jwks_refresh get now st =
     (case get (jk_url (fst st)) (snd st) of
        (resp, w) \<Rightarrow>
          (case response_keys resp of
             Inl err \<Rightarrow> (Some err, fst st, w)
           | Inr keys \<Rightarrow> (None, (fst st)\<lparr>jk_keys := keys, jk_last_refresh := now\<rparr>, w)))"

text \<open>The second look at the keys, after the key was not found.\<close>

definition resolve_again :: "'w http \<Rightarrow> time \<Rightarrow> string \<Rightarrow> jwks_cache \<times> 'w \<Rightarrow> (jwks_error + rsa_key) \<times> jwks_cache \<times> 'w" where
  "resolve_again get now kid st =
     (case jwks_refresh get now st of
        (Some err, st) \<Rightarrow> (Inl err, st)
      | (None, st) \<Rightarrow>
          (case map_of (jk_keys (fst st)) kid of None \<Rightarrow> (Inl JwksNotFound, st) | Some k \<Rightarrow> (Inr k, st)))"

text \<open>\<open>now\<close>, \<open>now1\<close> and \<open>now2\<close> are the readings of the clock at the start and in the two refreshes.\<close>

definition resolve_key ::
    "'w http \<Rightarrow> time \<Rightarrow> time \<Rightarrow> time \<Rightarrow> string \<Rightarrow> jwks_cache \<times> 'w \<Rightarrow> (jwks_error + rsa_key) \<times> jwks_cache \<times> 'w" where
  "resolve_key get now now1 now2 kid st =
     (let stale = jk_refresh_every (fst st) \<le> now - jk_last_refresh (fst st) \<or> jk_keys (fst st) = [];
          first = (if stale then jwks_refresh get now1 st else (None, st)) in
      case first of
        (err, st) \<Rightarrow>
          (case (err, jk_keys (fst st)) of
             (Some err, []) \<Rightarrow> (Inl err, st)
           | _ \<Rightarrow>
               (case map_of (jk_keys (fst st)) kid of
                  Some k \<Rightarrow> (Inr k, st)
                | None \<Rightarrow> resolve_again get now2 kid st)))"

subsection \<open>The keys of the cache\<close>

definition good_key :: "string \<times> rsa_key \<Rightarrow> bool" where
  "good_key kk \<longleftrightarrow>
     trim_space (fst kk) \<noteq> [] \<and> 0 < rk_n (snd kk) \<and> 0 < rk_e (snd kk) \<and> rk_e (snd kk) < 2 ^ 63"

definition good_keys :: "(string \<times> rsa_key) list \<Rightarrow> bool" where
  "good_keys ks \<longleftrightarrow> (\<forall>kk\<in>set ks. good_key kk)"

lemma int64_of_less: "int64_of n < 2 ^ 63"
  using sint_lt [of "word_of_int n :: 64 word"] by (simp add: int64_of_def)

lemma entry_key_good: "entry_key j = Some kk \<Longrightarrow> good_key kk"
  using int64_of_less [of "big_int (the (b64url_decode (trim_space (je_e j))))"]
  by (auto simp: entry_key_def rsa_key_from_jwk_def good_key_def Let_def split: if_splits option.splits)

lemma good_keys_update: "good_keys ks \<Longrightarrow> good_key (kid, k) \<Longrightarrow> good_keys (AList.update kid k ks)"
  unfolding good_keys_def by (induction ks) auto

lemma good_keys_fold:
  "good_keys ks \<Longrightarrow> \<forall>kk\<in>set xs. good_key kk \<Longrightarrow> good_keys (fold (\<lambda>(k, v). AList.update k v) xs ks)"
  by (induction xs arbitrary: ks) (auto simp: good_keys_update)

lemma rsa_keys_good: "good_keys (rsa_keys es)"
  unfolding rsa_keys_def
  by (rule good_keys_fold) (auto simp: good_keys_def List.map_filter_def dest: entry_key_good)

lemma response_keys_good: "response_keys resp = Inr keys \<Longrightarrow> good_keys keys \<and> keys \<noteq> []"
  using rsa_keys_good by (auto simp: response_keys_def split: sum.splits prod.splits if_splits option.splits)

lemma jwks_refresh_cases:
  obtains (failed) err w' where "jwks_refresh get now (c, w) = (Some err, c, w')" "response_keys (fst (get (jk_url c) w)) = Inl err"
    | (fetched) keys w' where "jwks_refresh get now (c, w) = (None, c\<lparr>jk_keys := keys, jk_last_refresh := now\<rparr>, w')"
        "response_keys (fst (get (jk_url c) w)) = Inr keys" "good_keys keys" "keys \<noteq> []"
proof (cases "get (jk_url c) w")
  case (Pair resp w')
  then show thesis
    using response_keys_good [of resp] failed fetched
    by (cases "response_keys resp") (auto simp: jwks_refresh_def)
qed

text \<open>What a refresh keeps of a cache, and what an answer says of the cache it leaves.\<close>

definition keeps :: "jwks_cache \<Rightarrow> jwks_cache \<Rightarrow> bool" where
  "keeps c c' \<longleftrightarrow> (good_keys (jk_keys c) \<longrightarrow> good_keys (jk_keys c')) \<and> (jk_keys c \<noteq> [] \<longrightarrow> jk_keys c' \<noteq> [])"

lemma keeps_trans: "keeps a b \<Longrightarrow> keeps b c \<Longrightarrow> keeps a c"
  by (auto simp: keeps_def)

lemma keeps_refresh: "jwks_refresh get now (c, w) = (err, c', w') \<Longrightarrow> keeps c c'"
  by (cases rule: jwks_refresh_cases [where get = get and now = now and c = c and w = w]) (auto simp: keeps_def)

lemma resolve_again_sound:
  assumes "resolve_again get now kid (c, w) = (res, c', w')"
  shows "keeps c c' \<and> (\<forall>k. res = Inr k \<longrightarrow> map_of (jk_keys c') kid = Some k)"
proof (cases "jwks_refresh get now (c, w)")
  case (fields err d v)
  then show ?thesis
    using assms keeps_refresh [OF fields] by (auto simp: resolve_again_def split: option.splits)
qed

lemma resolve_known:
  "map_of (jk_keys c) kid = Some k \<Longrightarrow> jk_keys c \<noteq> []"
  by auto

lemma resolve_key_sound:
  assumes "resolve_key get now now1 now2 kid (c, w) = (res, c', w')"
  shows "keeps c c' \<and> (\<forall>k. res = Inr k \<longrightarrow> map_of (jk_keys c') kid = Some k)"
proof -
  let ?stale = "jk_refresh_every c \<le> now - jk_last_refresh c \<or> jk_keys c = []"
  obtain err d v where first: "(if ?stale then jwks_refresh get now1 (c, w) else (None, c, w)) = (err, d, v)"
    by (cases "if ?stale then jwks_refresh get now1 (c, w) else (None, c, w)") auto
  have "keeps c c" by (simp add: keeps_def)
  then have "keeps c d"
    using first keeps_refresh [of get now1 c w err d v] by (cases ?stale) (simp_all only: if_True if_False, simp)
  moreover have "keeps d c' \<and> (\<forall>k. res = Inr k \<longrightarrow> map_of (jk_keys c') kid = Some k)"
    using assms resolve_again_sound [of get now2 kid d v res c' w'] unfolding resolve_key_def fst_conv first Let_def
    by (auto simp: keeps_def split: option.splits list.splits)
  ultimately show ?thesis using keeps_trans by blast
qed

text \<open>A network on which every request for keys fails.\<close>

definition outage :: "'w http \<Rightarrow> string \<Rightarrow> bool" where
  "outage get url \<longleftrightarrow> (\<forall>w. \<exists>err. response_keys (fst (get url w)) = Inl err)"

lemma resolve_key_outage:
  assumes "outage get (jk_url c)" "map_of (jk_keys c) kid = Some k"
  shows "\<exists>w'. resolve_key get now now1 now2 kid (c, w) = (Inr k, c, w')"
proof (cases rule: jwks_refresh_cases [where get = get and now = now1 and c = c and w = w])
  case (failed err w')
  then show ?thesis using assms(2) by (cases "jk_keys c") (auto simp: resolve_key_def Let_def)
next
  case (fetched keys w')
  then show ?thesis using assms(1) by (auto simp: outage_def) (metis sum.distinct(1))
qed

subsection \<open>The key of a token\<close>

text \<open>
  \<open>resolveJWTKeyFromJWKS\<close> and \<open>parseRSAPublicKeyPEM\<close> of \<open>internal/api/roles.go\<close>. \<open>header\<close> is the header of the token;
  its \<open>kid\<close> is printed with \<open>%v\<close>, and \<open>print\<close> stands for that on values other than texts. The second part of the
  state is the network. \<open>decode\<close> and \<open>parse\<close> are \<open>pem.Decode\<close> and \<open>x509.ParsePKIXPublicKey\<close>, with \<open>None\<close>
  for a key that is not of RSA.
\<close>

datatype jwt_key_error = JwksNotConfigured | MissingKid | JwksFailed jwks_error

definition print_kid :: "(gval \<Rightarrow> string) \<Rightarrow> gval option \<Rightarrow> string" where
  "print_kid print v =
     (case v of None \<Rightarrow> ''<nil>'' | Some GNull \<Rightarrow> ''<nil>'' | Some (GStr s) \<Rightarrow> s | Some v \<Rightarrow> print v)"

definition resolve_jwt_key_from_jwks ::
    "'w http \<Rightarrow> (gval \<Rightarrow> string) \<Rightarrow> time \<Rightarrow> time \<Rightarrow> time \<Rightarrow> (string \<times> gval) list \<Rightarrow> jwks_cache option \<times> 'w \<Rightarrow>
     (jwt_key_error + rsa_key) \<times> jwks_cache option \<times> 'w" where
  "resolve_jwt_key_from_jwks get print now now1 now2 header st =
     (case fst st of
        None \<Rightarrow> (Inl JwksNotConfigured, st)
      | Some c \<Rightarrow>
          (let kid = trim_space (print_kid print (map_of header ''kid'')) in
           if kid = [] then (Inl MissingKid, st)
           else (case resolve_key get now now1 now2 kid (c, snd st) of
                   (Inl err, c, w) \<Rightarrow> (Inl (JwksFailed err), Some c, w)
                 | (Inr k, c, w) \<Rightarrow> (Inr k, Some c, w))))"

datatype pem_error = InvalidPem | PemParse string | PemNotRsa

definition parse_rsa_public_key_pem ::
    "(string \<Rightarrow> string option) \<Rightarrow> (string \<Rightarrow> string + rsa_key option) \<Rightarrow> string \<Rightarrow> pem_error + rsa_key" where
  "parse_rsa_public_key_pem decode parse raw =
     (case decode raw of
        None \<Rightarrow> Inl InvalidPem
      | Some block \<Rightarrow>
          (case parse block of
             Inl err \<Rightarrow> Inl (PemParse err)
           | Inr None \<Rightarrow> Inl PemNotRsa
           | Inr (Some k) \<Rightarrow> Inr k))"

text \<open>A token without a \<open>kid\<close> is not told so: a key of the name \<open><nil>\<close> is looked up.\<close>

lemma missing_kid_unnoticed:
  assumes "map_of header ''kid'' = None"
  shows "fst (resolve_jwt_key_from_jwks get print now now1 now2 header st) \<noteq> Inl MissingKid"
    and "resolve_jwt_key_from_jwks get print now now1 now2 header st =
      resolve_jwt_key_from_jwks get print now now1 now2 [(''kid'', GStr ''<nil>'')] st"
proof -
  have "trim_space ''<nil>'' = ''<nil>''" by code_simp
  then show "fst (resolve_jwt_key_from_jwks get print now now1 now2 header st) \<noteq> Inl MissingKid"
    "resolve_jwt_key_from_jwks get print now now1 now2 header st =
      resolve_jwt_key_from_jwks get print now now1 now2 [(''kid'', GStr ''<nil>'')] st"
    using assms by (auto simp: resolve_jwt_key_from_jwks_def print_kid_def split: option.split prod.split sum.split)
qed

text \<open>A key that is found is the cache's, and a server that has no cache keeps none.\<close>

lemma resolve_jwt_key_sound:
  assumes "resolve_jwt_key_from_jwks get print now now1 now2 header (Some c, w) = (res, d, w')"
  shows "\<exists>c'. d = Some c' \<and> keeps c c' \<and>
    (\<forall>k. res = Inr k \<longrightarrow> map_of (jk_keys c') (trim_space (print_kid print (map_of header ''kid''))) = Some k)"
proof (cases "trim_space (print_kid print (map_of header ''kid'')) = []")
  case True
  with assms show ?thesis by (auto simp: resolve_jwt_key_from_jwks_def keeps_def)
next
  case False
  let ?kid = "trim_space (print_kid print (map_of header ''kid''))"
  obtain r c' v where k: "resolve_key get now now1 now2 ?kid (c, w) = (r, c', v)"
    by (cases "resolve_key get now now1 now2 ?kid (c, w)") auto
  with assms False have "d = Some c'" "\<forall>k. res = Inr k \<longrightarrow> r = Inr k"
    by (auto simp: resolve_jwt_key_from_jwks_def Let_def split: sum.splits)
  then show ?thesis using resolve_key_sound [OF k] by auto
qed

subsection \<open>Properties\<close>

text \<open>
  C40: the cache of keys is sound and survives an outage. A key that is returned is the cache's key
  of that id, with a positive modulus and a positive exponent below \<open>2 ^ 63\<close>; a cache with keys is
  never emptied; and while no request to the key server succeeds, every key in the cache is still
  resolved, however stale it is, and the cache stays as it is.
\<close>

theorem jwks_resolution:
  assumes "good_keys (jk_keys c)" "resolve_key get now now1 now2 kid (c, w) = (res, c', w')"
  shows "good_keys (jk_keys c') \<and> (jk_keys c \<noteq> [] \<longrightarrow> jk_keys c' \<noteq> []) \<and>
    (\<forall>k. res = Inr k \<longrightarrow> map_of (jk_keys c') kid = Some k \<and> 0 < rk_n k \<and> 0 < rk_e k \<and> rk_e k < 2 ^ 63) \<and>
    (\<forall>k. outage get (jk_url c) \<and> map_of (jk_keys c) kid = Some k \<longrightarrow> res = Inr k \<and> c' = c)"
proof -
  have s: "keeps c c'" "\<forall>k. res = Inr k \<longrightarrow> map_of (jk_keys c') kid = Some k"
    using resolve_key_sound [OF assms(2)] by blast+
  then have g: "good_keys (jk_keys c')" using assms(1) by (simp add: keeps_def)
  then have "\<forall>k. res = Inr k \<longrightarrow> good_key (kid, k)"
    using s(2) by (auto simp: good_keys_def dest: map_of_SomeD)
  moreover have "\<forall>k. outage get (jk_url c) \<and> map_of (jk_keys c) kid = Some k \<longrightarrow> res = Inr k \<and> c' = c"
    using resolve_key_outage [of get c kid _ now now1 now2 w] assms(2) by fastforce
  ultimately show ?thesis using s g by (simp add: keeps_def good_key_def)
qed

definition sample_jwks_body :: string where
  "sample_jwks_body =
     json_object [(''keys'', json_array [json_object [(''kty'', quote_string ''RSA''), (''kid'', quote_string ''k1''),
       (''n'', quote_string ''AQAB''), (''e'', quote_string ''Aw'')]])]"

lemma sample_jwks_keys: "response_keys (Inr (200, sample_jwks_body)) = Inr [(''k1'', \<lparr>rk_n = 65537, rk_e = 3\<rparr>)]"
  by code_simp

definition sample_get :: "bool http" where
  "sample_get url up = (if up then (Inr (200, sample_jwks_body), False) else (Inl ''timeout'', False))"

theorem jwks_resolution_witness:
  "let c = \<lparr>jk_url = ''https://idp/keys'', jk_refresh_every = 5, jk_last_refresh = 0, jk_keys = []\<rparr>;
       (res, d, w) = resolve_key sample_get 10 11 12 ''k1'' (c, True);
       (res2, d2, w2) = resolve_key sample_get 90 91 92 ''k1'' (d, w)
   in res = Inr \<lparr>rk_n = 65537, rk_e = 3\<rparr> \<and> res2 = res \<and> d2 = d \<and> good_keys (jk_keys d2)"
proof -
  define c where "c = \<lparr>jk_url = ''https://idp/keys'', jk_refresh_every = 5, jk_last_refresh = 0, jk_keys = []\<rparr>"
  define d where "d = c\<lparr>jk_keys := [(''k1'', \<lparr>rk_n = 65537, rk_e = 3\<rparr>)], jk_last_refresh := 11\<rparr>"
  have 1: "resolve_key sample_get 10 11 12 ''k1'' (c, True) = (Inr \<lparr>rk_n = 65537, rk_e = 3\<rparr>, d, False)"
    using sample_jwks_keys by (simp add: resolve_key_def jwks_refresh_def sample_get_def c_def d_def)
  have k: "map_of (jk_keys d) ''k1'' = Some \<lparr>rk_n = 65537, rk_e = 3\<rparr>" by (simp add: d_def)
  have "good_keys (jk_keys d)" using response_keys_good [OF sample_jwks_keys] by (simp add: d_def)
  moreover have "resolve_key sample_get 90 91 92 ''k1'' (d, False) = (Inr \<lparr>rk_n = 65537, rk_e = 3\<rparr>, d, False)"
    by (simp add: resolve_key_def jwks_refresh_def sample_get_def response_keys_def d_def c_def)
  ultimately have "good_keys (jk_keys d)" "resolve_key sample_get 90 91 92 ''k1'' (d, False) = (Inr \<lparr>rk_n = 65537, rk_e = 3\<rparr>, d, False)"
    using jwks_resolution [of d sample_get 90 91 92 "''k1''" False] by blast+
  then show ?thesis unfolding Let_def using 1 by (simp flip: c_def)
qed

end
