(* ===== verification/Bootstrap.thy ===== *)
theory Bootstrap
  imports Configuration Api_Facts Store_SQL Argo_Collector Jwks
begin

text \<open>
  How \<open>internal/bootstrap/runtime.go\<close> puts the program together from a configuration: the
  authorization of the server, the repository and the Argo CD collector; with the migrations of
  \<open>internal/migrate\<close> and the choice of a backend of \<open>ingest/argo/backend.go\<close>.

  Opening and pinging a database, the directory of migrations, the connection to Kubernetes and to
  Argo CD, and the parsing of URLs and durations are arguments. A process exit is the
  value \<open>Exit\<close>. \<open>Program\<close> puts these parts together.
\<close>

subsection \<open>Authorization\<close>

text \<open>\<open>show_duration\<close> stands for \<open>time.Duration.String\<close>, \<open>trusted\<close> for the parsed list of proxies.\<close>

definition auth_of_config :: "(int \<Rightarrow> string) \<Rightarrow> (string \<Rightarrow> bool) option \<Rightarrow> config \<Rightarrow> auth_config" where
  "auth_of_config show_duration trusted c =
     (let a = cf_auth c; j = au_jwt a in
      \<lparr>ac_read_token = au_read_token a, ac_ingest_token = au_ingest_token a, ac_webhook_header = [],
       ac_webhook_secret = au_webhook_secret a, ac_oidc_enabled = au_oidc_enabled a,
       ac_roles_header = au_roles_header a,
       ac_jwt = \<lparr>jp_enabled = js_enabled j, jp_issuer = js_issuer j, jp_audience = js_audience j,
         jp_roles_claim = js_roles_claim j, jp_hs256_secret = js_hs256_secret j, jp_rs256_pem = js_rs256_pem j,
         jp_jwks_url = js_jwks_url j, jp_jwks_refresh = show_duration (js_jwks_refresh j)\<rparr>,
       ac_audit_file = au_audit_file a, ac_rate = au_rate a, ac_trusted = trusted\<rparr>)"

text \<open>\<open>NewServerWithOptions\<close>: the configuration of the server, its rate limiter and its cache of keys.\<close>

definition server_auth :: "(int \<Rightarrow> string) \<Rightarrow> (string \<Rightarrow> bool) option \<Rightarrow> config \<Rightarrow> auth_config" where
  "server_auth show_duration trusted c = with_auth_defaults (auth_of_config show_duration trusted c)"

definition new_auth_state :: "time \<Rightarrow> auth_config \<Rightarrow> auth_state" where
  "new_auth_state now a = \<lparr>as_limiter = new_rate_limiter now (ac_rate a), as_audit = [], as_lines = []\<rparr>"

subsection \<open>Migrations\<close>

text \<open>The entries of a directory with the flag for directories; \<open>exec\<close> runs a text on the database.\<close>

record 'd migration_env =
  me_entries :: "string \<Rightarrow> string + (string \<times> bool) list"
  me_read :: "string \<Rightarrow> string + string"
  me_exec :: "string \<Rightarrow> 'd \<Rightarrow> string option \<times> 'd"

definition migration_files :: "string \<Rightarrow> (string \<times> bool) list \<Rightarrow> string list" where
  "migration_files base es =
     sort (map (\<lambda>(name, _). base @ ''/'' @ name) (filter (\<lambda>(name, dir). \<not> dir \<and> suffix ''.sql'' name) es))"

fun run_migrations :: "'d migration_env \<Rightarrow> string list \<Rightarrow> 'd \<Rightarrow> string option \<times> 'd" where
  "run_migrations E [] d = (None, d)"
| "run_migrations E (path # paths) d =
     (case me_read E path of
        Inl err \<Rightarrow> (Some err, d)
      | Inr sql \<Rightarrow>
          (case me_exec E sql d of
             (Some err, d) \<Rightarrow> (Some (''apply '' @ path @ '': '' @ err), d)
           | (None, d) \<Rightarrow> run_migrations E paths d))"

definition apply_migrations :: "'d migration_env \<Rightarrow> string \<Rightarrow> 'd \<Rightarrow> string option \<times> 'd" where
  "apply_migrations E dialect d =
     (if dialect = [] then (Some ''empty dialect'', d)
      else
        (let base = ''db/migrations/'' @ dialect in
         case me_entries E base of
           Inl err \<Rightarrow> (Some err, d)
         | Inr es \<Rightarrow> run_migrations E (migration_files base es) d))"

subsection \<open>The repository\<close>

text \<open>\<open>set_params\<close> stands for \<open>net/url\<close>: it sets query parameters of a URL, and fails on other texts.\<close>

definition apply_postgres_tls :: "((string \<times> string) list \<Rightarrow> string \<Rightarrow> string option) \<Rightarrow> config \<Rightarrow> string" where
  "apply_postgres_tls set_params c =
     (let t = cf_db c;
          ps = filter (\<lambda>(k, v). \<not> blank v) [(''sslmode'', dt_sslmode t), (''sslrootcert'', dt_sslrootcert t),
            (''sslcert'', dt_sslcert t), (''sslkey'', dt_sslkey t)]
      in if to_lower (trim_space (cf_db_driver c)) \<noteq> ''pgx'' \<or> ps = [] then cf_db_dsn c
         else (case set_params (map (\<lambda>(k, v). (k, trim_space v)) ps) (cf_db_dsn c) of
                 None \<Rightarrow> cf_db_dsn c | Some dsn \<Rightarrow> dsn))"

definition db_system :: "string \<Rightarrow> string" where
  "db_system dialect =
     (if to_lower dialect \<in> {''postgres'', ''pgx''} then ''postgresql''
      else if to_lower dialect = ''sqlite'' then ''sqlite'' else dialect)"

record ('d, 'h) database_env =
  de_open :: "string \<Rightarrow> string \<Rightarrow> string + 'h sql_db"
  de_ping :: "'h sql_db \<Rightarrow> string option"
  de_migrations :: "'d migration_env"
  de_set_params :: "(string \<times> string) list \<Rightarrow> string \<Rightarrow> string option"

datatype 'h repository_choice = UseMemory | UseSql "'h sql_repo" | Exit string string

definition fatal :: "config \<Rightarrow> string \<Rightarrow> string \<Rightarrow> 'h repository_choice" where
  "fatal c msg err = (if cf_dev_insecure c then UseMemory else Exit msg err)"

definition build_repository :: "('d, 'h) database_env \<Rightarrow> config \<Rightarrow> 'd \<Rightarrow> 'h repository_choice \<times> 'd" where
  "build_repository E c d =
     (if cf_db_driver c = [] \<or> cf_db_dsn c = [] then (UseMemory, d)
      else
        (case de_open E (cf_db_driver c) (apply_postgres_tls (de_set_params E) c) of
           Inl err \<Rightarrow> (fatal c ''db open failed'' err, d)
         | Inr db \<Rightarrow>
             (case de_ping E db of
                Some err \<Rightarrow> (fatal c ''db ping failed'' err, d)
              | None \<Rightarrow>
                  (case (if cf_db_migrate c then apply_migrations (de_migrations E) (cf_db_dialect c) d else (None, d)) of
                     (Some err, d) \<Rightarrow> (fatal c ''migration apply failed'' err, d)
                   | (None, d) \<Rightarrow>
                       (case new_sql_repository (Some db) (cf_db_dialect c) of
                          Inl err \<Rightarrow> (fatal c ''sql repository init failed'' err, d)
                        | Inr r \<Rightarrow> (UseSql r, d))))))"

subsection \<open>The Argo CD collector\<close>

definition new_fetch_func :: "(string \<Rightarrow> string \<Rightarrow> string + 'f) \<Rightarrow> argo_section \<Rightarrow> string + 'f" where
  "new_fetch_func client a =
     (let backend = to_lower (trim_space (ar_backend a)) in
      if backend = [] \<or> backend = ''argocd-client'' then client (ar_api_url a) (ar_api_token a)
      else Inl (''unsupported argo backend: '' @ ar_backend a))"

datatype 'f collector_mode = NotStarted | Informer | Polling 'f int

text \<open>\<open>Start\<close>: with a Kubernetes client the informer, else polling, every thirty seconds by default.\<close>

definition start_collector :: "bool \<Rightarrow> 'f option \<Rightarrow> int \<Rightarrow> 'f collector_mode" where
  "start_collector dyn fetch interval =
     (if dyn then Informer
      else (case fetch of None \<Rightarrow> NotStarted | Some f \<Rightarrow> Polling f (if interval \<le> 0 then 30 * second else interval)))"

definition start_argo_collector ::
    "bool \<Rightarrow> (string \<Rightarrow> string \<Rightarrow> string + 'f) \<Rightarrow> (string \<Rightarrow> 'k checkpoint_store) \<Rightarrow> config \<Rightarrow> 's repository \<Rightarrow>
     (('s, 'k) collector \<times> 'f collector_mode) option" where
  "start_argo_collector dyn client store c R =
     (let a = cf_argo c in
      if \<not> ar_enabled a \<or> blank (ar_api_url a) then None
      else
        (let fetch = (if \<not> dyn \<and> \<not> blank (ar_api_token a)
               then (case new_fetch_func client a of Inl _ \<Rightarrow> None | Inr f \<Rightarrow> Some f) else None)
         in Some (\<lparr>co_normalize = Some (normalize_source_event (ar_default_env a)), co_sink = Some R,
               co_checkpoint = Some (store (ar_checkpoint_file a))\<rparr>,
             start_collector dyn fetch (ar_interval a))))"

end
