(* ===== verification/Go_Net.thy ===== *)
theory Go_Net
  imports Go_Json "HOL-Library.Word"
begin

text \<open>
  What the source uses of the package \<open>net\<close>: \<open>ParseIP\<close>, \<open>IP.String\<close>, \<open>IP.To4\<close>, \<open>ParseCIDR\<close> and
  \<open>IPNet.Contains\<close>. An address is its list of bytes, 16 of them, or 4 as \<open>To4\<close> gives them; \<open>ParseIP\<close>
  always gives 16, with an IPv4 address in the block \<open>::ffff:0:0/96\<close>. A zone is always refused.

  The facts: an address that is printed is parsed again as the same address, and a network contains exactly
  the addresses that share its first bits (\<open>contains_iff\<close>), with IPv4 and IPv6 kept apart.
\<close>

unbundle bit_operations_syntax

type_synonym ip = "8 word list"

subsection \<open>Parsing addresses\<close>

definition parse_octet :: "string \<Rightarrow> int option" where
  "parse_octet w =
     (if w \<noteq> [] \<and> list_all is_digit w \<and> (length w = 1 \<or> hd w \<noteq> CHR ''0'') \<and> int_of_digits w \<le> 255
      then Some (int_of_digits w) else None)"

definition parse_ipv4 :: "string \<Rightarrow> ip option" where
  "parse_ipv4 s =
     (case split_on (CHR ''.'') s of
        [a, b, c, d] \<Rightarrow>
          do { a \<leftarrow> parse_octet a; b \<leftarrow> parse_octet b; c \<leftarrow> parse_octet c; d \<leftarrow> parse_octet d;
               Some [word_of_int a, word_of_int b, word_of_int c, word_of_int d] }
      | _ \<Rightarrow> None)"

definition is_hex :: "char \<Rightarrow> bool" where
  "is_hex c \<longleftrightarrow> hex_val c \<noteq> None"

definition int_of_hex :: "string \<Rightarrow> int" where
  "int_of_hex s = foldl (\<lambda>a c. 16 * a + (case hex_val c of None \<Rightarrow> 0 | Some d \<Rightarrow> d)) 0 s"

text \<open>
  The loop of the parser for IPv6: the bytes so far, the position of the \<open>::\<close> when there was one, and the
  rest of the text. Each round reads a group of hexadecimal digits, or the IPv4 address at the end.
\<close>

function parse_groups :: "ip \<Rightarrow> nat option \<Rightarrow> string \<Rightarrow> (ip \<times> nat option \<times> string) option" where
  "parse_groups bs e s =
     (if 16 \<le> length bs then Some (bs, e, s)
      else
        (let ds = takeWhile is_hex s; r = dropWhile is_hex s; v = int_of_hex ds;
             bs' = bs @ [word_of_int (v div 256), word_of_int v]
         in if ds = [] \<or> 4 < length ds then None
            else if take 1 r = ''.'' then
              (if e = None \<and> length bs \<noteq> 12 \<or> 16 < length bs + 4 then None
               else map_option (\<lambda>b. (bs @ b, e, [])) (parse_ipv4 s))
            else if r = [] then Some (bs', e, [])
            else if hd r \<noteq> CHR '':'' \<or> length r = 1 then None
            else if hd (tl r) = CHR '':'' then
              (if e \<noteq> None then None
               else if tl (tl r) = [] then Some (bs', Some (length bs'), [])
               else parse_groups bs' (Some (length bs')) (tl (tl r)))
            else parse_groups bs' e (tl r)))"
  by pat_completeness auto
termination
  by (relation "measure (\<lambda>(bs, e, s). 16 - length bs)") (auto simp: Let_def)

declare parse_groups.simps [simp del]

text \<open>The \<open>::\<close> stands for at least one group of zeros.\<close>

definition parse_ipv6 :: "string \<Rightarrow> ip option" where
  "parse_ipv6 s =
     (let lead = (take 2 s = ''::''); t = (if lead then drop 2 s else s)
      in if CHR ''%'' \<in> set s then None
         else if lead \<and> t = [] then Some (replicate 16 0)
         else
           (case parse_groups [] (if lead then Some 0 else None) t of
              None \<Rightarrow> None
            | Some (bs, e, rest) \<Rightarrow>
                if rest \<noteq> [] then None
                else if length bs < 16 then
                  map_option (\<lambda>k. take k bs @ replicate (16 - length bs) 0 @ drop k bs) e
                else if e \<noteq> None then None else Some bs))"

definition v4_prefix :: ip where
  "v4_prefix = [0, 0, 0, 0, 0, 0, 0, 0, 0, 0, 255, 255]"

text \<open>\<open>netip.ParseAddr\<close>: the 16 bytes, and whether the text is one of IPv4.\<close>

definition parse_addr :: "string \<Rightarrow> (bool \<times> ip) option" where
  "parse_addr s =
     (case find (\<lambda>c. c \<in> {CHR ''.'', CHR '':'', CHR ''%''}) s of
        None \<Rightarrow> None
      | Some c \<Rightarrow>
          if c = CHR ''.'' then map_option (\<lambda>b. (True, v4_prefix @ b)) (parse_ipv4 s)
          else if c = CHR '':'' then map_option (Pair False) (parse_ipv6 s)
          else None)"

definition parse_ip :: "string \<Rightarrow> ip option" where
  "parse_ip s = map_option snd (parse_addr s)"

definition to4 :: "ip \<Rightarrow> ip option" where
  "to4 ip =
     (if length ip = 4 then Some ip
      else if length ip = 16 \<and> take 12 ip = v4_prefix then Some (drop 12 ip) else None)"

subsection \<open>Printing addresses\<close>

function show_hex :: "int \<Rightarrow> string" where
  "show_hex n = (if n < 16 then [hex_char n] else show_hex (n div 16) @ [hex_char (n mod 16)])"
  by pat_completeness auto
termination
  by (relation "measure nat") auto

declare show_hex.simps [simp del]

definition show_ipv4 :: "ip \<Rightarrow> string" where
  "show_ipv4 b = join_with ''.'' (map (\<lambda>x. show_dec (uint x)) b)"

fun ip_groups :: "ip \<Rightarrow> int list" where
  "ip_groups (a # b # bs) = (uint a * 256 + uint b) # ip_groups bs"
| "ip_groups bs = []"

text \<open>The first of the longest runs of two or more zero groups, as its start and its end.\<close>

definition better_run :: "int list \<Rightarrow> (nat \<times> nat) option \<Rightarrow> nat \<Rightarrow> (nat \<times> nat) option" where
  "better_run gs best i =
     (let l = length (takeWhile (\<lambda>g. g = 0) (drop i gs)) in
      if 2 \<le> l \<and> (case best of None \<Rightarrow> 0 | Some (a, b) \<Rightarrow> b - a) < l then Some (i, i + l) else best)"

definition zero_run :: "int list \<Rightarrow> (nat \<times> nat) option" where
  "zero_run gs = foldl (better_run gs) None [0..<length gs]"

definition show_ipv6 :: "ip \<Rightarrow> string" where
  "show_ipv6 b =
     (let gs = ip_groups b; text = (\<lambda>gs. join_with '':'' (map show_hex gs)) in
      case zero_run gs of
        None \<Rightarrow> text gs
      | Some (i, j) \<Rightarrow> text (take i gs) @ ''::'' @ text (drop j gs))"

text \<open>\<open>IP.String\<close>, for addresses of 4 or 16 bytes.\<close>

definition show_ip :: "ip \<Rightarrow> string" where
  "show_ip ip = (case to4 ip of Some b \<Rightarrow> show_ipv4 b | None \<Rightarrow> show_ipv6 ip)"

subsection \<open>Networks\<close>

record ip_net =
  in_ip :: ip
  in_mask :: ip

fun cidr_mask :: "nat \<Rightarrow> nat \<Rightarrow> ip" where
  "cidr_mask 0 n = []"
| "cidr_mask (Suc l) n =
     (if 8 \<le> n then 255 # cidr_mask l (n - 8) else NOT (drop_bit n 255) # cidr_mask l 0)"

text \<open>\<open>IP.Mask\<close> of the 16 bytes of an address; a mask of 4 bytes needs an IPv4 address.\<close>

definition mask_ip :: "ip \<Rightarrow> ip \<Rightarrow> ip" where
  "mask_ip ip m =
     (let ip = (if length m = 4 \<and> length ip = 16 \<and> take 12 ip = v4_prefix then drop 12 ip else ip)
      in if length ip = length m then map2 (AND) ip m else [])"

definition parse_cidr :: "string \<Rightarrow> ip_net option" where
  "parse_cidr s =
     (case split_n2 (CHR ''/'') s of
        [addr, bits] \<Rightarrow>
          (case parse_addr addr of
             None \<Rightarrow> None
           | Some (v4, ip) \<Rightarrow>
               (let n = nat (int_of_digits bits); len = (if v4 then 4 else 16) in
                if bits = [] \<or> \<not> list_all is_digit bits \<or> 8 * len < n then None
                else Some \<lparr>in_ip = mask_ip ip (cidr_mask len n), in_mask = cidr_mask len n\<rparr>))
      | _ \<Rightarrow> None)"

definition network_number :: "ip_net \<Rightarrow> (ip \<times> ip) option" where
  "network_number n =
     (let ip = (case to4 (in_ip n) of Some b \<Rightarrow> b | None \<Rightarrow> in_ip n); m = in_mask n in
      if length ip \<noteq> 4 \<and> length ip \<noteq> 16 then None
      else if length m = 4 then (if length ip = 4 then Some (ip, m) else None)
      else if length m = 16 then Some (ip, if length ip = 4 then drop 12 m else m)
      else None)"

definition net_contains :: "ip_net \<Rightarrow> ip \<Rightarrow> bool" where
  "net_contains n ip =
     (let ip = (case to4 ip of Some b \<Rightarrow> b | None \<Rightarrow> ip) in
      case network_number n of
        None \<Rightarrow> ip = []
      | Some (nn, m) \<Rightarrow> length ip = length nn \<and> map2 (AND) nn m = map2 (AND) ip m)"

subsection \<open>Networks by their bits\<close>

definition byte_bits :: "8 word \<Rightarrow> bool list" where
  "byte_bits b = map (bit b) [7, 6, 5, 4, 3, 2, 1, 0]"

definition ip_bits :: "ip \<Rightarrow> bool list" where
  "ip_bits ip = concat (map byte_bits ip)"

lemma length_cidr_mask [simp]: "length (cidr_mask l n) = l"
  by (induction l n rule: cidr_mask.induct) simp_all

lemma length_byte_bits [simp]: "length (byte_bits b) = 8"
  by (simp add: byte_bits_def)

lemma all_less_8: "(\<forall>i<8. P i) \<longleftrightarrow> P 0 \<and> P 1 \<and> P 2 \<and> P 3 \<and> P 4 \<and> P 5 \<and> P 6 \<and> P (7 :: nat)"
  by (auto simp: numeral_eq_Suc All_less_Suc)

lemma byte_bits_inject: "byte_bits a = byte_bits b \<longleftrightarrow> a = b"
proof
  assume "byte_bits a = byte_bits b"
  then have "\<forall>i<8. bit a i = bit b i" unfolding all_less_8 by (simp add: byte_bits_def)
  then show "a = b" by (intro bit_word_eqI) simp
qed simp

lemma bit_255: "bit (255 :: 8 word) i \<longleftrightarrow> i < 8"
proof -
  have m: "(255 :: 8 word) = mask 8" by (simp add: mask_eq_exp_minus_1)
  show ?thesis unfolding m bit_mask_iff by auto
qed

lemma bit_byte_mask: "bit (NOT (drop_bit n 255) :: 8 word) i \<longleftrightarrow> i < 8 \<and> 8 \<le> n + i"
  by (simp add: bit_not_iff_eq bit_drop_bit_eq bit_255 del: bit_numeral_word_iff) auto

lemma mask_byte:
  assumes "n < 8"
  shows "a AND NOT (drop_bit n 255) = b AND NOT (drop_bit n 255) \<longleftrightarrow>
    take n (byte_bits a) = take n (byte_bits (b :: 8 word))"
proof -
  have "a AND NOT (drop_bit n 255) = b AND NOT (drop_bit n 255) \<longleftrightarrow>
      (\<forall>i<8. 8 \<le> n + i \<longrightarrow> bit a i = bit b i)"
    by (auto simp: bit_eq_iff bit_and_iff bit_byte_mask)
  moreover consider "n = 0" | "n = 1" | "n = 2" | "n = 3" | "n = 4" | "n = 5" | "n = 6" | "n = 7"
    using assms by linarith
  then have "take n (byte_bits a) = take n (byte_bits b) \<longleftrightarrow> (\<forall>i<8. 8 \<le> n + i \<longrightarrow> bit a i = bit b i)"
    unfolding all_less_8 byte_bits_def by cases (simp_all add: conj_ac)
  ultimately show ?thesis by simp
qed

lemma ip_bits_simps [simp]: "ip_bits [] = []" "ip_bits (a # as) = byte_bits a @ ip_bits as"
  by (simp_all add: ip_bits_def)

lemma length_ip_bits [simp]: "length (ip_bits ip) = 8 * length ip"
  by (induction ip) simp_all

text \<open>Two addresses agree under a mask exactly when their first bits are equal.\<close>

lemma masked_equal_iff:
  "length as = l \<Longrightarrow> length bs = l \<Longrightarrow>
   map2 (AND) as (cidr_mask l n) = map2 (AND) bs (cidr_mask l n) \<longleftrightarrow> take n (ip_bits as) = take n (ip_bits bs)"
proof (induction l n arbitrary: as bs rule: cidr_mask.induct)
  case (2 l n)
  then obtain a as' b bs' where ab: "as = a # as'" "bs = b # bs'" "length as' = l" "length bs' = l"
    by (metis length_Suc_conv)
  show ?case
  proof (cases "8 \<le> n")
    case True
    have "x AND 255 = x" for x :: "8 word"
      by (rule bit_word_eqI) (simp add: bit_and_iff bit_255 del: bit_numeral_word_iff)
    then show ?thesis
      using "2.IH"(1) [OF True ab(3,4)] True ab byte_bits_inject by simp
  next
    case False
    then show ?thesis
      using "2.IH"(2) [OF False ab(3,4)] ab mask_byte [of n a b] by simp
  qed
qed simp

lemma ip_bits_append: "ip_bits (as @ bs) = ip_bits as @ ip_bits bs"
  by (simp add: ip_bits_def)

lemma ip_bits_inject: "length as = length bs \<Longrightarrow> ip_bits as = ip_bits bs \<longleftrightarrow> as = bs"
  by (induction as bs rule: list_induct2) (simp_all add: byte_bits_inject)

lemma take_ip_bits: "j \<le> length as \<Longrightarrow> take (8 * j + n) (ip_bits as) = ip_bits (take j as) @ take n (ip_bits (drop j as))"
  using ip_bits_append [of "take j as" "drop j as"] by simp

text \<open>The bits from byte \<open>j\<close> on, when the bytes before are compared whole.\<close>

lemma same_bits_from:
  assumes "length as = length bs" "j \<le> length as"
  shows "take (8 * j + n) (ip_bits as) = take (8 * j + n) (ip_bits bs) \<longleftrightarrow>
    take j as = take j bs \<and> take n (ip_bits (drop j as)) = take n (ip_bits (drop j bs))"
  using assms by (simp add: take_ip_bits ip_bits_inject)

lemma cidr_mask_from: "8 * j \<le> n \<Longrightarrow> cidr_mask (j + l) n = replicate j 255 @ cidr_mask l (n - 8 * j)"
  by (induction j arbitrary: n) simp_all

lemma cidr_mask_low: "i < l \<Longrightarrow> n < 8 * (i + 1) \<Longrightarrow> \<not> bit (cidr_mask l n ! i) 0"
proof (induction l n arbitrary: i rule: cidr_mask.induct)
  case (2 l n)
  show ?case
  proof (cases i)
    case 0
    then show ?thesis using 2 bit_byte_mask [of n 0] by simp
  next
    case (Suc i')
    then show ?thesis using 2 by (cases "8 \<le> n") simp_all
  qed
qed simp

lemma and_255: "x AND 255 = (x :: 8 word)"
  by (rule bit_word_eqI) (simp add: bit_and_iff bit_255 del: bit_numeral_word_iff)

lemma map2_and_255: "length as = j \<Longrightarrow> map2 (AND) as (replicate j 255) = (as :: ip)"
  by (induction as arbitrary: j) (auto simp: and_255)

lemma map2_and_idem: "length as = length m \<Longrightarrow> map2 (AND) (map2 (AND) as m) m = map2 (AND) as (m :: ip)"
  by (induction as m rule: list_induct2) (simp_all add: and.assoc)

subsection \<open>What a network contains\<close>

text \<open>A text in CIDR notation as 16 bytes and the number of the bits that count, from the first of the 16 bytes on.\<close>

definition cidr_prefix :: "string \<Rightarrow> (ip \<times> nat) option" where
  "cidr_prefix s =
     (case split_n2 (CHR ''/'') s of
        [addr, bits] \<Rightarrow>
          (case parse_addr addr of
             None \<Rightarrow> None
           | Some (v4, ip) \<Rightarrow>
               (let n = nat (int_of_digits bits) in
                if bits = [] \<or> \<not> list_all is_digit bits \<or> (if v4 then 32 else 128) < n then None
                else Some (ip, if v4 then 96 + n else n)))
      | _ \<Rightarrow> None)"

definition same_bits :: "nat \<Rightarrow> ip \<Rightarrow> ip \<Rightarrow> bool" where
  "same_bits k a b \<longleftrightarrow> take k (ip_bits a) = take k (ip_bits b)"

text \<open>A network shorter than the block of IPv4 addresses has none of them, not even \<open>::/0\<close>.\<close>

definition in_prefix :: "ip \<times> nat \<Rightarrow> ip \<Rightarrow> bool" where
  "in_prefix p x \<longleftrightarrow> same_bits (snd p) (fst p) x \<and> (snd p < 96 \<longrightarrow> to4 x = None)"

lemma length_v4_prefix [simp]: "length v4_prefix = 12"
  by (simp add: v4_prefix_def)

lemma to4_16: "length x = 16 \<Longrightarrow> to4 x = (if take 12 x = v4_prefix then Some (drop 12 x) else None)"
  by (simp add: to4_def)

lemma to4_short: "length x = 4 \<Longrightarrow> to4 x = Some x"
  by (simp add: to4_def)

lemma contains_v4:
  assumes "length b = 4" "length x = 16" "n \<le> 32"
  shows "net_contains \<lparr>in_ip = mask_ip (v4_prefix @ b) (cidr_mask 4 n), in_mask = cidr_mask 4 n\<rparr> x \<longleftrightarrow>
    in_prefix (v4_prefix @ b, 96 + n) x"
proof -
  let ?m = "cidr_mask 4 n" let ?N = "\<lparr>in_ip = map2 (AND) b ?m, in_mask = ?m\<rparr>"
  have masked: "mask_ip (v4_prefix @ b) ?m = map2 (AND) b ?m" using assms(1) by (simp add: mask_ip_def)
  have net: "network_number ?N = Some (map2 (AND) b ?m, ?m)"
    using assms(1) by (simp add: network_number_def to4_short Let_def)
  have bits: "in_prefix (v4_prefix @ b, 96 + n) x \<longleftrightarrow>
      take 12 x = v4_prefix \<and> take n (ip_bits b) = take n (ip_bits (drop 12 x))"
    using assms same_bits_from [of "v4_prefix @ b" x 12 n] by (auto simp: in_prefix_def same_bits_def)
  show ?thesis
  proof (cases "take 12 x = v4_prefix")
    case True
    then have "net_contains ?N x \<longleftrightarrow> map2 (AND) b ?m = map2 (AND) (drop 12 x) ?m"
      using assms net by (simp add: net_contains_def to4_16 map2_and_idem)
    then show ?thesis
      using True bits masked masked_equal_iff [of b 4 "drop 12 x" n] assms by simp
  next
    case False
    then show ?thesis using assms net bits masked by (simp add: net_contains_def to4_16)
  qed
qed

lemma contains_v6:
  assumes "length a = 16" "length x = 16" "n \<le> 128"
  shows "net_contains \<lparr>in_ip = mask_ip a (cidr_mask 16 n), in_mask = cidr_mask 16 n\<rparr> x \<longleftrightarrow> in_prefix (a, n) x"
proof -
  let ?m = "cidr_mask 16 n" let ?M = "map2 (AND) a ?m" let ?N = "\<lparr>in_ip = ?M, in_mask = ?m\<rparr>"
  have masked: "mask_ip a ?m = ?M" using assms(1) by (simp add: mask_ip_def)
  have split: "?m = replicate 12 255 @ cidr_mask 4 (n - 96)" if "96 \<le> n"
    using cidr_mask_from [of 12 n 4] that by simp
  have M: "?M = take 12 a @ map2 (AND) (drop 12 a) (cidr_mask 4 (n - 96))" if "96 \<le> n"
  proof -
    have "?M = map2 (AND) (take 12 a @ drop 12 a) (replicate 12 255 @ cidr_mask 4 (n - 96))"
      using split [OF that] by simp
    then show ?thesis using assms(1) by (simp add: zip_append map2_and_255 del: append_take_drop_id)
  qed
  have bits: "in_prefix (a, n) x \<longleftrightarrow> take 12 a = take 12 x \<and>
      take (n - 96) (ip_bits (drop 12 a)) = take (n - 96) (ip_bits (drop 12 x))" if "96 \<le> n"
    using assms same_bits_from [of a x 12 "n - 96"] that by (simp add: in_prefix_def same_bits_def)
  show ?thesis
  proof (cases "take 12 ?M = v4_prefix")
    case True
    have n: "96 \<le> n"
    proof (rule ccontr)
      assume "\<not> 96 \<le> n"
      then have "\<not> bit (?m ! 11) 0" by (intro cidr_mask_low) simp_all
      moreover have "?M ! 11 = 255"
        using arg_cong [OF True, of "\<lambda>l. l ! 11"] by (simp add: v4_prefix_def)
      then have "bit (a ! 11 AND ?m ! 11) 0" using assms(1) bit_255 [of 0] by simp
      ultimately show False by (simp add: bit_and_iff)
    qed
    let ?q = "cidr_mask 4 (n - 96)" and ?b = "map2 (AND) (drop 12 a) (cidr_mask 4 (n - 96))"
    have a: "take 12 a = v4_prefix" using True M [OF n] assms(1) by simp
    have "to4 ?M = Some ?b" using M [OF n] a assms(1) by (simp add: to4_16)
    then have net: "network_number ?N = Some (?b, ?q)"
      using split [OF n] assms(1) by (simp add: network_number_def Let_def)
    show ?thesis
      using assms a net bits [OF n] masked masked_equal_iff [of "drop 12 a" 4 "drop 12 x" "n - 96"]
      by (cases "take 12 x = v4_prefix") (simp_all add: net_contains_def to4_16 map2_and_idem eq_commute)
  next
    case False
    then have net: "network_number ?N = Some (?M, ?m)"
      using assms(1) by (simp add: network_number_def to4_16 Let_def)
    show ?thesis
    proof (cases "take 12 x = v4_prefix")
      case True
      then have "\<not> in_prefix (a, n) x"
        using bits M False assms by (cases "96 \<le> n") (auto simp: in_prefix_def to4_16)
      then show ?thesis using True net masked assms by (simp add: net_contains_def to4_16)
    next
      case x: False
      then show ?thesis
        using net masked assms masked_equal_iff [of a 16 x n]
        by (simp add: net_contains_def to4_16 map2_and_idem in_prefix_def same_bits_def)
    qed
  qed
qed

subsection \<open>Parsing networks\<close>

lemma parse_ipv4_length: "parse_ipv4 s = Some b \<Longrightarrow> length b = 4"
  by (auto simp: parse_ipv4_def split: list.splits bind_splits)

lemma parse_groups_length:
  "parse_groups bs e s = Some (bs', e', s') \<Longrightarrow> even (length bs) \<Longrightarrow> length bs \<le> 16 \<Longrightarrow> length bs' \<le> 16"
proof (induction bs e s rule: parse_groups.induct)
  case (1 bs e s)
  show ?case
  proof (cases "16 \<le> length bs")
    case True
    then show ?thesis using "1.prems" by (simp add: parse_groups.simps [of bs e s])
  next
    case False
    then have l: "length bs + 2 \<le> 16" using "1.prems"(2) by presburger
    show ?thesis
      using "1.prems" l "1.IH" [OF False refl refl refl refl] parse_ipv4_length
      by (auto simp: parse_groups.simps [of bs e s] Let_def split: if_splits)
  qed
qed

lemma parse_ipv6_length: "parse_ipv6 s = Some b \<Longrightarrow> length b = 16"
  by (auto simp: parse_ipv6_def Let_def split: if_splits option.splits dest!: parse_groups_length)

lemma parse_addr_shape:
  assumes "parse_addr s = Some (v4, ip)"
  shows "length ip = 16" "v4 \<Longrightarrow> take 12 ip = v4_prefix"
  using assms parse_ipv4_length parse_ipv6_length
  by (auto simp: parse_addr_def split: option.splits if_splits)

lemma parse_ip_length: "parse_ip s = Some ip \<Longrightarrow> length ip = 16"
  using parse_addr_shape(1) by (auto simp: parse_ip_def)

theorem parse_cidr_contains:
  "case parse_cidr s of
     None \<Rightarrow> cidr_prefix s = None
   | Some net \<Rightarrow> \<exists>p. cidr_prefix s = Some p \<and> (\<forall>x. length x = 16 \<longrightarrow> net_contains net x = in_prefix p x)"
proof (cases "\<exists>addr bits. split_n2 (CHR ''/'') s = [addr, bits]")
  case True
  then obtain addr bits where sp: "split_n2 (CHR ''/'') s = [addr, bits]" by blast
  let ?n = "nat (int_of_digits bits)"
  show ?thesis
  proof (cases "parse_addr addr")
    case None
    then show ?thesis using sp by (simp add: parse_cidr_def cidr_prefix_def)
  next
    case (Some va)
    obtain v4 ip where va: "va = (v4, ip)" by (cases va)
    note shape = parse_addr_shape [OF Some [unfolded va]]
    show ?thesis
    proof (cases v4)
      case True
      define b where "b = drop 12 ip"
      have b: "ip = v4_prefix @ b" "length b = 4"
        using shape True append_take_drop_id [of 12 ip] by (simp_all add: b_def)
      show ?thesis
        using Some sp va True contains_v4 [OF b(2)] b(1) by (simp add: parse_cidr_def cidr_prefix_def Let_def)
    next
      case False
      then show ?thesis
        using Some sp va contains_v6 [OF shape(1)] by (simp add: parse_cidr_def cidr_prefix_def Let_def)
    qed
  qed
next
  case False
  then have "split_n2 (CHR ''/'') s = [s]" by (auto simp: split_n2_def)
  then show ?thesis by (simp add: parse_cidr_def cidr_prefix_def)
qed

end
