(* ===== verification/Go_Net_Roundtrip.thy ===== *)
theory Go_Net_Roundtrip
  imports Go_Net Go_Json_Roundtrip
begin

text \<open>
  An address that \<open>IP.String\<close> prints is parsed by \<open>ParseIP\<close> as the same address: four decimal octets for
  IPv4, and for IPv6 eight groups of hexadecimal digits of which the first longest run of zeros is left out.
\<close>

subsection \<open>IPv4\<close>

lemma split_on_word: "c \<notin> set w \<Longrightarrow> split_on c (w @ c # s) = w # split_on c s"
  by (induction w) auto

lemma split_on_join: "ws \<noteq> [] \<Longrightarrow> \<forall>w\<in>set ws. c \<notin> set w \<Longrightarrow> split_on c (join_with [c] ws) = ws"
proof (induction ws)
  case (Cons w ws)
  then show ?case by (cases ws) (simp_all add: split_on_word split_on_no_sep)
qed simp

lemma uint_byte: "0 \<le> uint (x :: 8 word)" "uint (x :: 8 word) < 256"
  using uint_bounded [of x] by simp_all

lemma parse_octet_show: "parse_octet (show_dec (uint (x :: 8 word))) = Some (uint x)"
proof -
  have "list_all is_digit (show_dec (uint x))" by (simp add: show_dec_digits uint_byte)
  moreover have "length (show_dec (uint x)) = 1 \<or> hd (show_dec (uint x)) \<noteq> CHR ''0''"
    using show_dec_hd [of "uint x"] uint_byte(1) [of x] by (cases "uint x = 0") (simp_all add: show_dec.simps)
  ultimately show ?thesis using uint_byte [of x] by (simp add: parse_octet_def)
qed

lemma length4_cases: "length b = 4 \<Longrightarrow> \<exists>w x y z. b = [w, x, y, z]"
  by (auto simp: numeral_eq_Suc length_Suc_conv)

lemma show_dec_byte_chars: "c \<in> set (show_dec (uint (x :: 8 word))) \<Longrightarrow> is_digit c"
  using show_dec_digits [of "uint x"] uint_byte(1) by (simp add: list_all_iff)

lemma parse_ipv4_show: "length b = 4 \<Longrightarrow> parse_ipv4 (show_ipv4 b) = Some b"
proof -
  assume "length b = 4"
  then obtain w x y z where b: "b = [w, x, y, z]" using length4_cases by blast
  have "CHR ''.'' \<notin> set (show_dec (uint u))" for u :: "8 word"
    using show_dec_byte_chars [of "CHR ''.''" u] by (auto simp: is_digit_def)
  then have "split_on (CHR ''.'') (show_ipv4 b) = map (\<lambda>u. show_dec (uint u)) b"
    unfolding show_ipv4_def using b by (intro split_on_join) auto
  then show ?thesis by (simp add: parse_ipv4_def b parse_octet_show)
qed

lemma find_only: "P c \<Longrightarrow> c \<in> set s \<Longrightarrow> \<forall>d\<in>set s. d \<noteq> c \<longrightarrow> \<not> P d \<Longrightarrow> find P s = Some c"
  by (induction s) auto

lemma show_ipv4_chars:
  assumes "length b = 4" "c \<in> set (show_ipv4 b)"
  shows "is_digit c \<or> c = CHR ''.''"
proof -
  obtain w x y z where b: "b = [w, x, y, z]" using length4_cases [OF assms(1)] by blast
  show ?thesis using assms(2) show_dec_byte_chars by (auto simp: show_ipv4_def b)
qed

lemma parse_addr_show_ipv4:
  assumes "length b = 4"
  shows "parse_addr (show_ipv4 b) = Some (True, v4_prefix @ b)"
proof -
  obtain w x y z where b: "b = [w, x, y, z]" using length4_cases [OF assms] by blast
  have "find (\<lambda>c. c \<in> {CHR ''.'', CHR '':'', CHR ''%''}) (show_ipv4 b) = Some (CHR ''.'')"
  proof (rule find_only)
    show "CHR ''.'' \<in> set (show_ipv4 b)" by (simp add: show_ipv4_def b)
    note show_ipv4_chars [OF assms]
    moreover have "\<not> is_digit (CHR '':'')" "\<not> is_digit (CHR ''%'')" by (simp_all add: is_digit_def)
    ultimately show "\<forall>d\<in>set (show_ipv4 b). d \<noteq> CHR ''.'' \<longrightarrow> d \<notin> {CHR ''.'', CHR '':'', CHR ''%''}"
      by blast
  qed simp
  then show ?thesis using parse_ipv4_show [OF assms] by (simp add: parse_addr_def)
qed

subsection \<open>Groups of hexadecimal digits\<close>

lemma is_hex_char: "0 \<le> n \<Longrightarrow> n < 16 \<Longrightarrow> is_hex (hex_char n)"
  by (simp add: is_hex_def hex_val_hex_char)

lemma int_of_hex_snoc: "int_of_hex (s @ [c]) = 16 * int_of_hex s + (case hex_val c of None \<Rightarrow> 0 | Some d \<Rightarrow> d)"
  by (simp add: int_of_hex_def)

lemma show_hex_props:
  assumes "0 \<le> n"
  shows "show_hex n \<noteq> []" "list_all is_hex (show_hex n)" "int_of_hex (show_hex n) = n"
proof -
  have "show_hex n \<noteq> [] \<and> list_all is_hex (show_hex n) \<and> int_of_hex (show_hex n) = n"
    using assms
  proof (induction n rule: show_hex.induct)
    case (1 n)
    show ?case
    proof (cases "n < 16")
      case True
      then show ?thesis
        using "1.prems" by (simp add: show_hex.simps [of n] is_hex_char int_of_hex_def hex_val_hex_char)
    next
      case False
      then show ?thesis
        using 1 by (simp add: show_hex.simps [of n] is_hex_char int_of_hex_snoc hex_val_hex_char)
    qed
  qed
  then show "show_hex n \<noteq> []" "list_all is_hex (show_hex n)" "int_of_hex (show_hex n) = n" by simp_all
qed

lemma length_show_hex: "0 \<le> n \<Longrightarrow> n < 16 ^ Suc k \<Longrightarrow> length (show_hex n) \<le> Suc k"
proof (induction k arbitrary: n)
  case (Suc k)
  then have "n < 16 * 16 ^ Suc k" by simp
  then have "n div 16 < 16 ^ Suc k" by linarith
  then show ?case using Suc by (cases "n < 16") (simp_all add: show_hex.simps [of n])
qed (simp add: show_hex.simps)

definition group_bytes :: "int \<Rightarrow> ip" where
  "group_bytes g = [word_of_int (g div 256), word_of_int g]"

definition groups_text :: "int list \<Rightarrow> string" where
  "groups_text gs = join_with '':'' (map show_hex gs)"

lemma parse_group:
  assumes "0 \<le> g" "g < 65536" "length bs < 16" "r = [] \<or> hd r = CHR '':''"
  shows "parse_groups bs e (show_hex g @ r) =
    (let bs' = bs @ group_bytes g in
     if r = [] then Some (bs', e, [])
     else if length r = 1 then None
     else if hd (tl r) = CHR '':'' then
       (if e \<noteq> None then None
        else if tl (tl r) = [] then Some (bs', Some (length bs'), [])
        else parse_groups bs' (Some (length bs')) (tl (tl r)))
     else parse_groups bs' e (tl r))"
proof -
  note h = show_hex_props [OF assms(1)]
  have r: "r = [] \<or> \<not> is_hex (hd r)" using assms(4) by (auto simp: is_hex_def hex_val_def)
  have tw: "takeWhile is_hex (show_hex g @ r) = show_hex g" "dropWhile is_hex (show_hex g @ r) = r"
    using h(2) r by (cases r; simp add: list_all_iff)+
  have "length (show_hex g) \<le> 4" using length_show_hex [of g 3] assms(1,2) by simp
  moreover have "take 1 r \<noteq> ''.''" using assms(4) by (cases r) auto
  ultimately show ?thesis
    using assms(3,4) h tw by (auto simp: parse_groups.simps [of bs e "show_hex g @ r"] Let_def group_bytes_def)
qed

subsection \<open>IPv6\<close>

definition group_ok :: "int \<Rightarrow> bool" where
  "group_ok g \<longleftrightarrow> 0 \<le> g \<and> g < 65536"

definition groups_bytes :: "int list \<Rightarrow> ip" where
  "groups_bytes gs = concat (map group_bytes gs)"

lemma groups_bytes_simps [simp]:
  "groups_bytes [] = []" "groups_bytes (g # gs) = group_bytes g @ groups_bytes gs"
  "groups_bytes (gs @ hs) = groups_bytes gs @ groups_bytes hs"
  by (simp_all add: groups_bytes_def)

lemma length_groups_bytes [simp]: "length (groups_bytes gs) = 2 * length gs"
  by (induction gs) (simp_all add: group_bytes_def)

lemma groups_text_simps [simp]:
  "groups_text [] = []" "groups_text [g] = show_hex g"
  "groups_text (g # h # gs) = show_hex g @ CHR '':'' # groups_text (h # gs)"
  by (simp_all add: groups_text_def)

lemma groups_text_hd:
  assumes "gs \<noteq> []" "list_all group_ok gs"
  shows "groups_text gs \<noteq> []" "is_hex (hd (groups_text gs))"
proof -
  obtain g gs' where g: "gs = g # gs'" "0 \<le> g" using assms by (cases gs) (auto simp: group_ok_def)
  have "show_hex g \<noteq> []" "is_hex (hd (show_hex g))"
    using show_hex_props [OF g(2)] by (cases "show_hex g"; simp)+
  then show "groups_text gs \<noteq> []" "is_hex (hd (groups_text gs))"
    unfolding g(1) by (cases gs'; simp)+
qed

lemma hex_not_colon: "is_hex c \<Longrightarrow> c \<noteq> CHR '':''"
  by (auto simp: is_hex_def hex_val_def)

lemma length_one: "length r = 1 \<longleftrightarrow> r \<noteq> [] \<and> tl r = []"
  by (cases r) simp_all

lemma parse_groups_text:
  assumes "gs \<noteq> []" "list_all group_ok gs" "length bs + 2 * length gs \<le> 16"
  shows "parse_groups bs e (groups_text gs) = Some (bs @ groups_bytes gs, e, [])"
  using assms
proof (induction gs arbitrary: bs)
  case (Cons g gs)
  then have g: "0 \<le> g" "g < 65536" "length bs < 16" by (simp_all add: group_ok_def)
  show ?case
  proof (cases gs)
    case Nil
    then show ?thesis using parse_group [OF g, of "[]" e] by simp
  next
    case c: (Cons h gs')
    have t: "groups_text gs \<noteq> []" "hd (groups_text gs) \<noteq> CHR '':''"
      using groups_text_hd [of gs] hex_not_colon c Cons.prems by simp_all
    then show ?thesis
      using parse_group [OF g, of "CHR '':'' # groups_text gs" e] Cons.IH [of "bs @ group_bytes g"] Cons.prems c
      by (simp add: length_one group_bytes_def)
  qed
qed simp

lemma parse_groups_ellipsis:
  assumes "gs \<noteq> []" "list_all group_ok gs" "length bs + 2 * length gs \<le> 16" "s = [] \<or> hd s \<noteq> CHR '':''"
  shows "parse_groups bs None (groups_text gs @ CHR '':'' # CHR '':'' # s) =
    (if s = [] then Some (bs @ groups_bytes gs, Some (length bs + 2 * length gs), [])
     else parse_groups (bs @ groups_bytes gs) (Some (length bs + 2 * length gs)) s)"
  using assms
proof (induction gs arbitrary: bs)
  case (Cons g gs)
  then have g: "0 \<le> g" "g < 65536" "length bs < 16" by (simp_all add: group_ok_def)
  show ?case
  proof (cases gs)
    case Nil
    then show ?thesis using parse_group [OF g, of "CHR '':'' # CHR '':'' # s" None] by (simp add: Let_def group_bytes_def)
  next
    case c: (Cons h gs')
    have t: "groups_text gs \<noteq> []" "hd (groups_text gs) \<noteq> CHR '':''"
      using groups_text_hd [of gs] hex_not_colon c Cons.prems by simp_all
    then show ?thesis
      using parse_group [OF g, of "CHR '':'' # groups_text gs @ CHR '':'' # CHR '':'' # s" None]
        Cons.IH [of "bs @ group_bytes g"] Cons.prems c
      by (simp add: length_one group_bytes_def)
  qed
qed simp

definition good_run :: "int list \<Rightarrow> (nat \<times> nat) option \<Rightarrow> bool" where
  "good_run gs best \<longleftrightarrow>
     (\<forall>i j. best = Some (i, j) \<longrightarrow> i + 2 \<le> j \<and> j \<le> length gs \<and> (\<forall>k. i \<le> k \<and> k < j \<longrightarrow> gs ! k = 0))"

lemma better_run_good:
  assumes "good_run gs best" "i < length gs"
  shows "good_run gs (better_run gs best i)"
proof -
  let ?P = "\<lambda>g. g = (0 :: int)" let ?l = "length (takeWhile ?P (drop i gs))"
  have "?l \<le> length gs - i" using length_takeWhile_le [of ?P "drop i gs"] by simp
  moreover have "gs ! k = 0" if "i \<le> k" "k < i + ?l" for k
  proof -
    have "takeWhile ?P (drop i gs) ! (k - i) = 0"
      using that set_takeWhileD [OF nth_mem, of "k - i" ?P "drop i gs"] by simp
    then show ?thesis using takeWhile_nth [of "k - i" ?P "drop i gs"] that calculation assms(2) by simp
  qed
  ultimately show ?thesis using assms by (auto simp: good_run_def better_run_def Let_def)
qed

lemma foldl_better_run_good:
  "good_run gs best \<Longrightarrow> \<forall>i\<in>set is. i < length gs \<Longrightarrow> good_run gs (foldl (better_run gs) best is)"
  by (induction "is" arbitrary: best) (simp_all add: better_run_good)

lemma zero_run_zeros:
  "zero_run gs = Some (i, j) \<Longrightarrow> i + 2 \<le> j \<and> j \<le> length gs \<and> (\<forall>k. i \<le> k \<and> k < j \<longrightarrow> gs ! k = 0)"
  using foldl_better_run_good [of gs None "[0..<length gs]"] by (simp add: zero_run_def good_run_def)

subsection \<open>The whole address\<close>

lemma length_ip_groups: "length (ip_groups b) = length b div 2"
  by (induction b rule: ip_groups.induct) simp_all

lemma ip_groups_ok: "list_all group_ok (ip_groups b)"
proof (induction b rule: ip_groups.induct)
  case (1 x y b)
  then show ?case using uint_byte [of x] uint_byte [of y] by (simp add: group_ok_def)
qed simp_all

lemma group_bytes_uint: "group_bytes (uint x * 256 + uint y) = [x, y :: 8 word]"
proof -
  have "(uint x * 256 + uint y) div 256 = uint x" using uint_byte [of y] by simp
  moreover have "word_of_int (uint x * 256 + uint y) = (word_of_int (uint y) :: 8 word)"
    by (simp only: word_of_int_eq_iff) (simp add: take_bit_eq_mod)
  ultimately show ?thesis by (simp add: group_bytes_def)
qed

lemma groups_bytes_ip_groups: "even (length b) \<Longrightarrow> groups_bytes (ip_groups b) = b"
  by (induction b rule: ip_groups.induct) (simp_all add: group_bytes_uint)

lemma groups_bytes_zeros: "groups_bytes (replicate n 0) = replicate (2 * n) 0"
  by (induction n) (simp_all add: group_bytes_def)

lemma groups_text_chars: "list_all group_ok gs \<Longrightarrow> c \<in> set (groups_text gs) \<Longrightarrow> is_hex c \<or> c = CHR '':''"
proof (induction gs)
  case (Cons g gs)
  have "\<forall>c\<in>set (show_hex g). is_hex c"
    using show_hex_props(2) [of g] Cons.prems(1) by (simp add: group_ok_def list_all_iff)
  then show ?case using Cons by (cases gs) auto
qed simp

text \<open>A run of zeros is what stands between the groups that are printed.\<close>

lemma zero_run_split:
  assumes "zero_run gs = Some (i, j)"
  shows "gs = take i gs @ replicate (j - i) 0 @ drop j gs" "i + 2 \<le> j" "j \<le> length gs"
proof -
  note z = zero_run_zeros [OF assms]
  then show "i + 2 \<le> j" "j \<le> length gs" by simp_all
  have "take (j - i) (drop i gs) = replicate (j - i) 0"
    using z by (intro nth_equalityI) auto
  then have "drop i gs = replicate (j - i) 0 @ drop j gs"
    using z append_take_drop_id [of "j - i" "drop i gs"] by simp
  then show "gs = take i gs @ replicate (j - i) 0 @ drop j gs"
    using append_take_drop_id [of i gs] by simp
qed

lemma show_ipv6_cases:
  "show_ipv6 b = (case zero_run (ip_groups b) of
      None \<Rightarrow> groups_text (ip_groups b)
    | Some (i, j) \<Rightarrow> groups_text (take i (ip_groups b)) @ ''::'' @ groups_text (drop j (ip_groups b)))"
  by (auto simp: show_ipv6_def groups_text_def Let_def split: option.split)

lemma list_all_take_drop: "list_all P xs \<Longrightarrow> list_all P (take i xs) \<and> list_all P (drop i xs)"
  by (metis append_take_drop_id list_all_append)

lemma show_ipv6_chars: "c \<in> set (show_ipv6 b) \<Longrightarrow> is_hex c \<or> c = CHR '':''"
  using groups_text_chars ip_groups_ok [of b] list_all_take_drop [OF ip_groups_ok [of b]]
  by (fastforce simp: show_ipv6_cases split: option.splits prod.splits)

lemma parse_ipv6_show:
  assumes "length b = 16"
  shows "parse_ipv6 (show_ipv6 b) = Some b"
proof -
  let ?gs = "ip_groups b"
  have len: "length ?gs = 8" and bytes: "groups_bytes ?gs = b"
    using assms by (simp_all add: length_ip_groups groups_bytes_ip_groups)
  have pct: "CHR ''%'' \<notin> set (show_ipv6 b)"
    using show_ipv6_chars [of "CHR ''%''" b] by (auto simp: is_hex_def hex_val_def)
  note ok = ip_groups_ok [of b]
  show ?thesis
  proof (cases "zero_run ?gs")
    case None
    then have s: "show_ipv6 b = groups_text ?gs" by (simp add: show_ipv6_cases)
    have "?gs \<noteq> []" using len by auto
    then have "take 2 (groups_text ?gs) \<noteq> ''::''"
      using groups_text_hd [OF _ ok] hex_not_colon by (cases "groups_text ?gs") auto
    then show ?thesis
      using s pct len bytes parse_groups_text [OF \<open>?gs \<noteq> []\<close> ok, of "[]" None]
      by (simp add: parse_ipv6_def assms)
  next
    case (Some p)
    obtain i j where p: "zero_run ?gs = Some (i, j)" using Some by (cases p) simp
    note z = zero_run_split [OF p]
    let ?as = "take i ?gs" and ?bs = "drop j ?gs"
    have s: "show_ipv6 b = groups_text ?as @ CHR '':'' # CHR '':'' # groups_text ?bs"
      using p by (simp add: show_ipv6_cases)
    have oks: "list_all group_ok ?as" "list_all group_ok ?bs" using list_all_take_drop [OF ok] by auto
    have b: "b = groups_bytes ?as @ replicate (16 - (2 * i + (16 - 2 * j))) 0 @ groups_bytes ?bs"
      using arg_cong [OF z(1), of groups_bytes] z(2,3) len by (simp add: bytes groups_bytes_zeros diff_mult_distrib2)
    have tail: "groups_text ?bs = [] \<or> hd (groups_text ?bs) \<noteq> CHR '':''" "groups_text ?bs = [] \<longleftrightarrow> ?bs = []"
      using groups_text_hd [OF _ oks(2)] hex_not_colon by fastforce+
    show ?thesis
    proof (cases "?as = []")
      case True
      then have i: "i = 0" using len by auto
      then have lead: "take 2 (show_ipv6 b) = ''::''" "drop 2 (show_ipv6 b) = groups_text ?bs" by (simp_all add: s)
      show ?thesis
      proof (cases "?bs = []")
        case True
        then have "j = 8" using z(3) len by simp
        then show ?thesis using b i True lead pct by (simp add: parse_ipv6_def)
      next
        case bs: False
        have "parse_groups [] (Some 0) (groups_text ?bs) = Some (groups_bytes ?bs, Some 0, [])"
          using parse_groups_text [OF bs oks(2), of "[]" "Some 0"] len by simp
        moreover have "16 - 2 * (8 - j) = 2 * j" using z(3) len by simp
        ultimately show ?thesis using b i lead pct tail bs z(2,3) len by (simp add: parse_ipv6_def Let_def)
      qed
    next
      case False
      have l: "length ?as = i" using len z(2,3) by simp
      have lead: "take 2 (show_ipv6 b) \<noteq> ''::''"
        using groups_text_hd [OF False oks(1)] hex_not_colon unfolding s by (cases "groups_text ?as") auto
      show ?thesis
      proof (cases "?bs = []")
        case True
        then have "parse_groups [] None (show_ipv6 b) = Some (groups_bytes ?as, Some (2 * i), [])"
          using parse_groups_ellipsis [OF False oks(1), of "[]" "[]"] l len z(2,3) unfolding s by simp
        moreover have "j = 8" using True z(3) len by simp
        ultimately show ?thesis using b lead pct True l z(2) by (simp add: parse_ipv6_def Let_def)
      next
        case bs: False
        have "parse_groups (groups_bytes ?as) (Some (2 * i)) (groups_text ?bs) =
            Some (groups_bytes ?as @ groups_bytes ?bs, Some (2 * i), [])"
          using parse_groups_text [OF bs oks(2), of "groups_bytes ?as" "Some (2 * i)"] l len z(2,3) by simp
        then have "parse_groups [] None (show_ipv6 b) = Some (groups_bytes ?as @ groups_bytes ?bs, Some (2 * i), [])"
          using parse_groups_ellipsis [OF False oks(1), of "[]" "groups_text ?bs"] l len z(2,3) tail bs
          unfolding s by simp
        moreover have "2 * i + 2 * (8 - j) < 16" "16 - (2 * i + 2 * (8 - j)) = 2 * j - 2 * i"
          using z(2,3) len by simp_all
        ultimately show ?thesis using b lead pct l len z(2,3) by (simp add: parse_ipv6_def Let_def)
      qed
    qed
  qed
qed

lemma parse_addr_show_ipv6:
  assumes "length b = 16"
  shows "parse_addr (show_ipv6 b) = Some (False, b)"
proof -
  have "find (\<lambda>c. c \<in> {CHR ''.'', CHR '':'', CHR ''%''}) (show_ipv6 b) = Some (CHR '':'')"
  proof (rule find_only)
    have "CHR '':'' \<in> set (groups_text gs)" if "length gs = 8" for gs
      using that by (cases gs; cases "tl gs") auto
    then show "CHR '':'' \<in> set (show_ipv6 b)"
      using assms by (auto simp: show_ipv6_cases length_ip_groups split: option.split)
    have "\<not> is_hex (CHR ''.'')" "\<not> is_hex (CHR ''%'')" by (simp_all add: is_hex_def hex_val_def)
    then show "\<forall>d\<in>set (show_ipv6 b). d \<noteq> CHR '':'' \<longrightarrow> d \<notin> {CHR ''.'', CHR '':'', CHR ''%''}"
      using show_ipv6_chars [of _ b] by blast
  qed simp
  then show ?thesis using parse_ipv6_show [OF assms] by (simp add: parse_addr_def)
qed

lemma parse_addr_show:
  assumes "length ip = 16"
  shows "parse_addr (show_ip ip) = Some (to4 ip \<noteq> None, ip)"
proof (cases "take 12 ip = v4_prefix")
  case True
  then have "ip = v4_prefix @ drop 12 ip" using append_take_drop_id [of 12 ip] by simp
  then show ?thesis
    using True assms parse_addr_show_ipv4 [of "drop 12 ip"] by (simp add: show_ip_def to4_16)
next
  case False
  then show ?thesis using assms parse_addr_show_ipv6 by (simp add: show_ip_def to4_16)
qed

theorem parse_show_ip: "length ip = 16 \<Longrightarrow> parse_ip (show_ip ip) = Some ip"
  by (simp add: parse_ip_def parse_addr_show)

lemma show_ip_no_slash:
  assumes "length ip = 16"
  shows "CHR ''/'' \<notin> set (show_ip ip)"
  using assms show_ipv4_chars [of "drop 12 ip" "CHR ''/''"] show_ipv6_chars [of "CHR ''/''" ip]
  by (auto simp: show_ip_def to4_16 is_digit_def is_hex_def hex_val_def)

end
