(* ===== verification/Trusted_Proxies.thy ===== *)
theory Trusted_Proxies
  imports Go_Net_Roundtrip Configuration
begin

text \<open>
  The trusted proxies: \<open>ParseTrustedProxies\<close> of \<open>internal/config/config.go\<close> and what
  \<open>requestRemoteIP\<close> of \<open>internal/api/audit.go\<close> does with the networks. The parser is compared with its
  meaning (\<open>entry_admits\<close>): an entry without a slash admits exactly the address it denotes, and an entry in
  CIDR notation the addresses that share its first bits. The address that the rate limiter and the audit
  trail use is then known for every request.
\<close>

subsection \<open>The parser\<close>

datatype proxy_error = InvalidProxyIp string | InvalidProxyCidr string

text \<open>One entry, trimmed and not empty. An address without a mask gets all of its bits.\<close>

definition parse_proxy :: "string \<Rightarrow> proxy_error + ip_net" where
  "parse_proxy cidr =
     (case (if CHR ''/'' \<in> set cidr then Inr cidr
            else (case parse_ip cidr of
                    None \<Rightarrow> Inl (InvalidProxyIp cidr)
                  | Some ip \<Rightarrow> Inr (show_ip ip @ ''/'' @ (if to4 ip = None then ''128'' else ''32'')))) of
        Inl err \<Rightarrow> Inl err
      | Inr cidr \<Rightarrow> (case parse_cidr cidr of None \<Rightarrow> Inl (InvalidProxyCidr cidr) | Some net \<Rightarrow> Inr net))"

fun parse_proxy_list :: "string list \<Rightarrow> proxy_error + ip_net list" where
  "parse_proxy_list [] = Inr []"
| "parse_proxy_list (p # ps) =
     (let cidr = trim_space p in
      if cidr = [] then parse_proxy_list ps
      else (case parse_proxy cidr of
              Inl err \<Rightarrow> Inl err
            | Inr net \<Rightarrow> (case parse_proxy_list ps of Inl err \<Rightarrow> Inl err | Inr nets \<Rightarrow> Inr (net # nets))))"

definition parse_trusted_proxies :: "config \<Rightarrow> proxy_error + ip_net list" where
  "parse_trusted_proxies c =
     (let raw = trim_space (cf_trusted_proxies c)
      in if raw = [] then Inr [] else parse_proxy_list (split_on (CHR '','') raw))"

text \<open>The test of \<open>requestRemoteIP\<close>, as the field \<open>ac_trusted\<close> of the server's configuration has it.\<close>

definition in_trusted :: "ip_net list \<Rightarrow> string \<Rightarrow> bool" where
  "in_trusted nets s = (case parse_ip s of None \<Rightarrow> False | Some ip \<Rightarrow> list_ex (\<lambda>n. net_contains n ip) nets)"

definition trusted_proxies :: "ip_net list \<Rightarrow> (string \<Rightarrow> bool) option" where
  "trusted_proxies nets = (if nets = [] then None else Some (in_trusted nets))"

subsection \<open>The meaning of an entry\<close>

definition entry_admits :: "string \<Rightarrow> ip \<Rightarrow> bool" where
  "entry_admits w ip \<longleftrightarrow>
     (if CHR ''/'' \<in> set w then (case cidr_prefix w of None \<Rightarrow> False | Some p \<Rightarrow> in_prefix p ip)
      else parse_ip w = Some ip)"

definition proxy_entries :: "config \<Rightarrow> string list" where
  "proxy_entries c =
     filter (\<lambda>w. w \<noteq> []) (map trim_space (split_on (CHR '','') (trim_space (cf_trusted_proxies c))))"

text \<open>A single address never fails, and its network is the address alone.\<close>

lemma single_address_prefix:
  assumes "length ip = 16"
  shows "cidr_prefix (show_ip ip @ ''/'' @ (if to4 ip = None then ''128'' else ''32'')) = Some (ip, 128)"
  using assms parse_addr_show show_ip_no_slash
  by (simp add: cidr_prefix_def int_of_digits_def digit_val_def is_digit_def)

lemma in_prefix_all_bits: "length ip = 16 \<Longrightarrow> length x = 16 \<Longrightarrow> in_prefix (ip, 128) x \<longleftrightarrow> ip = x"
  by (simp add: in_prefix_def same_bits_def ip_bits_inject)

lemma parse_proxy_admits:
  assumes "parse_proxy w = Inr net" "length x = 16"
  shows "net_contains net x \<longleftrightarrow> entry_admits w x"
proof (cases "CHR ''/'' \<in> set w")
  case True
  then show ?thesis
    using assms parse_cidr_contains [of w] by (auto simp: parse_proxy_def entry_admits_def split: option.splits)
next
  case False
  then obtain ip where ip: "parse_ip w = Some ip"
    using assms(1) by (auto simp: parse_proxy_def split: option.splits)
  note len = parse_ip_length [OF ip]
  show ?thesis
    using assms ip False parse_cidr_contains [of "show_ip ip @ ''/'' @ (if to4 ip = None then ''128'' else ''32'')"]
      in_prefix_all_bits [OF len assms(2)] single_address_prefix [OF len]
    by (auto simp: parse_proxy_def entry_admits_def split: option.splits)
qed

lemma parse_proxy_list_admits:
  assumes "parse_proxy_list ps = Inr nets" "length x = 16"
  shows "list_ex (\<lambda>n. net_contains n x) nets \<longleftrightarrow>
    list_ex (\<lambda>w. entry_admits w x) (filter (\<lambda>w. w \<noteq> []) (map trim_space ps))"
  using assms(1)
  by (induction ps arbitrary: nets) (auto simp: Let_def parse_proxy_admits [OF _ assms(2)] split: if_splits sum.splits)

lemma trusted_proxies_meaning:
  assumes "parse_trusted_proxies c = Inr nets" "parse_ip s = Some ip"
  shows "in_trusted nets s \<longleftrightarrow> list_ex (\<lambda>w. entry_admits w ip) (proxy_entries c)"
  using assms parse_proxy_list_admits [OF _ parse_ip_length [OF assms(2)]]
  by (auto simp: parse_trusted_proxies_def in_trusted_def proxy_entries_def Let_def split: if_splits)

subsection \<open>The address of the client\<close>

text \<open>
  C27: the address that the rate limit and the audit trail use. On a server with the networks of a
  configuration whose list of proxies is well formed, it is the first entry of the forwarding header when the
  header is set and the address of the peer is admitted by an entry of that list, and the address of the
  peer in every other case: without a trusted proxy in front no header changes it. An entry admits the one
  address it denotes, in whatever notation, or the addresses that share the first bits of its network.
\<close>

theorem trusted_client_address:
  assumes "parse_trusted_proxies c = Inr nets" "ac_trusted a = trusted_proxies nets"
  shows "request_remote_ip a r =
    (let peer = remote_addr_ip r; xff = trim_space (header_get r ''X-Forwarded-For'')
     in if xff \<noteq> [] \<and>
           (case parse_ip peer of None \<Rightarrow> False | Some ip \<Rightarrow> list_ex (\<lambda>w. entry_admits w ip) (proxy_entries c))
        then trim_space (hd (split_on (CHR '','') xff)) else peer)"
proof -
  let ?peer = "remote_addr_ip r"
  have "in_trusted nets ?peer \<longleftrightarrow>
      (case parse_ip ?peer of None \<Rightarrow> False | Some ip \<Rightarrow> list_ex (\<lambda>w. entry_admits w ip) (proxy_entries c))"
    using trusted_proxies_meaning [OF assms(1)] by (auto simp: in_trusted_def split: option.split)
  moreover have "nets = [] \<Longrightarrow> \<not> in_trusted nets ?peer" by (simp add: in_trusted_def split: option.split)
  ultimately show ?thesis
    by (auto simp: request_remote_ip_def assms(2) trusted_proxies_def Let_def)
qed

definition proxied_config :: config where
  "proxied_config = sample_config\<lparr>cf_trusted_proxies := ''10.0.0.0/8, 192.168.1.7''\<rparr>"

definition forwarded_request :: "string \<Rightarrow> request" where
  "forwarded_request peer =
     \<lparr>rq_method = ''GET'', rq_path = ''/v1/subjects'', rq_query = [],
      rq_headers = [(''X-Forwarded-For'', ''203.0.113.9, 10.1.2.3'')], rq_remote = peer, rq_body = []\<rparr>"

theorem trusted_client_address_witness:
  "\<exists>nets. parse_trusted_proxies proxied_config = Inr nets \<and>
     (\<lambda>a. request_remote_ip (a\<lparr>ac_trusted := trusted_proxies nets\<rparr>) (forwarded_request ''10.1.2.3:4711'')) =
       (\<lambda>a. ''203.0.113.9'') \<and>
     (\<lambda>a. request_remote_ip (a\<lparr>ac_trusted := trusted_proxies nets\<rparr>) (forwarded_request ''192.168.1.8:4711'')) =
       (\<lambda>a. ''192.168.1.8'')"
proof -
  let ?address = "\<lambda>r. let peer = remote_addr_ip r; xff = trim_space (header_get r ''X-Forwarded-For'')
     in if xff \<noteq> [] \<and> (case parse_ip peer of None \<Rightarrow> False
           | Some ip \<Rightarrow> list_ex (\<lambda>w. entry_admits w ip) (proxy_entries proxied_config))
        then trim_space (hd (split_on (CHR '','') xff)) else peer"
  have "\<not> isl (parse_trusted_proxies proxied_config)" by code_simp
  then obtain nets where nets: "parse_trusted_proxies proxied_config = Inr nets"
    by (cases "parse_trusted_proxies proxied_config") simp_all
  have "?address (forwarded_request ''10.1.2.3:4711'') = ''203.0.113.9''"
    "?address (forwarded_request ''192.168.1.8:4711'') = ''192.168.1.8''"
    by code_simp+
  then show ?thesis
    using nets trusted_client_address [OF nets, of "a\<lparr>ac_trusted := trusted_proxies nets\<rparr>" for a] by auto
qed

end
