(* ===== verification/Telemetry.thy ===== *)
theory Telemetry
  imports Configuration
begin

text \<open>
  Telemetry: \<open>internal/observability\<close>. What the program decides from its settings, which are the sampler, the
  trace exporter, the metrics exporter and the order in which they are set up and shut down; and the
  table of instruments. The OpenTelemetry SDK is the record \<open>otel_sdk\<close>, whose calls change the state of
  the process (\<open>'w\<close>: the global providers, the connections and what runs in the background).
\<close>

subsection \<open>The SDK\<close>

text \<open>A sampler as the SDK is asked for it.\<close>

datatype sampler = AlwaysSample | NeverSample | TraceIdRatio "int \<times> int" | ParentBased sampler

datatype otlp_option = WithEndpoint string | WithInsecureTransport | WithInsecure

datatype 'e span_export = Batcher 'e | Syncer 'e

record ('r, 'e, 'p, 't, 'm, 'w) otel_sdk =
  sdk_resource :: "string \<Rightarrow> string + 'r"
  sdk_otlp :: "otlp_option list \<Rightarrow> 'w \<Rightarrow> (string + 'e) \<times> 'w"
  sdk_stdout :: "'w \<Rightarrow> (string + 'e) \<times> 'w"
  sdk_tracer_provider :: "'r \<Rightarrow> 'e span_export \<Rightarrow> sampler \<Rightarrow> 'w \<Rightarrow> 't \<times> 'w"
  sdk_prometheus :: "'w \<Rightarrow> (string + 'p) \<times> 'w"
  sdk_meter_provider :: "'r \<Rightarrow> 'p \<Rightarrow> 'w \<Rightarrow> 'm \<times> 'w"
  sdk_set_tracer :: "'t \<Rightarrow> 'w \<Rightarrow> 'w"
  sdk_set_meter :: "'m \<Rightarrow> 'w \<Rightarrow> 'w"
  sdk_set_propagator :: "'w \<Rightarrow> 'w"
  sdk_stop_tracer :: "'t \<Rightarrow> 'w \<Rightarrow> string option \<times> 'w"
  sdk_stop_meter :: "'m \<Rightarrow> 'w \<Rightarrow> string option \<times> 'w"

text \<open>What \<open>InitTelemetry\<close> returns: the handler for metrics, if any, and what \<open>Shutdown\<close> stops.\<close>

record ('p, 't, 'm) telemetry =
  tl_metrics :: "'p option"
  tl_tracer :: "'t option"
  tl_meter :: "'m option"

subsection \<open>Set-up\<close>

definition build_sampler :: "otel_section \<Rightarrow> sampler" where
  "build_sampler c =
     (let ty = to_lower (trim_space (ot_sampler c));
          arg = (if fst (ot_sampler_arg c) \<le> 0 then (1, 0) else ot_sampler_arg c)
      in if ty = ''always_on'' then AlwaysSample
         else if ty = ''always_off'' then NeverSample
         else if ty = ''traceidratio'' then TraceIdRatio arg
         else ParentBased (TraceIdRatio arg))"

text \<open>The attributes with the version of the service are put together, and then not used.\<close>

definition build_resource ::
    "('r, 'e, 'p, 't, 'm, 'w) otel_sdk \<Rightarrow> otel_section \<Rightarrow> string + 'r" where
  "build_resource K c = sdk_resource K (if ot_service_name c = [] then ''evidra'' else ot_service_name c)"

definition build_tracer_provider ::
    "('r, 'e, 'p, 't, 'm, 'w) otel_sdk \<Rightarrow> otel_section \<Rightarrow> 'r \<Rightarrow> 'w \<Rightarrow> (string + 't option) \<times> 'w" where
  "build_tracer_provider K c res w =
     (let exporter = to_lower (trim_space (ot_traces_exporter c)) in
      if exporter = [] \<or> exporter = ''none'' then (Inr None, w)
      else if exporter = ''otlp'' then
        (case sdk_otlp K (WithEndpoint (ot_endpoint c) #
             (if ot_insecure c then [WithInsecureTransport, WithInsecure] else [])) w of
           (Inl err, w) \<Rightarrow> (Inl err, w)
         | (Inr e, w) \<Rightarrow> 
             (case sdk_tracer_provider K res (Batcher e) (build_sampler c) w of (t, w) \<Rightarrow> (Inr (Some t), w)))
      else if exporter = ''stdout'' then
        (case sdk_stdout K w of
           (Inl err, w) \<Rightarrow> (Inl err, w)
         | (Inr e, w) \<Rightarrow> 
             (case sdk_tracer_provider K res (Syncer e) (build_sampler c) w of (t, w) \<Rightarrow> (Inr (Some t), w)))
      else (Inr None, w))"

definition build_meter_provider ::
    "('r, 'e, 'p, 't, 'm, 'w) otel_sdk \<Rightarrow> otel_section \<Rightarrow> 'r \<Rightarrow> 'w \<Rightarrow> (string + ('m \<times> 'p) option) \<times> 'w" where
  "build_meter_provider K c res w =
     (let exporter = to_lower (trim_space (ot_metrics_exporter c)) in
      if exporter = ''prometheus'' then
        (case sdk_prometheus K w of
           (Inl err, w) \<Rightarrow> (Inl err, w)
         | (Inr p, w) \<Rightarrow> 
             (case sdk_meter_provider K res p w of (m, w) \<Rightarrow> (Inr (Some (m, p)), w)))
      else (Inr None, w))"

definition init_telemetry ::
    "('r, 'e, 'p, 't, 'm, 'w) otel_sdk \<Rightarrow> otel_section \<Rightarrow> 'w \<Rightarrow> (string + ('p, 't, 'm) telemetry) \<times> 'w" where
  "init_telemetry K c w =
     (case build_resource K c of
        Inl err \<Rightarrow> (Inl err, w)
      | Inr res \<Rightarrow>
          (case build_tracer_provider K c res w of
             (Inl err, w) \<Rightarrow> (Inl err, w)
           | (Inr tp, w) \<Rightarrow>
               (let w = (case tp of None \<Rightarrow> w | Some t \<Rightarrow> sdk_set_tracer K t w) in
                case build_meter_provider K c res w of
                  (Inl err, w) \<Rightarrow> (Inl err, case tp of None \<Rightarrow> w | Some t \<Rightarrow> snd (sdk_stop_tracer K t w))
                | (Inr mp, w) \<Rightarrow>
                    (let w = (case mp of None \<Rightarrow> w | Some (m, p) \<Rightarrow> sdk_set_meter K m w) in
                     (Inr \<lparr>tl_metrics = map_option snd mp, tl_tracer = tp, tl_meter = map_option fst mp\<rparr>,
                      sdk_set_propagator K w)))))"

text \<open>\<open>Shutdown\<close>: both providers are stopped, also when the first fails; the errors are joined.\<close>

definition stop_provider :: "('t \<Rightarrow> 'w \<Rightarrow> string option \<times> 'w) \<Rightarrow> 't option \<Rightarrow> 'w \<Rightarrow> string list \<times> 'w" where
  "stop_provider stop p w =
     (case p of
        None \<Rightarrow> ([], w)
      | Some t \<Rightarrow> (case stop t w of (None, w) \<Rightarrow> ([], w) | (Some err, w) \<Rightarrow> ([err], w)))"

definition shutdown_telemetry ::
    "('r, 'e, 'p, 't, 'm, 'w) otel_sdk \<Rightarrow> ('p, 't, 'm) telemetry \<Rightarrow> 'w \<Rightarrow> string list \<times> 'w" where
  "shutdown_telemetry K T w =
     (case stop_provider (sdk_stop_tracer K) (tl_tracer T) w of
        (errs, w) \<Rightarrow> apfst ((@) errs) (stop_provider (sdk_stop_meter K) (tl_meter T) w))"

subsection \<open>Facts\<close>

text \<open>Metrics are served exactly when the exporter is the one of Prometheus and it could be made.\<close>

lemma init_metrics:
  assumes "init_telemetry K c w = (Inr T, w')"
  shows "tl_metrics T \<noteq> None \<longleftrightarrow> to_lower (trim_space (ot_metrics_exporter c)) = ''prometheus''"
    and "tl_meter T \<noteq> None \<longleftrightarrow> tl_metrics T \<noteq> None"
  using assms
  by (auto simp: init_telemetry_def build_meter_provider_def Let_def split: sum.splits option.splits prod.splits if_splits)

text \<open>The version of the service reaches nothing, nor do five other settings.\<close>

lemma init_ignores:
  "init_telemetry K (c\<lparr>ot_service_version := v, ot_environment := x, ot_logs_exporter := l, ot_protocol := p,
     ot_log_level := g\<rparr>) w = init_telemetry K c w" (is "init_telemetry K ?d w = _")
proof -
  have same: "ot_service_name ?d = ot_service_name c" "ot_traces_exporter ?d = ot_traces_exporter c"
    "ot_metrics_exporter ?d = ot_metrics_exporter c" "ot_endpoint ?d = ot_endpoint c"
    "ot_insecure ?d = ot_insecure c" "ot_sampler ?d = ot_sampler c" "ot_sampler_arg ?d = ot_sampler_arg c"
    by simp_all
  show ?thesis
    unfolding init_telemetry_def build_resource_def build_tracer_provider_def build_sampler_def
      build_meter_provider_def same by (rule refl)
qed

subsection \<open>Stopping what was started\<close>

text \<open>
  \<open>balanced K running\<close>: \<open>running\<close> gives the providers of a process that run; making a provider starts it,
  stopping it removes it, and no other call of the SDK changes the set.
\<close>

definition balanced ::
    "('r, 'e, 'p, 't, 'm, 'w) otel_sdk \<Rightarrow> ('w \<Rightarrow> ('t + 'm) set) \<Rightarrow> bool" where
  "balanced K running \<longleftrightarrow>
     (\<forall>r e s w. running (snd (sdk_tracer_provider K r e s w)) =
        insert (Inl (fst (sdk_tracer_provider K r e s w))) (running w)) \<and>
     (\<forall>r p w. running (snd (sdk_meter_provider K r p w)) =
        insert (Inr (fst (sdk_meter_provider K r p w))) (running w)) \<and>
     (\<forall>t w. running (sdk_set_tracer K t w) = running w) \<and> (\<forall>m w. running (sdk_set_meter K m w) = running w) \<and>
     (\<forall>w. running (sdk_set_propagator K w) = running w) \<and>
     (\<forall>opts w. running (snd (sdk_otlp K opts w)) = running w) \<and>
     (\<forall>w. running (snd (sdk_stdout K w)) = running w) \<and> (\<forall>w. running (snd (sdk_prometheus K w)) = running w) \<and>
     (\<forall>t w. running (snd (sdk_stop_tracer K t w)) = running w - {Inl t}) \<and>
     (\<forall>m w. running (snd (sdk_stop_meter K m w)) = running w - {Inr m})"

lemma balanced_makes:
  assumes "balanced K running"
  shows "sdk_otlp K opts w = (x, v) \<Longrightarrow> running v = running w"
    and "sdk_stdout K w = (x, v) \<Longrightarrow> running v = running w"
    and "sdk_prometheus K w = (y, v) \<Longrightarrow> running v = running w"
    and "sdk_tracer_provider K r e s w = (t, v) \<Longrightarrow> running v = insert (Inl t) (running w)"
    and "sdk_meter_provider K r p w = (m, v) \<Longrightarrow> running v = insert (Inr m) (running w)"
  using assms unfolding balanced_def by (metis fst_conv snd_conv)+

lemma tracer_running:
  assumes "balanced K running" "build_tracer_provider K c r w = (res, w')"
  shows "running w' = running w \<union> (case res of Inr (Some t) \<Rightarrow> {Inl t} | _ \<Rightarrow> {})"
  using assms(2) unfolding build_tracer_provider_def Let_def
  by (auto dest!: balanced_makes[OF assms(1)] split: if_splits prod.splits sum.splits)

lemma meter_running:
  assumes "balanced K running" "build_meter_provider K c r w = (res, w')"
  shows "running w' = running w \<union> (case res of Inr (Some (m, p)) \<Rightarrow> {Inr m} | _ \<Rightarrow> {})"
  using assms(2) unfolding build_meter_provider_def Let_def
  by (auto dest!: balanced_makes[OF assms(1)] split: if_splits prod.splits sum.splits)

lemma balanced_calls:
  assumes "balanced K running"
  shows "running (sdk_set_tracer K t w) = running w" "running (sdk_set_meter K m w) = running w"
    "running (sdk_set_propagator K w) = running w"
    "running (snd (sdk_stop_tracer K t w)) = running w - {Inl t}"
    "running (snd (sdk_stop_meter K m w)) = running w - {Inr m}"
  using assms by (simp_all add: balanced_def)

text \<open>A set-up that fails stops what it had started.\<close>

lemma failed_init_leaves_nothing:
  assumes "balanced K running" "init_telemetry K c w = (Inl err, w')" "running w = {}"
  shows "running w' = {}"
  using assms(2,3) unfolding init_telemetry_def
  by (auto simp: balanced_calls[OF assms(1)] Let_def dest!: tracer_running[OF assms(1)] meter_running[OF assms(1)]
      split: sum.splits prod.splits option.splits)

text \<open>What a successful set-up runs is what it returns, and a shutdown stops all of it.\<close>

lemma init_running:
  assumes "balanced K running" "init_telemetry K c w = (Inr T, w')" "running w = {}"
  shows "running w' = Inl ` set_option (tl_tracer T) \<union> Inr ` set_option (tl_meter T)"
  using assms(2,3) unfolding init_telemetry_def
  by (auto simp: balanced_calls[OF assms(1)] Let_def dest!: tracer_running[OF assms(1)] meter_running[OF assms(1)]
      split: sum.splits prod.splits option.splits)

lemma stop_running:
  assumes "balanced K running"
  shows "running (snd (stop_provider (sdk_stop_tracer K) p w)) = running w - Inl ` set_option p"
    and "running (snd (stop_provider (sdk_stop_meter K) q w)) = running w - Inr ` set_option q"
  using balanced_calls(4,5)[OF assms]
  by (auto simp: stop_provider_def prod_eq_iff split: option.splits prod.splits; metis DiffE DiffI empty_iff insert_iff snd_conv)+

lemma shutdown_stops_all:
  assumes "balanced K running" "init_telemetry K c w = (Inr T, w')" "running w = {}"
  shows "running (snd (shutdown_telemetry K T w')) = {}"
proof -
  have "snd (shutdown_telemetry K T w') =
      snd (stop_provider (sdk_stop_meter K) (tl_meter T) (snd (stop_provider (sdk_stop_tracer K) (tl_tracer T) w')))"
    by (simp add: shutdown_telemetry_def split: prod.split)
  thus ?thesis
    using init_running[OF assms] by (auto simp: stop_running[OF assms(1)])
qed

subsection \<open>The instruments\<close>

text \<open>Each with its variable, kind, name, description and unit.\<close>

datatype instrument_kind = Int64Counter | Int64Histogram | Float64Histogram | Int64Gauge | Float64Gauge

definition instruments :: "(string \<times> instrument_kind \<times> string \<times> string \<times> string) list" where
  "instruments =
  [(''IngestEventsTotal'', Int64Counter, ''evidra.ingest.events_total'', ''Total ingested events by status'', []),
   (''IngestDuration'', Float64Histogram, ''evidra.ingest.duration_seconds'', ''End-to-end ingest latency'', ''s''),
   (''IngestBatchSize'', Int64Histogram, ''evidra.ingest.batch_size'', ''Batch size distribution'', []),
   (''IngestPayloadBytes'', Int64Histogram, ''evidra.ingest.payload_bytes'', ''Request payload size'', ''By''),
   (''IngestIntegrityConflicts'', Int64Counter, ''evidra.ingest.integrity_conflicts_total'', ''Same ID, different content'', []),
   (''ArgoPollsTotal'', Int64Counter, ''evidra.argo.polls_total'', ''Collector poll cycles'', []),
   (''ArgoPollDuration'', Float64Histogram, ''evidra.argo.poll_duration_seconds'', ''Time per collection cycle'', ''s''),
   (''ArgoEventsCollected'', Int64Counter, ''evidra.argo.events_collected_total'', ''Events collected from Argo CD'', []),
   (''ArgoNormalizeErrors'', Int64Counter, ''evidra.argo.normalize_errors_total'', ''Normalization failures'', []),
   (''ArgoDuplicatesSkipped'', Int64Counter, ''evidra.argo.duplicates_skipped_total'', ''Checkpoint-based skips'', []),
   (''ArgoCheckpointSaves'', Int64Counter, ''evidra.argo.checkpoint_saves_total'', ''Checkpoint save operations'', []),
   (''ArgoLagSeconds'', Float64Gauge, ''evidra.argo.lag_seconds'', ''Time since last successful ingest per app'', ''s''),
   (''StoreOperationDuration'', Float64Histogram, ''evidra.store.operation.duration'', ''Duration of store operations'', ''s''),
   (''StoreOperationErrors'', Int64Counter, ''evidra.store.operation.errors_total'', ''Total store operation errors'', []),
   (''WebhookReceivedTotal'', Int64Counter, ''evidra.webhook.received_total'', ''Webhook traffic by provider'', []),
   (''WebhookAuthFailures'', Int64Counter, ''evidra.webhook.auth_failures_total'', ''Webhook auth failures'', []),
   (''WebhookParseErrors'', Int64Counter, ''evidra.webhook.parse_errors_total'', ''Webhook parse failures'', []),
   (''WebhookEventsProduced'', Int64Counter, ''evidra.webhook.events_produced_total'', ''Events generated per webhook'', []),
   (''ChangesQueryDuration'', Float64Histogram, ''evidra.changes.query_duration_seconds'', [], ''s''),
   (''ChangesProjectionDuration'', Float64Histogram, ''evidra.changes.projection_duration_seconds'', [], ''s''),
   (''ChangesEventCount'', Int64Histogram, ''evidra.changes.event_count'', [], []),
   (''ChangesCount'', Int64Histogram, ''evidra.changes.count'', [], []),
   (''ChangeCacheHits'', Int64Counter, ''evidra.changes.cache_hits_total'', ''Change query cache hits'', []),
   (''ChangeCacheMisses'', Int64Counter, ''evidra.changes.cache_misses_total'', ''Change query cache misses'', []),
   (''ExportJobsTotal'', Int64Counter, ''evidra.export.jobs_total'', [], []),
   (''ExportDuration'', Float64Histogram, ''evidra.export.duration_seconds'', [], ''s''),
   (''ExportArtifactBytes'', Int64Histogram, ''evidra.export.artifact_bytes'', [], ''By''),
   (''ExportEventsPerPack'', Int64Histogram, ''evidra.export.events_per_pack'', [], []),
   (''AuthDecisionsTotal'', Int64Counter, ''evidra.auth.decisions_total'', ''Auth decision rates'', []),
   (''AuthRateLimitHits'', Int64Counter, ''evidra.auth.rate_limit_hits_total'', ''Rate limiter activations'', []),
   (''EvidraInfo'', Int64Gauge, ''evidra.info'', ''Build info, always 1'', [])]"

text \<open>
  Prometheus writes a name with underscores. The names stay distinct then, and those that end in
  \<open>_total\<close>, as its convention asks of counters, are those of the counters.
\<close>

lemma instruments_distinct:
  "distinct (map (\<lambda>(_, _, name, _). map (\<lambda>c. if c = CHR ''.'' then CHR ''_'' else c) name) instruments)"
  by code_simp

lemma counters_end_in_total:
  "list_all (\<lambda>(_, kind, name, _). (kind = Int64Counter) = (drop (length name - 6) name = ''_total'')) instruments"
  by code_simp

end
