(* ===== verification/Ui_Static.thy ===== *)
theory Ui_Static
  imports Export
begin

text \<open>
  The static user interface: \<open>serveUI\<close> of \<open>internal/api/ui_static.go\<close>, over the part of
  \<open>http.FileServer\<close> it uses. The embedded files are an association list from slash separated names to
  contents; a directory is what has a file under it. A redirect is shown without the query, and
  conditional and range requests are left out.

  The facts: whatever the path, the file server is asked for a rooted path without \<open>..\<close>; every path of
  the single-page application gets its start page and is not stored by caches; an asset is served as it
  is embedded.
\<close>

type_synonym site = "(string \<times> string) list"

datatype page = Redirect int string | NotFound | ServerError | Content string | Listing string

subsection \<open>The file server\<close>

datatype site_entry = File string | Directory

definition site_open :: "site \<Rightarrow> string \<Rightarrow> site_entry option" where
  "site_open site name =
     (if name = ''.'' \<or> list_ex (\<lambda>(f, _). prefix (name @ ''/'') f) site then Some Directory
      else map_option File (map_of site name))"

definition base_name :: "string \<Rightarrow> string" where
  "base_name p =
     (if p = [] then ''.''
      else (let q = rev (dropWhile (\<lambda>c. c = CHR ''/'') (rev p)) in
            if q = [] then ''/'' else rev (takeWhile (\<lambda>c. c \<noteq> CHR ''/'') (rev q))))"

text \<open>\<open>http.FS\<close> opens a rooted path without its slash; the root is the name \<open>.\<close>.\<close>

definition fs_name :: "string \<Rightarrow> string" where
  "fs_name p = (if p = ''/'' then ''.'' else trim_prefix p ''/'')"

text \<open>\<open>serveFile\<close> on the path of a URL, which starts with a slash.\<close>

definition file_server :: "site \<Rightarrow> string \<Rightarrow> page" where
  "file_server site url =
     (let name = clean_path url; slash = (last url = CHR ''/'') in
      if suffix ''/index.html'' url then Redirect 301 ''./''
      else (case site_open site (fs_name name) of
        None \<Rightarrow> NotFound
      | Some Directory \<Rightarrow>
          if \<not> slash then Redirect 301 (base_name url @ ''/'')
          else (case site_open site (fs_name (trim_suffix name ''/'' @ ''/index.html'')) of
                  Some (File content) \<Rightarrow> Content content
                | _ \<Rightarrow> Listing name)
      | Some (File content) \<Rightarrow>
          if slash then
            (if base_name url = ''/'' \<or> base_name url = ''.'' then ServerError
             else Redirect 301 (''../'' @ base_name url))
          else Content content))"

subsection \<open>The handler\<close>

text \<open>The path handed to the file server, with the flag for the header \<open>Cache-Control: no-store\<close>.\<close>

datatype ui_route = UiSlash | UiUnknown | UiServe bool string

definition ui_route :: "string \<Rightarrow> ui_route" where
  "ui_route path =
     (if path = ''/ui'' then UiSlash
      else if path = ''/ui/'' then UiServe True ''/''
      else
        (let p = trim_prefix path ''/ui/'' in
         if p = [] \<or> contains p ''..'' then UiUnknown
         else if contains p ''.'' then UiServe False (''/'' @ p)
         else UiServe True ''/''))"

definition serve_ui :: "site \<Rightarrow> string \<Rightarrow> bool \<times> page" where
  "serve_ui site path =
     (case ui_route path of
        UiSlash \<Rightarrow> (False, Redirect 307 ''/ui/'')
      | UiUnknown \<Rightarrow> (False, NotFound)
      | UiServe no_store p \<Rightarrow> (no_store, file_server site p))"

subsection \<open>Facts\<close>

lemma contains_char: "contains s [c] \<longleftrightarrow> c \<in> set s"
  by (induction s) auto

lemma ui_route_rooted:
  "ui_route path = UiServe b p \<Longrightarrow> take 1 p = ''/'' \<and> \<not> contains (tl p) ''..''"
  by (auto simp: ui_route_def Let_def split: if_splits)

text \<open>A route of the application gets the start page, whatever it is.\<close>

lemma ui_application_route:
  assumes "p \<noteq> []" "CHR ''.'' \<notin> set p"
  shows "serve_ui site (''/ui/'' @ p) = serve_ui site ''/ui/''"
proof -
  have "contains p ''..'' \<Longrightarrow> CHR ''.'' \<in> set p"
    by (induction p) (auto simp: prefix_def)
  with assms show ?thesis
    by (auto simp: serve_ui_def ui_route_def contains_char trim_prefix_def Let_def)
qed

lemma clean_root: "clean_path ''/'' = ''/''"
  by code_simp

lemma ui_start_page:
  assumes "map_of site ''index.html'' = Some content" "\<And>f c. (f, c) \<in> set site \<Longrightarrow> \<not> prefix ''index.html/'' f"
  shows "serve_ui site ''/ui/'' = (True, Content content)"
proof -
  have "site_open site ''.'' = Some Directory" "site_open site ''index.html'' = Some (File content)"
    using assms by (auto simp: site_open_def list_ex_iff)
  thus ?thesis
    by (simp add: serve_ui_def ui_route_def file_server_def clean_root fs_name_def trim_suffix_def trim_prefix_def
        suffix_def)
qed

text \<open>A path with \<open>..\<close> below \<open>/ui/\<close> is not found.\<close>

lemma ui_parent_refused: "contains p ''..'' \<Longrightarrow> serve_ui site (''/ui/'' @ p) = (False, NotFound)"
  by (cases p) (auto simp: serve_ui_def ui_route_def trim_prefix_def Let_def)

text \<open>What is served is embedded.\<close>

lemma served_is_embedded: "serve_ui site path = (b, Content c) \<Longrightarrow> c \<in> snd ` set site"
  by (auto simp: serve_ui_def file_server_def site_open_def Let_def split: ui_route.splits if_splits option.splits
      site_entry.splits dest!: map_of_SomeD intro!: image_eqI)

lemma ui_asset:
  assumes "map_of site p = Some c" "CHR ''.'' \<in> set p" "\<not> contains p ''..''" "clean_path (''/'' @ p) = ''/'' @ p"
    and "last p \<noteq> CHR ''/''" "\<not> suffix ''/index.html'' (''/'' @ p)" "p \<noteq> ''.''"
    and "\<And>f c. (f, c) \<in> set site \<Longrightarrow> \<not> prefix (p @ ''/'') f"
  shows "serve_ui site (''/ui/'' @ p) = (False, Content c)"
proof -
  have "p \<noteq> []" using assms(2) by auto
  moreover have "site_open site p = Some (File c)"
    using assms by (auto simp: site_open_def list_ex_iff)
  ultimately show ?thesis
    using assms by (simp add: serve_ui_def ui_route_def contains_char trim_prefix_def file_server_def fs_name_def Let_def)
qed

text \<open>The site of the repository, with its two assets.\<close>

lemma repository_assets:
  assumes "site = [(''assets/index-B2iHH6PH.css'', css), (''assets/index-InipMDVZ.js'', js), (''index.html'', html)]"
  shows "serve_ui site ''/ui/'' = (True, Content html)"
    and "serve_ui site ''/ui/explorer/change/1'' = (True, Content html)"
    and "serve_ui site ''/ui/assets/index-InipMDVZ.js'' = (False, Content js)"
    and "serve_ui site ''/ui/assets.x'' = (False, NotFound)"
    and "serve_ui site ''/ui/index.html'' = (False, Redirect 301 ''./'')"
  unfolding assms by code_simp+

end
