(* ===== verification/Argo_Client.thy ===== *)
theory Argo_Client
  imports Argo_Collector
begin

text \<open>
  The client of Argo CD: the first part of \<open>internal/ingest/argo/client_fetch_argocd.go\<close>. The address of the
  server is taken from the configured URL, and one fetch opens a connection, lists the applications, turns
  them into source events and closes the connection. The client library of Argo CD and \<open>url.Parse\<close> are the
  record \<open>argocd_library\<close>, over a state \<open>'w\<close> of the network.
\<close>

record client_options =
  cl_server :: string
  cl_token :: string
  cl_insecure :: bool
  cl_grpc_web :: bool

record ('c, 'n, 'w) argocd_library =
  al_url_host :: "string \<Rightarrow> string + string"
  al_new_client :: "client_options \<Rightarrow> string + 'c"
  al_connect :: "'c \<Rightarrow> 'w \<Rightarrow> (string + 'n) \<times> 'w"
  al_list :: "'n \<Rightarrow> 'w \<Rightarrow> (string + application list) \<times> 'w"
  al_close :: "'n \<Rightarrow> 'w \<Rightarrow> 'w"

definition normalize_argo_server_addr :: "('c, 'n, 'w) argocd_library \<Rightarrow> string \<Rightarrow> string + string" where
  "normalize_argo_server_addr L raw =
     (let raw = trim_space raw in
      if raw = [] then Inl ''argo api url is empty''
      else if prefix ''http://'' raw \<or> prefix ''https://'' raw then
        (case al_url_host L raw of
           Inl err \<Rightarrow> Inl err
         | Inr h \<Rightarrow> (let host = trim_space h in if host = [] then Inl ''invalid argo api url'' else Inr host))
      else Inr raw)"

text \<open>The function that is returned; \<open>now\<close> is the clock during the call. The connection is closed on return.\<close>

definition argocd_fetch ::
    "('c, 'n, 'w) argocd_library \<Rightarrow> 'c \<Rightarrow> time \<Rightarrow> 'w \<Rightarrow> (string + source_event list) \<times> 'w" where
  "argocd_fetch L client now w =
     (case al_connect L client w of
        (Inl err, w) \<Rightarrow> (Inl err, w)
      | (Inr conn, w) \<Rightarrow>
          (case al_list L conn w of
             (Inl err, w) \<Rightarrow> (Inl err, al_close L conn w)
           | (Inr apps, w) \<Rightarrow> (Inr (fetch_applications now apps), al_close L conn w)))"

definition new_argocd_client_fetcher ::
    "('c, 'n, 'w) argocd_library \<Rightarrow> string \<Rightarrow> string \<Rightarrow>
     string + (time \<Rightarrow> 'w \<Rightarrow> (string + source_event list) \<times> 'w)" where
  "new_argocd_client_fetcher L url token =
     (case normalize_argo_server_addr L url of
        Inl err \<Rightarrow> Inl err
      | Inr addr \<Rightarrow>
          (case al_new_client L
                  \<lparr>cl_server = addr, cl_token = trim_space token, cl_insecure = True, cl_grpc_web = True\<rparr> of
             Inl err \<Rightarrow> Inl err
           | Inr c \<Rightarrow> Inr (argocd_fetch L c)))"

subsection \<open>Facts\<close>

text \<open>An address that is accepted is neither blank nor padded.\<close>

lemma server_addr_trimmed:
  "normalize_argo_server_addr L raw = Inr a \<Longrightarrow> a \<noteq> [] \<and> trim_space a = a"
  by (auto simp: normalize_argo_server_addr_def Let_def split: if_splits sum.splits)

lemma fetcher_address:
  assumes "new_argocd_client_fetcher L url token = Inr f"
  obtains a c where "normalize_argo_server_addr L url = Inr a" "f = argocd_fetch L c"
    "al_new_client L \<lparr>cl_server = a, cl_token = trim_space token, cl_insecure = True, cl_grpc_web = True\<rparr> = Inr c"
  using assms by (auto simp: new_argocd_client_fetcher_def split: sum.splits)

text \<open>A blank address has no fetch function, whatever the library does.\<close>

lemma blank_address_rejected:
  "trim_space url = [] \<Longrightarrow> new_argocd_client_fetcher L url token = Inl ''argo api url is empty''"
  by (simp add: new_argocd_client_fetcher_def normalize_argo_server_addr_def)

text \<open>
  A fetch leaves no connection open: where connecting adds the connection to those that are open, closing
  removes it and listing changes nothing of them.
\<close>

lemma fetch_closes_connection:
  assumes "\<And>c w x w'. al_connect L c w = (x, w') \<Longrightarrow>
      open w' = open w \<union> (case x of Inr n \<Rightarrow> {n} | Inl _ \<Rightarrow> {}) \<and> (case x of Inr n \<Rightarrow> n \<notin> open w | Inl _ \<Rightarrow> True)"
    and "\<And>n w x w'. al_list L n w = (x, w') \<Longrightarrow> open w' = open w"
    and "\<And>n w. open (al_close L n w) = open w - {n}"
  shows "open (snd (argocd_fetch L client now w)) = open w"
  by (auto simp: argocd_fetch_def assms(3) split: prod.split sum.split dest!: assms(1,2))

end
