(* ===== verification/Program.thy ===== *)
theory Program
  imports Bootstrap Trusted_Proxies Telemetry Ui_Static Argo_Checkpoint Argo_Client
begin

text \<open>
  The whole program: \<open>NewServerWithOptions\<close> of \<open>internal/api/server.go\<close>, the routes, and \<open>NewRuntime\<close> of
  \<open>internal/bootstrap/runtime.go\<close>, which builds the repository, starts the collector, parses the trusted
  proxies and puts metrics and API behind one multiplexer. The record \<open>platform\<close> holds what the program is
  built on: the file systems, the libraries for tokens, durations, caches and Argo CD, and the embedded site.
  The registry of webhooks is built and never read, so it is no part of the server.
\<close>

subsection \<open>The Kubernetes client\<close>

text \<open>
  The library \<open>client-go\<close>: the configuration inside a cluster, one from a file, and what the variable of the
  client holds after a client was asked for. \<open>kl_env\<close> and \<open>kl_expand\<close> are the environment. Errors are only
  logged.
\<close>

record ('q, 'y) kube_library =
  kl_in_cluster :: "'q option"
  kl_env :: "string \<Rightarrow> string"
  kl_expand :: "string \<Rightarrow> string"
  kl_build :: "string \<Rightarrow> 'q option"
  kl_dynamic :: "'q \<Rightarrow> 'y option"

definition dynamic_client :: "('q, 'y) kube_library \<Rightarrow> 'y option" where
  "dynamic_client K =
     (let path = (if kl_env K ''KUBECONFIG'' = [] then kl_expand K ''$HOME/.kube/config'' else kl_env K ''KUBECONFIG'');
          config = (case kl_in_cluster K of Some q \<Rightarrow> Some q | None \<Rightarrow> kl_build K path)
      in Option.bind config (kl_dynamic K))"

subsection \<open>The server\<close>

record ('k, 'c, 'a, 'n, 'w, 'q, 'y) platform =
  pf_duration_text :: "int \<Rightarrow> string"
  pf_parse_duration :: "string \<Rightarrow> int option"
  pf_jwt :: "'k jwt_library"
  pf_cache :: "'c event_cache"
  pf_new_cache :: 'c
  pf_error_text :: "app_error \<Rightarrow> string"
  pf_parse_text :: "ce_error \<Rightarrow> string"
  pf_decode_text :: "string \<Rightarrow> string"
  pf_disk :: disk
  pf_checkpoints :: checkpoint_disk
  pf_argocd :: "('a, 'n, 'w) argocd_library"
  pf_kube :: "('q, 'y) kube_library"
  pf_site :: site

definition new_service :: "('k, 'c, 'a, 'n, 'w, 'q, 'y) platform \<Rightarrow> 's repository \<Rightarrow> 'x exporter \<Rightarrow> ('s, 'c, 'x) service" where
  "new_service P R X = \<lparr>svc_repo = R, svc_exporter = X, svc_cache = pf_cache P\<rparr>"

definition new_server_with_options ::
    "('k, 'c, 'a, 'n, 'w, 'q, 'y) platform \<Rightarrow> 's repository \<Rightarrow> 'x exporter \<Rightarrow> auth_config \<Rightarrow>
     ('s, 'c, 'x, 'k) server \<times> jwks_cache option" where
  "new_server_with_options P R X opts =
     (let auth = with_auth_defaults opts in
      (\<lparr>se_auth = auth, se_jwt = pf_jwt P, se_service = new_service P R X, se_text = pf_error_text P,
        se_parse_text = pf_parse_text P, se_decode_text = pf_decode_text P\<rparr>,
       new_jwks_cache (pf_parse_duration P) (ac_jwt auth)))"

text \<open>The state of a new server, on a repository and files that may hold something already.\<close>

definition new_server_state ::
    "('k, 'c, 'a, 'n, 'w, 'q, 'y) platform \<Rightarrow> time \<Rightarrow> auth_config \<Rightarrow> 's \<Rightarrow> 'x \<Rightarrow> ('s, 'c, 'x) server_state" where
  "new_server_state P now auth m x =
     \<lparr>ss_auth = new_auth_state now auth, ss_service = \<lparr>st_repo = m, st_files = x, st_cache = pf_new_cache P\<rparr>\<rparr>"

subsection \<open>Routes\<close>

text \<open>
  \<open>MuxAnswer\<close> is what a multiplexer answers itself: not found, or the redirect of a path that is not clean
  or lacks the final slash of a pattern.
\<close>

datatype 'p answer = ApiAnswer response | UiAnswer bool page | MetricsAnswer 'p | MuxAnswer

definition routes ::
    "('s, 'c, 'x, 'k) server \<Rightarrow> site \<Rightarrow> time \<Rightarrow> time \<Rightarrow> request \<Rightarrow> ('s, 'c, 'x) server_state \<Rightarrow>
     'p answer \<times> ('s, 'c, 'x) server_state" where
  "routes S site now later r st =
     (if rq_path r = ''/ui'' \<or> prefix ''/ui/'' (rq_path r)
      then (case serve_ui site (rq_path r) of (no_store, page) \<Rightarrow> (UiAnswer no_store page, st))
      else (case serve S now later r st of
              Some (resp, st') \<Rightarrow> (ApiAnswer resp, st')
            | None \<Rightarrow> (MuxAnswer, st)))"

subsection \<open>The runtime\<close>

record ('s, 'c, 'x, 'k, 'w, 'p, 'b) runtime =
  rt_server :: "('s, 'c, 'x, 'k) server"
  rt_keys :: "jwks_cache option"
  rt_site :: site
  rt_metrics :: "'p option"
  rt_collector :: "(('s, files) collector \<times> (time \<Rightarrow> 'w \<Rightarrow> (string + source_event list) \<times> 'w) collector_mode) option"
  rt_cleanup :: "'b option"

definition root_handler ::
    "('s, 'c, 'x, 'k, 'w, 'p, 'b) runtime \<Rightarrow> time \<Rightarrow> time \<Rightarrow> request \<Rightarrow> ('s, 'c, 'x) server_state \<Rightarrow>
     'p answer \<times> ('s, 'c, 'x) server_state" where
  "root_handler RT now later r st =
     (case (rt_metrics RT, rq_path r = ''/metrics'') of
        (Some h, True) \<Rightarrow> (MetricsAnswer h, st)
      | _ \<Rightarrow> routes (rt_server RT) (rt_site RT) now later r st)"

datatype startup_failure = RepositoryFailed string string | ProxiesInvalid proxy_error

text \<open>From the repository on. \<open>cleanup\<close> is the database that the clean-up closes, if any.\<close>

definition runtime_on ::
    "('k, 'c, 'a, 'n, 'w, 'q, 'y) platform \<Rightarrow> config \<Rightarrow> ('p, 't, 'm) telemetry option \<Rightarrow> 's repository \<Rightarrow> 'b option \<Rightarrow>
     startup_failure + ('s, 'c, files, 'k, 'w, 'p, 'b) runtime" where
  "runtime_on P c tel R cleanup =
     (let coll = start_argo_collector (dynamic_client (pf_kube P) \<noteq> None) (new_argocd_client_fetcher (pf_argocd P))
            (file_checkpoint_store (pf_checkpoints P)) c R
      in case parse_trusted_proxies c of
           Inl err \<Rightarrow> Inl (ProxiesInvalid err)
         | Inr nets \<Rightarrow>
             (case new_server_with_options P R (filesystem_exporter (pf_disk P) (cf_export_dir c))
                     (auth_of_config (pf_duration_text P) (trusted_proxies nets) c) of
                (S, keys) \<Rightarrow>
                  Inr \<lparr>rt_server = S, rt_keys = keys, rt_site = pf_site P,
                    rt_metrics = Option.bind tel tl_metrics, rt_collector = coll, rt_cleanup = cleanup\<rparr>))"

definition new_runtime ::
    "('k, 'c, 'a, 'n, 'w, 'q, 'y) platform \<Rightarrow> ('d, 'h) database_env \<Rightarrow> config \<Rightarrow> ('p, 't, 'm) telemetry option \<Rightarrow> 'd \<Rightarrow>
     (startup_failure + (mem_repo, 'c, files, 'k, 'w, 'p, 'h sql_repo) runtime +
        ('h, 'c, files, 'k, 'w, 'p, 'h sql_repo) runtime) \<times> 'd" where
  "new_runtime P E c tel d =
     (case build_repository E c d of
        (Exit msg err, d) \<Rightarrow> (Inl (RepositoryFailed msg err), d)
      | (UseMemory, d) \<Rightarrow> 
          (case runtime_on P c tel memory_repository None of Inl err \<Rightarrow> Inl err | Inr RT \<Rightarrow> Inr (Inl RT), d)
      | (UseSql r, d) \<Rightarrow> 
          (case runtime_on P c tel (sql_repository r) (Some r) of Inl err \<Rightarrow> Inl err | Inr RT \<Rightarrow> Inr (Inr RT), d))"

subsection \<open>Facts\<close>

lemma runtime_on_parts:
  assumes "runtime_on P c tel R cleanup = Inr RT"
  obtains nets where "parse_trusted_proxies c = Inr nets"
    "se_auth (rt_server RT) = server_auth (pf_duration_text P) (trusted_proxies nets) c"
    "rt_metrics RT = Option.bind tel tl_metrics" "svc_repo (se_service (rt_server RT)) = R"
  using assms
  by (auto simp: runtime_on_def new_server_with_options_def new_service_def server_auth_def Let_def split: sum.splits)

text \<open>Past the repository, only a bad list of trusted proxies stops the program.\<close>

lemma runtime_on_total:
  "(\<exists>RT. runtime_on P c tel R cleanup = Inr RT) \<longleftrightarrow> (\<exists>nets. parse_trusted_proxies c = Inr nets)"
  by (auto simp: runtime_on_def Let_def split: sum.splits prod.splits)

text \<open>A runtime is built on one of the two repositories, and only on the one that was chosen.\<close>

lemma new_runtime_memory:
  "new_runtime P E c tel d = (Inr (Inl RT), d') \<Longrightarrow>
     fst (build_repository E c d) = UseMemory \<and> runtime_on P c tel memory_repository None = Inr RT"
  by (auto simp: new_runtime_def split: prod.splits repository_choice.splits sum.splits)

lemma new_runtime_sql:
  "new_runtime P E c tel d = (Inr (Inr RT), d') \<Longrightarrow>
     \<exists>r. fst (build_repository E c d) = UseSql r \<and> runtime_on P c tel (sql_repository r) (Some r) = Inr RT"
  by (auto simp: new_runtime_def split: prod.splits repository_choice.splits sum.splits)

text \<open>Outside development, a database that was configured is used or the program does not start.\<close>

lemma configured_database_is_used:
  assumes "cf_db_driver c \<noteq> []" "cf_db_dsn c \<noteq> []" "\<not> cf_dev_insecure c"
  shows "fst (new_runtime P E c tel d) \<noteq> Inr (Inl RT)"
proof
  assume a: "fst (new_runtime P E c tel d) = Inr (Inl RT)"
  then have "fst (build_repository E c d) = UseMemory"
    using new_runtime_memory[of P E c tel d RT] by (metis prod.collapse)
  then show False
    using assms by (auto simp: build_repository_def fatal_def split: sum.splits option.splits prod.splits if_splits)
qed

end
