(* ===== verification/Bootstrap_Facts.thy ===== *)
theory Bootstrap_Facts
  imports Program
begin

text \<open>
  What a valid configuration guarantees of the program that is built from it: without credentials
  nothing but the health check, the metrics and the pages of the user interface is served. And what it does
  not: a database name that needs escaping is escaped twice in the connection text.
\<close>

subsection \<open>Requests without credentials\<close>

definition anonymous :: "auth_config \<Rightarrow> request \<Rightarrow> bool" where
  "anonymous a r \<longleftrightarrow> blank (header_get r ''Authorization'') \<and> blank (header_get r (ac_roles_header a))"

lemma server_auth_fields [simp]:
  "ac_read_token (server_auth sd tr c) = au_read_token (cf_auth c)"
  "ac_oidc_enabled (server_auth sd tr c) = au_oidc_enabled (cf_auth c)"
  "jp_enabled (ac_jwt (server_auth sd tr c)) = js_enabled (au_jwt (cf_auth c))"
  by (simp_all add: server_auth_def auth_of_config_def with_auth_defaults_def Let_def)

lemma match_bearer_blank: "blank h \<Longrightarrow> \<not> match_bearer h t"
  by (simp add: match_bearer_def)

lemma roles_from_jwt_anonymous: "anonymous a r \<Longrightarrow> roles_from_jwt J now p r = Inl MissingBearer"
  by (simp add: anonymous_def roles_from_jwt_def bearer_token_def)

lemma roles_from_header_anonymous: "anonymous a r \<Longrightarrow> roles_from_header a r = Inl MissingRoles"
  by (simp add: anonymous_def roles_from_header_def)

lemma authorize_roles_anonymous:
  assumes "anonymous a r"
  shows "(\<exists>err. authorize_roles J a now r allowed st = (Some err, st)) \<or>
    \<not> jp_enabled (ac_jwt a) \<and> \<not> ac_oidc_enabled a \<and> authorize_roles J a now r allowed st = (None, st)"
  using roles_from_jwt_anonymous [OF assms, of J now "ac_jwt a"] roles_from_header_anonymous [OF assms]
  by (simp add: authorize_roles_def resolve_roles_def)

lemma authorize_read_token_anonymous:
  "anonymous a r \<Longrightarrow> \<not> blank (ac_read_token a) \<Longrightarrow> fst (authorize_read_token a now r st) = Some MissingOrInvalidBearer"
  by (simp add: authorize_read_token_def anonymous_def match_bearer_blank)

text \<open>Some credential is configured, so each of the three checks denies.\<close>

definition guarded :: "auth_config \<Rightarrow> bool" where
  "guarded a \<longleftrightarrow> \<not> blank (ac_read_token a) \<or> ac_oidc_enabled a \<or> jp_enabled (ac_jwt a)"

lemma authorize_read_anonymous:
  assumes "anonymous a r" "guarded a"
  shows "fst (authorize_read J a now r st) \<noteq> None"
proof (cases "check_rate a now r ''read'' st")
  case (Pair ok s)
  then show ?thesis
    using authorize_roles_anonymous [OF assms(1), of J now "[''reader'', ''exporter'', ''admin'']" s]
      authorize_read_token_anonymous [OF assms(1), of now s] assms(2)
    by (cases ok) (auto simp: authorize_read_def guarded_def)
qed

lemma authorize_export_anonymous:
  assumes "anonymous a r" "guarded a"
  shows "fst (authorize_export J a now r st) \<noteq> None"
proof (cases "check_rate a now r ''export'' st")
  case (Pair ok s)
  then show ?thesis
    using authorize_roles_anonymous [OF assms(1), of J now "[''exporter'', ''admin'']" s]
      authorize_read_token_anonymous [OF assms(1), of now s] assms(2)
    by (cases ok) (auto simp: authorize_export_def guarded_def)
qed

lemma ingest_token_blank: "\<not> blank (ac_read_token a) \<Longrightarrow> ingest_token a \<noteq> []"
  by (simp add: ingest_token_def Let_def)

lemma authorize_ingest_anonymous:
  assumes "anonymous a r" "guarded a"
  shows "fst (authorize_ingest J a now r st) \<noteq> None"
proof (cases "check_rate a now r ''ingest'' st")
  case (Pair ok s)
  have m: "\<not> match_bearer (header_get r ''Authorization'') t" for t
    using assms(1) by (simp add: anonymous_def match_bearer_blank)
  show ?thesis
    using authorize_roles_anonymous [OF assms(1), of J now "[''admin'']" s] ingest_token_blank [of a] assms(2) Pair m
    by (cases ok) (auto simp: authorize_ingest_def guarded_def)
qed

lemma validate_config_guards:
  "validate_config c = None \<Longrightarrow> \<not> cf_dev_insecure c \<Longrightarrow> guarded (server_auth sd tr c)"
  by (auto simp: validate_config_def config_problems_def auth_problems_def problem_def read_auth_configured_def
      guarded_def split: if_splits)

lemma anonymous_not_authorized:
  "anonymous (se_auth S) r \<Longrightarrow> guarded (se_auth S) \<Longrightarrow> \<not> route_authorized S now r st"
  by (simp add: route_authorized_def authorize_read_anonymous authorize_export_anonymous authorize_ingest_anonymous)

subsection \<open>The name of the database\<close>

lemma dsn_name_escaped_twice:
  "build_dsn_from_parts sample_config = ''postgres://u:p%40ss@db:5432/my%2520db?sslmode=disable''"
  by code_simp

text \<open>The dialect that is filled in from the driver is not one of the repository's.\<close>

lemma default_dialect_unsupported:
  "new_sql_repository (Some db) (cf_db_dialect (fill_database (sample_config\<lparr>cf_db_dialect := []\<rparr>))) =
     Inl ''unsupported dialect: pgx''"
proof -
  have "cf_db_dialect (fill_database (sample_config\<lparr>cf_db_dialect := []\<rparr>)) = ''pgx''" by code_simp
  moreover have "to_lower (trim_space ''pgx'') = ''pgx''" by code_simp
  ultimately show ?thesis by (simp add: new_sql_repository_def)
qed

lemma sample_config_valid: "validate_config (fill_database sample_config) = None"
  by code_simp

lemma fill_database_auth [simp]:
  "cf_auth (fill_database c) = cf_auth c" "cf_dev_insecure (fill_database c) = cf_dev_insecure c"
  by (simp_all add: fill_database_def Let_def)

subsection \<open>Properties\<close>

text \<open>
  The API alone: on a server built from a configuration that passes validation and is not marked insecure
  for development, a request with neither an authorization header nor a header with roles is refused on
  every route but the health check, and leaves the service as it is.
\<close>

lemma validated_config_guards_api:
  assumes "validate_config c = None" "\<not> cf_dev_insecure c" "se_auth S = server_auth sd tr c"
    and "anonymous (se_auth S) r" "rq_path r \<noteq> ''/healthz''"
    and "serve S now later r st = Some (resp, st')"
  shows "400 \<le> rs_status resp \<and> ss_service st' = ss_service st"
proof -
  have "\<not> route_authorized S now r st"
    using validate_config_guards [OF assms(1,2), of sd tr] assms(3,4) by (intro anonymous_not_authorized) simp_all
  then show ?thesis using serve_refuses [OF assms(6,5)] by (simp add: refused_def)
qed

definition sample_platform :: "(unit, lru_state, unit, unit, unit, unit, unit) platform" where
  "sample_platform =
     \<lparr>pf_duration_text = (\<lambda>_. ''0s''), pf_parse_duration = (\<lambda>_. None), pf_jwt = sample_jwt, pf_cache = lru_cache,
      pf_new_cache = [], pf_error_text = (\<lambda>_. ''failed''), pf_parse_text = (\<lambda>_. ''bad event''),
      pf_decode_text = (\<lambda>_. ''bad body''),
      pf_disk = \<lparr>dk_mkdir = (\<lambda>_. None), dk_write = (\<lambda>_. None), dk_missing = (\<lambda>_. ''no such file''), dk_marshal = ''year''\<rparr>,
      pf_checkpoints = \<lparr>dk_mkdir = (\<lambda>_. None), dk_write = (\<lambda>_. None), dk_missing = (\<lambda>_. ''no such file''),
        dk_marshal = ''year'', kd_unreadable = (\<lambda>_. None), kd_torn = (\<lambda>_ _ fs. fs), kd_bad_json = ''bad json''\<rparr>,
      pf_argocd = \<lparr>al_url_host = Inr, al_new_client = (\<lambda>_. Inr ()), al_connect = (\<lambda>_ w. (Inr (), w)),
        al_list = (\<lambda>_ w. (Inr [], w)), al_close = (\<lambda>_ w. w)\<rparr>,
      pf_kube = \<lparr>kl_in_cluster = None, kl_env = (\<lambda>_. []), kl_expand = id, kl_build = (\<lambda>_. None), kl_dynamic = Some\<rparr>,
      pf_site = [(''index.html'', ''start'')]\<rparr>"

definition sample_anonymous_request :: request where
  "sample_anonymous_request =
     \<lparr>rq_method = ''GET'', rq_path = ''/v1/subjects'', rq_query = [], rq_headers = [], rq_remote = ''10.0.0.1:99'', rq_body = []\<rparr>"

text \<open>
  C36: a validated configuration serves nothing anonymously. In the program that is built from a
  configuration that passes validation and is not marked insecure for development, on whichever repository,
  a request with neither an authorization header nor a header with roles changes no event, export or file;
  and it is answered by a refusal, the health check, the metrics, a page of the user interface or the
  multiplexer itself.
\<close>

theorem validated_config_guards_program:
  assumes "validate_config c = None" "\<not> cf_dev_insecure c" "runtime_on P c tel R cleanup = Inr RT"
    and "anonymous (se_auth (rt_server RT)) r" "root_handler RT now later r st = (ans, st')"
  shows "ss_service st' = ss_service st \<and>
    (case ans of
       ApiAnswer resp \<Rightarrow> rq_path r = ''/healthz'' \<or> 400 \<le> rs_status resp
     | UiAnswer no_store page \<Rightarrow> rq_path r = ''/ui'' \<or> prefix ''/ui/'' (rq_path r)
     | MetricsAnswer h \<Rightarrow> rq_path r = ''/metrics''
     | MuxAnswer \<Rightarrow> serve (rt_server RT) now later r st = None)"
proof -
  obtain nets where auth: "se_auth (rt_server RT) = server_auth (pf_duration_text P) (trusted_proxies nets) c"
    using runtime_on_parts [OF assms(3)] by metis
  have "serve (rt_server RT) now later r st = Some (resp, s) \<Longrightarrow>
      ss_service s = ss_service st \<and> (rq_path r = ''/healthz'' \<or> 400 \<le> rs_status resp)" for resp s
    using validated_config_guards_api [OF assms(1,2) auth assms(4)]
    by (cases "rq_path r = ''/healthz''") (auto simp: serve_def)
  then show ?thesis
    using assms(5) by (auto simp: root_handler_def routes_def split: option.splits bool.splits prod.splits if_splits)
qed

theorem validated_config_guards_program_witness:
  "\<exists>RT :: (mem_repo, lru_state, files, unit, unit, unit, unit) runtime. \<exists>ans st'.
     runtime_on sample_platform (fill_database sample_config) (None :: (unit, unit, unit) telemetry option)
       memory_repository None = Inr RT \<and>
     root_handler RT 5 5 sample_anonymous_request
       (new_server_state sample_platform 5 (se_auth (rt_server RT)) new_memory_repository []) = (ApiAnswer ans, st') \<and>
     400 \<le> rs_status ans"
proof -
  have "parse_trusted_proxies (fill_database sample_config) = Inr []" by code_simp
  then obtain RT :: "(mem_repo, lru_state, files, unit, unit, unit, unit) runtime" where
      RT: "runtime_on sample_platform (fill_database sample_config) (None :: (unit, unit, unit) telemetry option)
        memory_repository None = Inr RT"
    using runtime_on_total by metis
  let ?r = sample_anonymous_request
  let ?st = "new_server_state sample_platform 5 (se_auth (rt_server RT)) new_memory_repository ([] :: files)"
  have m: "rt_metrics RT = None" using runtime_on_parts [OF RT] by (metis bind.simps(1))
  obtain res where "serve (rt_server RT) 5 5 ?r ?st = Some res"
    by (simp add: serve_def Let_def sample_anonymous_request_def)
  then obtain ans st' where root: "root_handler RT 5 5 ?r ?st = (ApiAnswer ans, st')"
    by (cases res) (simp add: root_handler_def routes_def m sample_anonymous_request_def)
  have "anonymous (se_auth (rt_server RT)) ?r"
    by (simp add: anonymous_def header_get_def sample_anonymous_request_def)
  then have "rq_path ?r = ''/healthz'' \<or> 400 \<le> rs_status ans"
    using validated_config_guards_program [OF sample_config_valid _ RT _ root] by (simp add: sample_config_def)
  with RT root show ?thesis by (auto simp: sample_anonymous_request_def)
qed

end
