(* ===== verification/Api_Steps.thy ===== *)
theory Api_Steps
  imports Api_Facts
begin

text \<open>
  What a request does to the repository, whatever the repository is: the handlers reach it through the operations of
  its interface only, so every answer of \<open>serve\<close> is a sequence of steps of \<open>repo_step\<close>, and a request that only
  reads leaves it as it is.
\<close>

subsection \<open>The service\<close>

abbreviation server_repo :: "('s, 'c, 'x) server_state \<Rightarrow> 's" where
  "server_repo st \<equiv> st_repo (ss_service st)"

lemma events_for_change_query_repo: "st_repo (snd (events_for_change_query S now q st)) = st_repo st"
  by (auto simp: events_for_change_query_def Let_def split: prod.split sum.split option.split)

lemma svc_list_changes_repo: "svc_list_changes S now q st = (x, st') \<Longrightarrow> st_repo st' = st_repo st"
  using events_for_change_query_repo [of S now q st]
  by (auto simp: svc_list_changes_def split: prod.splits sum.splits)

lemma svc_get_change_repo: "svc_get_change S now i q st = (x, st') \<Longrightarrow> st_repo st' = st_repo st"
  using events_for_change_query_repo [of S now q st]
  by (auto simp: svc_get_change_def split: prod.splits sum.splits)

lemma svc_get_change_timeline_repo: "svc_get_change_timeline S now i q st = (x, st') \<Longrightarrow> st_repo st' = st_repo st"
  by (auto simp: svc_get_change_timeline_def split: prod.splits sum.splits dest: svc_get_change_repo)

lemma svc_get_change_evidence_repo: "svc_get_change_evidence S now i q st = (x, st') \<Longrightarrow> st_repo st' = st_repo st"
  by (auto simp: svc_get_change_evidence_def split: prod.splits sum.splits dest: svc_get_change_repo)

lemma repo_step_results:
  "repo_ingest R now e s = (r, s') \<Longrightarrow> repo_step R s s'"
  "repo_create_export R now f flt s = (j, s') \<Longrightarrow> repo_step R s s'"
  "repo_set_completed R now i uri s = (o', s') \<Longrightarrow> repo_step R s s'"
  by (metis repo_step.intros(1) snd_conv, metis repo_step.intros(2) snd_conv, metis repo_step.intros(3) snd_conv)

lemma repo_steps_failed: "repo_step R s s' \<Longrightarrow> repo_steps R s (snd (repo_set_failed R now i msg s'))"
  by (rule rtranclp.rtrancl_into_rtrancl [OF r_into_rtranclp]) (assumption, rule repo_step.set_failed)

lemma svc_ingest_event_steps:
  "svc_ingest_event S now e st = (x, st') \<Longrightarrow> repo_steps (svc_repo S) (st_repo st) (st_repo st')"
  by (auto simp: svc_ingest_event_def split: prod.splits sum.splits intro: r_into_rtranclp dest: repo_step_results(1))

lemma svc_create_export_steps:
  "svc_create_export S text now later f flt st = (x, st') \<Longrightarrow> repo_steps (svc_repo S) (st_repo st) (st_repo st')"
  by (auto simp: svc_create_export_def Let_def split: prod.splits sum.splits option.splits
      dest!: repo_step_results(2,3) intro: repo_steps_failed rtranclp_trans [OF r_into_rtranclp r_into_rtranclp])

subsection \<open>The handlers\<close>

lemma read_guard_service: "read_guard S now r st = (x, st') \<Longrightarrow> ss_service st' = ss_service st"
  by (auto simp: read_guard_def split: if_splits prod.splits option.splits)

lemma export_guard_service: "export_guard S now r st = (x, st') \<Longrightarrow> ss_service st' = ss_service st"
  by (auto simp: export_guard_def split: prod.splits option.splits)

lemma reading_handlers_repo:
  "handle_changes S now r st = (resp, st') \<Longrightarrow> server_repo st' = server_repo st"
  "handle_change_by_id S now r st = (resp, st') \<Longrightarrow> server_repo st' = server_repo st"
  "handle_timeline S now r st = (resp, st') \<Longrightarrow> server_repo st' = server_repo st"
  "handle_event_by_id S now r st = (resp, st') \<Longrightarrow> server_repo st' = server_repo st"
  "handle_subjects S now r st = (resp, st') \<Longrightarrow> server_repo st' = server_repo st"
  "handle_correlations S now r st = (resp, st') \<Longrightarrow> server_repo st' = server_repo st"
  "handle_export_by_id S now r st = (resp, st') \<Longrightarrow> server_repo st' = server_repo st"
  by (auto simp: handle_changes_def handle_change_by_id_def handle_timeline_def handle_event_by_id_def
      handle_subjects_def handle_correlations_def handle_export_by_id_def Let_def
      split: if_splits prod.splits option.splits sum.splits
      dest!: read_guard_service export_guard_service svc_list_changes_repo svc_get_change_repo
        svc_get_change_timeline_repo svc_get_change_evidence_repo)

lemma ingest_loop_steps:
  "ingest_loop S now es results last_status st = (resp, st') \<Longrightarrow>
     repo_steps (svc_repo (se_service S)) (server_repo st) (server_repo st')"
proof (induction es arbitrary: results last_status st)
  case Nil
  then show ?case by (auto split: list.splits)
next
  case (Cons e es)
  obtain x s where i: "svc_ingest_event (se_service S) now e (ss_service st) = (x, s)" by fastforce
  note step = svc_ingest_event_steps [OF i]
  show ?case
  proof (cases x)
    case (Inl err)
    with Cons.prems i step show ?thesis by (auto split: if_splits)
  next
    case (Inr p)
    with Cons.prems i obtain results' status' where
      "ingest_loop S now es results' status' (st\<lparr>ss_service := s\<rparr>) = (resp, st')"
      by (cases p) auto
    from Cons.IH [OF this] step show ?thesis by (simp add: rtranclp_trans)
  qed
qed

lemma writing_handlers_steps:
  "handle_events S now r st = (resp, st') \<Longrightarrow> repo_steps (svc_repo (se_service S)) (server_repo st) (server_repo st')"
  "handle_exports S now later r st = (resp, st') \<Longrightarrow> repo_steps (svc_repo (se_service S)) (server_repo st) (server_repo st')"
  by (auto simp: handle_events_def split: if_splits prod.splits option.splits sum.splits dest!: ingest_loop_steps)
    (auto simp: handle_exports_def split: if_splits prod.splits option.splits sum.splits
      dest!: svc_create_export_steps export_guard_service)

lemma serve_steps:
  "serve S now later r st = Some (resp, st') \<Longrightarrow> repo_steps (svc_repo (se_service S)) (server_repo st) (server_repo st')"
  by (auto simp: serve_def Let_def split: if_splits dest: reading_handlers_repo writing_handlers_steps)

end
