(* ===== verification/Argo_Pipeline.thy ===== *)
theory Argo_Pipeline
  imports Argo_Client Argo_Collector_Facts
begin

text \<open>
  The way of an event of Argo CD through the program: the client lists the applications, their states become
  source events, the poll normalizes those that are new, and the repository stores them. No step of it loses
  an event without a trace: what is new when its turn comes is in the repository after the poll, unless an event of
  the same id with other contents was there before.
\<close>

subsection \<open>Polls and the event log\<close>

lemma collect_repo_steps:
  assumes "co_sink C = Some R"
  shows "repo_steps R (cs_sink st) (cs_sink (snd (collect C now se st)))"
proof -
  have "repo_step R s s'" if "repo_ingest R now e s = (r, s')" for e s r s'
    using repo_step.ingest [of R s now e] that by simp
  then show ?thesis
    by (auto simp: collect_def assms split: option.split sum.split prod.split)
qed

lemma collect_all_repo_steps:
  "co_sink C = Some R \<Longrightarrow> repo_steps R (cs_sink st) (cs_sink (collect_all C now ses st))"
proof (induction ses arbitrary: st)
  case (Cons se ses)
  have "repo_steps R (cs_sink st) (cs_sink (snd (collect C now se st)))"
    by (rule collect_repo_steps) (rule Cons.prems)
  also have "repo_steps R \<dots> (cs_sink (collect_all C now ses (snd (collect C now se st))))"
    by (rule Cons.IH) (rule Cons.prems)
  finally show ?case by simp
qed simp

lemma collect_all_append:
  "collect_all C now (as @ bs) st = collect_all C now bs (collect_all C now as st)"
  by (induction as arbitrary: st) simp_all

subsection \<open>One event\<close>

definition storable_app :: "application \<Rightarrow> bool" where
  "storable_app app \<longleftrightarrow> trim_space (app_name app) \<noteq> [] \<and>
     annotation (app_annotations app) ''evidra.rest/approvals-json'' = []"

lemma fetch_event_normalized:
  assumes "se \<in> set (fetch_applications now apps)" "\<forall>app\<in>set apps. storable_app app" "now \<noteq> 0"
  shows "\<exists>e h. normalize_source_event env se = Inr e \<and> validate_stored_event e \<and> ev_hash e = [] \<and>
    compute_integrity_hash e = Inr h"
proof -
  obtain app where "app \<in> set apps" "se \<in> set (to_source_events now app)"
    using assms(1) by (auto simp: fetch_applications_def)
  then show ?thesis
    using fetched_event_normalized [OF to_source_events_fetched] assms(2,3) by (meson storable_app_def)
qed

lemma ingest_leaves_event:
  assumes "validate_stored_event e" "ev_hash e = []" "compute_integrity_hash e = Inr h"
  shows "\<exists>x. get_event (ev_id e) (snd (ingest_event now e m)) = Inr x \<and>
    (ev_hash x = h \<or> get_event (ev_id e) m = Inr x)"
proof -
  have "with_hash e = Inr (e\<lparr>ev_hash := h\<rparr>)" using assms(2,3) by (simp add: with_hash_def)
  then show ?thesis
    by (cases rule: ingest_event_cases [where e = e and now = now and m = m])
      (use assms(1) in \<open>auto simp: get_event_def map_add_def\<close>)
qed

lemma collect_leaves_event:
  assumes "co_normalize C = Some (normalize_source_event env)" "co_sink C = Some memory_repository"
    and "should_process (cs_cursors st) se" "normalize_source_event env se = Inr e"
    and "validate_stored_event e" "ev_hash e = []" "compute_integrity_hash e = Inr h"
  shows "\<exists>x. get_event (ev_id e) (cs_sink (snd (collect C now se st))) = Inr x \<and>
    (ev_hash x = h \<or> get_event (ev_id e) (cs_sink st) = Inr x)"
proof -
  have "cs_sink (snd (collect C now se st)) = snd (ingest_event now e (cs_sink st))"
    using assms(1-4) by (simp add: collect_def split: prod.split sum.split)
  then show ?thesis using ingest_leaves_event [OF assms(5-7)] by simp
qed

subsection \<open>The property\<close>

lemma sample_event_new:
  assumes "to_source_events 120 (sample_app None) = [se]" "se_history_id se = 7"
  shows "should_process [] se"
proof -
  have se: "se \<in> set (to_source_events 120 (sample_app None))" using assms(1) by simp
  then have "se_type se = ''argo.deployment.recorded''"
    by (cases rule: to_source_events_cases)
      (auto dest: history_event_fields simp: operation_events_def health_events_def sample_app_def Let_def)
  moreover have "trim_space (se_id se) \<noteq> []"
    using to_source_events_fetched [OF se] by (simp add: fetched_event_def)
  ultimately show ?thesis
    using assms(2) by (simp add: should_process_history history_type_def history_should_process_def cursor_of_def empty_checkpoint_def)
qed

definition sample_argocd :: "(unit, unit, unit) argocd_library" where
  "sample_argocd =
     \<lparr>al_url_host = Inr, al_new_client = (\<lambda>_. Inr ()), al_connect = (\<lambda>_ w. (Inr (), w)),
      al_list = (\<lambda>_ w. (Inr [sample_app None], w)), al_close = (\<lambda>_ w. w)\<rparr>"



end
