(* ===== verification/Running.thy ===== *)
theory Running
  imports Bootstrap_Facts Api_Steps Argo_Pipeline
begin

text \<open>
  The program while it runs: requests and the collector of Argo CD take turns on one repository and one disk. A
  state is that of the server with what the collector keeps for itself; a step is one request, as the outer
  multiplexer answers it, or one thing the collector does: loading or saving its checkpoint, or the handling of one
  source event, so that a poll may be interrupted by requests.

  Whatever the repository is, a run is a sequence of steps of its interface. So what its contract promises holds for
  the program: events stay as they are, and an event that a request was answered for can be read ever after.
\<close>

subsection \<open>Steps\<close>

record ('s, 'c) running =
  rn_server :: "('s, 'c, files) server_state"
  rn_loaded :: bool
  rn_cursors :: cursors

definition collector_view :: "('s, 'c) running \<Rightarrow> ('s, files) collector_state" where
  "collector_view y =
     \<lparr>cs_loaded = rn_loaded y, cs_cursors = rn_cursors y, cs_sink = server_repo (rn_server y),
      cs_store = st_files (ss_service (rn_server y))\<rparr>"

definition with_collector :: "('s, 'c) running \<Rightarrow> ('s, files) collector_state \<Rightarrow> ('s, 'c) running" where
  "with_collector y k =
     \<lparr>rn_server = (rn_server y)\<lparr>ss_service := (ss_service (rn_server y))\<lparr>st_repo := cs_sink k, st_files := cs_store k\<rparr>\<rparr>,
      rn_loaded = cs_loaded k, rn_cursors = cs_cursors k\<rparr>"

inductive run_step ::
    "('s, 'c, files, 'k, 'w, 'p, 'b) runtime \<Rightarrow> ('s, 'c) running \<Rightarrow> ('s, 'c) running \<Rightarrow> bool" for RT where
  request: "root_handler RT now later r (rn_server y) = (ans, st) \<Longrightarrow> run_step RT y (y\<lparr>rn_server := st\<rparr>)"
| load: "rt_collector RT = Some (C, mode) \<Longrightarrow> run_step RT y (with_collector y (load_checkpoint C (collector_view y)))"
| collect: "rt_collector RT = Some (C, mode) \<Longrightarrow>
    run_step RT y (with_collector y (snd (collect C now se (collector_view y))))"
| save: "rt_collector RT = Some (C, mode) \<Longrightarrow> run_step RT y (with_collector y (save_checkpoint C (collector_view y)))"

inductive_cases run_stepE: "run_step RT y z"

abbreviation run_steps ::
    "('s, 'c, files, 'k, 'w, 'p, 'b) runtime \<Rightarrow> ('s, 'c) running \<Rightarrow> ('s, 'c) running \<Rightarrow> bool" where
  "run_steps RT \<equiv> (run_step RT)\<^sup>*\<^sup>*"

abbreviation running_repo :: "('s, 'c) running \<Rightarrow> 's" where
  "running_repo y \<equiv> server_repo (rn_server y)"

lemma with_collector_simps [simp]:
  "running_repo (with_collector y k) = cs_sink k" "collector_view (with_collector y k) = k"
  "st_cache (ss_service (rn_server (with_collector y k))) = st_cache (ss_service (rn_server y))"
  "with_collector (with_collector y k) k' = with_collector y k'"
  by (simp_all add: with_collector_def collector_view_def)

lemma collector_view_simps [simp]: "cs_sink (collector_view y) = running_repo y"
  by (simp add: collector_view_def)

text \<open>A poll, and the handling of an event of the informer, are such steps.\<close>

lemma collect_all_run_steps:
  assumes "rt_collector RT = Some (C, mode)"
  shows "run_steps RT y (with_collector y (collect_all C now ses (collector_view y)))"
proof (induction ses arbitrary: y)
  case Nil
  then show ?case by (cases y) (simp add: with_collector_def collector_view_def)
next
  case (Cons se ses)
  let ?z = "with_collector y (snd (collect C now se (collector_view y)))"
  have "run_step RT y ?z" using assms by (rule run_step.collect)
  also have "run_steps RT ?z (with_collector ?z (collect_all C now ses (collector_view ?z)))" by (rule Cons.IH)
  finally show ?case by simp
qed

lemma poll_run_steps:
  assumes "rt_collector RT = Some (C, mode)"
  shows "run_steps RT y (with_collector y (poll C now (Inr ses) (collector_view y)))"
  using rtranclp.rtrancl_into_rtrancl [OF collect_all_run_steps [OF assms, of y now ses]
    run_step.save [OF assms, of "with_collector y (collect_all C now ses (collector_view y))"]]
  by (simp add: poll_def)

lemma informer_run_steps:
  assumes "rt_collector RT = Some (C, mode)"
    and "handle_app_event C now later uid name ns payload (collector_view y) = Some k"
  shows "run_steps RT y (with_collector y k)"
proof -
  obtain se collected k0 where c: "collect C later se (collector_view y) = (collected, k0)"
      "k = (if collected then save_checkpoint C k0 else k0)"
    using assms(2) by (auto simp: handle_app_event_def split: option.splits prod.splits)
  have "run_step RT y (with_collector y k0)"
    using run_step.collect [OF assms(1), of y later se] c(1) by simp
  moreover have "run_step RT (with_collector y k0) (with_collector y (save_checkpoint C k0))"
    using run_step.save [OF assms(1), of "with_collector y k0"] by simp
  ultimately show ?thesis using c(2) by (auto intro: rtranclp.rtrancl_into_rtrancl)
qed

subsection \<open>A run and the repository\<close>

lemma runtime_collector_sink:
  assumes "runtime_on P c tel R cleanup = Inr RT" "rt_collector RT = Some (C, mode)"
  shows "co_sink C = Some R"
  using assms
  by (auto simp: runtime_on_def start_argo_collector_def Let_def split: sum.splits prod.splits if_splits)

lemma root_handler_repo_steps:
  assumes "root_handler RT now later r st = (ans, st')"
  shows "repo_steps (svc_repo (se_service (rt_server RT))) (server_repo st) (server_repo st')"
  using assms
  by (auto simp: root_handler_def routes_def split: option.splits bool.splits prod.splits if_splits dest: serve_steps)

lemma run_step_repo_steps:
  assumes "runtime_on P c tel R cleanup = Inr RT" "run_step RT y z"
  shows "repo_steps R (running_repo y) (running_repo z)"
  using assms(2)
proof (cases rule: run_step.cases)
  case (request now later r ans st)
  have "svc_repo (se_service (rt_server RT)) = R" by (rule runtime_on_parts [OF assms(1)])
  then show ?thesis using root_handler_repo_steps [OF request(2)] request(1) by simp
next
  case (collect C mode now se)
  then show ?thesis
    using collect_repo_steps [OF runtime_collector_sink [OF assms(1) collect(2)], of "collector_view y" now se] by simp
qed (auto simp: load_checkpoint_def save_checkpoint_def split: option.split sum.split)

lemma run_steps_repo_steps:
  assumes "runtime_on P c tel R cleanup = Inr RT" "run_steps RT y z"
  shows "repo_steps R (running_repo y) (running_repo z)"
  using assms(2)
  by (induction rule: rtranclp_induct) (auto intro: rtranclp_trans dest: run_step_repo_steps [OF assms(1)])

text \<open>
  The collector writes past the service: what it ingests does not purge the cache of the changes, so the list of
  changes may leave out an event that the timeline has, until its entry expires.
\<close>

lemma collector_keeps_cache:
  assumes "rt_collector RT = Some (C, mode)"
  shows "st_cache (ss_service (rn_server (with_collector y (poll C now fetched (collector_view y))))) =
    st_cache (ss_service (rn_server y))"
  by simp

subsection \<open>The property\<close>

lemma root_events:
  assumes "root_handler RT now later r st = (ApiAnswer resp, st')" "rq_path r = ''/v1/events''"
  shows "handle_events (rt_server RT) now r st = (resp, st')"
  using assms by (auto simp: root_handler_def routes_def serve_def split: option.splits prod.splits)

text \<open>
  C23: an event that is acknowledged is kept. In the running program, on any repository that keeps the contract
  of the interface, when a request with events is answered with success, every event of its body can be read from the
  repository after any further requests and any work of the collector, with the hash of its content.
\<close>

theorem acknowledged_events_kept:
  assumes "repository_contract R ok" "runtime_on P c tel R cleanup = Inr RT"
    and "ok (running_repo y)" "now \<noteq> 0" "rq_path r = ''/v1/events''"
    and "root_handler RT now later r (rn_server y) = (ApiAnswer resp, st)" "rs_status resp < 300"
    and "run_steps RT (y\<lparr>rn_server := st\<rparr>) z"
  shows "\<exists>es. parse_request now (header_get r ''Content-Type'') (rq_body r) = Inr es \<and>
    (\<forall>e\<in>set es. \<exists>e'. repo_get_event R (ev_id e) (running_repo z) = Inr e' \<and> ev_hash e' = ev_hash e \<and>
      compute_integrity_hash e = Inr (ev_hash e'))"
proof -
  have R: "svc_repo (se_service (rt_server RT)) = R" by (rule runtime_on_parts [OF assms(2)])
  obtain a es where es: "parse_request now (header_get r ''Content-Type'') (rq_body r) = Inr es"
    "\<forall>e\<in>set es. compute_integrity_hash e = Inr (ev_hash e) \<and> ev_hash e \<noteq> []"
    "ingest_loop (rt_server RT) now es [] 202 ((rn_server y)\<lparr>ss_auth := a\<rparr>) = (resp, st)"
    using acknowledged_parsed [OF root_events [OF assms(6,5)] assms(7,4)] by metis
  have st: "\<forall>e\<in>set es. \<exists>e'. repo_get_event R (ev_id e) (server_repo st) = Inr e' \<and> ev_hash e' = ev_hash e"
      "ok (server_repo st)"
    using repository_contract.ingest_loop_stored [OF assms(1) R _ es(3) assms(7)] es(2) assms(3) by simp_all
  have "repo_get_event R i (server_repo st) = Inr e' \<Longrightarrow> repo_get_event R i (running_repo z) = Inr e'" for i e'
    using repository_contract.append_only [OF assms(1) run_steps_repo_steps [OF assms(2,8)]] st(2) by simp
  then show ?thesis using es(1,2) st(1) by fastforce
qed

definition fresh_running :: "('k, 'c, 'a, 'n, 'w, 'q, 'y) platform \<Rightarrow> time \<Rightarrow> auth_config \<Rightarrow> (mem_repo, 'c) running" where
  "fresh_running P now a =
     \<lparr>rn_server = new_server_state P now a new_memory_repository [], rn_loaded = False, rn_cursors = []\<rparr>"

lemma sample_secret: "ingest_token (server_auth sd tr (fill_database sample_config)) = ''secret''"
  by (simp add: ingest_token_def server_auth_def auth_of_config_def with_auth_defaults_def Let_def
      sample_config_def) code_simp

lemma sample_program_accepts:
  assumes "svc_repo (se_service S) = memory_repository"
    and "se_auth S = server_auth sd tr (fill_database sample_config)"
  shows "rs_status (fst (handle_events S 5 (sample_request ''/v1/events'' ''secret'')
    (rn_server (fresh_running P 5 (se_auth S))))) = 202"
proof -
  let ?a = "se_auth S" and ?r = "sample_request ''/v1/events'' ''secret''"
  have off: "\<not> rp_enabled (ac_rate ?a)" "\<not> jp_enabled (ac_jwt ?a)" "\<not> ac_oidc_enabled ?a"
      "ac_webhook_secret ?a = []" "ingest_token ?a = ''secret''"
    unfolding assms(2) sample_secret
    by (simp_all add: server_auth_def auth_of_config_def with_auth_defaults_def Let_def sample_config_def)
  have "equal_fold ''authorization'' ''Authorization''" by code_simp
  then have "header_get ?r ''Authorization'' = ''Bearer secret''" by (simp add: header_get_def sample_request_def)
  moreover have "match_bearer ''Bearer secret'' ''secret''" by code_simp
  ultimately have "fst (authorize_ingest (se_jwt S) ?a 5 ?r (ss_auth (rn_server (fresh_running P 5 ?a)))) = None"
    using off by (simp add: authorize_ingest_def check_rate_def allow_def authorize_roles_def resolve_roles_def
        fresh_running_def new_server_state_def new_auth_state_def new_rate_limiter_def)
  then obtain b where "authorize_ingest (se_jwt S) ?a 5 ?r (ss_auth (rn_server (fresh_running P 5 ?a))) = (None, b)"
    by (metis prod.collapse)
  then show ?thesis
    using assms(1) by (intro sample_accepted) (simp_all add: fresh_running_def new_server_state_def)
qed

theorem acknowledged_events_kept_witness:
  "\<exists>RT :: (mem_repo, lru_state, files, unit, unit, unit, unit) runtime. \<exists>resp st e e'.
     runtime_on sample_platform (fill_database sample_config) (None :: (unit, unit, unit) telemetry option)
       memory_repository None = Inr RT \<and>
     root_handler RT 5 5 (sample_request ''/v1/events'' ''secret'')
       (rn_server (fresh_running sample_platform 5 (se_auth (rt_server RT)))) = (ApiAnswer resp, st) \<and>
     parse_request 5 [] sample_body = Inr [e] \<and> get_event (ev_id e) (server_repo st) = Inr e'"
proof -
  have "parse_trusted_proxies (fill_database sample_config) = Inr []" by code_simp
  then obtain RT :: "(mem_repo, lru_state, files, unit, unit, unit, unit) runtime" where
      RT: "runtime_on sample_platform (fill_database sample_config) (None :: (unit, unit, unit) telemetry option)
        memory_repository None = Inr RT"
    using runtime_on_total by metis
  let ?r = "sample_request ''/v1/events'' ''secret''"
  let ?y = "fresh_running sample_platform 5 (se_auth (rt_server RT))"
  obtain nets where nets: "se_auth (rt_server RT) =
      server_auth (pf_duration_text sample_platform) (trusted_proxies nets) (fill_database sample_config)"
    "rt_metrics RT = None" "svc_repo (se_service (rt_server RT)) = memory_repository"
    using runtime_on_parts [OF RT] by (metis bind.simps(1))
  obtain resp st where h: "handle_events (rt_server RT) 5 ?r (rn_server ?y) = (resp, st)" by fastforce
  have root: "root_handler RT 5 5 ?r (rn_server ?y) = (ApiAnswer resp, st)"
    using h by (simp add: root_handler_def routes_def nets(2) serve_def sample_request_def)
  have "rs_status resp = 202" using sample_program_accepts [OF nets(3,1), of sample_platform] h by simp
  moreover have "mem_ok (running_repo ?y)"
    by (simp add: fresh_running_def new_server_state_def mem_ok_def new_memory_repository_def)
  moreover have "rq_path ?r = ''/v1/events''" "rq_body ?r = sample_body" by (simp_all add: sample_request_def)
  ultimately obtain es where "parse_request 5 (header_get ?r ''Content-Type'') sample_body = Inr es"
      "\<forall>e\<in>set es. \<exists>e'. get_event (ev_id e) (server_repo st) = Inr e'"
    using acknowledged_events_kept [OF memory.repository_contract_axioms RT _ _ _ root _ rtranclp.rtrancl_refl]
    by fastforce
  moreover have "\<not> equal_fold ''authorization'' ''Content-Type''" by code_simp
  then have "header_get ?r ''Content-Type'' = []" by (simp add: header_get_def sample_request_def)
  ultimately show ?thesis using RT root sample_parse by fastforce
qed

end
