(* ===== verification/Providers.thy ===== *)
theory Providers
  imports Auth Go_Struct Repository
begin

text \<open>
  The webhook providers of \<open>internal/providers\<close>: the shared helpers, the parsers and adapters of
  GitHub, GitLab and Bitbucket, and the registry of \<open>internal/ingest\<close> that they are entered in.

  The payloads of GitLab and Bitbucket are decoded from JSON by the code's own structs. Those of
  GitHub are decoded by the package go-github: the parser takes the decoders as arguments and reads
  the records \<open>gh_push\<close> and \<open>gh_pull_request\<close>, in which \<open>None\<close> is a nil pointer. A reader of headers
  is a function. An error of the decoder is \<open>BadPayload\<close>.
\<close>

subsection \<open>Helpers\<close>

datatype provider_error = BadPayload | UnsupportedEvent string string | BadSignature string | BadToken
  | UnsupportedProvider string | EmptyRegistry | NilRegistry

definition id_char :: "char \<Rightarrow> bool" where
  "id_char c \<longleftrightarrow>
     (let n = of_char c :: nat in
      (97 \<le> n \<and> n \<le> 122) \<or> (65 \<le> n \<and> n \<le> 90) \<or> (48 \<le> n \<and> n \<le> 57) \<or> c = CHR ''-'' \<or> c = CHR ''_'')"

text \<open>One underscore for every other rune: a byte from \<open>0x80\<close> to \<open>0xBF\<close> continues one.\<close>

definition id_byte :: "char \<Rightarrow> string" where
  "id_byte c =
     (if id_char c then [c]
      else if 128 \<le> (of_char c :: nat) \<and> (of_char c :: nat) < 192 then [] else ''_'')"

definition make_id :: "string \<Rightarrow> string \<Rightarrow> int \<Rightarrow> string" where
  "make_id provider delivery n =
     ''evt_'' @ provider @ ''_'' @ concat (map id_byte delivery) @ ''_'' @ show_int n"

definition fallback_delivery :: "string \<Rightarrow> string \<Rightarrow> string" where
  "fallback_delivery delivery body =
     (if trim_space delivery \<noteq> [] then trim_space delivery else take 16 (sha256_hex body))"

definition repo_app :: "string \<Rightarrow> string" where
  "repo_app repo = (if trim_space repo = [] then ''unknown'' else last (split_on (CHR ''/'') (trim_space repo)))"

definition non_empty :: "string \<Rightarrow> string \<Rightarrow> string" where
  "non_empty a b = (if trim_space a \<noteq> [] then trim_space a else trim_space b)"

definition parse_time_or_now :: "time \<Rightarrow> string \<Rightarrow> time" where
  "parse_time_or_now now v =
     (if trim_space v = [] then now
      else (case parse_rfc3339 (trim_space v) of None \<Rightarrow> now | Some t \<Rightarrow> t))"

definition normalize_event_type :: "string \<Rightarrow> string" where
  "normalize_event_type s = trim_space (to_lower s)"

subsection \<open>Issue keys\<close>

definition is_upper :: "char \<Rightarrow> bool" where
  "is_upper c \<longleftrightarrow> 65 \<le> (of_char c :: nat) \<and> (of_char c :: nat) \<le> 90"

definition is_word :: "char \<Rightarrow> bool" where
  "is_word c \<longleftrightarrow> is_upper c \<or> is_digit c \<or> (97 \<le> (of_char c :: nat) \<and> (of_char c :: nat) \<le> 122) \<or> c = CHR ''_''"

text \<open>
  The pattern \<open>[A-Z][A-Z0-9]+-\d+\<close> at the start of a text, up to a word boundary. Each run is the
  longest one: what follows it is not in its class, and a shorter run of digits ends inside a word.
\<close>

definition issue_key_at :: "string \<Rightarrow> string option" where
  "issue_key_at s =
     (let p = takeWhile (\<lambda>c. is_upper c \<or> is_digit c) s; r = drop (length p) s;
          d = takeWhile is_digit (drop 1 r); r' = drop (1 + length d) r
      in if length p < 2 \<or> \<not> is_upper (hd p) \<or> take 1 r \<noteq> ''-'' \<or> d = [] \<or> (r' \<noteq> [] \<and> is_word (hd r')) then None
         else Some (p @ ''-'' @ d))"

text \<open>\<open>FindAllString\<close>, left to right; the flag says whether a word character comes before.\<close>

function find_issue_keys :: "bool \<Rightarrow> string \<Rightarrow> string list" where
  "find_issue_keys w [] = []"
| "find_issue_keys w (c # s) =
     (case (if w then None else issue_key_at (c # s)) of
        None \<Rightarrow> find_issue_keys (is_word c) s
      | Some k \<Rightarrow> k # find_issue_keys True (drop (length k) (c # s)))"
  by pat_completeness auto

termination
proof (relation "measure (\<lambda>(w, s). length s)")
  fix w :: bool and c s k
  assume "(if w then None else issue_key_at (c # s)) = Some k"
  then have "0 < length k" by (auto simp: issue_key_at_def Let_def split: if_splits)
  then show "((True, drop (length k) (c # s)), w, c # s) \<in> measure (\<lambda>(w, s). length s)" by simp
qed simp_all

fun add_unseen :: "string list \<Rightarrow> string list \<Rightarrow> string list" where
  "add_unseen out [] = out"
| "add_unseen out (k # ks) = add_unseen (if k \<in> set out then out else out @ [k]) ks"

definition extract_issue_keys :: "string list \<Rightarrow> string list" where
  "extract_issue_keys vs =
     add_unseen [] (concat (map (\<lambda>v. find_issue_keys False (to_upper (trim_space v))) vs))"

subsection \<open>The event of a delivery\<close>

text \<open>What the six branches of the parsers share; \<open>extra\<close> is the field \<open>ref\<close> or \<open>pr_id\<close>.\<close>

definition scm_extensions :: "string \<Rightarrow> string \<Rightarrow> string \<Rightarrow> string \<Rightarrow> string \<times> string \<Rightarrow> string list \<Rightarrow> (string \<times> gval) list" where
  "scm_extensions provider initiator repo commit extra keys =
     [(''cluster'', GStr ''unknown''), (''namespace'', GStr ''unknown''), (''initiator'', GStr initiator),
      (''repo'', GStr repo), (''commit_sha'', GStr commit), (fst extra, GStr (snd extra)), (''provider'', GStr provider)] @
     (if keys = [] then [] else [(''ticket_keys'', GStrs keys), (''ticket_key_primary'', GStr (hd keys))])"

definition scm_data :: "string \<Rightarrow> string \<Rightarrow> string \<times> string \<Rightarrow> (string \<times> gval) list" where
  "scm_data repo commit extra = [(''repo'', GStr repo), (''commit_sha'', GStr commit), (fst extra, GStr (snd extra))]"

definition scm_event ::
    "string \<Rightarrow> string \<Rightarrow> string \<Rightarrow> time \<Rightarrow> string \<Rightarrow> string \<Rightarrow> string \<Rightarrow> string \<times> string \<Rightarrow> string list \<Rightarrow> stored_event" where
  "scm_event provider delivery ty t initiator repo commit extra keys =
     \<lparr>ev_id = make_id provider delivery 0, ev_type = ty, ev_source = provider, ev_subject = repo_app repo, ev_time = t,
      ev_extensions = scm_extensions provider initiator repo commit extra keys,
      ev_data = marshal (GObj (scm_data repo commit extra)), ev_hash = [], ev_ingested = 0\<rparr>"

subsection \<open>GitLab\<close>

text \<open>A struct of two strings.\<close>

definition decode_pair :: "string \<Rightarrow> string \<Rightarrow> (string \<times> gval) list \<Rightarrow> string \<times> string \<Rightarrow> (string \<times> string) option" where
  "decode_pair a b ms old =
     do { x \<leftarrow> struct_field decode_string a (fst old) ms;
          y \<leftarrow> struct_field decode_string b (snd old) ms;
          Some (x, y) }"

record gitlab_push =
  gl_ref :: string
  gl_checkout_sha :: string
  gl_event_created_at :: string
  gl_user_username :: string
  gl_project :: "string \<times> string"
  gl_commits :: "(string \<times> string) list"

definition empty_gitlab_push :: gitlab_push where
  "empty_gitlab_push =
     \<lparr>gl_ref = [], gl_checkout_sha = [], gl_event_created_at = [], gl_user_username = [], gl_project = ([], []), gl_commits = []\<rparr>"

definition decode_gitlab_push :: "(string \<times> gval) list \<Rightarrow> gitlab_push \<Rightarrow> gitlab_push option" where
  "decode_gitlab_push ms old =
     do { r \<leftarrow> struct_field decode_string ''ref'' (gl_ref old) ms;
          sha \<leftarrow> struct_field decode_string ''checkout_sha'' (gl_checkout_sha old) ms;
          created \<leftarrow> struct_field decode_string ''event_created_at'' (gl_event_created_at old) ms;
          user \<leftarrow> struct_field decode_string ''user_username'' (gl_user_username old) ms;
          project \<leftarrow> struct_field (decode_struct (decode_pair ''name'' ''path_with_namespace'')) ''project'' (gl_project old) ms;
          commits \<leftarrow> struct_field (decode_slice (decode_struct (decode_pair ''timestamp'' ''message'')) ([], []))
            ''commits'' (gl_commits old) ms;
          Some \<lparr>gl_ref = r, gl_checkout_sha = sha, gl_event_created_at = created, gl_user_username = user,
            gl_project = project, gl_commits = commits\<rparr> }"

record merge_attributes =
  ma_action :: string
  ma_iid :: int
  ma_merge_commit_sha :: string
  ma_created_at :: string
  ma_updated_at :: string
  ma_title :: string
  ma_description :: string
  ma_source_branch :: string
  ma_target_branch :: string
  ma_last_commit :: "string \<times> string"

definition empty_merge_attributes :: merge_attributes where
  "empty_merge_attributes =
     \<lparr>ma_action = [], ma_iid = 0, ma_merge_commit_sha = [], ma_created_at = [], ma_updated_at = [], ma_title = [],
      ma_description = [], ma_source_branch = [], ma_target_branch = [], ma_last_commit = ([], [])\<rparr>"

definition decode_merge_attributes :: "(string \<times> gval) list \<Rightarrow> merge_attributes \<Rightarrow> merge_attributes option" where
  "decode_merge_attributes ms old =
     do { action \<leftarrow> struct_field decode_string ''action'' (ma_action old) ms;
          iid \<leftarrow> struct_field decode_int ''iid'' (ma_iid old) ms;
          sha \<leftarrow> struct_field decode_string ''merge_commit_sha'' (ma_merge_commit_sha old) ms;
          created \<leftarrow> struct_field decode_string ''created_at'' (ma_created_at old) ms;
          updated \<leftarrow> struct_field decode_string ''updated_at'' (ma_updated_at old) ms;
          title \<leftarrow> struct_field decode_string ''title'' (ma_title old) ms;
          description \<leftarrow> struct_field decode_string ''description'' (ma_description old) ms;
          source \<leftarrow> struct_field decode_string ''source_branch'' (ma_source_branch old) ms;
          target \<leftarrow> struct_field decode_string ''target_branch'' (ma_target_branch old) ms;
          commit \<leftarrow> struct_field (decode_struct (decode_pair ''id'' ''message'')) ''last_commit'' (ma_last_commit old) ms;
          Some \<lparr>ma_action = action, ma_iid = iid, ma_merge_commit_sha = sha, ma_created_at = created,
            ma_updated_at = updated, ma_title = title, ma_description = description, ma_source_branch = source,
            ma_target_branch = target, ma_last_commit = commit\<rparr> }"

record gitlab_merge =
  gm_project :: "string \<times> string"
  gm_username :: string
  gm_attributes :: merge_attributes

definition decode_username :: "(string \<times> gval) list \<Rightarrow> string \<Rightarrow> string option" where
  "decode_username ms old = struct_field decode_string ''username'' old ms"

definition decode_gitlab_merge :: "(string \<times> gval) list \<Rightarrow> gitlab_merge \<Rightarrow> gitlab_merge option" where
  "decode_gitlab_merge ms old =
     do { project \<leftarrow> struct_field (decode_struct (decode_pair ''name'' ''path_with_namespace'')) ''project'' (gm_project old) ms;
          user \<leftarrow> struct_field (decode_struct decode_username) ''user'' (gm_username old) ms;
          attributes \<leftarrow> struct_field (decode_struct decode_merge_attributes) ''object_attributes'' (gm_attributes old) ms;
          Some \<lparr>gm_project = project, gm_username = user, gm_attributes = attributes\<rparr> }"

definition last_commit_time :: "(string \<times> string) list \<Rightarrow> string \<Rightarrow> string" where
  "last_commit_time commits fallback =
     (case find (\<lambda>c. trim_space (fst c) \<noteq> []) (rev commits) of None \<Rightarrow> fallback | Some c \<Rightarrow> fst c)"

definition gitlab_push_event :: "time \<Rightarrow> string \<Rightarrow> gitlab_push \<Rightarrow> stored_event" where
  "gitlab_push_event now delivery p =
     (let repo = non_empty (snd (gl_project p)) (fst (gl_project p))
      in scm_event ''gitlab'' delivery ''push''
           (parse_time_or_now now (last_commit_time (gl_commits p) (gl_event_created_at p)))
           (non_empty (gl_user_username p) ''unknown'') repo (gl_checkout_sha p) (''ref'', gl_ref p)
           (extract_issue_keys (gl_ref p # map snd (gl_commits p))))"

definition merge_event_type :: "string \<Rightarrow> string" where
  "merge_event_type action =
     (let a = to_lower action in
      if a = ''open'' \<or> a = ''opened'' then ''merge_request_opened''
      else if a = ''merge'' \<or> a = ''merged'' then ''merge_request_merged''
      else if a = ''close'' \<or> a = ''closed'' then ''merge_request_closed''
      else ''merge_request_updated'')"

definition gitlab_merge_event :: "time \<Rightarrow> string \<Rightarrow> gitlab_merge \<Rightarrow> stored_event" where
  "gitlab_merge_event now delivery p =
     (let a = gm_attributes p; repo = non_empty (snd (gm_project p)) (fst (gm_project p))
      in scm_event ''gitlab'' delivery (merge_event_type (ma_action a))
           (parse_time_or_now now (non_empty (ma_updated_at a) (ma_created_at a)))
           (non_empty (gm_username p) ''unknown'') repo
           (non_empty (ma_merge_commit_sha a) (fst (ma_last_commit a))) (''pr_id'', show_int (ma_iid a))
           (extract_issue_keys [ma_title a, ma_description a, ma_source_branch a, ma_target_branch a, snd (ma_last_commit a)]))"

type_synonym parser = "time \<Rightarrow> string \<Rightarrow> string \<Rightarrow> string \<Rightarrow> provider_error + stored_event list"

definition parsed :: "'p option \<Rightarrow> ('p \<Rightarrow> stored_event) \<Rightarrow> provider_error + stored_event list" where
  "parsed p event = (case p of None \<Rightarrow> Inl BadPayload | Some p \<Rightarrow> Inr [event p])"

definition parse_gitlab :: parser where
  "parse_gitlab now event_type event_id body =
     (let ty = normalize_event_type event_type; delivery = fallback_delivery event_id body in
      if ty = ''push hook''
      then parsed (unmarshal_struct decode_gitlab_push empty_gitlab_push body) (gitlab_push_event now delivery)
      else if ty = ''merge request hook''
      then parsed (unmarshal_struct decode_gitlab_merge
             \<lparr>gm_project = ([], []), gm_username = [], gm_attributes = empty_merge_attributes\<rparr> body)
             (gitlab_merge_event now delivery)
      else Inl (UnsupportedEvent ''gitlab'' ty))"

subsection \<open>Bitbucket\<close>

record bitbucket_change =
  bc_name :: string
  bc_hash :: string
  bc_date :: string
  bc_message :: string

definition empty_bitbucket_change :: bitbucket_change where
  "empty_bitbucket_change = \<lparr>bc_name = [], bc_hash = [], bc_date = [], bc_message = []\<rparr>"

definition decode_target :: "(string \<times> gval) list \<Rightarrow> bitbucket_change \<Rightarrow> bitbucket_change option" where
  "decode_target ms old =
     do { hash \<leftarrow> struct_field decode_string ''hash'' (bc_hash old) ms;
          date \<leftarrow> struct_field decode_string ''date'' (bc_date old) ms;
          message \<leftarrow> struct_field decode_string ''message'' (bc_message old) ms;
          Some (old\<lparr>bc_hash := hash, bc_date := date, bc_message := message\<rparr>) }"

definition decode_new :: "(string \<times> gval) list \<Rightarrow> bitbucket_change \<Rightarrow> bitbucket_change option" where
  "decode_new ms old =
     do { name \<leftarrow> struct_field decode_string ''name'' (bc_name old) ms;
          target \<leftarrow> struct_field (decode_struct decode_target) ''target'' old ms;
          Some (target\<lparr>bc_name := name\<rparr>) }"

definition decode_change :: "(string \<times> gval) list \<Rightarrow> bitbucket_change \<Rightarrow> bitbucket_change option" where
  "decode_change ms old = struct_field (decode_struct decode_new) ''new'' old ms"

definition decode_changes :: "(string \<times> gval) list \<Rightarrow> bitbucket_change list \<Rightarrow> bitbucket_change list option" where
  "decode_changes ms old = struct_field (decode_slice (decode_struct decode_change) empty_bitbucket_change) ''changes'' old ms"

definition decode_display_name :: "(string \<times> gval) list \<Rightarrow> string \<Rightarrow> string option" where
  "decode_display_name ms old = struct_field decode_string ''display_name'' old ms"

text \<open>A repository is its name and its full name.\<close>

record bitbucket_push =
  bp_repository :: "string \<times> string"
  bp_actor :: string
  bp_changes :: "bitbucket_change list"

definition decode_bitbucket_push :: "(string \<times> gval) list \<Rightarrow> bitbucket_push \<Rightarrow> bitbucket_push option" where
  "decode_bitbucket_push ms old =
     do { repository \<leftarrow> struct_field (decode_struct (decode_pair ''name'' ''full_name'')) ''repository'' (bp_repository old) ms;
          actor \<leftarrow> struct_field (decode_struct decode_display_name) ''actor'' (bp_actor old) ms;
          changes \<leftarrow> struct_field (decode_struct decode_changes) ''push'' (bp_changes old) ms;
          Some \<lparr>bp_repository = repository, bp_actor = actor, bp_changes = changes\<rparr> }"

record bitbucket_source =
  bs_branch :: string
  bs_hash :: string
  bs_repository :: "string \<times> string"

definition decode_one :: "string \<Rightarrow> (string \<times> gval) list \<Rightarrow> string \<Rightarrow> string option" where
  "decode_one name ms old = struct_field decode_string name old ms"

definition decode_source :: "(string \<times> gval) list \<Rightarrow> bitbucket_source \<Rightarrow> bitbucket_source option" where
  "decode_source ms old =
     do { branch \<leftarrow> struct_field (decode_struct (decode_one ''name'')) ''branch'' (bs_branch old) ms;
          hash \<leftarrow> struct_field (decode_struct (decode_one ''hash'')) ''commit'' (bs_hash old) ms;
          repository \<leftarrow> struct_field (decode_struct (decode_pair ''name'' ''full_name'')) ''repository'' (bs_repository old) ms;
          Some \<lparr>bs_branch = branch, bs_hash = hash, bs_repository = repository\<rparr> }"

record bitbucket_pull_request =
  br_id :: int
  br_created_on :: string
  br_updated_on :: string
  br_title :: string
  br_description :: string
  br_source :: bitbucket_source

definition decode_bitbucket_pull_request ::
    "(string \<times> gval) list \<Rightarrow> bitbucket_pull_request \<Rightarrow> bitbucket_pull_request option" where
  "decode_bitbucket_pull_request ms old =
     do { i \<leftarrow> struct_field decode_int ''id'' (br_id old) ms;
          created \<leftarrow> struct_field decode_string ''created_on'' (br_created_on old) ms;
          updated \<leftarrow> struct_field decode_string ''updated_on'' (br_updated_on old) ms;
          title \<leftarrow> struct_field decode_string ''title'' (br_title old) ms;
          description \<leftarrow> struct_field decode_string ''description'' (br_description old) ms;
          src \<leftarrow> struct_field (decode_struct decode_source) ''source'' (br_source old) ms;
          Some \<lparr>br_id = i, br_created_on = created, br_updated_on = updated, br_title = title,
            br_description = description, br_source = src\<rparr> }"

record bitbucket_pull =
  bl_repository :: "string \<times> string"
  bl_actor :: string
  bl_pull_request :: bitbucket_pull_request

definition decode_bitbucket_pull :: "(string \<times> gval) list \<Rightarrow> bitbucket_pull \<Rightarrow> bitbucket_pull option" where
  "decode_bitbucket_pull ms old =
     do { repository \<leftarrow> struct_field (decode_struct (decode_pair ''name'' ''full_name'')) ''repository'' (bl_repository old) ms;
          actor \<leftarrow> struct_field (decode_struct decode_display_name) ''actor'' (bl_actor old) ms;
          request \<leftarrow> struct_field (decode_struct decode_bitbucket_pull_request) ''pullrequest'' (bl_pull_request old) ms;
          Some \<lparr>bl_repository = repository, bl_actor = actor, bl_pull_request = request\<rparr> }"

definition empty_bitbucket_pull :: bitbucket_pull where
  "empty_bitbucket_pull =
     \<lparr>bl_repository = ([], []), bl_actor = [],
      bl_pull_request = \<lparr>br_id = 0, br_created_on = [], br_updated_on = [], br_title = [], br_description = [],
        br_source = \<lparr>bs_branch = [], bs_hash = [], bs_repository = ([], [])\<rparr>\<rparr>\<rparr>"

definition bitbucket_push_event :: "time \<Rightarrow> string \<Rightarrow> bitbucket_push \<Rightarrow> stored_event" where
  "bitbucket_push_event now delivery p =
     (let repo = non_empty (snd (bp_repository p)) (fst (bp_repository p));
          c = (case bp_changes p of [] \<Rightarrow> empty_bitbucket_change | c # _ \<Rightarrow> c)
      in scm_event ''bitbucket'' delivery ''push'' (parse_time_or_now now (bc_date c))
           (non_empty (bp_actor p) ''unknown'') repo (bc_hash c) (''ref'', bc_name c)
           (extract_issue_keys (concat (map (\<lambda>c. [bc_name c, bc_message c]) (bp_changes p)))))"

definition pull_event_type :: "string \<Rightarrow> string" where
  "pull_event_type ty =
     (if ty = ''pullrequest:created'' then ''pull_request_opened''
      else if ty = ''pullrequest:fulfilled'' then ''pull_request_merged''
      else if ty = ''pullrequest:rejected'' then ''pull_request_closed''
      else ''pull_request_updated'')"

definition bitbucket_pull_event :: "time \<Rightarrow> string \<Rightarrow> string \<Rightarrow> bitbucket_pull \<Rightarrow> stored_event" where
  "bitbucket_pull_event now ty delivery p =
     (let r = bl_pull_request p; s = br_source r;
          repo = non_empty (snd (bl_repository p)) (fst (bl_repository p));
          repo = (if repo = [] then non_empty (snd (bs_repository s)) (fst (bs_repository s)) else repo)
      in scm_event ''bitbucket'' delivery (pull_event_type ty)
           (parse_time_or_now now (non_empty (br_updated_on r) (br_created_on r)))
           (non_empty (bl_actor p) ''unknown'') repo (bs_hash s) (''pr_id'', show_int (br_id r))
           (extract_issue_keys [br_title r, br_description r, bs_branch s]))"

definition parse_bitbucket :: parser where
  "parse_bitbucket now event_type event_id body =
     (let ty = normalize_event_type event_type; delivery = fallback_delivery event_id body in
      if ty = ''repo:push''
      then parsed (unmarshal_struct decode_bitbucket_push \<lparr>bp_repository = ([], []), bp_actor = [], bp_changes = []\<rparr> body)
             (bitbucket_push_event now delivery)
      else if ty \<in> {''pullrequest:created'', ''pullrequest:fulfilled'', ''pullrequest:rejected'', ''pullrequest:updated''}
      then parsed (unmarshal_struct decode_bitbucket_pull empty_bitbucket_pull body) (bitbucket_pull_event now ty delivery)
      else Inl (UnsupportedEvent ''bitbucket'' ty))"

subsection \<open>GitHub\<close>

text \<open>
  The accessors of go-github read a nil pointer as the zero value. A head commit has a time and a
  message, a repository its full name and its name.
\<close>

record gh_push =
  gp_repo :: "(string \<times> string) option"
  gp_pusher :: "string option"
  gp_head :: "(time \<times> string) option"
  gp_after :: string
  gp_ref :: string
  gp_commits :: "string option list"

record gh_pull =
  gq_merged :: bool
  gq_merge_commit_sha :: string
  gq_head_sha :: string
  gq_head_ref :: string
  gq_base_ref :: string
  gq_title :: string
  gq_body :: string
  gq_number :: int
  gq_updated :: "time option"
  gq_created :: "time option"

record gh_pull_request =
  gr_repo :: "(string \<times> string) option"
  gr_action :: string
  gr_sender :: string
  gr_pull :: "gh_pull option"

record github_decoder =
  gd_push :: "string \<Rightarrow> gh_push option"
  gd_pull_request :: "string \<Rightarrow> gh_pull_request option"

definition repo_full_name :: "(string \<times> string) option \<Rightarrow> string" where
  "repo_full_name repo = (case repo of None \<Rightarrow> ''unknown'' | Some (full, name) \<Rightarrow> non_empty full name)"

definition head_commit_timestamp :: "(time \<times> string) option \<Rightarrow> string" where
  "head_commit_timestamp c = (case c of None \<Rightarrow> [] | Some (t, _) \<Rightarrow> format_rfc3339 t)"

definition push_ticket_sources :: "gh_push \<Rightarrow> string list" where
  "push_ticket_sources p =
     gp_ref p # (case gp_head p of None \<Rightarrow> [] | Some (_, m) \<Rightarrow> [m]) @ List.map_filter (\<lambda>c. c) (gp_commits p)"

definition pr_ticket_sources :: "gh_pull_request \<Rightarrow> string list" where
  "pr_ticket_sources p =
     (case gr_pull p of None \<Rightarrow> [] | Some q \<Rightarrow> [gq_title q, gq_body q, gq_head_ref q, gq_base_ref q])"

definition github_push_event :: "time \<Rightarrow> string \<Rightarrow> gh_push \<Rightarrow> stored_event" where
  "github_push_event now delivery p =
     scm_event ''github'' delivery ''push'' (parse_time_or_now now (head_commit_timestamp (gp_head p)))
       (non_empty (case gp_pusher p of None \<Rightarrow> [] | Some n \<Rightarrow> n) ''unknown'') (repo_full_name (gp_repo p)) (gp_after p)
       (''ref'', gp_ref p) (extract_issue_keys (push_ticket_sources p))"

definition pull_request_event_type :: "gh_pull_request \<Rightarrow> string" where
  "pull_request_event_type p =
     (let a = to_lower (gr_action p) in
      if a = ''opened'' then ''pull_request_opened''
      else if a = ''closed'' then
        (case gr_pull p of
           Some q \<Rightarrow> if gq_merged q then ''pull_request_merged'' else ''pull_request_closed''
         | None \<Rightarrow> ''pull_request_closed'')
      else ''pull_request_updated'')"

definition time_text :: "time option \<Rightarrow> string" where
  "time_text t = (case t of None \<Rightarrow> [] | Some t \<Rightarrow> format_rfc3339 t)"

definition github_pull_event :: "time \<Rightarrow> string \<Rightarrow> gh_pull_request \<Rightarrow> stored_event" where
  "github_pull_event now delivery p =
     scm_event ''github'' delivery (pull_request_event_type p)
       (parse_time_or_now now (case gr_pull p of None \<Rightarrow> [] | Some q \<Rightarrow> non_empty (time_text (gq_updated q)) (time_text (gq_created q))))
       (non_empty (gr_sender p) ''unknown'') (repo_full_name (gr_repo p))
       (case gr_pull p of None \<Rightarrow> [] | Some q \<Rightarrow> non_empty (gq_merge_commit_sha q) (gq_head_sha q))
       (''pr_id'', show_int (case gr_pull p of None \<Rightarrow> 0 | Some q \<Rightarrow> gq_number q))
       (extract_issue_keys (pr_ticket_sources p))"

definition parse_github :: "github_decoder \<Rightarrow> parser" where
  "parse_github D now event_type event_id body =
     (let ty = normalize_event_type event_type; delivery = fallback_delivery event_id body in
      if ty = ''push'' then parsed (gd_push D body) (github_push_event now delivery)
      else if ty = ''pull_request'' then parsed (gd_pull_request D body) (github_pull_event now delivery)
      else Inl (UnsupportedEvent ''github'' ty))"

end
