(* ===== verification/Webhooks.thy ===== *)
theory Webhooks
  imports Providers
begin

text \<open>
  The adapters of the providers and their registry (\<open>internal/ingest/registry.go\<close>, \<open>interfaces.go\<close>).
  The Go interface \<open>WebhookAdapter\<close> is the record \<open>adapter\<close>; a nil pointer is \<open>None\<close>. What every
  parser promises is the locale \<open>webhook_parser\<close>, with the three parsers as instances.
\<close>

subsection \<open>Adapters\<close>

record adapter =
  ad_provider :: string
  ad_type_header :: string
  ad_id_header :: string
  ad_authorize :: "(string \<Rightarrow> string) \<Rightarrow> string \<Rightarrow> provider_error option"
  ad_parse :: parser

definition valid_sha256_signature :: "string \<Rightarrow> string \<Rightarrow> string \<Rightarrow> bool" where
  "valid_sha256_signature secret body header =
     (let header = trim_space header in
      if header = [] then False
      else (case split_n2 (CHR ''='') header of
              [alg, sig] \<Rightarrow>
                equal_fold alg ''sha256'' \<and> hex_decode (trim_space sig) = Some (hmac_sha256 secret body)
            | _ \<Rightarrow> False))"

definition value_or :: "string \<Rightarrow> string \<Rightarrow> string" where
  "value_or v fallback = (if trim_space v = [] then fallback else v)"

record github_adapter =
  ga_parser :: "parser option"
  ga_signature_header :: string
  ga_secret :: string

definition new_github_adapter :: "github_decoder \<Rightarrow> string \<Rightarrow> github_adapter" where
  "new_github_adapter D secret =
     \<lparr>ga_parser = Some (parse_github D), ga_signature_header = ''X-Hub-Signature-256'', ga_secret = secret\<rparr>"

definition authorize_github :: "github_adapter \<Rightarrow> (string \<Rightarrow> string) \<Rightarrow> string \<Rightarrow> provider_error option" where
  "authorize_github A get body =
     (let secret = trim_space (ga_secret A) in
      if secret = [] then None
      else if \<not> valid_sha256_signature secret body (trim_space (get (value_or (ga_signature_header A) ''X-Hub-Signature-256'')))
      then Some (BadSignature ''github'') else None)"

definition github_interface :: "github_decoder \<Rightarrow> github_adapter \<Rightarrow> adapter" where
  "github_interface D A =
     \<lparr>ad_provider = ''github'', ad_type_header = ''X-GitHub-Event'', ad_id_header = ''X-GitHub-Delivery'',
      ad_authorize = authorize_github A,
      ad_parse = (case ga_parser A of None \<Rightarrow> parse_github D | Some p \<Rightarrow> p)\<rparr>"

record gitlab_adapter =
  gx_parser :: "parser option"
  gx_token_header :: string
  gx_token :: string

definition new_gitlab_adapter :: "string \<Rightarrow> gitlab_adapter" where
  "new_gitlab_adapter token =
     \<lparr>gx_parser = Some parse_gitlab, gx_token_header = ''X-Gitlab-Token'', gx_token = token\<rparr>"

definition authorize_gitlab :: "gitlab_adapter \<Rightarrow> (string \<Rightarrow> string) \<Rightarrow> string \<Rightarrow> provider_error option" where
  "authorize_gitlab A get body =
     (let token = trim_space (gx_token A) in
      if token = [] then None
      else if trim_space (get (value_or (gx_token_header A) ''X-Gitlab-Token'')) \<noteq> token then Some BadToken
      else None)"

definition gitlab_interface :: "gitlab_adapter \<Rightarrow> adapter" where
  "gitlab_interface A =
     \<lparr>ad_provider = ''gitlab'', ad_type_header = ''X-Gitlab-Event'', ad_id_header = ''X-Gitlab-Event-UUID'',
      ad_authorize = authorize_gitlab A,
      ad_parse = (case gx_parser A of None \<Rightarrow> parse_gitlab | Some p \<Rightarrow> p)\<rparr>"

text \<open>A policy is a header and a secret.\<close>

record bitbucket_adapter =
  bx_parser :: "parser option"
  bx_policies :: "(string \<times> string) list"

definition new_bitbucket_adapter :: "string \<Rightarrow> bitbucket_adapter" where
  "new_bitbucket_adapter secret =
     \<lparr>bx_parser = Some parse_bitbucket, bx_policies = [(''X-Hub-Signature'', secret), (''X-Hub-Signature-256'', secret)]\<rparr>"

text \<open>The loop, with the flag that a policy had a secret.\<close>

fun check_policies :: "(string \<Rightarrow> string) \<Rightarrow> string \<Rightarrow> bool \<Rightarrow> (string \<times> string) list \<Rightarrow> provider_error option" where
  "check_policies get body has_secret [] = (if has_secret then Some (BadSignature ''bitbucket'') else None)"
| "check_policies get body has_secret ((name, secret) # ps) =
     (let secret = trim_space secret; header = trim_space (get (trim_space name)) in
      if secret = [] then check_policies get body has_secret ps
      else if header = [] then check_policies get body True ps
      else if valid_sha256_signature secret body header then None
      else Some (BadSignature ''bitbucket''))"

definition authorize_bitbucket :: "bitbucket_adapter \<Rightarrow> (string \<Rightarrow> string) \<Rightarrow> string \<Rightarrow> provider_error option" where
  "authorize_bitbucket A get body = (if bx_policies A = [] then None else check_policies get body False (bx_policies A))"

definition bitbucket_interface :: "bitbucket_adapter \<Rightarrow> adapter" where
  "bitbucket_interface A =
     \<lparr>ad_provider = ''bitbucket'', ad_type_header = ''X-Event-Key'', ad_id_header = ''X-Request-UUID'',
      ad_authorize = authorize_bitbucket A,
      ad_parse = (case bx_parser A of None \<Rightarrow> parse_bitbucket | Some p \<Rightarrow> p)\<rparr>"

subsection \<open>The registry\<close>

type_synonym registry = "(string \<times> adapter) list option"

definition new_registry :: registry where
  "new_registry = Some []"

definition register :: "adapter option \<Rightarrow> registry \<Rightarrow> registry" where
  "register a r =
     (case (r, a) of
        (Some ps, Some a) \<Rightarrow> Some (AList.update (to_lower (trim_space (ad_provider a))) a ps)
      | _ \<Rightarrow> r)"

definition registry_adapter :: "registry \<Rightarrow> string \<Rightarrow> provider_error + adapter" where
  "registry_adapter r provider =
     (case r of
        None \<Rightarrow> Inl NilRegistry
      | Some ps \<Rightarrow>
          (case map_of ps (to_lower (trim_space provider)) of
             None \<Rightarrow> Inl (UnsupportedProvider provider)
           | Some a \<Rightarrow> Inr a))"

definition registry_parse ::
    "registry \<Rightarrow> string \<Rightarrow> time \<Rightarrow> string \<Rightarrow> string \<Rightarrow> string \<Rightarrow> provider_error + stored_event list" where
  "registry_parse r provider now event_type event_id body =
     (case registry_adapter r provider of
        Inl err \<Rightarrow> Inl err
      | Inr a \<Rightarrow> ad_parse a now event_type event_id body)"

definition registry_parse_headers ::
    "registry \<Rightarrow> string \<Rightarrow> time \<Rightarrow> (string \<Rightarrow> string) \<Rightarrow> string \<Rightarrow> provider_error + stored_event list" where
  "registry_parse_headers r provider now get body =
     (case registry_adapter r provider of
        Inl err \<Rightarrow> Inl err
      | Inr a \<Rightarrow> ad_parse a now (get (ad_type_header a)) (get (ad_id_header a)) body)"

definition registry_authorize :: "registry \<Rightarrow> string \<Rightarrow> (string \<Rightarrow> string) \<Rightarrow> string \<Rightarrow> provider_error option" where
  "registry_authorize r provider get body =
     (case registry_adapter r provider of Inl err \<Rightarrow> Some err | Inr a \<Rightarrow> ad_authorize a get body)"

definition registry_headers :: "registry \<Rightarrow> string \<Rightarrow> provider_error + string \<times> string" where
  "registry_headers r provider =
     (case registry_adapter r provider of Inl err \<Rightarrow> Inl err | Inr a \<Rightarrow> Inr (ad_type_header a, ad_id_header a))"

definition must_have_providers :: "registry \<Rightarrow> provider_error option" where
  "must_have_providers r =
     (case r of None \<Rightarrow> Some NilRegistry | Some ps \<Rightarrow> if ps = [] then Some EmptyRegistry else None)"

subsection \<open>Issue keys\<close>

lemma add_unseen_distinct: "distinct out \<Longrightarrow> distinct (add_unseen out ks)"
  by (induction out ks rule: add_unseen.induct) auto

lemma add_unseen_set [simp]: "set (add_unseen out ks) = set out \<union> set ks"
  by (induction out ks rule: add_unseen.induct) auto

lemma extract_issue_keys_distinct: "distinct (extract_issue_keys vs)"
  by (simp add: extract_issue_keys_def add_unseen_distinct)

text \<open>The shape of a key.\<close>

definition issue_key :: "string \<Rightarrow> bool" where
  "issue_key k \<longleftrightarrow>
     (\<exists>p d. k = p @ ''-'' @ d \<and> 2 \<le> length p \<and> is_upper (hd p) \<and> (\<forall>c\<in>set p. is_upper c \<or> is_digit c) \<and>
        d \<noteq> [] \<and> (\<forall>c\<in>set d. is_digit c))"

lemma issue_key_at_shape:
  assumes "issue_key_at s = Some k"
  shows "issue_key k"
proof -
  let ?p = "takeWhile (\<lambda>c. is_upper c \<or> is_digit c) s"
  let ?d = "takeWhile is_digit (drop 1 (drop (length ?p) s))"
  have "k = ?p @ ''-'' @ ?d" "2 \<le> length ?p" "is_upper (hd ?p)" "?d \<noteq> []"
    using assms by (auto simp: issue_key_at_def Let_def split: if_splits)
  then show ?thesis
    unfolding issue_key_def by (intro exI [of _ ?p] exI [of _ ?d]) (auto dest: set_takeWhileD)
qed

lemma find_issue_keys_shape: "k \<in> set (find_issue_keys w s) \<Longrightarrow> issue_key k"
proof (induction w s rule: find_issue_keys.induct)
  case (2 w c s)
  then show ?case
    by (cases "if w then None else issue_key_at (c # s)") (auto dest: issue_key_at_shape split: if_splits)
qed simp

lemma extract_issue_keys_shape: "k \<in> set (extract_issue_keys vs) \<Longrightarrow> issue_key k"
  by (auto simp: extract_issue_keys_def dest: find_issue_keys_shape)

subsection \<open>What a parser promises\<close>

lemma make_id_chars:
  assumes "\<forall>c\<in>set provider. id_char c"
  shows "\<forall>c\<in>set (make_id provider delivery 0). id_char c"
proof -
  have "\<forall>c\<in>set (id_byte d). id_char c" for d
    by (auto simp: id_byte_def id_char_def)
  moreover have "\<forall>c\<in>set (show_int 0). id_char c" by code_simp
  moreover have "\<forall>c\<in>set ''evt_''. id_char c" by code_simp
  ultimately show ?thesis using assms by (auto simp: make_id_def id_char_def)
qed

locale webhook_parser =
  fixes name :: string and parse :: parser
  assumes name_chars: "\<forall>c\<in>set name. id_char c" and name_nonempty: "name \<noteq> []"
    and parse_event: "parse now ty i body = Inr es \<Longrightarrow>
      \<exists>kind t initiator repo commit extra vs.
        es = [scm_event name (fallback_delivery i body) kind t initiator repo commit extra (extract_issue_keys vs)] \<and>
        kind \<noteq> [] \<and> fst extra \<in> {''ref'', ''pr_id''}"
begin

lemma parse_id:
  "parse now ty i body = Inr es \<Longrightarrow> \<exists>e. es = [e] \<and> ev_id e = make_id name (fallback_delivery i body) 0 \<and> ev_source e = name"
  by (drule parse_event) (auto simp: scm_event_def)

lemma parse_keys:
  assumes "parse now ty i body = Inr [e]" "map_of (ev_extensions e) ''ticket_keys'' = Some (GStrs ks)"
  shows "distinct ks \<and> (\<forall>k\<in>set ks. issue_key k)"
  using parse_event [OF assms(1)] assms(2) extract_issue_keys_distinct extract_issue_keys_shape
  by (auto simp: scm_event_def scm_extensions_def split: if_splits)

lemma parse_storable:
  assumes "parse now ty i body = Inr [e]" "ev_time e \<noteq> 0"
  shows "validate_stored_event e \<and> (\<exists>h. compute_integrity_hash e = Inr h)"
proof -
  obtain kind t initiator repo commit extra vs where
    e: "e = scm_event name (fallback_delivery i body) kind t initiator repo commit extra (extract_issue_keys vs)"
    and k: "kind \<noteq> []" "fst extra \<in> {''ref'', ''pr_id''}"
    using parse_event [OF assms(1)] by auto
  have d: "ev_data e = marshal (GObj (scm_data repo commit extra))" by (simp add: e scm_event_def del: marshal.simps)
  have "json_plain (GObj (scm_data repo commit extra))" using k(2) by (auto simp: scm_data_def)
  then have "\<exists>h. compute_integrity_hash e = Inr h"
    using unmarshal_marshal [of "GObj (scm_data repo commit extra)"]
    by (simp add: compute_integrity_hash_def canonical_text_def marshal_raw_def d del: marshal.simps)
  moreover have "validate_stored_event e"
    using k(1) assms(2) name_nonempty unfolding validate_stored_event_def d
    by (simp add: e scm_event_def make_id_def json_object_def)
  ultimately show ?thesis by simp
qed

end

lemma merge_event_type_nonempty [simp]: "merge_event_type a \<noteq> []"
  by (simp add: merge_event_type_def Let_def)

lemma pull_event_type_nonempty [simp]: "pull_event_type a \<noteq> []"
  by (simp add: pull_event_type_def)

lemma pull_request_event_type_nonempty [simp]: "pull_request_event_type a \<noteq> []"
  by (simp add: pull_request_event_type_def Let_def split: option.split)

interpretation gitlab: webhook_parser "''gitlab''" parse_gitlab
proof
  fix now ty i body es assume "parse_gitlab now ty i body = Inr es"
  then show "\<exists>kind t initiator repo commit extra vs.
      es = [scm_event ''gitlab'' (fallback_delivery i body) kind t initiator repo commit extra (extract_issue_keys vs)] \<and>
      kind \<noteq> [] \<and> fst extra \<in> {''ref'', ''pr_id''}"
    by (auto simp: parse_gitlab_def parsed_def gitlab_push_event_def gitlab_merge_event_def Let_def
        split: if_splits option.splits) fastforce+
qed (simp_all add: id_char_def)

interpretation bitbucket: webhook_parser "''bitbucket''" parse_bitbucket
proof
  fix now ty i body es assume "parse_bitbucket now ty i body = Inr es"
  then show "\<exists>kind t initiator repo commit extra vs.
      es = [scm_event ''bitbucket'' (fallback_delivery i body) kind t initiator repo commit extra (extract_issue_keys vs)] \<and>
      kind \<noteq> [] \<and> fst extra \<in> {''ref'', ''pr_id''}"
    by (auto simp: parse_bitbucket_def parsed_def bitbucket_push_event_def bitbucket_pull_event_def Let_def
        split: if_splits option.splits) fastforce+
qed (simp_all add: id_char_def)

interpretation github: webhook_parser "''github''" "parse_github D" for D
proof
  fix now ty i body es assume "parse_github D now ty i body = Inr es"
  then show "\<exists>kind t initiator repo commit extra vs.
      es = [scm_event ''github'' (fallback_delivery i body) kind t initiator repo commit extra (extract_issue_keys vs)] \<and>
      kind \<noteq> [] \<and> fst extra \<in> {''ref'', ''pr_id''}"
    by (auto simp: parse_github_def parsed_def github_push_event_def github_pull_event_def Let_def
        split: if_splits option.splits) fastforce+
qed (simp_all add: id_char_def)

subsection \<open>Properties\<close>

text \<open>What a delivery of a provider must give.\<close>

definition delivered :: "string \<Rightarrow> string \<Rightarrow> stored_event list \<Rightarrow> bool" where
  "delivered name delivery es \<longleftrightarrow>
     (\<exists>e. es = [e] \<and> ev_source e = name \<and> ev_id e = make_id name delivery 0 \<and> (\<forall>c\<in>set (ev_id e). id_char c) \<and>
        (ev_time e \<noteq> 0 \<longrightarrow> validate_stored_event e \<and> (\<exists>h. compute_integrity_hash e = Inr h)) \<and>
        (\<forall>ks. map_of (ev_extensions e) ''ticket_keys'' = Some (GStrs ks) \<longrightarrow> distinct ks \<and> (\<forall>k\<in>set ks. issue_key k)))"

context webhook_parser
begin

lemma parse_delivered: "parse now ty i body = Inr es \<Longrightarrow> delivered name (fallback_delivery i body) es"
proof -
  assume p: "parse now ty i body = Inr es"
  then obtain e where e: "es = [e]" "ev_id e = make_id name (fallback_delivery i body) 0" "ev_source e = name"
    using parse_id by blast
  moreover have "\<forall>c\<in>set (ev_id e). id_char c" unfolding e(2) by (rule make_id_chars [OF name_chars])
  ultimately show ?thesis
    using parse_keys [OF p [unfolded e(1)]] parse_storable [OF p [unfolded e(1)]] unfolding delivered_def by blast
qed

end

definition standard_registry :: "github_decoder \<Rightarrow> string \<Rightarrow> string \<Rightarrow> string \<Rightarrow> registry" where
  "standard_registry D github_secret gitlab_token bitbucket_secret =
     register (Some (github_interface D (new_github_adapter D github_secret)))
       (register (Some (gitlab_interface (new_gitlab_adapter gitlab_token)))
         (register (Some (bitbucket_interface (new_bitbucket_adapter bitbucket_secret))) new_registry))"

lemma provider_names:
  "to_lower (trim_space ''github'') = ''github''" "to_lower (trim_space ''gitlab'') = ''gitlab''"
  "to_lower (trim_space ''bitbucket'') = ''bitbucket''"
  by code_simp+

lemma interface_fields [simp]:
  "ad_provider (github_interface D a) = ''github''" "ad_parse (github_interface D (new_github_adapter D s)) = parse_github D"
  "ad_provider (gitlab_interface b) = ''gitlab''" "ad_parse (gitlab_interface (new_gitlab_adapter t)) = parse_gitlab"
  "ad_provider (bitbucket_interface c) = ''bitbucket''"
  "ad_parse (bitbucket_interface (new_bitbucket_adapter u)) = parse_bitbucket"
  by (simp_all add: github_interface_def gitlab_interface_def bitbucket_interface_def new_github_adapter_def
      new_gitlab_adapter_def new_bitbucket_adapter_def)

lemma standard_registry_entries:
  "standard_registry D s t u =
     Some [(''bitbucket'', bitbucket_interface (new_bitbucket_adapter u)), (''gitlab'', gitlab_interface (new_gitlab_adapter t)),
       (''github'', github_interface D (new_github_adapter D s))]"
  by (simp add: standard_registry_def register_def new_registry_def provider_names)

lemma registry_parse_standard:
  "registry_parse (standard_registry D s t u) provider now ty i body =
     (if to_lower (trim_space provider) = ''bitbucket'' then parse_bitbucket now ty i body
      else if to_lower (trim_space provider) = ''gitlab'' then parse_gitlab now ty i body
      else if to_lower (trim_space provider) = ''github'' then parse_github D now ty i body
      else Inl (UnsupportedProvider provider))"
  unfolding registry_parse_def registry_adapter_def standard_registry_entries by simp


definition sample_gitlab_body :: string where
  "sample_gitlab_body =
     json_object [(''ref'', quote_string ''refs/heads/ops-9-fix''), (''checkout_sha'', quote_string ''abc''),
       (''project'', json_object [(''name'', quote_string ''shop'')])]"

lemma sample_gitlab_push:
  "unmarshal_struct decode_gitlab_push empty_gitlab_push sample_gitlab_body =
     Some \<lparr>gl_ref = ''refs/heads/ops-9-fix'', gl_checkout_sha = ''abc'', gl_event_created_at = [], gl_user_username = [],
       gl_project = (''shop'', []), gl_commits = []\<rparr>"
  by code_simp

lemma sample_issue_keys: "extract_issue_keys [''refs/heads/ops-9-fix''] = [''OPS-9'']"
  by code_simp

definition sample_decoder :: github_decoder where
  "sample_decoder = \<lparr>gd_push = (\<lambda>_. None), gd_pull_request = (\<lambda>_. None)\<rparr>"


end
