(* ===== verification/Kubernetes_Collector.thy ===== *)
theory Kubernetes_Collector
  imports Repository
begin

text \<open>
  The Kubernetes collector of \<open>internal/providers/kubernetes/collector.go\<close>: how an event of a
  cluster becomes a supporting observation, when events of a life cycle are collapsed into windows of
  five minutes around an Argo CD sync, one poll, and the run of polls with the client they use.

  A Kubernetes event is the record of the fields that the code reads of \<open>corev1.Event\<close>. What the
  client has listed is an argument of the poll; each event comes with the two readings of the clock
  that its handling makes, in the normalization and in the repository.
\<close>

subsection \<open>Events and configuration\<close>

record k8s_event =
  ke_uid :: string
  ke_resource_version :: string
  ke_namespace :: string
  ke_reason :: string
  ke_message :: string
  ke_type :: string
  ke_controller :: string
  ke_component :: string
  ke_involved_kind :: string
  ke_involved_name :: string
  ke_involved_namespace :: string
  ke_event_time :: time
  ke_last_timestamp :: time
  ke_first_timestamp :: time
  ke_series :: "time option"

record k8s_config =
  kf_interval :: int
  kf_namespace :: string
  kf_cluster :: string
  kf_environment :: string

record 's k8s_collector =
  kc_interval :: int
  kc_namespace :: string
  kc_cluster :: string
  kc_environment :: string
  kc_client :: bool
  kc_sink :: "'s repository option"

text \<open>\<open>kc_client\<close> says whether there is a client.\<close>

definition new_k8s_collector :: "k8s_config \<Rightarrow> bool \<Rightarrow> 's repository option \<Rightarrow> 's k8s_collector" where
  "new_k8s_collector cfg client sink =
     \<lparr>kc_interval = (if kf_interval cfg \<le> 0 then 30 * second else kf_interval cfg),
      kc_namespace = trim_space (kf_namespace cfg),
      kc_cluster = (if trim_space (kf_cluster cfg) = [] then ''unknown'' else trim_space (kf_cluster cfg)),
      kc_environment = (if trim_space (kf_environment cfg) = [] then ''unknown'' else trim_space (kf_environment cfg)),
      kc_client = client, kc_sink = sink\<rparr>"

subsection \<open>Normalization\<close>

definition infer_app :: "k8s_event \<Rightarrow> string" where
  "infer_app e =
     (if trim_space (ke_involved_name e) = [] then ''unknown'' else trim_space (ke_involved_name e))"

definition is_lifecycle_noise :: "string \<Rightarrow> bool" where
  "is_lifecycle_noise reason \<longleftrightarrow>
     to_lower (trim_space reason) \<in>
       {''pulled'', ''pulling'', ''created'', ''started'', ''killing'', ''scheduled'', ''successfulcreate''}"

definition event_timestamp :: "time \<Rightarrow> k8s_event \<Rightarrow> time" where
  "event_timestamp now e =
     (if \<not> is_zero (ke_event_time e) then ke_event_time e
      else if \<not> is_zero (ke_last_timestamp e) then ke_last_timestamp e
      else if \<not> is_zero (ke_first_timestamp e) then ke_first_timestamp e
      else (case ke_series e of
              Some t \<Rightarrow> if \<not> is_zero t then t else now
            | None \<Rightarrow> now))"

definition event_actor :: "k8s_event \<Rightarrow> string" where
  "event_actor e =
     (let actor = trim_space (ke_controller e);
          actor = (if actor = [] then trim_space (ke_component e) else actor)
      in if actor = [] then ''kubernetes'' else actor)"

definition event_id :: "time \<Rightarrow> k8s_event \<Rightarrow> string" where
  "event_id now e =
     (if trim_space (ke_resource_version e) = [] then ''evt_k8s_'' @ ke_uid e @ ''_'' @ show_int (unix_nano now)
      else ''evt_k8s_'' @ ke_uid e @ ''_'' @ ke_resource_version e)"

text \<open>The type of the event and the class of the observation.\<close>

definition event_class :: "k8s_event \<Rightarrow> string \<times> string" where
  "event_class e =
     (if is_lifecycle_noise (to_lower (trim_space (ke_reason e))) then (''k8s.supporting.lifecycle'', ''lifecycle_noise'')
      else if equal_fold (trim_space (ke_type e)) ''warning'' then (''k8s.incident.signal'', ''incident_signal'')
      else (''k8s.supporting.observation'', ''supporting_evidence''))"

definition event_reason :: "k8s_event \<Rightarrow> string" where
  "event_reason e =
     (let reason = to_lower (trim_space (ke_reason e)) in if reason = [] then ''resource_event'' else reason)"

definition k8s_extensions :: "'s k8s_collector \<Rightarrow> k8s_event \<Rightarrow> (string \<times> gval) list" where
  "k8s_extensions C e =
     [(''cluster'', GStr (kc_cluster C)), (''namespace'', GStr (kc_environment C)), (''initiator'', GStr (event_actor e)),
      (''supporting_observation'', GBool True), (''supporting_class'', GStr (snd (event_class e))),
      (''event_reason'', GStr (event_reason e)), (''k8s_namespace'', GStr (ke_namespace e)),
      (''involved_kind'', GStr (ke_involved_kind e)), (''involved_name'', GStr (ke_involved_name e)),
      (''involved_namespace'', GStr (ke_involved_namespace e)), (''reason'', GStr (ke_reason e)),
      (''type'', GStr (ke_type e)), (''reporting_controller'', GStr (ke_controller e))]"

definition k8s_data :: "k8s_event \<Rightarrow> (string \<times> gval) list" where
  "k8s_data e =
     [(''involved_kind'', GStr (ke_involved_kind e)), (''involved_name'', GStr (ke_involved_name e)),
      (''reason'', GStr (ke_reason e)), (''message'', GStr (ke_message e)),
      (''resource'', GStr (to_lower (ke_involved_kind e) @ ''/'' @ ke_involved_name e))]"

definition normalize_k8s_event :: "'s k8s_collector \<Rightarrow> time \<Rightarrow> k8s_event \<Rightarrow> stored_event" where
  "normalize_k8s_event C now e =
     \<lparr>ev_id = event_id now e, ev_type = fst (event_class e), ev_source = ''kubernetes'', ev_subject = infer_app e,
      ev_time = event_timestamp now e, ev_extensions = k8s_extensions C e, ev_data = marshal (GObj (k8s_data e)),
      ev_hash = [], ev_ingested = 0\<rparr>"

subsection \<open>Collapsing the events of a life cycle\<close>

text \<open>\<open>Sprintf("%v", \<dots>)\<close> of an extension; in a normalized event both that are read are strings.\<close>

definition print_extension :: "(string \<times> gval) list \<Rightarrow> string \<Rightarrow> string" where
  "print_extension ext k = (case map_of ext k of Some (GStr s) \<Rightarrow> s | _ \<Rightarrow> ''<nil>'')"

definition sync_query :: "stored_event \<Rightarrow> timeline_query" where
  "sync_query e =
     \<lparr>tq_subject = ev_subject e, tq_cluster = extension_string (ev_extensions e) ''cluster'',
      tq_namespace = extension_string (ev_extensions e) ''namespace'', tq_from = ev_time e - 10 * minute,
      tq_to = ev_time e + 10 * minute, tq_source = ''argocd'', tq_type = ''argo.sync.finished'',
      tq_corr_key = [], tq_corr_value = [], tq_supporting = True, tq_limit = 1, tq_cursor = []\<rparr>"

definition should_collapse_lifecycle :: "'s repository \<Rightarrow> 's \<Rightarrow> stored_event \<Rightarrow> bool" where
  "should_collapse_lifecycle R s e =
     (if \<not> equal_fold (trim_space (print_extension (ev_extensions e) ''supporting_class'')) ''lifecycle_noise'' then False
      else (case repo_timeline R (sync_query e) s of
              Inl _ \<Rightarrow> False
            | Inr found \<Rightarrow> tr_items found \<noteq> []))"

text \<open>One rune of \<open>slug\<close>: in UTF-8, a byte from \<open>0x80\<close> to \<open>0xBF\<close> continues a rune.\<close>

definition slug_byte :: "char \<Rightarrow> string" where
  "slug_byte c =
     (let n = of_char c :: nat in
      if (97 \<le> n \<and> n \<le> 122) \<or> (48 \<le> n \<and> n \<le> 57) then [c]
      else if 128 \<le> n \<and> n < 192 then [] else ''-'')"

definition trim_dashes :: "string \<Rightarrow> string" where
  "trim_dashes s = rev (dropWhile (\<lambda>c. c = CHR ''-'') (rev (dropWhile (\<lambda>c. c = CHR ''-'') s)))"

definition slug :: "string \<Rightarrow> string" where
  "slug s =
     (let s = to_lower (trim_space s) in
      if s = [] then ''unknown''
      else (let out = trim_dashes (concat (map slug_byte s)) in if out = [] then ''unknown'' else out))"

text \<open>\<open>Truncate(5 * time.Minute)\<close>, counted from the year 1.\<close>

definition collapse_window :: "time \<Rightarrow> time" where
  "collapse_window t = t - t mod (5 * minute)"

definition to_collapsed_supporting :: "stored_event \<Rightarrow> stored_event" where
  "to_collapsed_supporting e =
     (let window = collapse_window (ev_time e);
          reason = to_lower (trim_space (print_extension (ev_extensions e) ''event_reason''));
          reason = (if reason = [] then ''resource_event'' else reason)
      in e\<lparr>ev_id := ''evt_k8s_support_'' @ slug (to_lower (ev_subject e)) @ ''_'' @ slug reason @ ''_'' @
              show_int (unix_sec window),
           ev_extensions := AList.update ''collapse_window_start'' (GStr (format_rfc3339 window))
              (AList.update ''collapsed'' (GBool True) (ev_extensions e))\<rparr>)"

subsection \<open>One poll\<close>

definition k8s_stored_form :: "'s k8s_collector \<Rightarrow> 's repository \<Rightarrow> time \<Rightarrow> k8s_event \<Rightarrow> 's \<Rightarrow> stored_event" where
  "k8s_stored_form C R now e s =
     (let n = normalize_k8s_event C now e in
      if should_collapse_lifecycle R s n then to_collapsed_supporting n else n)"

text \<open>An error of the ingestion is only logged.\<close>

definition k8s_collect :: "'s k8s_collector \<Rightarrow> 's repository \<Rightarrow> k8s_event \<times> time \<times> time \<Rightarrow> 's \<Rightarrow> 's" where
  "k8s_collect C R item s =
     (case item of (e, now, later) \<Rightarrow> snd (repo_ingest R later (k8s_stored_form C R now e s) s))"

record 's k8s_state =
  ks_sink :: 's
  ks_resource_version :: string

definition k8s_poll ::
    "'s k8s_collector \<Rightarrow> string + (k8s_event \<times> time \<times> time) list \<times> string \<Rightarrow> 's k8s_state \<Rightarrow> 's k8s_state" where
  "k8s_poll C listed st =
     (case (kc_client C, kc_sink C) of
        (True, Some R) \<Rightarrow>
          (case listed of
             Inl _ \<Rightarrow> st
           | Inr (items, version) \<Rightarrow>
               \<lparr>ks_sink = fold (k8s_collect C R) items (ks_sink st), ks_resource_version = version\<rparr>)
      | _ \<Rightarrow> st)"

text \<open>The version from which the client lists: none is the empty text.\<close>

definition list_version :: "'s k8s_state \<Rightarrow> string option" where
  "list_version st = (if ks_resource_version st \<noteq> [] then Some (ks_resource_version st) else None)"

subsection \<open>The run\<close>

text \<open>
  \<open>Start\<close> polls until its context is done. What the cluster answers in a round may depend on the version that is
  asked for. The result has the interval with which the rounds are scheduled.
\<close>

fun k8s_rounds ::
    "'s k8s_collector \<Rightarrow> (string option \<Rightarrow> string + (k8s_event \<times> time \<times> time) list \<times> string) list \<Rightarrow> 's k8s_state \<Rightarrow>
     's k8s_state" where
  "k8s_rounds C [] st = st"
| "k8s_rounds C (answer # answers) st = k8s_rounds C answers (k8s_poll C (answer (list_version st)) st)"

definition start_k8s ::
    "'s k8s_collector \<Rightarrow> (string option \<Rightarrow> string + (k8s_event \<times> time \<times> time) list \<times> string) list \<Rightarrow> 's k8s_state \<Rightarrow>
     int \<times> 's k8s_state" where
  "start_k8s C answers st = (if kc_interval C \<le> 0 then 30 * second else kc_interval C, k8s_rounds C answers st)"

text \<open>\<open>NewClientFromKubeconfig\<close>: \<open>rules\<close> and \<open>client\<close> are of \<open>client-go\<close>, with an explicit path and a context, if any.\<close>

definition new_client_from_kubeconfig ::
    "(string option \<Rightarrow> string option \<Rightarrow> string + 'q) \<Rightarrow> ('q \<Rightarrow> string + 'y) \<Rightarrow> string \<Rightarrow> string \<Rightarrow> string + 'y" where
  "new_client_from_kubeconfig rules client path context =
     (case rules (if trim_space path \<noteq> [] then Some path else None)
             (if trim_space context \<noteq> [] then Some (trim_space context) else None) of
        Inl err \<Rightarrow> Inl err
      | Inr q \<Rightarrow> client q)"

end
