(* ===== verification/Kubernetes_Collector_Facts.thy ===== *)
theory Kubernetes_Collector_Facts
  imports Kubernetes_Collector Argo_Collector_Facts
begin

text \<open>
  What the Kubernetes collector promises the timeline: its events are supporting observations only,
  they can always be stored, and a window of a life cycle holds one of them.
\<close>

subsection \<open>Every event is a supporting observation\<close>

lemma k8s_stored_form_supporting:
  "extension_bool (ev_extensions (k8s_stored_form C R now e s)) ''supporting_observation''"
  by (simp add: k8s_stored_form_def Let_def normalize_k8s_event_def k8s_extensions_def to_collapsed_supporting_def
      extension_bool_def map_of_update)

lemma k8s_hidden:
  "\<not> tq_supporting q \<Longrightarrow> ev_extensions e = ev_extensions (k8s_stored_form C R now x s) \<Longrightarrow> \<not> timeline_matches q e"
  by (simp add: timeline_matches_def k8s_stored_form_supporting)

lemma query_timeline_append:
  "\<not> timeline_matches q e \<Longrightarrow>
   query_timeline q (m\<lparr>mr_events := mr_events m @ [(k, e)]\<rparr>) = query_timeline q m"
  by (simp add: query_timeline_def split: sum.split)

lemma k8s_collect_hidden:
  assumes "\<not> tq_supporting q"
  shows "query_timeline q (k8s_collect C memory_repository item m) = query_timeline q m"
proof -
  obtain x now later where item: "item = (x, now, later)" by (cases item)
  let ?e = "k8s_stored_form C memory_repository now x m"
  have "query_timeline q (snd (ingest_event later ?e m)) = query_timeline q m"
  proof (cases rule: ingest_event_cases [where e = ?e and now = later and m = m])
    case (accepted e')
    then have x: "ev_extensions e' = ev_extensions ?e" by (auto simp: with_hash_def split: if_splits sum.splits)
    have "\<not> timeline_matches q e'" "\<not> timeline_matches q (e'\<lparr>ev_ingested := later\<rparr>)"
      by (rule k8s_hidden [OF assms, of _ C memory_repository now x m]; simp add: x)+
    then show ?thesis using accepted by (simp add: query_timeline_append)
  qed simp_all
  then show ?thesis by (simp add: k8s_collect_def item)
qed

lemma k8s_fold_hidden:
  "\<not> tq_supporting q \<Longrightarrow>
   query_timeline q (fold (k8s_collect C memory_repository) items m) = query_timeline q m"
  by (induction items arbitrary: m) (simp_all add: k8s_collect_hidden)

subsection \<open>Every event can be stored\<close>

lemma k8s_data_plain: "json_plain (GObj (k8s_data e))"
  by (simp add: k8s_data_def)

lemma event_timestamp_nonzero: "now \<noteq> 0 \<Longrightarrow> event_timestamp now e \<noteq> 0"
  by (simp add: event_timestamp_def split: option.split)

lemma collapsed_fields [simp]:
  "ev_data (to_collapsed_supporting e) = ev_data e" "ev_time (to_collapsed_supporting e) = ev_time e"
  "ev_source (to_collapsed_supporting e) = ev_source e" "ev_type (to_collapsed_supporting e) = ev_type e"
  "ev_hash (to_collapsed_supporting e) = ev_hash e" "ev_id (to_collapsed_supporting e) \<noteq> []"
  by (simp_all add: to_collapsed_supporting_def Let_def)

lemma collapsed_storable:
  assumes "now \<noteq> 0"
  shows "validate_stored_event (to_collapsed_supporting (normalize_k8s_event C now e))"
    and "\<exists>h. compute_integrity_hash (to_collapsed_supporting (normalize_k8s_event C now e)) = Inr h"
proof -
  show "validate_stored_event (to_collapsed_supporting (normalize_k8s_event C now e))"
    using marshal_object_shape [of "k8s_data e"] event_timestamp_nonzero [OF assms, of e]
    by (simp add: validate_stored_event_def normalize_k8s_event_def event_class_def del: marshal.simps)
  show "\<exists>h. compute_integrity_hash (to_collapsed_supporting (normalize_k8s_event C now e)) = Inr h"
    by (rule hash_plain [OF _ k8s_data_plain]) (simp add: normalize_k8s_event_def del: marshal.simps)
qed

text \<open>An event whose id is known is refused or a duplicate.\<close>

lemma ingest_known_id:
  assumes "map_of (mr_events m) (ev_id e) \<noteq> None"
  shows "snd (ingest_event t e m) = m"
  using assms by (cases rule: ingest_event_cases [where e = e and now = t and m = m]) auto

lemma ingest_makes_known:
  assumes "validate_stored_event e" "ev_hash e = []" "\<exists>h. compute_integrity_hash e = Inr h"
  shows "map_of (mr_events (snd (ingest_event t e m))) (ev_id e) \<noteq> None"
  using assms
  by (cases rule: ingest_event_cases [where e = e and now = t and m = m]) (auto simp: with_hash_def map_of_eq_None_iff)

subsection \<open>One id per window\<close>

lemma collapsed_id:
  "ev_id (to_collapsed_supporting (normalize_k8s_event C now e)) =
     ''evt_k8s_support_'' @ slug (to_lower (infer_app e)) @ ''_'' @
     slug (let reason = to_lower (trim_space (event_reason e)) in if reason = [] then ''resource_event'' else reason) @ ''_'' @
     show_int (unix_sec (collapse_window (event_timestamp now e)))"
  by (simp add: to_collapsed_supporting_def Let_def normalize_k8s_event_def k8s_extensions_def print_extension_def)

subsection \<open>Properties\<close>

definition sample_k8s_event :: "string \<Rightarrow> time \<Rightarrow> k8s_event" where
  "sample_k8s_event uid t =
     \<lparr>ke_uid = uid, ke_resource_version = ''1'', ke_namespace = ''prod'', ke_reason = ''Pulled'', ke_message = ''image'',
      ke_type = ''Normal'', ke_controller = ''kubelet'', ke_component = [], ke_involved_kind = ''Pod'',
      ke_involved_name = ''shop'', ke_involved_namespace = ''prod'', ke_event_time = t, ke_last_timestamp = 0,
      ke_first_timestamp = 0, ke_series = None\<rparr>"

definition sample_k8s_collector :: "mem_repo k8s_collector" where
  "sample_k8s_collector =
     new_k8s_collector \<lparr>kf_interval = 0, kf_namespace = [], kf_cluster = ''c1'', kf_environment = ''prod''\<rparr>
       True (Some memory_repository)"

text \<open>
  Whatever a poll collects, a timeline that does not ask for supporting observations answers
  every query, with any filters, cursor and limit, as it did before the poll.
\<close>

lemma k8s_poll_hidden:
  assumes "kc_sink C = Some memory_repository" "\<not> tq_supporting q"
  shows "query_timeline q (ks_sink (k8s_poll C listed st)) = query_timeline q (ks_sink st)"
  using k8s_fold_hidden [OF assms(2), of C] assms(1)
  by (auto simp: k8s_poll_def split: sum.split prod.split bool.split)

text \<open>
  C38: the observations of the cluster stay in the background. However long the collector runs, and whatever the
  cluster answers, a timeline that does not ask for supporting observations answers every query, with any filters,
  cursor and limit, as it did before the start.
\<close>

theorem k8s_run_hidden:
  assumes "kc_sink C = Some memory_repository" "\<not> tq_supporting q"
  shows "query_timeline q (ks_sink (snd (start_k8s C answers st))) = query_timeline q (ks_sink st)"
proof -
  have "query_timeline q (ks_sink (k8s_rounds C answers st)) = query_timeline q (ks_sink st)"
    by (induction answers arbitrary: st) (simp_all add: k8s_poll_hidden [OF assms])
  then show ?thesis by (simp add: start_k8s_def)
qed

theorem k8s_run_hidden_witness:
  "query_timeline sample_query (ks_sink (snd (start_k8s sample_k8s_collector
      [\<lambda>v. Inr ([(sample_k8s_event ''u1'' 700, 800, 900)], ''v2''), \<lambda>v. Inl ''gone'']
      \<lparr>ks_sink = sample_repo, ks_resource_version = ''v1''\<rparr>))) =
   query_timeline sample_query sample_repo"
  using k8s_run_hidden [of sample_k8s_collector sample_query
      "[\<lambda>v. Inr ([(sample_k8s_event ''u1'' 700, 800, 900)], ''v2''), \<lambda>v. Inl ''gone'']"
      "\<lparr>ks_sink = sample_repo, ks_resource_version = ''v1''\<rparr>"]
  by (simp add: sample_k8s_collector_def new_k8s_collector_def sample_query_def)

text \<open>
  C39: a window of five minutes holds one collapsed event for an object and a reason. When the
  collapsed form of one event has been ingested, ingesting the collapsed form of another event of the
  same object, reason and window changes nothing, in whatever order and with whatever messages.
\<close>

theorem k8s_window_once:
  assumes "infer_app x = infer_app y" "event_reason x = event_reason y"
    and "collapse_window (event_timestamp now x) = collapse_window (event_timestamp now' y)" and "now \<noteq> 0"
    and "m' = snd (ingest_event t (to_collapsed_supporting (normalize_k8s_event C now x)) m)"
  shows "snd (ingest_event t' (to_collapsed_supporting (normalize_k8s_event C now' y)) m') = m'"
proof (rule ingest_known_id)
  let ?x = "to_collapsed_supporting (normalize_k8s_event C now x)"
  have "ev_hash ?x = []" by (simp add: normalize_k8s_event_def)
  then have "map_of (mr_events m') (ev_id ?x) \<noteq> None"
    unfolding assms(5) using collapsed_storable [OF assms(4)] by (intro ingest_makes_known)
  then show "map_of (mr_events m') (ev_id (to_collapsed_supporting (normalize_k8s_event C now' y))) \<noteq> None"
    unfolding collapsed_id assms(1-3) .
qed

lemma sample_k8s_window:
  "infer_app (sample_k8s_event ''u1'' 700) = infer_app (sample_k8s_event ''u2'' 720)"
  "event_reason (sample_k8s_event ''u1'' 700) = event_reason (sample_k8s_event ''u2'' 720)"
  "collapse_window (event_timestamp now (sample_k8s_event ''u1'' 700)) =
   collapse_window (event_timestamp now' (sample_k8s_event ''u2'' 720))"
  by (simp add: infer_app_def sample_k8s_event_def, simp add: event_reason_def sample_k8s_event_def,
      simp add: event_timestamp_def sample_k8s_event_def collapse_window_def minute_def second_def)

theorem k8s_window_once_witness:
  "let x = to_collapsed_supporting (normalize_k8s_event sample_k8s_collector 9 (sample_k8s_event ''u1'' 700));
       y = to_collapsed_supporting (normalize_k8s_event sample_k8s_collector 9 (sample_k8s_event ''u2'' 720));
       m = snd (ingest_event 5 x new_memory_repository)
   in snd (ingest_event 6 y m) = m"
  using k8s_window_once [OF sample_k8s_window, of 9 _ 5 sample_k8s_collector new_memory_repository 6]
  by (simp add: Let_def)

end
