(* ===== verification/Demo.thy ===== *)
theory Demo
  imports Export
begin

text \<open>
  The demonstration client: \<open>internal/demo/gitops\<close>, which pushes one of three versions of an application to
  a git repository, and its command \<open>cmd/evidra-gitops-demo\<close>. Git, the temporary directory and the writing of
  files are the record \<open>git_library\<close> over a state \<open>'w\<close>; the flags are parsed as the package \<open>flag\<close> does for
  flags that take a text. The order in which the files are written is that of a Go map, an argument here.
\<close>

subsection \<open>The files of a case\<close>

datatype commit_case = CaseA | CaseB | CaseC

definition case_name :: "commit_case \<Rightarrow> string" where
  "case_name cc = (case cc of CaseA \<Rightarrow> ''A'' | CaseB \<Rightarrow> ''B'' | CaseC \<Rightarrow> ''C'')"

definition text_lines :: "string list \<Rightarrow> string" where
  "text_lines ls = concat (map (\<lambda>l. l @ [CHR 0x0A]) ls)"

definition kustomization :: "commit_case \<Rightarrow> string" where
  "kustomization cc =
     text_lines
       ([''apiVersion: kustomize.config.k8s.io/v1beta1'', ''kind: Kustomization'', ''resources:'',
         ''  - deployment.yaml'', ''  - service.yaml'', ''  - configmap.yaml''] @
        (if cc = CaseC then [''  - missing.yaml''] else []))"

definition case_version :: "commit_case \<Rightarrow> string" where
  "case_version cc = (if cc = CaseC then ''v3'' else if cc = CaseB then ''v2'' else ''v1'')"

definition configmap :: "commit_case \<Rightarrow> string" where
  "configmap cc =
     text_lines [''apiVersion: v1'', ''kind: ConfigMap'', ''metadata:'', ''  name: guestbook-demo-config'', ''data:'',
       ''  VERSION: '' @ case_version cc]"

definition service_yaml :: string where
  "service_yaml =
     text_lines [''apiVersion: v1'', ''kind: Service'', ''metadata:'', ''  name: guestbook-demo'', ''spec:'',
       ''  selector:'', ''    app: guestbook-demo'', ''  ports:'', ''    - port: 80'', ''      targetPort: 8080'']"

definition deployment_yaml :: string where
  "deployment_yaml =
     (let quoted = (\<lambda>s. [CHR 0x22] @ s @ [CHR 0x22]) in
      text_lines [''apiVersion: apps/v1'', ''kind: Deployment'', ''metadata:'', ''  name: guestbook-demo'', ''spec:'',
       ''  replicas: 1'', ''  selector:'', ''    matchLabels:'', ''      app: guestbook-demo'', ''  template:'',
       ''    metadata:'', ''      labels:'', ''        app: guestbook-demo'', ''    spec:'', ''      containers:'',
       ''        - name: guestbook-demo'', ''          image: registry.k8s.io/e2e-test-images/agnhost:2.45'',
       ''          args: ['' @ quoted ''netexec'' @ '', '' @ quoted ''--http-port=8080'' @ '']'',
       ''          ports:'', ''            - containerPort: 8080'', ''          envFrom:'', ''            - configMapRef:'',
       ''                name: guestbook-demo-config''])"

definition case_files :: "string \<Rightarrow> commit_case \<Rightarrow> (string \<times> string) list" where
  "case_files app_dir cc =
     [(join_path app_dir ''kustomization.yaml'', kustomization cc), (join_path app_dir ''configmap.yaml'', configmap cc),
      (join_path app_dir ''service.yaml'', service_yaml), (join_path app_dir ''deployment.yaml'', deployment_yaml)]"

subsection \<open>Git\<close>

datatype push_error = AlreadyUpToDate | PushFailed string

record ('g, 'w) git_library =
  gl_mkdir_temp :: "string \<Rightarrow> 'w \<Rightarrow> (string + string) \<times> 'w"
  gl_remove_all :: "string \<Rightarrow> 'w \<Rightarrow> 'w"
  gl_mkdir_all :: "string \<Rightarrow> 'w \<Rightarrow> string option \<times> 'w"
  gl_write_file :: "string \<Rightarrow> string \<Rightarrow> 'w \<Rightarrow> string option \<times> 'w"
  gl_map_order :: "(string \<times> string) list \<Rightarrow> (string \<times> string) list"
  gl_clone :: "string \<Rightarrow> string \<Rightarrow> string \<times> string \<Rightarrow> 'w \<Rightarrow> (string + 'g) \<times> 'w"
  gl_init :: "string \<Rightarrow> 'w \<Rightarrow> (string + 'g) \<times> 'w"
  gl_create_remote :: "'g \<Rightarrow> string \<Rightarrow> string \<Rightarrow> 'w \<Rightarrow> string option \<times> 'w"
  gl_worktree :: "'g \<Rightarrow> string option"
  gl_add_glob :: "'g \<Rightarrow> string \<Rightarrow> 'w \<Rightarrow> string option \<times> 'w"
  gl_commit :: "'g \<Rightarrow> string \<Rightarrow> string \<times> string \<Rightarrow> 'w \<Rightarrow> (string + string) \<times> 'w"
  gl_head :: "'g \<Rightarrow> 'w \<Rightarrow> string option"
  gl_push :: "'g \<Rightarrow> string \<Rightarrow> string \<times> string \<Rightarrow> string list \<Rightarrow> 'w \<Rightarrow> push_error option \<times> 'w"

record client =
  cl_repo_url :: string
  cl_username :: string
  cl_password :: string

definition clone_or_init ::
    "('g, 'w) git_library \<Rightarrow> string \<Rightarrow> string \<Rightarrow> string \<times> string \<Rightarrow> 'w \<Rightarrow> (string + 'g) \<times> 'w" where
  "clone_or_init G dir url auth w =
     (case
        (case gl_clone G dir url auth w of
           (Inr repo, w) \<Rightarrow> (Inr repo, w)
         | (Inl _, w) \<Rightarrow>
             (case gl_init G dir w of
                (Inl err, w) \<Rightarrow> (Inl err, w)
              | (Inr repo, w) \<Rightarrow>
                  (case gl_create_remote G repo ''origin'' url w of
                     (Some err, w) \<Rightarrow> (Inl err, w)
                   | (None, w) \<Rightarrow> (Inr repo, w)))) of
        (Inl err, w) \<Rightarrow> (Inl err, w)
      | (Inr repo, w) \<Rightarrow> (case gl_worktree G repo of Some err \<Rightarrow> (Inl err, w) | None \<Rightarrow> (Inr repo, w)))"

fun write_files :: "('g, 'w) git_library \<Rightarrow> (string \<times> string) list \<Rightarrow> 'w \<Rightarrow> string option \<times> 'w" where
  "write_files G [] w = (None, w)"
| "write_files G ((p, content) # fs) w =
     (case gl_write_file G p content w of
        (Some err, w) \<Rightarrow> (Some err, w)
      | (None, w) \<Rightarrow> write_files G fs w)"

definition write_case_files :: "('g, 'w) git_library \<Rightarrow> string \<Rightarrow> commit_case \<Rightarrow> 'w \<Rightarrow> string option \<times> 'w" where
  "write_case_files G root cc w =
     (let app_dir = join_path root ''app'' in
      case gl_mkdir_all G app_dir w of
        (Some err, w) \<Rightarrow> (Some err, w)
      | (None, w) \<Rightarrow> write_files G (gl_map_order G (case_files app_dir cc)) w)"

text \<open>What \<open>PushCase\<close> does in its temporary directory; an empty hash stands for nothing to commit.\<close>

definition push_case_in ::
    "('g, 'w) git_library \<Rightarrow> client \<Rightarrow> commit_case \<Rightarrow> string \<Rightarrow> 'w \<Rightarrow> (string + string) \<times> 'w" where
  "push_case_in G c cc dir w =
     (let auth = (cl_username c, cl_password c) in
      case clone_or_init G dir (cl_repo_url c) auth w of
        (Inl err, w) \<Rightarrow> (Inl err, w)
      | (Inr repo, w) \<Rightarrow>
          (case write_case_files G dir cc w of
             (Some err, w) \<Rightarrow> (Inl err, w)
           | (None, w) \<Rightarrow>
               (case gl_add_glob G repo ''.'' w of
                  (Some err, w) \<Rightarrow> (Inl err, w)
                | (None, w) \<Rightarrow>
                    (case gl_commit G repo (''demo commit '' @ case_name cc) (''evidra-demo'', ''demo@evidra.local'') w of
                       (Inl err, w) \<Rightarrow> (if contains (to_lower err) ''empty commit'' then Inr [] else Inl err, w)
                     | (Inr hash, w) \<Rightarrow>
                         (let ref = (case gl_head G repo w of None \<Rightarrow> ''HEAD'' | Some name \<Rightarrow> if name = [] then ''HEAD'' else name)
                          in case gl_push G repo ''origin'' auth [ref @ '':refs/heads/main''] w of
                               (Some (PushFailed err), w) \<Rightarrow> (Inl err, w)
                             | (_, w) \<Rightarrow> (Inr hash, w))))))"

definition push_case ::
    "('g, 'w) git_library \<Rightarrow> client \<Rightarrow> commit_case \<Rightarrow> 'w \<Rightarrow> (string + string) \<times> 'w" where
  "push_case G c cc w =
     (if trim_space (cl_repo_url c) = [] then (Inl ''repo url is required'', w)
      else (case gl_mkdir_temp G ''evidra-demo-gitops-'' w of
              (Inl err, w) \<Rightarrow> (Inl err, w)
            | (Inr dir, w) \<Rightarrow> apsnd (gl_remove_all G dir) (push_case_in G c cc dir w)))"

subsection \<open>The command\<close>

datatype flags_result = Flags "(string \<times> string) list" | FlagsHelp | FlagsError string

text \<open>
  \<open>FlagSet.Parse\<close> for flags with a text: one or two minus signs, the value after an equals sign or as the
  next argument; the first argument that is no flag ends them. The last value of a flag counts.
\<close>

fun parse_flags :: "string list \<Rightarrow> string list \<Rightarrow> (string \<times> string) list \<Rightarrow> flags_result" where
  "parse_flags names [] vals = Flags vals"
| "parse_flags names (s # args) vals =
     (if length s < 2 \<or> hd s \<noteq> CHR ''-'' then Flags vals
      else if s = ''--'' then Flags vals
      else
        (let name = drop (if s ! 1 = CHR ''-'' then 2 else 1) s in
         if name = [] \<or> hd name = CHR ''-'' \<or> hd name = CHR ''='' then FlagsError (''bad flag syntax: '' @ s)
         else
           (let key = hd name # takeWhile (\<lambda>c. c \<noteq> CHR ''='') (tl name);
                has_value = (CHR ''='' \<in> set (tl name));
                val = tl (dropWhile (\<lambda>c. c \<noteq> CHR ''='') (tl name))
            in if key \<notin> set names then
                 (if key = ''help'' \<or> key = ''h'' then FlagsHelp
                  else FlagsError (''flag provided but not defined: -'' @ key))
               else if has_value then parse_flags names args ((key, val) # vals)
               else (case args of
                       [] \<Rightarrow> FlagsError (''flag needs an argument: -'' @ key)
                     | v # args \<Rightarrow> parse_flags names args ((key, v) # vals)))))"

datatype process_exit = process_exit (exit_code: int) (exit_stdout: string) (exit_stderr: string)

definition parse_case :: "string \<Rightarrow> commit_case option" where
  "parse_case s =
     (let cc = to_upper (trim_space s) in
      if cc = ''A'' then Some CaseA else if cc = ''B'' then Some CaseB else if cc = ''C'' then Some CaseC else None)"

definition println :: "string \<Rightarrow> string" where
  "println s = s @ [CHR 0x0A]"

text \<open>\<open>usage\<close> is what the package \<open>flag\<close> prints about the flags.\<close>

definition seed_commit ::
    "('g, 'w) git_library \<Rightarrow> string \<Rightarrow> string list \<Rightarrow> 'w \<Rightarrow> process_exit \<times> 'w" where
  "seed_commit G usage args w =
     (case parse_flags [''repo-url'', ''username'', ''password'', ''case''] args [] of
        FlagsHelp \<Rightarrow> (process_exit 0 [] usage, w)
      | FlagsError err \<Rightarrow> (process_exit 2 [] (println err @ usage), w)
      | Flags vals \<Rightarrow>
          (let flag = (\<lambda>name dflt. case map_of vals name of None \<Rightarrow> dflt | Some v \<Rightarrow> v) in
           if trim_space (flag ''repo-url'' []) = [] then (process_exit 2 [] (println ''--repo-url is required''), w)
           else (case parse_case (flag ''case'' ''A'') of
              None \<Rightarrow> (process_exit 2 [] (println ''--case must be one of: A, B, C''), w)
            | Some cc \<Rightarrow>
                (case push_case G \<lparr>cl_repo_url = flag ''repo-url'' [], cl_username = flag ''username'' [],
                        cl_password = flag ''password'' []\<rparr> cc w of
                   (Inl err, w) \<Rightarrow> (process_exit 1 [] (println err), w)
                 | (Inr hash, w) \<Rightarrow>
                     (process_exit 0
                        (println
                           (if trim_space hash = []
                            then ''No new commit created for case '' @ case_name cc @ '' (content unchanged).''
                            else ''Pushed case '' @ case_name cc @ '' commit: '' @ hash)) [], w)))))"

text \<open>\<open>main\<close> on the arguments after the name of the program.\<close>

definition demo_main ::
    "('g, 'w) git_library \<Rightarrow> string \<Rightarrow> string list \<Rightarrow> 'w \<Rightarrow> process_exit \<times> 'w" where
  "demo_main G usage args w =
     (case args of
        [] \<Rightarrow> (process_exit 2 [] (println ''usage: evidra-gitops-demo <seed-commit>''), w)
      | command # rest \<Rightarrow>
          if command = ''seed-commit'' then seed_commit G usage rest w
          else (process_exit 2 [] (println (''unknown command: '' @ command)), w))"

subsection \<open>Facts\<close>

text \<open>The resources that a kustomization lists are written with it, but for the one that case C leaves out.\<close>

definition listed_resources :: "commit_case \<Rightarrow> string list" where
  "listed_resources cc = map (drop 4) (filter (prefix ''  - '') (split_on (CHR 0x0A) (kustomization cc)))"

lemma listed_resources:
  "listed_resources CaseA = [''deployment.yaml'', ''service.yaml'', ''configmap.yaml'']"
  "listed_resources CaseB = [''deployment.yaml'', ''service.yaml'', ''configmap.yaml'']"
  "listed_resources CaseC = [''deployment.yaml'', ''service.yaml'', ''configmap.yaml'', ''missing.yaml'']"
  by code_simp+

lemma listed_resources_written:
  "cc \<noteq> CaseC \<Longrightarrow> join_path dir ` set (listed_resources cc) \<subseteq> fst ` set (case_files dir cc)"
  by (cases cc) (auto simp: listed_resources case_files_def)

text \<open>Two cases never have the same files, so a change of the case has something to commit.\<close>

lemma configmap_inject: "configmap cc = configmap cc' \<longleftrightarrow> cc = cc'"
  by (cases cc; cases cc') (simp_all add: configmap_def case_version_def text_lines_def)

lemma case_files_inject: "case_files dir cc = case_files dir cc' \<longleftrightarrow> cc = cc'"
  by (auto simp: case_files_def configmap_inject)

text \<open>
  When every write succeeds, the files of the case are on the disk whatever the order, and nothing else
  has changed. \<open>contents\<close> reads the state.
\<close>

lemma write_files_contents:
  assumes "\<And>p b w w'. gl_write_file G p b w = (None, w') \<Longrightarrow> contents w' = (contents w)(p \<mapsto> b)"
    and "write_files G fs w = (None, w')" "distinct (map fst fs)"
  shows "contents w' = contents w ++ map_of fs"
  using assms(2,3)
proof (induction fs arbitrary: w)
  case (Cons f fs)
  obtain p b where [simp]: "f = (p, b)" by (cases f)
  obtain v where v: "gl_write_file G p b w = (None, v)" "write_files G fs v = (None, w')"
    using Cons.prems(1) by (auto split: prod.splits option.splits)
  have "contents w' = contents v ++ map_of fs"
    using Cons.IH [OF v(2)] Cons.prems(2) by simp
  moreover have "p \<notin> dom (map_of fs)" using Cons.prems(2) by (simp add: dom_map_of_conv_image_fst)
  ultimately show ?case
    by (simp only: assms(1) [OF v(1)] \<open>f = (p, b)\<close> map_of.simps fst_conv snd_conv map_add_upd map_add_upd_left not_False_eq_True)
qed simp

text \<open>
  The temporary directories of a state are \<open>dirs\<close>: making one adds a new name, removing takes it away, and git
  and the writing of files below one change none. Then none is left when \<open>PushCase\<close> returns, on every path.
\<close>

definition keeps_dirs :: "('g, 'w) git_library \<Rightarrow> ('w \<Rightarrow> string set) \<Rightarrow> bool" where
  "keeps_dirs G dirs \<longleftrightarrow>
     (\<forall>p w. dirs (snd (gl_mkdir_all G p w)) = dirs w) \<and> (\<forall>p b w. dirs (snd (gl_write_file G p b w)) = dirs w) \<and>
     (\<forall>d u a w. dirs (snd (gl_clone G d u a w)) = dirs w) \<and> (\<forall>d w. dirs (snd (gl_init G d w)) = dirs w) \<and>
     (\<forall>g n u w. dirs (snd (gl_create_remote G g n u w)) = dirs w) \<and>
     (\<forall>g x w. dirs (snd (gl_add_glob G g x w)) = dirs w) \<and>
     (\<forall>g m a w. dirs (snd (gl_commit G g m a w)) = dirs w) \<and>
     (\<forall>g r a s w. dirs (snd (gl_push G g r a s w)) = dirs w)"

lemma keeps_dirsD:
  assumes "keeps_dirs G dirs"
  shows "gl_mkdir_all G p w = (e, w') \<Longrightarrow> dirs w' = dirs w"
    and "gl_write_file G p b w = (e, w') \<Longrightarrow> dirs w' = dirs w"
    and "gl_clone G d u a w = (x, w') \<Longrightarrow> dirs w' = dirs w"
    and "gl_init G d w = (x, w') \<Longrightarrow> dirs w' = dirs w"
    and "gl_create_remote G g n u w = (e, w') \<Longrightarrow> dirs w' = dirs w"
    and "gl_add_glob G g n w = (e, w') \<Longrightarrow> dirs w' = dirs w"
    and "gl_commit G g m a w = (h, w') \<Longrightarrow> dirs w' = dirs w"
    and "gl_push G g n a ss w = (q, w') \<Longrightarrow> dirs w' = dirs w"
  using assms unfolding keeps_dirs_def by (metis snd_conv)+

lemma write_files_dirs: "keeps_dirs G dirs \<Longrightarrow> dirs (snd (write_files G fs w)) = dirs w"
  by (induction G fs w rule: write_files.induct)
    (auto dest: keeps_dirsD(2) split: prod.split option.split)

lemma write_case_files_dirs: "keeps_dirs G dirs \<Longrightarrow> dirs (snd (write_case_files G root cc w)) = dirs w"
  by (auto simp: write_case_files_def Let_def write_files_dirs dest: keeps_dirsD(1) split: prod.split option.split)

lemma clone_or_init_dirs: "keeps_dirs G dirs \<Longrightarrow> dirs (snd (clone_or_init G dir url auth w)) = dirs w"
  by (auto simp: clone_or_init_def dest: keeps_dirsD(3-5) split: prod.splits option.splits sum.splits)

lemma push_case_in_dirs:
  assumes "keeps_dirs G dirs"
  shows "dirs (snd (push_case_in G c cc dir w)) = dirs w"
proof -
  have clone: "clone_or_init G dir url auth w = (x, w') \<Longrightarrow> dirs w' = dirs w" for url auth w x w'
    using clone_or_init_dirs [OF assms, of dir url auth w] by simp
  have files: "write_case_files G dir cc w = (e, w') \<Longrightarrow> dirs w' = dirs w" for w e w'
    using write_case_files_dirs [OF assms, of dir cc w] by simp
  show ?thesis
    unfolding push_case_in_def Let_def
    by (auto dest!: keeps_dirsD(6-8) [OF assms] clone files
        split: prod.split option.split sum.split push_error.split)
qed

lemma push_case_cleans_up:
  assumes "keeps_dirs G dirs" and "\<And>dir w. dirs (gl_remove_all G dir w) = dirs w - {dir}"
    and "\<And>x w x' w'. gl_mkdir_temp G x w = (Inr x', w') \<Longrightarrow> x' \<notin> dirs w \<and> dirs w' = insert x' (dirs w)"
    and "\<And>x w err w'. gl_mkdir_temp G x w = (Inl err, w') \<Longrightarrow> dirs w' = dirs w"
  shows "dirs (snd (push_case G c cc w)) = dirs w"
  by (auto simp: push_case_def assms(2) push_case_in_dirs [OF assms(1)] dest: assms(3,4) split: prod.split sum.split)

text \<open>A wrong use of the command touches nothing.\<close>

lemma seed_commit_exit:
  "exit_code (fst (seed_commit G usage args w)) \<in> {0, 1, 2} \<and>
   (exit_code (fst (seed_commit G usage args w)) = 2 \<longrightarrow> snd (seed_commit G usage args w) = w)"
proof (cases "parse_flags [''repo-url'', ''username'', ''password'', ''case''] args []")
  case (Flags vals)
  then show ?thesis
    by (simp add: seed_commit_def Let_def split: option.split prod.split sum.split)
qed (simp_all add: seed_commit_def)

lemma usage_error_without_effect:
  "exit_code (fst (demo_main G usage args w)) = 2 \<Longrightarrow> snd (demo_main G usage args w) = w"
  using seed_commit_exit [of G usage "tl args" w] by (simp add: demo_main_def split: list.splits if_splits)

lemma exit_codes: "exit_code (fst (demo_main G usage args w)) \<in> {0, 1, 2}"
  using seed_commit_exit [of G usage "tl args" w] by (cases args) (auto simp: demo_main_def)

text \<open>Flags that are written out are parsed back.\<close>

definition flag_name_ok :: "string \<Rightarrow> bool" where
  "flag_name_ok k \<longleftrightarrow> k \<noteq> [] \<and> hd k \<noteq> CHR ''-'' \<and> CHR ''='' \<notin> set k"

lemma parse_flags_separate:
  assumes "flag_name_ok k" "k \<in> set names"
  shows "parse_flags names ((CHR ''-'' # CHR ''-'' # k) # v # args) vals = parse_flags names args ((k, v) # vals)"
proof -
  obtain c cs where k: "k = c # cs" using assms(1) by (cases k) (auto simp: flag_name_ok_def)
  have no: "takeWhile (\<lambda>c. c \<noteq> CHR ''='') cs = cs" "CHR ''='' \<notin> set cs" "c \<noteq> CHR ''-''" "c \<noteq> CHR ''=''"
    using assms(1) by (auto simp: k flag_name_ok_def takeWhile_eq_all_conv)
  show ?thesis using assms(2) by (simp add: k Let_def no)
qed

lemma parse_flags_equals:
  assumes "flag_name_ok k" "k \<in> set names"
  shows "parse_flags names ((CHR ''-'' # CHR ''-'' # k @ CHR ''='' # v) # args) vals = parse_flags names args ((k, v) # vals)"
proof -
  obtain c cs where k: "k = c # cs" using assms(1) by (cases k) (auto simp: flag_name_ok_def)
  have no: "\<And>x. x \<in> set cs \<Longrightarrow> x \<noteq> CHR ''=''" "c \<noteq> CHR ''-''" "c \<noteq> CHR ''=''"
    using assms(1) by (auto simp: k flag_name_ok_def)
  then have "takeWhile (\<lambda>c. c \<noteq> CHR ''='') (cs @ CHR ''='' # v) = cs"
    "dropWhile (\<lambda>c. c \<noteq> CHR ''='') (cs @ CHR ''='' # v) = CHR ''='' # v"
    by (simp_all add: takeWhile_append2 dropWhile_append2)
  then show ?thesis using assms(2) no by (simp add: k Let_def)
qed

lemma parse_flags_roundtrip:
  assumes "list_all (\<lambda>(k, v). flag_name_ok k \<and> k \<in> set names) kvs"
  shows "parse_flags names (concat (map (\<lambda>(k, v). [''--'' @ k, v]) kvs)) vals = Flags (rev kvs @ vals)"
    and "parse_flags names (map (\<lambda>(k, v). ''--'' @ k @ ''='' @ v) kvs) vals = Flags (rev kvs @ vals)"
  using assms
  by (induction kvs arbitrary: vals)
    (auto simp: parse_flags_separate parse_flags_equals simp del: parse_flags.simps(2))

end
