(* ===== verification/Spec2Isabelle.thy ===== *)
theory Spec2Isabelle
  imports Export_Facts Store_SQL_Facts Argo_Checkpoint_Facts Running Webhooks Kubernetes_Collector_Facts
    Demo
begin

text \<open>
  A verification library for Evidra, a service that records deployment events of a GitOps
  environment in an append-only log, groups them into changes, and answers questions about them over
  HTTP. All paths below are under \<open>src/internal/\<close>, but for the command under \<open>src/cmd\<close>.

  \<^bold>\<open>The program.\<close> Events arrive as CloudEvents over \<open>POST /v1/events\<close> (\<open>api\<close>, \<open>cloudevents\<close>), from the
  Argo CD collector (\<open>ingest/argo\<close>), from the Kubernetes collector (\<open>providers/kubernetes\<close>), or as
  deliveries of webhook providers (\<open>providers\<close>, \<open>ingest\<close>). All of them end in \<open>IngestEvent\<close> of a
  repository (\<open>store\<close>), in memory or in SQL. The application service (\<open>app\<close>) reads the timeline
  through a cache, projects it to changes and writes evidence packs through an exporter (\<open>export\<close>). The
  server (\<open>api\<close>) checks tokens, roles, signatures and rates before every call, and serves the pages of a user
  interface. \<open>config\<close>, \<open>observability\<close> and \<open>bootstrap\<close> put the parts together. A second program pushes example
  commits for demonstrations (\<open>demo/gitops\<close>).

  \<^bold>\<open>The theories\<close>, in the order of their imports, with the code that each models:

  \<^item> \<open>Go_Strings\<close>, \<open>Go_Time\<close>, \<open>Go_Codec\<close>, \<open>Go_Json\<close>, \<open>Go_Json_Roundtrip\<close>, \<open>Go_Indent\<close>, \<open>Go_Struct\<close>, \<open>Go_Net\<close>,
    \<open>Go_Net_Roundtrip\<close>: what the source uses of Go's standard library. A string is a list of bytes; a time is the number of nanoseconds since the year 1,
    in UTC, with \<open>0\<close> as the zero time; hexadecimal, base64 and SHA-256 compute; JSON is parsed and printed, also indented, and decoded into structs; IP
    addresses and networks are parsed, printed and compared. The facts are the round trips and that no result depends on the fuel of the parser, which is twice the
    length of the text.
  \<^item> \<open>CloudEvents\<close> (\<open>cloudevents\<close>): the event, its parser, its validation and its integrity hash.
  \<^item> \<open>Pagination\<close>: listings with cursors as the locale \<open>keyset_listing\<close>, with the client that follows them,
    alone and while others write. \<open>Store\<close> and \<open>Service_Facts\<close> interpret it.
  \<^item> \<open>Store\<close>, \<open>Repository\<close> (\<open>store/store.go\<close>): the in-memory repository, its invariant, the interface as a record
    of operations, its contract as the locale \<open>repository_contract\<close> with the step relation \<open>repo_step\<close>,
    under which the log is append-only and ingestion can be retried.
  \<^item> \<open>Store_SQL\<close>, \<open>Store_SQL_Facts\<close> (\<open>store/sql.go\<close>): the texts and parameters of all statements, the reading of
    rows, every operation; the locale \<open>sql_events\<close> for what is expected of the database, with an executable
    table as its instance; and the agreement of both repositories on one abstract ledger.
  \<^item> \<open>Changes\<close>, \<open>Change_Facts\<close> (\<open>app/changes.go\<close>, pure part): grouping of events into changes, their identity,
    result, health, approvals and summary.
  \<^item> \<open>Service\<close>, \<open>Service_Facts\<close> (\<open>app/service.go\<close>, the rest of \<open>changes.go\<close>): the operations of the service
    with the states of its repository, cache and exporter.
  \<^item> \<open>Auth\<close>, \<open>Auth_Facts\<close>, \<open>Jwks\<close> (\<open>api/auth.go\<close>, \<open>roles.go\<close>, \<open>ratelimit.go\<close>, \<open>audit.go\<close>, \<open>httpx.go\<close>,
    \<open>jwks.go\<close>): the three checks with the state they change, and the cache of RSA keys.
  \<^item> \<open>Api\<close>, \<open>Api_Facts\<close>, \<open>Api_Steps\<close> (\<open>api/handlers_*.go\<close>, \<open>routes.go\<close>): the handlers and the router, which reach
    the repository through its interface only.
  \<^item> \<open>Ui_Static\<close> (\<open>api/ui_static.go\<close>): the routes of the user interface over a model of \<open>http.FileServer\<close>.
  \<^item> \<open>Export\<close>, \<open>Export_Facts\<close> (\<open>export/fs.go\<close>): the evidence pack and the file system exporter, with the
    locale \<open>artifact_exporter\<close> for what the service expects of one.
  \<^item> \<open>Argo_Collector\<close>, \<open>Argo_Collector_Facts\<close>, \<open>Argo_Client\<close>, \<open>Argo_Pipeline\<close> (\<open>ingest/argo\<close>): from applications to
    source events, the checkpoint, polling, informer events and normalization; the connection to Argo CD; and
    the way of an event from there into the repository.
  \<^item> \<open>Argo_Checkpoint\<close>, \<open>Argo_Checkpoint_Facts\<close> (\<open>ingest/argo/checkpoint.go\<close>): the checkpoint in its file, with the
    locale \<open>checkpoint_contract\<close> for what the collector expects of a store, and a restart of the program.
  \<^item> \<open>Kubernetes_Collector\<close>, \<open>Kubernetes_Collector_Facts\<close> (\<open>providers/kubernetes\<close>): normalization, the collapsing of
    life-cycle events, the poll.
  \<^item> \<open>Providers\<close>, \<open>Webhooks\<close> (\<open>providers/github\<close>, \<open>gitlab\<close>, \<open>bitbucket\<close>, \<open>shared\<close>, \<open>ingest/registry.go\<close>): parsers,
    adapters and the registry, with the locale \<open>webhook_parser\<close> that the three parsers interpret.
  \<^item> \<open>Configuration\<close>, \<open>Trusted_Proxies\<close> (\<open>config\<close>): loading and validation of the configuration; the parser of the
    trusted proxies and what it means for the address of a client.
  \<^item> \<open>Telemetry\<close> (\<open>observability\<close>): which exporters, samplers and instruments there are, set-up and shutdown.
  \<^item> \<open>Bootstrap\<close>, \<open>Program\<close>, \<open>Bootstrap_Facts\<close> (\<open>bootstrap\<close>, \<open>migrate\<close>, \<open>api/server.go\<close>, \<open>ingest/argo/backend.go\<close>):
    what the program is built of, up to the handler of all requests.
  \<^item> \<open>Running\<close>: the program while it runs, as the step relation \<open>run_step\<close> in which requests and the work of the
    collector take turns on one repository and one disk.
  \<^item> \<open>Demo\<close> (\<open>demo/gitops\<close>, \<open>src/cmd/evidra-gitops-demo\<close>): the demonstration client and its command.

  \<^bold>\<open>Conventions.\<close> The state of a component is a record that its operations take last and return updated.
  An error is a value: \<open>Inl\<close> of an error type or \<open>Some\<close> of it, and a panic is \<open>None\<close> outside. A Go map is an
  association list with distinct keys, on whose order no result depends; a nil map is the empty one. Readings
  of the clock are arguments. An operation is one atomic step, as its mutex or its transaction makes it, and
  interleavings are sequences of steps (\<open>repo_step\<close>, \<open>other_request\<close>, \<open>run_step\<close>).

  \<^bold>\<open>Arguments of the model\<close>, for code outside the repository: golang-jwt with its key store (\<open>jwt_library\<close>), the
  LRU cache (\<open>event_cache\<close>, with a contract and an executable instance), the database (\<open>sql_db\<close>), the disk
  (which writes succeed, and what a failed one leaves), the HTTP client of the key cache, the decoders of
  go-github, the client libraries of Argo CD and Kubernetes, viper, the OpenTelemetry SDK, go-git, the embedded
  files, parsing of URLs and durations, and the texts of errors of the standard library.

  \<^bold>\<open>What the lemmas show.\<close> Repository: an invariant of all reachable states, append-only storage, idempotent
  ingestion, complete paging that ends from any cursor and is sound under concurrent writes. SQL: only one
  text of a request reaches the text of a statement, placeholders match parameters, rows are read back, and both
  repositories refine one ledger. Changes: they partition the events, do not depend on the order of arrival, and
  have the stated summaries, results and health. Service: the cache is transparent, paging of changes is
  complete, an export never stays pending. Security: exact rates, exact conditions of every check, audited
  decisions, sound signatures, refusal of every unauthorized route, and of every anonymous request in a
  program with a valid configuration; forwarded addresses count only behind a trusted proxy; keys survive an
  outage of the key server. Export: a completed export can
  be downloaded later, and the pack does not depend on the order of its events. Collectors: polling is
  idempotent, also across a restart of the program, no new event of a fetch is lost, an operation is one change, Kubernetes observations stay out
  of the default timeline, and webhook deliveries are single storable events. The whole: an acknowledged
  event is kept through any run of the program. Set-up: what telemetry
  starts is stopped again, a page of the application is always its start page, the demonstration client leaves no
  temporary directory.

  \<^bold>\<open>Bounds.\<close> \<open>follow\<close> takes the number of requests a client may make; more than the number of events is
  always enough. The parser of JSON has twice the length of the text as its fuel, which is proved enough.

  \<^bold>\<open>Not modelled\<close>: rounding of JSON numbers to 53 bits, invalid UTF-8 and case mapping outside ASCII; years
  outside 0 to 9999 in printed times; logging, tracing and the recording of metrics; what viper reads of the
  environment and the file; conditional and range requests for the pages of the user interface, and the
  redirects of the multiplexer; zones of IPv6 addresses, which the code does not accept; the helpers of the
  tests (\<open>testutil\<close>), and the conversion of the old event type to the CloudEvents SDK (\<open>model/event.go\<close>), which
  nothing calls.
\<close>

end
